(* ===== verification/Prover_Prelude.thy ===== *)
theory Prover_Prelude
  imports Main "HOL-Library.Word"
begin

text \<open>
  What every component of the prover library shares: the result type of fallible Rust code (with
  panics as a third outcome), the machine integers of the sources, big-endian byte strings, and
  the lemmas that let the component proofs run by \<open>simp\<close> and \<open>auto\<close>.

  Fallible code returns a \<open>result\<close>: \<open>Ok\<close>, \<open>Err\<close> as in Rust, and
  \<open>Panic\<close> for an unwinding panic with its payload. The operator \<open>?\<close> of Rust is
  \<open>and_then\<close>, which stops at the first \<open>Err\<close> or \<open>Panic\<close>. Errors of
  third-party crates (\<open>eyre::Report\<close>, RPC and SDK errors) are kept as their text
  (\<open>report\<close>). Log and trace output is not part of the model.
\<close>

section \<open>Machine integers and names of the model's types\<close>

type_synonym byte = "8 word"
type_synonym u16 = "16 word"
type_synonym u32 = "32 word"
type_synonym u64 = "64 word"
type_synonym u256 = "256 word"

text \<open>A \<open>Digest\<close> is a \<open>[u8; 32]\<close> and an \<open>Address\<close> a \<open>[u8; 20]\<close>; both are read as
  big-endian numbers of that width, so equality of words is equality of the byte arrays.\<close>

type_synonym digest = "256 word"
type_synonym address = "160 word"

text \<open>The text of an opaque error of a third-party crate.\<close>

type_synonym report = string

named_theorems result_simps \<open>characterisations of the outcomes of the combinators on results\<close>
named_theorems bytes_simps \<open>lengths and decodings of byte strings\<close>

section \<open>Results with panics\<close>

text \<open>The payload of a panic, as \<open>std::any::Any\<close> lets a handler see it: an owned string, a
  string slice, or something else.\<close>

datatype panic_payload = PanicString string | PanicStr string | PanicOther

datatype ('a, 'e) result = Ok 'a | Err 'e | Panic panic_payload

fun and_then :: "('a, 'e) result \<Rightarrow> ('a \<Rightarrow> ('b, 'e) result) \<Rightarrow> ('b, 'e) result" where
  "and_then (Ok x) f = f x"
| "and_then (Err e) f = Err e"
| "and_then (Panic p) f = Panic p"

fun map_ok :: "('a \<Rightarrow> 'b) \<Rightarrow> ('a, 'e) result \<Rightarrow> ('b, 'e) result" where
  "map_ok f (Ok x) = Ok (f x)"
| "map_ok f (Err e) = Err e"
| "map_ok f (Panic p) = Panic p"

fun map_err :: "('e \<Rightarrow> 'f) \<Rightarrow> ('a, 'e) result \<Rightarrow> ('a, 'f) result" where
  "map_err f (Ok x) = Ok x"
| "map_err f (Err e) = Err (f e)"
| "map_err f (Panic p) = Panic p"

fun ok_or :: "'e \<Rightarrow> 'a option \<Rightarrow> ('a, 'e) result" where
  "ok_or e None = Err e"
| "ok_or e (Some x) = Ok x"

text \<open>\<open>Result::unwrap\<close> and \<open>Result::expect\<close>: an error becomes a panic with an owned message.\<close>

fun unwrap :: "('e \<Rightarrow> string) \<Rightarrow> ('a, 'e) result \<Rightarrow> ('a, 'f) result" where
  "unwrap msg (Ok x) = Ok x"
| "unwrap msg (Err e) = Panic (PanicString (msg e))"
| "unwrap msg (Panic p) = Panic p"

text \<open>\<open>iter().map(f).collect::<Result<Vec<_>, _>>()\<close>: stops at the first failure.\<close>

fun collect_results :: "('a \<Rightarrow> ('b, 'e) result) \<Rightarrow> 'a list \<Rightarrow> ('b list, 'e) result" where
  "collect_results f [] = Ok []"
| "collect_results f (x # xs) =
     and_then (f x) (\<lambda>y. and_then (collect_results f xs) (\<lambda>ys. Ok (y # ys)))"

fun is_ok :: "('a, 'e) result \<Rightarrow> bool" where
  "is_ok (Ok _) = True"
| "is_ok (Err _) = False"
| "is_ok (Panic _) = False"

lemma and_then_eq_Ok [result_simps]:
  "and_then r f = Ok y \<longleftrightarrow> (\<exists>x. r = Ok x \<and> f x = Ok y)"
  by (cases r) auto

lemma and_then_eq_Err [result_simps]:
  "and_then r f = Err e \<longleftrightarrow> r = Err e \<or> (\<exists>x. r = Ok x \<and> f x = Err e)"
  by (cases r) auto

lemma and_then_eq_Panic [result_simps]:
  "and_then r f = Panic p \<longleftrightarrow> r = Panic p \<or> (\<exists>x. r = Ok x \<and> f x = Panic p)"
  by (cases r) auto

lemma map_ok_eq_Ok [result_simps]: "map_ok f r = Ok y \<longleftrightarrow> (\<exists>x. r = Ok x \<and> y = f x)"
  by (cases r) auto

lemma map_ok_eq_Err [result_simps]: "map_ok f r = Err e \<longleftrightarrow> r = Err e"
  by (cases r) auto

lemma map_ok_eq_Panic [result_simps]: "map_ok f r = Panic p \<longleftrightarrow> r = Panic p"
  by (cases r) auto

lemma map_err_eq_Ok [result_simps]: "map_err f r = Ok x \<longleftrightarrow> r = Ok x"
  by (cases r) auto

lemma map_err_eq_Err [result_simps]: "map_err f r = Err e \<longleftrightarrow> (\<exists>d. r = Err d \<and> e = f d)"
  by (cases r) auto

lemma map_err_eq_Panic [result_simps]: "map_err f r = Panic p \<longleftrightarrow> r = Panic p"
  by (cases r) auto

lemma ok_or_eq_Ok [result_simps]: "ok_or e v = Ok x \<longleftrightarrow> v = Some x"
  by (cases v) auto

lemma ok_or_eq_Err [result_simps]: "ok_or e v = Err d \<longleftrightarrow> v = None \<and> d = e"
  by (cases v) auto

lemma ok_or_eq_Panic [result_simps]: "ok_or e v \<noteq> Panic p"
  by (cases v) auto

lemma unwrap_eq_Ok [result_simps]: "unwrap m r = Ok x \<longleftrightarrow> r = Ok x"
  by (cases r) auto

lemma unwrap_eq_Err [result_simps]: "unwrap m r \<noteq> Err e"
  by (cases r) auto

lemma and_then_assoc: "and_then (and_then r f) g = and_then r (\<lambda>x. and_then (f x) g)"
  by (cases r) auto

lemma and_then_Ok_right [simp]: "and_then r Ok = r"
  by (cases r) auto

lemma map_ok_and_then: "map_ok f r = and_then r (\<lambda>x. Ok (f x))"
  by (cases r) auto

lemma is_ok_conv: "is_ok r \<longleftrightarrow> (\<exists>x. r = Ok x)"
  by (cases r) auto

lemma collect_results_eq_Ok [result_simps]:
  "collect_results f xs = Ok ys \<longleftrightarrow> list_all2 (\<lambda>x y. f x = Ok y) xs ys"
  by (induction xs arbitrary: ys) (auto simp: result_simps list_all2_Cons1)

lemma collect_results_Ok_map: "(\<And>x. x \<in> set xs \<Longrightarrow> f x = Ok (g x)) \<Longrightarrow> collect_results f xs = Ok (map g xs)"
  by (induction xs) auto

lemma collect_results_Ok_length: "collect_results f xs = Ok ys \<Longrightarrow> length ys = length xs"
  by (auto simp: result_simps dest: list_all2_lengthD)

section \<open>Checked arithmetic\<close>

lemma unat_bound: "unat (w :: 'w::len word) < 2 ^ LENGTH('w)"
  by (rule unsigned_less)

definition checked_add :: "'w::len word \<Rightarrow> 'w word \<Rightarrow> 'w word option" where
  "checked_add a b = (if unat a + unat b < 2 ^ LENGTH('w) then Some (a + b) else None)"

lemma checked_add_Some:
  assumes "checked_add (a :: 'w::len word) b = Some c"
  shows "unat c = unat a + unat b"
  using assms by (auto simp: checked_add_def unat_word_ariths split: if_splits)

lemma checked_add_defined:
  assumes "unat (a :: 'w::len word) + unat b < 2 ^ LENGTH('w)"
  shows "checked_add a b = Some (a + b)"
  using assms by (simp add: checked_add_def)

text \<open>The addition \<open>a + b\<close> of unsigned integers: it panics on overflow where the build has
  overflow checks, and wraps around where it has none.\<close>

definition arith_add :: "bool \<Rightarrow> 'w::len word \<Rightarrow> 'w word \<Rightarrow> ('w word, 'e) result" where
  "arith_add overflow_checks a b =
     (if overflow_checks \<and> checked_add a b = None
      then Panic (PanicStr ''attempt to add with overflow'') else Ok (a + b))"

lemma arith_add_no_overflow:
  "unat (a :: 'w::len word) + unat b < 2 ^ LENGTH('w) \<Longrightarrow> arith_add oc a b = Ok (a + b)"
  by (simp add: arith_add_def checked_add_def)

section \<open>Big-endian byte strings\<close>

text \<open>\<open>to_be_bytes\<close> of an unsigned integer of \<open>n\<close> bytes, and the number a big-endian byte string
  stands for.\<close>

fun nat_be_bytes :: "nat \<Rightarrow> nat \<Rightarrow> byte list" where
  "nat_be_bytes 0 v = []"
| "nat_be_bytes (Suc n) v = nat_be_bytes n (v div 256) @ [word_of_nat v]"

definition of_be_bytes :: "byte list \<Rightarrow> nat" where
  "of_be_bytes bs = foldl (\<lambda>acc b. acc * 256 + unat b) 0 bs"

abbreviation to_be_bytes_u32 :: "u32 \<Rightarrow> byte list" where
  "to_be_bytes_u32 w \<equiv> nat_be_bytes 4 (unat w)"

abbreviation to_be_bytes_u64 :: "u64 \<Rightarrow> byte list" where
  "to_be_bytes_u64 w \<equiv> nat_be_bytes 8 (unat w)"

abbreviation to_be_bytes_u256 :: "u256 \<Rightarrow> byte list" where
  "to_be_bytes_u256 w \<equiv> nat_be_bytes 32 (unat w)"

abbreviation address_bytes :: "address \<Rightarrow> byte list" where
  "address_bytes a \<equiv> nat_be_bytes 20 (unat a)"

lemma length_nat_be_bytes [simp, bytes_simps]: "length (nat_be_bytes n v) = n"
  by (induction n arbitrary: v) auto

lemma of_be_bytes_Nil [simp, bytes_simps]: "of_be_bytes [] = 0"
  by (simp add: of_be_bytes_def)

lemma of_be_bytes_snoc [simp, bytes_simps]: "of_be_bytes (bs @ [b]) = of_be_bytes bs * 256 + unat b"
  by (simp add: of_be_bytes_def)

lemma unat_byte_of_nat: "unat (word_of_nat v :: byte) = v mod 256"
  by (simp add: unat_of_nat)

lemma of_be_bytes_nat_be_bytes [simp, bytes_simps]:
  "of_be_bytes (nat_be_bytes n v) = v mod 256 ^ n"
proof (induction n arbitrary: v)
  case 0
  show ?case by simp
next
  case (Suc n)
  have "v mod 256 ^ Suc n = 256 * (v div 256 mod 256 ^ n) + v mod 256"
    by (simp add: mod_mult2_eq)
  with Suc show ?case by (simp add: unat_byte_of_nat)
qed

lemma nat_be_bytes_append:
  "nat_be_bytes (m + n) v = nat_be_bytes m (v div 256 ^ n) @ nat_be_bytes n v"
  by (induction n arbitrary: v) (simp_all add: div_mult2_eq)

lemma byte_256: "(256 :: byte) = 0"
  by transfer simp

lemma nat_be_bytes_of_be_bytes: "nat_be_bytes (length bs) (of_be_bytes bs) = bs"
proof (induction bs rule: rev_induct)
  case Nil
  show ?case by simp
next
  case (snoc b bs)
  have "(of_be_bytes bs * 256 + unat b) div 256 = of_be_bytes bs"
    using unat_bound [of b] by simp
  moreover have "(word_of_nat (of_be_bytes bs * 256 + unat b) :: byte) = b"
    by (simp add: byte_256)
  ultimately show ?case using snoc by simp
qed

lemma of_be_bytes_bound: "of_be_bytes bs < 256 ^ length bs"
proof (induction bs rule: rev_induct)
  case (snoc b bs)
  have "of_be_bytes bs * 256 + unat b < (of_be_bytes bs + 1) * 256"
    using unat_bound [of b] by simp
  also have "\<dots> \<le> 256 ^ length bs * 256"
    using snoc by (intro mult_right_mono) auto
  finally show ?case by simp
qed simp

lemma nat_be_bytes_eq_iff: "nat_be_bytes n v = nat_be_bytes n w \<longleftrightarrow> v mod 256 ^ n = w mod 256 ^ n"
  by (metis length_nat_be_bytes nat_be_bytes_of_be_bytes of_be_bytes_nat_be_bytes)

lemma pow256_pow2: "(256 :: nat) ^ n = 2 ^ (8 * n)"
  by (simp add: power_mult)

text \<open>A word of \<open>8 * n\<close> bits is determined by its \<open>n\<close> big-endian bytes.\<close>

lemma word_be_bytes_inject:
  assumes "LENGTH('w::len) \<le> 8 * n"
  shows "nat_be_bytes n (unat (a :: 'w word)) = nat_be_bytes n (unat b) \<longleftrightarrow> a = b"
proof -
  have "unat x < 256 ^ n" for x :: "'w word"
    using unat_bound [of x] assms unfolding pow256_pow2
    by (meson less_le_trans one_le_numeral power_increasing)
  then show ?thesis by (auto simp: nat_be_bytes_eq_iff word_unat_eq_iff)
qed

lemma word_of_be_bytes_roundtrip:
  assumes "LENGTH('w::len) \<le> 8 * n"
  shows "word_of_nat (of_be_bytes (nat_be_bytes n (unat (a :: 'w word)))) = a"
proof -
  have "unat a < 256 ^ n"
    using unat_bound [of a] assms unfolding pow256_pow2
    by (meson less_le_trans one_le_numeral power_increasing)
  then show ?thesis by simp
qed

section \<open>Hexadecimal text\<close>

definition hex_digit :: "nat \<Rightarrow> char" where
  "hex_digit d = (if d < 10 then char_of (48 + d) else char_of (87 + d))"

lemma of_hex_digit:
  "d < 16 \<Longrightarrow> (of_char (hex_digit d) :: nat) = (if d < 10 then 48 + d else 87 + d)"
  by (simp add: hex_digit_def)

lemma hex_digit_inject:
  assumes "d < 16" and "e < 16" and "hex_digit d = hex_digit e"
  shows "d = e"
proof -
  have "(if d < 10 then 48 + d else 87 + d) = (if e < 10 then 48 + e else 87 + e)"
    unfolding of_hex_digit [OF assms(1), symmetric] of_hex_digit [OF assms(2), symmetric] assms(3) ..
  then show ?thesis using assms(1,2) by (simp split: if_splits)
qed

text \<open>\<open>hex::encode\<close>: two digits for each byte.\<close>

definition hex_encode :: "byte list \<Rightarrow> string" where
  "hex_encode bs = concat (map (\<lambda>b. [hex_digit (unat b div 16), hex_digit (unat b mod 16)]) bs)"

text \<open>Rules that evaluate the character of a number.\<close>

lemmas char_evaluation = char_of_def bit_0

section \<open>Lists\<close>

lemma find_Some_split:
  "find Q xs = Some w \<Longrightarrow> \<exists>pre post. xs = pre @ w # post \<and> (\<forall>x\<in>set pre. \<not> Q x) \<and> Q w"
proof (induction xs)
  case (Cons x xs)
  show ?case
  proof (cases "Q x")
    case True
    with Cons.prems show ?thesis by fastforce
  next
    case False
    with Cons obtain pre post where "xs = pre @ w # post" "\<forall>y\<in>set pre. \<not> Q y" "Q w" by auto
    with False have "x # xs = (x # pre) @ w # post \<and> (\<forall>y\<in>set (x # pre). \<not> Q y) \<and> Q w" by simp
    then show ?thesis by blast
  qed
qed simp

text \<open>Byte strings made of fields of fixed widths are determined field by field.\<close>

lemma append_eq_fixed: "length a = length c \<Longrightarrow> a @ b = c @ d \<longleftrightarrow> a = c \<and> b = d"
  by simp

lemma concat_map_fixed_inject:
  assumes "\<And>x. length (f x) = k" and "k > 0" and "inj f"
  shows "concat (map f xs) = concat (map f ys) \<longleftrightarrow> xs = ys"
proof (induction xs arbitrary: ys)
  case Nil
  have "f y = [] \<longleftrightarrow> False" for y using assms(1) [of y] assms(2) by auto
  then show ?case by (cases ys) auto
next
  case (Cons x xs)
  have nz: "f z \<noteq> []" for z using assms(1) [of z] assms(2) by auto
  show ?case
  proof (cases ys)
    case Nil
    then show ?thesis by (simp add: nz)
  next
    case (Cons y ys')
    then show ?thesis
      using Cons.IH assms(1) by (auto simp: append_eq_fixed inj_eq [OF assms(3)])
  qed
qed

lemma hex_encode_inject: "hex_encode xs = hex_encode ys \<longleftrightarrow> xs = ys"
  unfolding hex_encode_def
proof (rule concat_map_fixed_inject [where k = 2])
  show "inj (\<lambda>b :: byte. [hex_digit (unat b div 16), hex_digit (unat b mod 16)])"
  proof (rule injI)
    fix x y :: byte
    assume "[hex_digit (unat x div 16), hex_digit (unat x mod 16)] =
      [hex_digit (unat y div 16), hex_digit (unat y mod 16)]"
    moreover have "unat z div 16 < 16" for z :: byte using unat_bound [of z] by simp
    ultimately have "unat x div 16 = unat y div 16" and "unat x mod 16 = unat y mod 16"
      using hex_digit_inject by auto
    then show "x = y" by (metis div_mult_mod_eq word_unat_eq_iff)
  qed
qed auto

end
