(* ===== verification/Bridge_Primitives.thy ===== *)
theory Bridge_Primitives
  imports Prover_Prelude
begin

text \<open>
  The data and the functions of the crates the provers build on (\<open>agglayer-primitives\<close>,
  \<open>unified-bridge\<close>, \<open>alloy\<close>, \<open>sp1-cc-client-executor\<close>), which are not part of this
  repository. Their structs are given with the fields the sources read or construct. Their
  functions are parameters: the fields of the records \<open>prims\<close> and \<open>evm\<close>, which every
  definition that uses them takes as an argument.

  What the sources rely on is stated as named predicates: \<open>abi_conforms\<close> is the Solidity ABI for
  static types, \<open>bn254_large\<close> the size of the field of BN254, \<open>evm_anchored\<close> the meaning of the
  anchor hash of a sketch. The value \<open>sample_prims\<close> is one concrete instance, used where a statement is
  applied to a concrete input.
\<close>

section \<open>Structs of the bridge crates\<close>

record l1_info_tree_leaf_inner =
  global_exit_root :: digest
  block_hash :: digest
  timestamp :: u64

record l1_info_tree_leaf =
  l1_info_tree_index :: u32
  rer :: digest
  mer :: digest
  inner :: l1_info_tree_leaf_inner

record merkle_proof =
  proof_root :: digest
  proof_siblings :: "digest list"

record global_index_with_leaf_hash =
  global_index :: u256
  bridge_exit_hash :: digest

datatype commitment_version = V3

record aggchain_proof_public_values =
  pv_prev_local_exit_root :: digest
  pv_new_local_exit_root :: digest
  pv_l1_info_root :: digest
  pv_origin_network :: u32
  pv_commit_imported_bridge_exits :: digest
  pv_aggchain_params :: digest

section \<open>Solidity values and their encodings\<close>

text \<open>The static Solidity types of the structs the sources declare with \<open>sol!\<close>.\<close>

datatype sol_value =
    SolBytes4 u32
  | SolBytes32 digest
  | SolUint64 u64
  | SolUint256 u256
  | SolBool bool
  | SolAddress address

text \<open>The head word of a static value (Solidity ABI), and its packed form.\<close>

fun abi_word :: "sol_value \<Rightarrow> byte list" where
  "abi_word (SolBytes4 w) = nat_be_bytes 4 (unat w) @ replicate 28 0"
| "abi_word (SolBytes32 d) = nat_be_bytes 32 (unat d)"
| "abi_word (SolUint64 n) = nat_be_bytes 32 (unat n)"
| "abi_word (SolUint256 n) = nat_be_bytes 32 (unat n)"
| "abi_word (SolBool b) = nat_be_bytes 32 (if b then 1 else 0)"
| "abi_word (SolAddress a) = nat_be_bytes 32 (unat a)"

fun abi_packed :: "sol_value \<Rightarrow> byte list" where
  "abi_packed (SolBytes4 w) = nat_be_bytes 4 (unat w)"
| "abi_packed (SolBytes32 d) = nat_be_bytes 32 (unat d)"
| "abi_packed (SolUint64 n) = nat_be_bytes 8 (unat n)"
| "abi_packed (SolUint256 n) = nat_be_bytes 32 (unat n)"
| "abi_packed (SolBool b) = [if b then 1 else 0]"
| "abi_packed (SolAddress a) = nat_be_bytes 20 (unat a)"

lemma length_abi_word [simp, bytes_simps]: "length (abi_word v) = 32"
  by (cases v) auto

section \<open>Functions of the crates, as parameters\<close>

record 'sig prims =
  keccak256 :: "byte list \<Rightarrow> digest"
  keccak256_combine :: "digest list \<Rightarrow> digest"
  sha256_digest :: "byte list \<Rightarrow> digest"
  leaf_hash :: "l1_info_tree_leaf \<Rightarrow> digest"
  leaf_ger :: "l1_info_tree_leaf \<Rightarrow> digest"
  merkle_verify :: "merkle_proof \<Rightarrow> digest \<Rightarrow> u32 \<Rightarrow> bool"
  claim_commitment :: "global_index_with_leaf_hash \<Rightarrow> digest"
  ibe_commitment :: "global_index_with_leaf_hash list \<Rightarrow> commitment_version \<Rightarrow> digest"
  recover_address_from_prehash :: "'sig \<Rightarrow> digest \<Rightarrow> address option"
  bn254_order :: nat
  abi_encode :: "sol_value list \<Rightarrow> byte list"
  abi_encode_packed :: "sol_value list \<Rightarrow> byte list"

definition abi_conforms :: "'sig prims \<Rightarrow> bool" where
  "abi_conforms P \<longleftrightarrow>
     (\<forall>vs. abi_encode P vs = concat (map abi_word vs)) \<and>
     (\<forall>vs. abi_encode_packed P vs = concat (map abi_packed vs))"

lemma abi_conforms_encode: "abi_conforms P \<Longrightarrow> abi_encode P vs = concat (map abi_word vs)"
  by (simp add: abi_conforms_def)

lemma abi_conforms_packed: "abi_conforms P \<Longrightarrow> abi_encode_packed P vs = concat (map abi_packed vs)"
  by (simp add: abi_conforms_def)

text \<open>The scalar field of the curve BN254 has more than \<open>2 ^ 248\<close> elements.\<close>

definition bn254_large :: "'sig prims \<Rightarrow> bool" where
  "bn254_large P \<longleftrightarrow> 2 ^ 248 \<le> bn254_order P"

text \<open>
  The execution of a contract call against a sketch of an L2 block
  (\<open>ClientExecutor::eth(sketch)\<close>, then \<open>execute(ContractInput)\<close>): the client is given by its
  \<open>execute\<close>. The calls are the functions the two \<open>sol!\<close> interfaces of the bridge declare.
\<close>

datatype sol_call =
    InsertedGERHashChainCall
  | RemovedGERHashChainCall
  | BridgeAddressCall
  | GetRootCall
  | ClaimedGlobalIndexHashChainCall
  | UnsetGlobalIndexHashChainCall

record contract_input =
  ci_contract_address :: address
  ci_caller_address :: address
  ci_calldata :: sol_call

record cc_public_values =
  contract_output :: "byte list"
  anchor_hash :: digest

record 'sk evm =
  client_eth :: "'sk \<Rightarrow> (contract_input \<Rightarrow> (cc_public_values, report) result, report) result"
  decode_bytes32 :: "byte list \<Rightarrow> (digest, report) result"
  decode_address :: "byte list \<Rightarrow> (address, report) result"

text \<open>The property the anchor hash is there for: sketches anchored at the same block describe the same
  state, so that a call answered by both gives the same output.\<close>

definition evm_anchored :: "'sk evm \<Rightarrow> bool" where
  "evm_anchored E \<longleftrightarrow>
     (\<forall>sk sk' cl cl' ci pv pv'.
        client_eth E sk = Ok cl \<and> client_eth E sk' = Ok cl' \<and> cl ci = Ok pv \<and> cl' ci = Ok pv' \<and>
        anchor_hash pv = anchor_hash pv' \<longrightarrow> contract_output pv = contract_output pv')"

section \<open>A concrete instance\<close>

text \<open>Small computable functions in place of the hash functions and codecs. A signature is the
  pair of the signed digest and the signer.\<close>

definition sample_prims :: "(digest \<times> address) prims" where
  "sample_prims = \<lparr>
     keccak256 = (\<lambda>bs. word_of_nat (of_be_bytes bs)),
     keccak256_combine = (\<lambda>ds. foldl (\<lambda>acc d. d + 3 * acc + 1) 0 ds),
     sha256_digest = (\<lambda>bs. word_of_nat (length bs)),
     leaf_hash = (\<lambda>l. global_exit_root (inner l) + block_hash (inner l)),
     leaf_ger = (\<lambda>l. global_exit_root (inner l)),
     merkle_verify = (\<lambda>p h i. proof_root p = h + ucast i),
     claim_commitment = (\<lambda>c. global_index c + 7 * bridge_exit_hash c),
     ibe_commitment = (\<lambda>cs v. sum_list (map (\<lambda>c. global_index c * 5 + bridge_exit_hash c) cs)),
     recover_address_from_prehash = (\<lambda>s h. if fst s = h then Some (snd s) else None),
     bn254_order = 21888242871839275222246405745257275088548364400416034343698204186575808495617,
     abi_encode = (\<lambda>vs. concat (map abi_word vs)),
     abi_encode_packed = (\<lambda>vs. concat (map abi_packed vs))\<rparr>"

lemma sample_prims_abi: "abi_conforms sample_prims"
  by (simp add: abi_conforms_def sample_prims_def)

lemma sample_prims_bn254: "bn254_large sample_prims"
  by (simp add: bn254_large_def sample_prims_def)

text \<open>An executor over a table of contract outputs: a sketch is the hash of its anchor block, and the
  table gives the word that a call to a contract returns at a block.\<close>

type_synonym call_table = "(digest \<times> address \<times> sol_call \<times> nat) list"

fun sample_lookup :: "call_table \<Rightarrow> digest \<Rightarrow> contract_input \<Rightarrow> (cc_public_values, report) result" where
  "sample_lookup [] sk i = Err ''revert''"
| "sample_lookup ((b, a, c, v) # tbl) sk i =
     (if b = sk \<and> a = ci_contract_address i \<and> c = ci_calldata i
      then Ok \<lparr>contract_output = nat_be_bytes 32 v, anchor_hash = sk\<rparr>
      else sample_lookup tbl sk i)"

definition sample_evm :: "call_table \<Rightarrow> digest evm" where
  "sample_evm tbl = \<lparr>
     client_eth = (\<lambda>sk. Ok (sample_lookup tbl sk)),
     decode_bytes32 = (\<lambda>bs. if length bs = 32 then Ok (word_of_nat (of_be_bytes bs)) else Err ''decode''),
     decode_address = (\<lambda>bs. if length bs = 32 then Ok (word_of_nat (of_be_bytes bs)) else Err ''decode'')\<rparr>"

lemma sample_lookup_anchor: "sample_lookup tbl sk i = Ok pv \<Longrightarrow> anchor_hash pv = sk"
  by (induction tbl) (auto split: if_splits)

lemma sample_evm_anchored: "evm_anchored (sample_evm tbl)"
proof -
  have "contract_output pv = contract_output pv'"
    if "sample_lookup tbl sk ci = Ok pv" and "sample_lookup tbl sk' ci = Ok pv'"
      and "anchor_hash pv = anchor_hash pv'" for sk sk' ci pv pv'
    using that sample_lookup_anchor [of tbl sk ci pv] sample_lookup_anchor [of tbl sk' ci pv'] by simp
  then show ?thesis unfolding evm_anchored_def sample_evm_def by simp blast
qed

end
