(* ===== verification/Static_Call.thy ===== *)
theory Static_Call
  imports Bridge_Primitives
begin

text \<open>
  \<open>crates/aggchain-proof-core/src/bridge/static_call.rs\<close> and the error type of
  \<open>bridge/mod.rs\<close>: a contract call executed inside the zkVM against the sketch of an L2 block,
  accepted only when the sketch is anchored at the expected block hash.

  \<open>static_call_value\<close> is the specification: the value a call returns at a block. The lemma
  \<open>execute_eq_Ok\<close> says that \<open>execute\<close> returns exactly those values, and
  \<open>execute_eq_Err\<close> lists its errors.
\<close>

section \<open>Data\<close>

datatype hash_chain_type = InsertedGER | ClaimedGlobalIndex | RemovedGER | UnsetGlobalIndex

datatype static_call_stage =
    PrevHashChain hash_chain_type
  | NewHashChain hash_chain_type
  | BridgeAddress
  | NewLer

datatype static_call_error =
    ClientInitialization report
  | ClientExecution report
  | DecodeContractOutput report

text \<open>The fields of each variant in the order of the source: \<open>inserted_ger\<close>,
  \<open>l1_info_leaf_index\<close>, \<open>l1_info_root\<close>; \<open>retrieved\<close>, \<open>input\<close>, \<open>stage\<close>;
  \<open>prev_hash_chain\<close>, \<open>computed\<close>, \<open>input\<close>, \<open>hash_chain_type\<close>;
  \<open>retrieved\<close> or \<open>computed\<close> and \<open>input\<close>.\<close>

datatype bridge_constraints_error =
    InvalidMerklePathGERToL1Root digest u32 digest
  | MismatchBlockHash digest digest static_call_stage
  | MismatchHashChain digest digest digest hash_chain_type
  | MismatchNewLocalExitRoot digest digest
  | MismatchConstrainedBridgeExits digest digest
  | MismatchConstrainedInsertedGers "digest list" "digest list"
  | StaticCallError static_call_stage static_call_error
  | HashChainOverflow

definition static_call_error_at :: "static_call_error \<Rightarrow> static_call_stage \<Rightarrow> bridge_constraints_error" where
  "static_call_error_at source stage = StaticCallError stage source"

record static_call_with_context =
  sc_address :: address
  sc_stage :: static_call_stage
  sc_block_hash :: digest

section \<open>Operations\<close>

definition execute_helper ::
  "'sk evm \<Rightarrow> (byte list \<Rightarrow> ('r, report) result) \<Rightarrow> static_call_with_context \<Rightarrow> 'sk \<Rightarrow> sol_call \<Rightarrow>
   address \<Rightarrow> ('r \<times> digest, static_call_error) result" where
  "execute_helper E abi_decode_returns self state_sketch calldata caller_address =
     and_then (map_err ClientInitialization (client_eth E state_sketch)) (\<lambda>client.
     and_then (map_err ClientExecution
       (client \<lparr>ci_contract_address = sc_address self, ci_caller_address = caller_address,
                ci_calldata = calldata\<rparr>)) (\<lambda>cc_public_values.
     and_then (map_err DecodeContractOutput
       (abi_decode_returns (contract_output cc_public_values))) (\<lambda>decoded_contract_output.
     Ok (decoded_contract_output, anchor_hash cc_public_values))))"

definition execute ::
  "'sk evm \<Rightarrow> (byte list \<Rightarrow> ('r, report) result) \<Rightarrow> static_call_with_context \<Rightarrow> address \<Rightarrow> 'sk \<Rightarrow>
   sol_call \<Rightarrow> ('r, bridge_constraints_error) result" where
  "execute E abi_decode_returns self caller_address state_sketch calldata =
     and_then
       (map_err (\<lambda>e. static_call_error_at e (sc_stage self))
         (execute_helper E abi_decode_returns self state_sketch calldata caller_address))
       (\<lambda>(decoded_return, retrieved_block_hash).
          if retrieved_block_hash \<noteq> sc_block_hash self
          then Err (MismatchBlockHash retrieved_block_hash (sc_block_hash self) (sc_stage self))
          else Ok decoded_return)"

section \<open>Specification\<close>

text \<open>The call of \<open>calldata\<close> to a contract, against a sketch anchored at the block with the given
  hash, returns \<open>r\<close>.\<close>

definition static_call_value ::
  "'sk evm \<Rightarrow> (byte list \<Rightarrow> ('r, report) result) \<Rightarrow> 'sk \<Rightarrow> digest \<Rightarrow> contract_input \<Rightarrow> 'r \<Rightarrow> bool" where
  "static_call_value E dec sk bh ci r \<longleftrightarrow>
     (\<exists>client pv. client_eth E sk = Ok client \<and> client ci = Ok pv \<and>
        dec (contract_output pv) = Ok r \<and> anchor_hash pv = bh)"

text \<open>The executor reports its failures as errors.\<close>

definition evm_no_panic :: "'sk evm \<Rightarrow> bool" where
  "evm_no_panic E \<longleftrightarrow>
     (\<forall>sk p. client_eth E sk \<noteq> Panic p) \<and>
     (\<forall>sk cl ci p. client_eth E sk = Ok cl \<longrightarrow> cl ci \<noteq> Panic p) \<and>
     (\<forall>bs p. decode_bytes32 E bs \<noteq> Panic p) \<and>
     (\<forall>bs p. decode_address E bs \<noteq> Panic p)"

lemma execute_helper_eq_Ok:
  "execute_helper E dec self sk call caller = Ok (r, h) \<longleftrightarrow>
     static_call_value E dec sk h
       \<lparr>ci_contract_address = sc_address self, ci_caller_address = caller, ci_calldata = call\<rparr> r"
  unfolding execute_helper_def static_call_value_def by (simp add: result_simps)

lemma execute_eq_Ok:
  "execute E dec self caller sk call = Ok r \<longleftrightarrow>
     static_call_value E dec sk (sc_block_hash self)
       \<lparr>ci_contract_address = sc_address self, ci_caller_address = caller, ci_calldata = call\<rparr> r"
  unfolding execute_helper_eq_Ok [symmetric] execute_def
  by (cases "execute_helper E dec self sk call caller") (simp_all add: case_prod_beta prod_eq_iff)

lemma static_call_value_unique:
  "static_call_value E dec sk bh ci r \<Longrightarrow> static_call_value E dec sk bh ci s \<Longrightarrow> r = s"
  unfolding static_call_value_def by (metis result.inject(1))

text \<open>Sketches anchored at the same block answer a call with the same value.\<close>

lemma static_call_value_anchored:
  assumes "evm_anchored E" and "static_call_value E dec sk bh ci r" and "static_call_value E dec sk' bh ci s"
  shows "r = s"
  using assms unfolding static_call_value_def evm_anchored_def by (metis result.inject(1))

text \<open>The errors of a static call: one of the three failures of the executor, or a sketch of another
  block.\<close>

lemma execute_eq_Err:
  assumes "execute E dec self caller sk call = Err e"
  shows "(\<exists>c. e = StaticCallError (sc_stage self) c) \<or>
         (\<exists>h. h \<noteq> sc_block_hash self \<and> e = MismatchBlockHash h (sc_block_hash self) (sc_stage self))"
  using assms unfolding execute_def static_call_error_at_def
  by (cases "execute_helper E dec self sk call caller") (auto simp: case_prod_beta split: if_splits)

text \<open>A static call unwinds only when the executor or the decoder does.\<close>

lemma execute_not_Panic:
  assumes "evm_no_panic E" and "\<And>bs p. dec bs \<noteq> Panic p"
  shows "execute E dec self caller sk call \<noteq> Panic p"
proof -
  have "execute_helper E dec self sk call caller \<noteq> Panic p"
    using assms unfolding execute_helper_def evm_no_panic_def
    by (auto simp: result_simps)
  then show ?thesis
    unfolding execute_def by (cases "execute_helper E dec self sk call caller") (auto split: if_splits)
qed

end
