(* ===== verification/Value_Filter.thy ===== *)
theory Value_Filter
  imports Static_Call "HOL-Library.Multiset" "HOL-Library.Sublist"
begin

text \<open>
  \<open>filter_values\<close> of \<open>crates/aggchain-proof-core/src/bridge/mod.rs\<close>: the removal of one
  occurrence of a value for each entry of a removal list, with the two loops of the source (the
  counting loop over a \<open>HashMap<K, usize>\<close> and the filter that decrements the counts) as they are
  written. The width of \<open>usize\<close> is a type parameter: it is 32 bits in the zkVM, 64 on the host.

  The locale \<open>removal_filter\<close> is the contract the bridge verifier relies on; it is interpreted on
  \<open>filter_values\<close> at the end.
\<close>

section \<open>Operations\<close>

text \<open>The counting loop: \<open>*entry(value).or_insert(0) += 1\<close>, with \<open>checked_add\<close>.\<close>

fun count_removals ::
  "('k \<rightharpoonup> 'w::len word) \<Rightarrow> 'k list \<Rightarrow> ('k \<rightharpoonup> 'w word, bridge_constraints_error) result" where
  "count_removals removal_map [] = Ok removal_map"
| "count_removals removal_map (value # removed) =
     and_then
       (ok_or HashChainOverflow
         (checked_add (case removal_map value of None \<Rightarrow> 0 | Some cnt \<Rightarrow> cnt) 1))
       (\<lambda>cnt. count_removals (removal_map(value \<mapsto> cnt)) removed)"

text \<open>The filter closure, which decrements the count of a value it skips.\<close>

fun skip_removed :: "('k \<rightharpoonup> 'w::len word) \<Rightarrow> ('v \<Rightarrow> 'k) \<Rightarrow> 'v list \<Rightarrow> 'v list" where
  "skip_removed removal_map key_fn [] = []"
| "skip_removed removal_map key_fn (value # values) =
     (case removal_map (key_fn value) of
        Some cnt \<Rightarrow>
          if cnt > 0
          then skip_removed (removal_map(key_fn value \<mapsto> cnt - 1)) key_fn values
          else value # skip_removed removal_map key_fn values
      | None \<Rightarrow> value # skip_removed removal_map key_fn values)"

definition filter_values ::
  "'w::len itself \<Rightarrow> 'k list \<Rightarrow> 'v list \<Rightarrow> ('v \<Rightarrow> 'k) \<Rightarrow> ('v list, bridge_constraints_error) result" where
  "filter_values usize removed values key_fn =
     and_then (count_removals (Map.empty :: 'k \<rightharpoonup> 'w word) removed)
       (\<lambda>removal_map. Ok (skip_removed removal_map key_fn values))"

section \<open>Reference definition\<close>

text \<open>Remove the first value with a given key, and do that once for each key of a list.\<close>

fun remove_first :: "('v \<Rightarrow> 'k) \<Rightarrow> 'v list \<Rightarrow> 'k \<Rightarrow> 'v list" where
  "remove_first key [] k = []"
| "remove_first key (v # vs) k = (if key v = k then vs else v # remove_first key vs k)"

definition remove_each :: "('v \<Rightarrow> 'k) \<Rightarrow> 'k list \<Rightarrow> 'v list \<Rightarrow> 'v list" where
  "remove_each key removed vs = foldl (remove_first key) vs removed"

section \<open>Correctness of the loops\<close>

text \<open>The number a map entry stands for: an absent entry counts 0.\<close>

definition entry_count :: "('k \<rightharpoonup> 'w::len word) \<Rightarrow> 'k \<Rightarrow> nat" where
  "entry_count m k = (case m k of None \<Rightarrow> 0 | Some c \<Rightarrow> unat c)"

lemma unat_or_insert: "unat (case m k of None \<Rightarrow> 0 | Some c \<Rightarrow> c) = entry_count m k"
  by (simp add: entry_count_def split: option.splits)

lemma entry_count_upd [simp]: "entry_count (m(k \<mapsto> c)) = (entry_count m)(k := unat c)"
  by (auto simp: entry_count_def)

lemma entry_count_empty [simp]: "entry_count Map.empty = (\<lambda>k. 0)"
  by (auto simp: entry_count_def)

lemma count_removals_counts:
  "count_removals m ks = Ok m' \<Longrightarrow> entry_count m' k = entry_count m k + count_list ks k"
proof (induction ks arbitrary: m)
  case Nil
  then show ?case by simp
next
  case (Cons x ks)
  then obtain c where "checked_add (case m x of None \<Rightarrow> 0 | Some c \<Rightarrow> c) 1 = Some c"
    and rest: "count_removals (m(x \<mapsto> c)) ks = Ok m'"
    by (auto simp: result_simps)
  then have c: "unat c = entry_count m x + unat (1 :: 'b word)"
    by (simp add: checked_add_Some unat_or_insert)
  have "entry_count m' k = entry_count (m(x \<mapsto> c)) k + count_list ks k"
    by (rule Cons.IH [OF rest])
  then have "entry_count m' k = (if k = x then unat c else entry_count m k) + count_list ks k"
    by simp
  with c show ?case by simp
qed

lemma count_removals_defined:
  fixes m :: "'k \<rightharpoonup> 'w::len word"
  assumes "\<And>k. entry_count m k + count_list ks k < 2 ^ LENGTH('w)"
  shows "\<exists>m'. count_removals m ks = Ok m'"
  using assms
proof (induction ks arbitrary: m)
  case Nil
  show ?case by simp
next
  case (Cons x ks)
  let ?c = "case m x of None \<Rightarrow> 0 | Some c \<Rightarrow> c"
  have small: "unat ?c + unat (1 :: 'w word) < 2 ^ LENGTH('w)"
    using Cons.prems [of x] by (simp add: unat_or_insert)
  have c: "unat (?c + 1) = entry_count m x + 1"
    using checked_add_Some [OF checked_add_defined [OF small]] by (simp add: unat_or_insert)
  have "entry_count (m(x \<mapsto> ?c + 1)) k + count_list ks k = entry_count m k + count_list (x # ks) k"
    for k
    by (simp only: entry_count_upd c fun_upd_apply count_list.simps) simp
  then have "\<exists>m'. count_removals (m(x \<mapsto> ?c + 1)) ks = Ok m'"
    using Cons.prems by (intro Cons.IH) (simp only:)
  then show ?case by (simp add: checked_add_defined [OF small])
qed

text \<open>The filter loop over plain counts.\<close>

fun skip_counts :: "('k \<Rightarrow> nat) \<Rightarrow> ('v \<Rightarrow> 'k) \<Rightarrow> 'v list \<Rightarrow> 'v list" where
  "skip_counts c key [] = []"
| "skip_counts c key (v # vs) =
     (if c (key v) > 0 then skip_counts (c(key v := c (key v) - 1)) key vs
      else v # skip_counts c key vs)"

lemma unat_pred: "(0 :: 'w::len word) < c \<Longrightarrow> unat (c - 1) = unat c - 1"
  by (simp add: unat_minus_one word_neq_0_conv)

lemma skip_removed_counts: "skip_removed m key vs = skip_counts (entry_count m) key vs"
proof (induction vs arbitrary: m)
  case (Cons v vs)
  show ?case
  proof (cases "m (key v)")
    case None
    then have "entry_count m (key v) = 0" by (simp add: entry_count_def)
    with None show ?thesis by (simp add: Cons.IH)
  next
    case (Some c)
    then have "entry_count m (key v) = unat c" by (simp add: entry_count_def)
    with Some show ?thesis by (simp add: Cons.IH unat_pred word_less_nat_alt del: fun_upd_apply)
  qed
qed simp

lemma skip_counts_Suc: "skip_counts (c(k := Suc (c k))) key vs = skip_counts c key (remove_first key vs k)"
proof (induction vs arbitrary: c)
  case (Cons v vs)
  show ?case
  proof (cases "key v = k")
    case True
    then show ?thesis by (simp del: fun_upd_apply) (simp add: fun_upd_idem)
  next
    case False
    let ?d = "c(key v := c (key v) - 1)"
    have twist: "(c(k := Suc (c k)))(key v := c (key v) - 1) = ?d(k := Suc (?d k))"
      using False by (simp add: fun_upd_twist)
    have skip: "skip_counts ((c(k := Suc (c k)))(key v := c (key v) - 1)) key vs =
        skip_counts ?d key (remove_first key vs k)"
      unfolding twist by (rule Cons.IH)
    have key: "(c(k := Suc (c k))) (key v) = c (key v)" using False by simp
    show ?thesis
      using False by (simp add: key skip [simplified One_nat_def] Cons.IH del: fun_upd_apply)
  qed
qed simp

lemma skip_counts_zero [simp]: "skip_counts (\<lambda>k. 0) key vs = vs"
  by (induction vs) auto

lemma skip_counts_remove_each: "skip_counts (count_list ks) key vs = remove_each key ks vs"
proof (induction ks arbitrary: vs)
  case Nil
  then show ?case by (simp add: remove_each_def fun_eq_iff cong: if_cong)
next
  case (Cons k ks)
  have "count_list (k # ks) = (count_list ks)(k := Suc (count_list ks k))" by auto
  then show ?case by (simp only: skip_counts_Suc Cons.IH) (simp add: remove_each_def)
qed

lemma mset_remove_first:
  "mset (map key (remove_first key vs k)) = mset (map key vs) - {#k#}"
  by (induction vs) auto

lemma mset_remove_each: "mset (map key (remove_each key ks vs)) = mset (map key vs) - mset ks"
proof (induction ks arbitrary: vs)
  case (Cons k ks)
  have "mset (map key (remove_each key (k # ks) vs)) = mset (map key (remove_first key vs k)) - mset ks"
    using Cons.IH [of "remove_first key vs k"] by (simp add: remove_each_def)
  then show ?case by (simp only: mset_remove_first) simp
qed (simp add: remove_each_def)

lemma subseq_remove_first: "subseq (remove_first key vs k) vs"
  by (induction vs) auto

lemma subseq_remove_each: "subseq (remove_each key ks vs) vs"
  unfolding remove_each_def
  by (induction ks arbitrary: vs) (auto intro: subseq_order.trans subseq_remove_first)

lemma remove_each_Nil [simp]: "remove_each key [] vs = vs"
  by (simp add: remove_each_def)

text \<open>Whenever the routine returns, it returns the reference result; and it returns whenever the
  removal list is shorter than the range of \<open>usize\<close>.\<close>

lemma filter_values_Ok_remove_each:
  assumes "filter_values (t :: 'w::len itself) removed values key = Ok out"
  shows "out = remove_each key removed values"
proof -
  from assms obtain m where m: "count_removals (Map.empty :: _ \<rightharpoonup> 'w word) removed = Ok m"
    and out: "out = skip_removed m key values"
    by (auto simp: filter_values_def result_simps)
  from count_removals_counts [OF m] have "entry_count m = count_list removed" by auto
  with out show ?thesis by (simp add: skip_removed_counts skip_counts_remove_each)
qed

lemma count_list_le_length: "count_list xs x \<le> length xs"
  by (induction xs) auto

lemma filter_values_defined:
  fixes t :: "'w::len itself"
  assumes "length removed < 2 ^ LENGTH('w)"
  shows "filter_values t removed values key = Ok (remove_each key removed values)"
proof -
  have "count_list removed k < 2 ^ LENGTH('w)" for k
    using assms count_list_le_length [of removed k] by linarith
  then have "\<exists>m. count_removals (Map.empty :: _ \<rightharpoonup> 'w word) removed = Ok m"
    by (intro count_removals_defined) simp
  then obtain out where "filter_values t removed values key = Ok out"
    by (auto simp: filter_values_def)
  with filter_values_Ok_remove_each show ?thesis by blast
qed

lemma filter_values_Nil [simp]: "filter_values t [] values key = Ok values"
  by (simp add: filter_values_def skip_removed_counts)

section \<open>The contract of the filter\<close>

locale removal_filter =
  fixes flt :: "'k list \<Rightarrow> 'v list \<Rightarrow> ('v \<Rightarrow> 'k) \<Rightarrow> ('v list, bridge_constraints_error) result"
  assumes flt_keys: "flt removed vs key = Ok out \<Longrightarrow>
      mset (map key out) = mset (map key vs) - mset removed"
    and flt_subseq: "flt removed vs key = Ok out \<Longrightarrow> subseq out vs"
    and flt_Nil: "flt [] vs key = Ok vs"
begin

text \<open>A key survives as often as it occurs more than it is removed.\<close>

lemma flt_count:
  assumes "flt removed vs key = Ok out"
  shows "count_list (map key out) k = count_list (map key vs) k - count_list removed k"
  using arg_cong [OF flt_keys [OF assms], of "\<lambda>M. count M k"]
  by (simp only: count_diff count_mset)

text \<open>Nothing is invented: every kept value was a value.\<close>

lemma flt_subset: "flt removed vs key = Ok out \<Longrightarrow> set out \<subseteq> set vs"
  by (metis flt_subseq set_nths_subset subseq_conv_nths)

text \<open>When the removal list is a sub-multiset of the keys, the removed and the kept keys together are
  the keys of the input.\<close>

lemma flt_partition:
  assumes "flt removed vs key = Ok out" and "mset removed \<subseteq># mset (map key vs)"
  shows "mset (map key vs) = mset (map key out) + mset removed"
  using flt_keys [OF assms(1)] assms(2) by (simp only: subset_mset.diff_add)

end

interpretation fv: removal_filter "filter_values (t :: 'w::len itself)" for t
proof
  fix removed :: "'k list" and vs out :: "'v list" and key
  assume ok: "filter_values t removed vs key = Ok out"
  then have out: "out = remove_each key removed vs" by (rule filter_values_Ok_remove_each)
  show "mset (map key out) = mset (map key vs) - mset removed"
    by (simp only: out mset_remove_each)
  show "subseq out vs" by (simp only: out subseq_remove_each)
next
  fix vs :: "'v list" and key :: "'v \<Rightarrow> 'k"
  show "filter_values t [] vs key = Ok vs" by simp
qed

section \<open>Properties\<close>

text \<open>C7: \<open>filter_values\<close> does not overflow and is equivalent to its reference definition. For every
  removal list shorter than the range of \<open>usize\<close> the counting map and the decrementing filter
  return \<open>Ok\<close> of the list in which, for each removed key in turn, the first value with that key has
  been removed.\<close>

theorem filter_values_equiv:
  assumes "length removed < 2 ^ LENGTH('w::len)"
  shows "filter_values TYPE('w) removed values key =
           Ok (foldl (\<lambda>vs k. remove_first key vs k) values removed)"
  using filter_values_defined [OF assms, of "TYPE('w)" "values" key] unfolding remove_each_def .

theorem filter_values_equiv_witness:
  "filter_values TYPE(32) [7, 8, 7] [7, 1, 8, 8, 9, 7, 7 :: nat] (\<lambda>x. x) = Ok [1, 8, 9, 7 :: nat]"
  using filter_values_equiv [where 'w = 32, of "[7, 8, 7 :: nat]" "[7, 1, 8, 8, 9, 7, 7]" "\<lambda>x. x"]
  by simp

text \<open>the values that survive the filter. Whatever list is returned keeps the order of the input,
  and every key survives exactly as often as it occurs in the input more than in the removal list.\<close>

lemma filter_values_survivors:
  assumes "filter_values (t :: 'w::len itself) removed values key = Ok out"
  shows "subseq out values \<and>
    (\<forall>k. count_list (map key out) k = count_list (map key values) k - count_list removed k)"
  using fv.flt_subseq [OF assms] fv.flt_count [OF assms] by simp

lemma filter_values_survivors_witness:
  "subseq [1, 7] [7, 1, 7 :: nat] \<and>
    (\<forall>k. count_list (map (\<lambda>x. x) [1, 7]) k =
       count_list (map (\<lambda>x. x) [7, 1, 7 :: nat]) k - count_list [7, 4] k)"
  by (rule filter_values_survivors [where t = "TYPE(64)"]) (simp add: filter_values_def checked_add_def)

end
