(* ===== verification/Hash_Chain.thy ===== *)
theory Hash_Chain
  imports Static_Call
begin

text \<open>
  \<open>validate_hash_chain\<close> of \<open>crates/aggchain-proof-core/src/bridge/mod.rs\<close>: the chain of
  hashes the L2 contracts keep is rebuilt from the previous value and the new elements and compared
  with the new value.

  Keccak is a parameter, so the binding of a chain to its elements is stated as an explicit
  reduction: \<open>chain_collision\<close> computes, from two different lists of the same length that the
  check accepts between the same two chain values, two different inputs of
  \<open>keccak256_combine\<close> with the same hash.
\<close>

section \<open>Operations\<close>

definition rebuild_hash_chain :: "'sig prims \<Rightarrow> digest \<Rightarrow> digest list \<Rightarrow> digest" where
  "rebuild_hash_chain P prev_hash_chain hashes =
     foldl (\<lambda>acc hash. keccak256_combine P [acc, hash]) prev_hash_chain hashes"

text \<open>The receiver of the method is only read for log output.\<close>

definition validate_hash_chain ::
  "'sig prims \<Rightarrow> digest list \<Rightarrow> digest \<Rightarrow> digest \<Rightarrow> hash_chain_type \<Rightarrow>
   (unit, bridge_constraints_error) result" where
  "validate_hash_chain P hashes prev_hash_chain new_hash_chain hash_chain_type =
     (let rebuilt_hash_chain = rebuild_hash_chain P prev_hash_chain hashes
      in if rebuilt_hash_chain \<noteq> new_hash_chain
         then Err (MismatchHashChain prev_hash_chain rebuilt_hash_chain new_hash_chain hash_chain_type)
         else Ok ())"

lemma validate_hash_chain_eq_Ok:
  "validate_hash_chain P hs prev new ty = Ok () \<longleftrightarrow> rebuild_hash_chain P prev hs = new"
  by (simp add: validate_hash_chain_def Let_def)

lemma validate_hash_chain_not_Panic [simp]: "validate_hash_chain P hs prev new ty \<noteq> Panic p"
  by (simp add: validate_hash_chain_def Let_def)

lemma rebuild_hash_chain_Nil [simp]: "rebuild_hash_chain P prev [] = prev"
  by (simp add: rebuild_hash_chain_def)

lemma rebuild_hash_chain_snoc [simp]:
  "rebuild_hash_chain P prev (hs @ [h]) = keccak256_combine P [rebuild_hash_chain P prev hs, h]"
  by (simp add: rebuild_hash_chain_def)

text \<open>A chain can be verified in consecutive pieces: the new value of one certificate is the previous
  value of the next.\<close>

lemma rebuild_hash_chain_append:
  "rebuild_hash_chain P prev (hs @ hs') = rebuild_hash_chain P (rebuild_hash_chain P prev hs) hs'"
  by (simp add: rebuild_hash_chain_def)

section \<open>Binding, by collision extraction\<close>

text \<open>Walk both lists from the end; the first step at which the hashed pairs differ is a collision.\<close>

fun collide_rev ::
  "'sig prims \<Rightarrow> digest \<Rightarrow> digest list \<Rightarrow> digest list \<Rightarrow> (digest list \<times> digest list) option" where
  "collide_rev P a (x # xs) (y # ys) =
     (let u = rebuild_hash_chain P a (rev xs); v = rebuild_hash_chain P a (rev ys)
      in if u = v \<and> x = y then collide_rev P a xs ys else Some ([u, x], [v, y]))"
| "collide_rev P a [] ys = None"
| "collide_rev P a xs [] = None"

definition chain_collision ::
  "'sig prims \<Rightarrow> digest \<Rightarrow> digest list \<Rightarrow> digest list \<Rightarrow> (digest list \<times> digest list) option" where
  "chain_collision P prev xs ys = collide_rev P prev (rev xs) (rev ys)"

text \<open>A pair of inputs of \<open>keccak256_combine\<close> is a collision.\<close>

definition keccak_collision :: "'sig prims \<Rightarrow> (digest list \<times> digest list) \<Rightarrow> bool" where
  "keccak_collision P c \<longleftrightarrow> fst c \<noteq> snd c \<and> keccak256_combine P (fst c) = keccak256_combine P (snd c)"

text \<open>What is left over when one list is longer: a chain of hashes that leads back to where it started.\<close>

definition chain_cycle :: "digest list \<Rightarrow> digest list \<Rightarrow> digest list" where
  "chain_cycle xs ys = take (length xs - length ys) xs @ take (length ys - length xs) ys"

definition chain_bound :: "'sig prims \<Rightarrow> digest \<Rightarrow> digest list \<Rightarrow> digest list \<Rightarrow> bool" where
  "chain_bound P prev xs ys \<longleftrightarrow>
     xs = ys \<or>
     (case chain_collision P prev xs ys of
        Some c \<Rightarrow> keccak_collision P c
      | None \<Rightarrow> chain_cycle xs ys \<noteq> [] \<and> rebuild_hash_chain P prev (chain_cycle xs ys) = prev)"

lemma chain_cycle_snoc: "chain_cycle (xs @ [x]) (ys @ [y]) = chain_cycle xs ys"
  by (simp add: chain_cycle_def)

lemma chain_collision_Nil [simp]:
  "chain_collision P a [] ys = None" "chain_collision P a xs [] = None"
  unfolding chain_collision_def by (simp, cases "rev xs") simp_all

lemma chain_collision_snoc:
  "chain_collision P a (xs @ [x]) (ys @ [y]) =
     (let u = rebuild_hash_chain P a xs; v = rebuild_hash_chain P a ys
      in if u = v \<and> x = y then chain_collision P a xs ys else Some ([u, x], [v, y]))"
  by (simp add: chain_collision_def Let_def)

text \<open>Two lists that rebuild the same value from the same start are equal, or they give a collision,
  or the longer one contains a cycle of the chain.\<close>

lemma rebuild_hash_chain_bound:
  "rebuild_hash_chain P prev xs = rebuild_hash_chain P prev ys \<Longrightarrow> chain_bound P prev xs ys"
proof (induction xs arbitrary: ys rule: rev_induct)
  case Nil
  then show ?case by (auto simp: chain_bound_def chain_cycle_def)
next
  case (snoc x xs)
  show ?case
  proof (cases ys rule: rev_cases)
    case Nil
    with snoc.prems show ?thesis by (simp add: chain_bound_def chain_cycle_def)
  next
    case (snoc ys' y)
    note ys = this
    let ?u = "rebuild_hash_chain P prev xs" and ?v = "rebuild_hash_chain P prev ys'"
    show ?thesis
    proof (cases "?u = ?v \<and> x = y")
      case True
      then have "chain_bound P prev xs ys'" by (intro snoc.IH) simp
      with True show ?thesis
        by (auto simp: chain_bound_def ys chain_collision_snoc chain_cycle_snoc split: option.splits)
    next
      case False
      with snoc.prems show ?thesis
        by (auto simp: chain_bound_def ys chain_collision_snoc Let_def keccak_collision_def)
    qed
  qed
qed

section \<open>Properties\<close>

text \<open>Consecutive certificates compose. The check accepts a concatenation of two lists between
  two chain values exactly when it accepts the first list up to some intermediate value and the second
  one from there on, so verifying block ranges one after the other is the same as verifying their
  union.\<close>

lemma validate_hash_chain_compose:
  "validate_hash_chain P (hs @ hs') a c ty = Ok () \<longleftrightarrow>
     (\<exists>b. validate_hash_chain P hs a b ty = Ok () \<and> validate_hash_chain P hs' b c ty = Ok ())"
  by (simp add: validate_hash_chain_eq_Ok rebuild_hash_chain_append)

text \<open>the hash chain binds its elements. If two lists are both accepted between the same two
  chain values then they are equal, or the extractor \<open>chain_collision\<close> returns two different pairs
  with the same Keccak hash, or the surplus of the longer list is a cycle of the hash chain.\<close>

lemma validate_hash_chain_binding:
  assumes "validate_hash_chain P xs prev new ty = Ok ()"
    and "validate_hash_chain P ys prev new ty' = Ok ()"
  shows "xs = ys \<or>
     (case chain_collision P prev xs ys of
        Some c \<Rightarrow> fst c \<noteq> snd c \<and> keccak256_combine P (fst c) = keccak256_combine P (snd c)
      | None \<Rightarrow> chain_cycle xs ys \<noteq> [] \<and> rebuild_hash_chain P prev (chain_cycle xs ys) = prev)"
proof -
  have "chain_bound P prev xs ys"
    using assms by (intro rebuild_hash_chain_bound) (simp add: validate_hash_chain_eq_Ok)
  then show ?thesis unfolding chain_bound_def keccak_collision_def .
qed

lemma validate_hash_chain_binding_witness:
  "[3, 5] = [4, 2 :: digest] \<or>
     (case chain_collision sample_prims 1 [3, 5] [4, 2] of
        Some c \<Rightarrow> fst c \<noteq> snd c \<and>
          keccak256_combine sample_prims (fst c) = keccak256_combine sample_prims (snd c)
      | None \<Rightarrow> chain_cycle [3, 5] [4, 2] \<noteq> [] \<and>
          rebuild_hash_chain sample_prims 1 (chain_cycle [3, 5] [4, 2]) = 1)"
proof (rule validate_hash_chain_binding)
  show "validate_hash_chain sample_prims [3, 5] 1 39 InsertedGER = Ok ()"
    and "validate_hash_chain sample_prims [4, 2] 1 39 RemovedGER = Ok ()"
    by (simp_all add: validate_hash_chain_def rebuild_hash_chain_def sample_prims_def)
qed

end
