(* ===== verification/Bridge_Constraints.thy ===== *)
theory Bridge_Constraints
  imports Value_Filter Hash_Chain
begin

text \<open>
  The bridge constraints of \<open>crates/aggchain-proof-core/src/bridge/mod.rs\<close> and
  \<open>bridge/inserted_ger.rs\<close>: what the aggchain proof checks of the L2 bridge contracts between two
  L2 blocks.

  The definitions follow the methods of \<open>BridgeConstraintsInput\<close> one by one, with every early
  return. \<open>bridge_constraints_hold\<close> is the abstract specification, without order of checks, maps
  or error values; the refinement lemmas \<open>bridge_verify_sound\<close> and \<open>bridge_verify_complete\<close> say
  that \<open>bridge_verify\<close> accepts exactly the inputs that satisfy it.
\<close>

section \<open>Data\<close>

record inserted_GER =
  ig_proof :: merkle_proof
  ig_l1_info_tree_leaf :: l1_info_tree_leaf
  ig_block_number :: u64
  ig_block_index :: u64

record 'sk bridge_witness =
  bw_inserted_gers :: "inserted_GER list"
  bw_raw_inserted_gers :: "digest list"
  bw_removed_gers :: "digest list"
  bw_bridge_exits_claimed :: "global_index_with_leaf_hash list"
  bw_global_indices_unset :: "u256 list"
  bw_prev_l2_block_sketch :: 'sk
  bw_new_l2_block_sketch :: 'sk
  bw_caller_address :: address

record 'sk bridge_constraints_input =
  bci_ger_addr :: address
  bci_prev_l2_block_hash :: digest
  bci_new_l2_block_hash :: digest
  bci_new_local_exit_root :: digest
  bci_l1_info_root :: digest
  bci_commit_imported_bridge_exits :: digest
  bci_bridge_witness :: "'sk bridge_witness"

section \<open>Inserted GERs\<close>

definition inserted_ger_verify :: "'sig prims \<Rightarrow> inserted_GER \<Rightarrow> digest \<Rightarrow> bool" where
  "inserted_ger_verify P self l1_info_root =
     (if l1_info_root \<noteq> proof_root (ig_proof self) then False
      else merkle_verify P (ig_proof self) (leaf_hash P (ig_l1_info_tree_leaf self))
             (l1_info_tree_index (ig_l1_info_tree_leaf self)))"

definition inserted_ger_ger :: "'sig prims \<Rightarrow> inserted_GER \<Rightarrow> digest" where
  "inserted_ger_ger P self = leaf_ger P (ig_l1_info_tree_leaf self)"

section \<open>The checks\<close>

definition fetch_hash_chains ::
  "'sk evm \<Rightarrow> (byte list \<Rightarrow> ('r, report) result) \<Rightarrow> 'sk bridge_constraints_input \<Rightarrow> hash_chain_type \<Rightarrow>
   address \<Rightarrow> sol_call \<Rightarrow> ('r \<times> 'r, bridge_constraints_error) result" where
  "fetch_hash_chains E dec self hash_chain addr calldata =
     and_then
       (execute E dec
          \<lparr>sc_address = addr, sc_stage = PrevHashChain hash_chain,
           sc_block_hash = bci_prev_l2_block_hash self\<rparr>
          (bw_caller_address (bci_bridge_witness self))
          (bw_prev_l2_block_sketch (bci_bridge_witness self)) calldata) (\<lambda>prev_hash_chain.
     and_then
       (execute E dec
          \<lparr>sc_address = addr, sc_stage = NewHashChain hash_chain,
           sc_block_hash = bci_new_l2_block_hash self\<rparr>
          (bw_caller_address (bci_bridge_witness self))
          (bw_new_l2_block_sketch (bci_bridge_witness self)) calldata) (\<lambda>new_hash_chain.
     Ok (prev_hash_chain, new_hash_chain)))"

definition verify_ger_hash_chains ::
  "'sig prims \<Rightarrow> 'sk evm \<Rightarrow> 'sk bridge_constraints_input \<Rightarrow> (unit, bridge_constraints_error) result" where
  "verify_ger_hash_chains P E self =
     and_then
       (fetch_hash_chains E (decode_bytes32 E) self InsertedGER (bci_ger_addr self)
          InsertedGERHashChainCall) (\<lambda>(prev_hash_chain, new_hash_chain).
     and_then
       (validate_hash_chain P (bw_raw_inserted_gers (bci_bridge_witness self))
          prev_hash_chain new_hash_chain InsertedGER) (\<lambda>_.
     and_then
       (fetch_hash_chains E (decode_bytes32 E) self RemovedGER (bci_ger_addr self)
          RemovedGERHashChainCall) (\<lambda>(prev_hash_chain, new_hash_chain).
     and_then
       (validate_hash_chain P (bw_removed_gers (bci_bridge_witness self))
          prev_hash_chain new_hash_chain RemovedGER) (\<lambda>_.
     Ok ()))))"

definition verify_claims_hash_chains ::
  "'sig prims \<Rightarrow> 'sk evm \<Rightarrow> 'sk bridge_constraints_input \<Rightarrow> address \<Rightarrow>
   (unit, bridge_constraints_error) result" where
  "verify_claims_hash_chains P E self bridge_address =
     and_then
       (fetch_hash_chains E (decode_bytes32 E) self ClaimedGlobalIndex bridge_address
          ClaimedGlobalIndexHashChainCall) (\<lambda>(prev_hash_chain, new_hash_chain).
     let claims = map (claim_commitment P) (bw_bridge_exits_claimed (bci_bridge_witness self)) in
     and_then
       (validate_hash_chain P claims prev_hash_chain new_hash_chain ClaimedGlobalIndex) (\<lambda>_.
     and_then
       (fetch_hash_chains E (decode_bytes32 E) self UnsetGlobalIndex bridge_address
          UnsetGlobalIndexHashChainCall) (\<lambda>(prev_hash_chain, new_hash_chain).
     let unset_claims = map (\<lambda>idx. word_of_nat (of_be_bytes (to_be_bytes_u256 idx)))
           (bw_global_indices_unset (bci_bridge_witness self)) in
     and_then
       (validate_hash_chain P unset_claims prev_hash_chain new_hash_chain UnsetGlobalIndex) (\<lambda>_.
     Ok ()))))"

definition verify_new_ler ::
  "'sk evm \<Rightarrow> 'sk bridge_constraints_input \<Rightarrow> address \<Rightarrow> (unit, bridge_constraints_error) result" where
  "verify_new_ler E self bridge_address =
     and_then
       (execute E (decode_bytes32 E)
          \<lparr>sc_address = bridge_address, sc_stage = NewLer,
           sc_block_hash = bci_new_l2_block_hash self\<rparr>
          (bw_caller_address (bci_bridge_witness self))
          (bw_new_l2_block_sketch (bci_bridge_witness self)) GetRootCall) (\<lambda>new_ler.
     if new_ler \<noteq> bci_new_local_exit_root self
     then Err (MismatchNewLocalExitRoot new_ler (bci_new_local_exit_root self))
     else Ok ())"

definition fetch_bridge_address ::
  "'sk evm \<Rightarrow> 'sk bridge_constraints_input \<Rightarrow> (address, bridge_constraints_error) result" where
  "fetch_bridge_address E self =
     execute E (decode_address E)
       \<lparr>sc_address = bci_ger_addr self, sc_stage = BridgeAddress,
        sc_block_hash = bci_new_l2_block_hash self\<rparr>
       (bw_caller_address (bci_bridge_witness self))
       (bw_new_l2_block_sketch (bci_bridge_witness self)) BridgeAddressCall"

definition IMPORTED_BRIDGE_EXIT_COMMITMENT_VERSION :: commitment_version where
  "IMPORTED_BRIDGE_EXIT_COMMITMENT_VERSION = V3"

definition verify_constrained_global_indices ::
  "'w::len itself \<Rightarrow> 'sig prims \<Rightarrow> 'sk bridge_constraints_input \<Rightarrow>
   (unit, bridge_constraints_error) result" where
  "verify_constrained_global_indices usize P self =
     and_then
       (filter_values usize (bw_global_indices_unset (bci_bridge_witness self))
          (bw_bridge_exits_claimed (bci_bridge_witness self)) global_index) (\<lambda>claims.
     let computed_commitment = ibe_commitment P claims IMPORTED_BRIDGE_EXIT_COMMITMENT_VERSION
     in if computed_commitment \<noteq> bci_commit_imported_bridge_exits self
        then Err (MismatchConstrainedBridgeExits computed_commitment
                   (bci_commit_imported_bridge_exits self))
        else Ok ())"

definition verify_inserted_gers ::
  "'w::len itself \<Rightarrow> 'sig prims \<Rightarrow> 'sk bridge_constraints_input \<Rightarrow>
   (unit, bridge_constraints_error) result" where
  "verify_inserted_gers usize P self =
     (let w = bci_bridge_witness self in
      and_then (filter_values usize (bw_removed_gers w) (bw_raw_inserted_gers w) (\<lambda>x. x))
        (\<lambda>filtered_hash_chain_gers.
           let inserted_gers_compare = map (inserted_ger_ger P) (bw_inserted_gers w)
           in if filtered_hash_chain_gers \<noteq> inserted_gers_compare
              then Err (MismatchConstrainedInsertedGers filtered_hash_chain_gers inserted_gers_compare)
              else
                (case find (\<lambda>ger. \<not> inserted_ger_verify P ger (bci_l1_info_root self))
                        (bw_inserted_gers w) of
                   Some wrong_ger \<Rightarrow>
                     Err (InvalidMerklePathGERToL1Root (inserted_ger_ger P wrong_ger)
                            (l1_info_tree_index (ig_l1_info_tree_leaf wrong_ger))
                            (bci_l1_info_root self))
                 | None \<Rightarrow> Ok ())))"

text \<open>\<open>BridgeConstraintsInput::verify\<close>.\<close>

definition bridge_verify ::
  "'w::len itself \<Rightarrow> 'sig prims \<Rightarrow> 'sk evm \<Rightarrow> 'sk bridge_constraints_input \<Rightarrow>
   (unit, bridge_constraints_error) result" where
  "bridge_verify usize P E self =
     and_then (verify_ger_hash_chains P E self) (\<lambda>_.
     and_then (fetch_bridge_address E self) (\<lambda>bridge_address.
     and_then (verify_claims_hash_chains P E self bridge_address) (\<lambda>_.
     and_then (verify_new_ler E self bridge_address) (\<lambda>_.
     and_then (verify_constrained_global_indices usize P self) (\<lambda>_.
     verify_inserted_gers usize P self)))))"

section \<open>Specification\<close>

text \<open>The values contract calls return at the previous and at the new L2 block of an input.\<close>

definition prev_call ::
  "'sk evm \<Rightarrow> 'sk bridge_constraints_input \<Rightarrow> (byte list \<Rightarrow> ('r, report) result) \<Rightarrow> address \<Rightarrow>
   sol_call \<Rightarrow> 'r \<Rightarrow> bool" where
  "prev_call E i dec a c r \<longleftrightarrow>
     static_call_value E dec (bw_prev_l2_block_sketch (bci_bridge_witness i)) (bci_prev_l2_block_hash i)
       \<lparr>ci_contract_address = a, ci_caller_address = bw_caller_address (bci_bridge_witness i),
        ci_calldata = c\<rparr> r"

definition new_call ::
  "'sk evm \<Rightarrow> 'sk bridge_constraints_input \<Rightarrow> (byte list \<Rightarrow> ('r, report) result) \<Rightarrow> address \<Rightarrow>
   sol_call \<Rightarrow> 'r \<Rightarrow> bool" where
  "new_call E i dec a c r \<longleftrightarrow>
     static_call_value E dec (bw_new_l2_block_sketch (bci_bridge_witness i)) (bci_new_l2_block_hash i)
       \<lparr>ci_contract_address = a, ci_caller_address = bw_caller_address (bci_bridge_witness i),
        ci_calldata = c\<rparr> r"

text \<open>A hash chain of a contract grows from the previous to the new block by exactly the elements.\<close>

definition chain_extended ::
  "'sig prims \<Rightarrow> 'sk evm \<Rightarrow> 'sk bridge_constraints_input \<Rightarrow> address \<Rightarrow> sol_call \<Rightarrow> digest list \<Rightarrow> bool" where
  "chain_extended P E i a c elems \<longleftrightarrow>
     (\<exists>prev. prev_call E i (decode_bytes32 E) a c prev \<and>
        new_call E i (decode_bytes32 E) a c (rebuild_hash_chain P prev elems))"

text \<open>What an accepted input satisfies.\<close>

definition bridge_constraints_hold ::
  "'sig prims \<Rightarrow> 'sk evm \<Rightarrow> 'sk bridge_constraints_input \<Rightarrow> bool" where
  "bridge_constraints_hold P E i \<longleftrightarrow>
     (let w = bci_bridge_witness i in
      chain_extended P E i (bci_ger_addr i) InsertedGERHashChainCall (bw_raw_inserted_gers w) \<and>
      chain_extended P E i (bci_ger_addr i) RemovedGERHashChainCall (bw_removed_gers w) \<and>
      (\<exists>bridge_address.
         new_call E i (decode_address E) (bci_ger_addr i) BridgeAddressCall bridge_address \<and>
         chain_extended P E i bridge_address ClaimedGlobalIndexHashChainCall
           (map (claim_commitment P) (bw_bridge_exits_claimed w)) \<and>
         chain_extended P E i bridge_address UnsetGlobalIndexHashChainCall
           (bw_global_indices_unset w) \<and>
         new_call E i (decode_bytes32 E) bridge_address GetRootCall (bci_new_local_exit_root i)) \<and>
      ibe_commitment P (remove_each global_index (bw_global_indices_unset w) (bw_bridge_exits_claimed w))
        IMPORTED_BRIDGE_EXIT_COMMITMENT_VERSION = bci_commit_imported_bridge_exits i \<and>
      remove_each (\<lambda>x. x) (bw_removed_gers w) (bw_raw_inserted_gers w) =
        map (inserted_ger_ger P) (bw_inserted_gers w) \<and>
      (\<forall>g\<in>set (bw_inserted_gers w). inserted_ger_verify P g (bci_l1_info_root i)))"

section \<open>Refinement\<close>

lemma fetch_hash_chains_eq_Ok:
  "fetch_hash_chains E dec i t a c = Ok (p, n) \<longleftrightarrow> prev_call E i dec a c p \<and> new_call E i dec a c n"
  by (simp add: fetch_hash_chains_def prev_call_def new_call_def result_simps execute_eq_Ok)

lemma fetch_validate_eq_Ok:
  "and_then (fetch_hash_chains E (decode_bytes32 E) i t a c)
     (\<lambda>(p, n). and_then (validate_hash_chain P hs p n t) f) = Ok r \<longleftrightarrow>
   chain_extended P E i a c hs \<and> f () = Ok r"
proof (cases "fetch_hash_chains E (decode_bytes32 E) i t a c")
  case (Ok v)
  obtain p n where v: "v = (p, n)" by (cases v)
  have calls: "prev_call E i (decode_bytes32 E) a c p" "new_call E i (decode_bytes32 E) a c n"
    using Ok unfolding v fetch_hash_chains_eq_Ok by simp_all
  have "chain_extended P E i a c hs \<longleftrightarrow> rebuild_hash_chain P p hs = n"
    unfolding chain_extended_def using calls
    by (metis new_call_def prev_call_def static_call_value_unique)
  then show ?thesis
    using Ok v by (simp add: result_simps validate_hash_chain_eq_Ok)
next
  case (Err e)
  then have "\<not> chain_extended P E i a c hs"
    unfolding chain_extended_def by (metis fetch_hash_chains_eq_Ok result.distinct(1))
  with Err show ?thesis by simp
next
  case (Panic p)
  then have "\<not> chain_extended P E i a c hs"
    unfolding chain_extended_def by (metis fetch_hash_chains_eq_Ok result.distinct(3))
  with Panic show ?thesis by simp
qed

lemma verify_ger_hash_chains_eq_Ok:
  "verify_ger_hash_chains P E i = Ok () \<longleftrightarrow>
     chain_extended P E i (bci_ger_addr i) InsertedGERHashChainCall
       (bw_raw_inserted_gers (bci_bridge_witness i)) \<and>
     chain_extended P E i (bci_ger_addr i) RemovedGERHashChainCall
       (bw_removed_gers (bci_bridge_witness i))"
  unfolding verify_ger_hash_chains_def by (simp add: fetch_validate_eq_Ok del: and_then_Ok_right)

lemma u256_digest: "word_of_nat (of_be_bytes (to_be_bytes_u256 idx)) = (idx :: u256)"
  by (rule word_of_be_bytes_roundtrip) simp

lemma verify_claims_hash_chains_eq_Ok:
  "verify_claims_hash_chains P E i b = Ok () \<longleftrightarrow>
     chain_extended P E i b ClaimedGlobalIndexHashChainCall
       (map (claim_commitment P) (bw_bridge_exits_claimed (bci_bridge_witness i))) \<and>
     chain_extended P E i b UnsetGlobalIndexHashChainCall
       (bw_global_indices_unset (bci_bridge_witness i))"
  unfolding verify_claims_hash_chains_def Let_def u256_digest
  by (simp add: fetch_validate_eq_Ok del: and_then_Ok_right)

lemma verify_new_ler_eq_Ok:
  "verify_new_ler E i b = Ok () \<longleftrightarrow>
     new_call E i (decode_bytes32 E) b GetRootCall (bci_new_local_exit_root i)"
  unfolding verify_new_ler_def new_call_def
  by (simp add: result_simps execute_eq_Ok)

lemma fetch_bridge_address_eq_Ok:
  "fetch_bridge_address E i = Ok b \<longleftrightarrow>
     new_call E i (decode_address E) (bci_ger_addr i) BridgeAddressCall b"
  by (simp add: fetch_bridge_address_def new_call_def execute_eq_Ok)

lemma verify_constrained_global_indices_eq_Ok:
  "verify_constrained_global_indices t P i = Ok () \<longleftrightarrow>
     (\<exists>claims. filter_values t (bw_global_indices_unset (bci_bridge_witness i))
         (bw_bridge_exits_claimed (bci_bridge_witness i)) global_index = Ok claims \<and>
        ibe_commitment P claims IMPORTED_BRIDGE_EXIT_COMMITMENT_VERSION =
          bci_commit_imported_bridge_exits i)"
  unfolding verify_constrained_global_indices_def Let_def and_then_eq_Ok by (auto split: if_splits)

lemma verify_inserted_gers_eq_Ok:
  "verify_inserted_gers t P i = Ok () \<longleftrightarrow>
     filter_values t (bw_removed_gers (bci_bridge_witness i)) (bw_raw_inserted_gers (bci_bridge_witness i))
       (\<lambda>x. x) = Ok (map (inserted_ger_ger P) (bw_inserted_gers (bci_bridge_witness i))) \<and>
     (\<forall>g\<in>set (bw_inserted_gers (bci_bridge_witness i)). inserted_ger_verify P g (bci_l1_info_root i))"
  unfolding verify_inserted_gers_def Let_def and_then_eq_Ok
  by (auto simp: find_None_iff find_Some_iff split: option.splits if_splits)

lemmas bridge_checks_eq_Ok =
  verify_ger_hash_chains_eq_Ok fetch_bridge_address_eq_Ok verify_claims_hash_chains_eq_Ok
  verify_new_ler_eq_Ok verify_constrained_global_indices_eq_Ok verify_inserted_gers_eq_Ok

lemma bridge_verify_eq_Ok:
  "bridge_verify t P E i = Ok () \<longleftrightarrow>
     verify_ger_hash_chains P E i = Ok () \<and>
     (\<exists>b. fetch_bridge_address E i = Ok b \<and> verify_claims_hash_chains P E i b = Ok () \<and>
        verify_new_ler E i b = Ok ()) \<and>
     verify_constrained_global_indices t P i = Ok () \<and>
     verify_inserted_gers t P i = Ok ()"
  unfolding bridge_verify_def and_then_eq_Ok by auto

lemma bridge_verify_sound:
  assumes "bridge_verify t P E i = Ok ()"
  shows "bridge_constraints_hold P E i"
  using assms unfolding bridge_verify_eq_Ok bridge_checks_eq_Ok bridge_constraints_hold_def Let_def
  by (metis filter_values_Ok_remove_each)

text \<open>The removal lists of an input fit the address space of the machine that verifies it; every
  Rust slice does.\<close>

definition removals_fit :: "'w::len itself \<Rightarrow> 'sk bridge_constraints_input \<Rightarrow> bool" where
  "removals_fit usize i \<longleftrightarrow>
     length (bw_global_indices_unset (bci_bridge_witness i)) < 2 ^ LENGTH('w) \<and>
     length (bw_removed_gers (bci_bridge_witness i)) < 2 ^ LENGTH('w)"

lemma bridge_verify_complete:
  assumes "bridge_constraints_hold P E i" and "removals_fit (t :: 'w::len itself) i"
  shows "bridge_verify t P E i = Ok ()"
proof -
  have "length (bw_global_indices_unset (bci_bridge_witness i)) < 2 ^ LENGTH('w)"
    and "length (bw_removed_gers (bci_bridge_witness i)) < 2 ^ LENGTH('w)"
    using assms(2) by (simp_all add: removals_fit_def)
  note fit = this [THEN filter_values_defined, of t]
  show ?thesis
    using assms(1) unfolding bridge_verify_eq_Ok bridge_checks_eq_Ok bridge_constraints_hold_def Let_def
    by (simp add: fit)
qed

section \<open>Binding to the two blocks\<close>

text \<open>Two inputs that talk about the same two blocks and the same contracts.\<close>

definition same_blocks :: "'sk bridge_constraints_input \<Rightarrow> 'sk bridge_constraints_input \<Rightarrow> bool" where
  "same_blocks i j \<longleftrightarrow>
     bci_ger_addr i = bci_ger_addr j \<and>
     bci_prev_l2_block_hash i = bci_prev_l2_block_hash j \<and>
     bci_new_l2_block_hash i = bci_new_l2_block_hash j \<and>
     bw_caller_address (bci_bridge_witness i) = bw_caller_address (bci_bridge_witness j)"

lemma new_call_same_blocks:
  "evm_anchored E \<Longrightarrow> same_blocks i j \<Longrightarrow> new_call E i dec a c r \<Longrightarrow> new_call E j dec a c s \<Longrightarrow> r = s"
  unfolding new_call_def same_blocks_def by (metis static_call_value_anchored)

lemma prev_call_same_blocks:
  "evm_anchored E \<Longrightarrow> same_blocks i j \<Longrightarrow> prev_call E i dec a c r \<Longrightarrow> prev_call E j dec a c s \<Longrightarrow> r = s"
  unfolding prev_call_def same_blocks_def by (metis static_call_value_anchored)

text \<open>The two lists of elements are bound at the chain value of the previous block.\<close>

definition chain_bound_at ::
  "'sig prims \<Rightarrow> 'sk evm \<Rightarrow> 'sk bridge_constraints_input \<Rightarrow> address \<Rightarrow> sol_call \<Rightarrow>
   digest list \<Rightarrow> digest list \<Rightarrow> bool" where
  "chain_bound_at P E i a c xs ys \<longleftrightarrow>
     (\<exists>prev. prev_call E i (decode_bytes32 E) a c prev \<and> chain_bound P prev xs ys)"

lemma chain_extended_bound:
  assumes "evm_anchored E" and "same_blocks i j"
    and "chain_extended P E i a c xs" and "chain_extended P E j a c ys"
  shows "chain_bound_at P E i a c xs ys"
proof -
  obtain p where p: "prev_call E i (decode_bytes32 E) a c p"
      "new_call E i (decode_bytes32 E) a c (rebuild_hash_chain P p xs)"
    using assms(3) unfolding chain_extended_def by blast
  obtain q where q: "prev_call E j (decode_bytes32 E) a c q"
      "new_call E j (decode_bytes32 E) a c (rebuild_hash_chain P q ys)"
    using assms(4) unfolding chain_extended_def by blast
  have "p = q" by (rule prev_call_same_blocks [OF assms(1,2) p(1) q(1)])
  moreover have "rebuild_hash_chain P p xs = rebuild_hash_chain P q ys"
    by (rule new_call_same_blocks [OF assms(1,2) p(2) q(2)])
  ultimately show ?thesis
    using p(1) unfolding chain_bound_at_def by (metis rebuild_hash_chain_bound)
qed

section \<open>Panics\<close>

lemma filter_values_not_Panic: "filter_values t removed values key \<noteq> Panic p"
proof -
  have "count_removals m removed \<noteq> Panic p" for m :: "'k \<rightharpoonup> 'w::len word" and removed
    by (induction removed arbitrary: m) (auto simp: result_simps)
  then show ?thesis by (simp add: filter_values_def result_simps)
qed

text \<open>The only error of the filter is the overflow of a count.\<close>

lemma count_removals_eq_Err: "count_removals m removed = Err e \<Longrightarrow> e = HashChainOverflow"
  by (induction removed arbitrary: m) (auto simp: result_simps)

lemma filter_values_not_merkle_error:
  "filter_values t removed values key \<noteq> Err (InvalidMerklePathGERToL1Root g idx root)"
  by (auto simp: filter_values_def result_simps dest: count_removals_eq_Err)

lemma fetch_hash_chains_not_Panic:
  assumes "evm_no_panic E"
  shows "fetch_hash_chains E (decode_bytes32 E) i t a c \<noteq> Panic p"
proof -
  have "execute E (decode_bytes32 E) self caller sk call \<noteq> Panic p" for self caller sk call
    using assms by (intro execute_not_Panic) (auto simp: evm_no_panic_def)
  then show ?thesis by (simp add: fetch_hash_chains_def result_simps)
qed

lemma bridge_verify_not_Panic:
  assumes "evm_no_panic E"
  shows "bridge_verify t P E i \<noteq> Panic p"
proof -
  have dec32: "decode_bytes32 E bs \<noteq> Panic q" and dec20: "decode_address E bs \<noteq> Panic q" for bs q
    using assms by (auto simp: evm_no_panic_def)
  note fetch = fetch_hash_chains_not_Panic [OF assms]
  note exec32 = execute_not_Panic [OF assms dec32] and exec20 = execute_not_Panic [OF assms dec20]
  have "verify_ger_hash_chains P E i \<noteq> Panic p"
    unfolding verify_ger_hash_chains_def by (auto simp: result_simps fetch)
  moreover have "fetch_bridge_address E i \<noteq> Panic p"
    unfolding fetch_bridge_address_def by (rule exec20)
  moreover have "verify_claims_hash_chains P E i b \<noteq> Panic p" for b
    unfolding verify_claims_hash_chains_def Let_def by (auto simp: result_simps fetch)
  moreover have "verify_new_ler E i b \<noteq> Panic p" for b
    unfolding verify_new_ler_def by (simp add: result_simps exec32)
  moreover have "verify_constrained_global_indices t P i \<noteq> Panic p"
    unfolding verify_constrained_global_indices_def Let_def
    by (simp add: result_simps filter_values_not_Panic)
  moreover have "verify_inserted_gers t P i \<noteq> Panic p"
    unfolding verify_inserted_gers_def Let_def
    by (simp add: result_simps filter_values_not_Panic split: option.splits)
  ultimately show ?thesis unfolding bridge_verify_def by (simp add: result_simps)
qed

section \<open>A concrete input\<close>

definition sample_table :: call_table where
  "sample_table =
     [(100, 10, InsertedGERHashChainCall, 0), (200, 10, InsertedGERHashChainCall, 146),
      (100, 10, RemovedGERHashChainCall, 0), (200, 10, RemovedGERHashChainCall, 11),
      (200, 10, BridgeAddressCall, 20),
      (100, 20, ClaimedGlobalIndexHashChainCall, 0), (200, 20, ClaimedGlobalIndexHashChainCall, 168),
      (100, 20, UnsetGlobalIndexHashChainCall, 0), (200, 20, UnsetGlobalIndexHashChainCall, 5),
      (200, 20, GetRootCall, 99)]"

definition sample_leaf :: "digest \<Rightarrow> u32 \<Rightarrow> inserted_GER" where
  "sample_leaf g idx =
     \<lparr>ig_proof = \<lparr>proof_root = 50, proof_siblings = []\<rparr>,
      ig_l1_info_tree_leaf = \<lparr>l1_info_tree_index = idx, rer = 0, mer = 0,
        inner = \<lparr>global_exit_root = g, block_hash = 40, timestamp = 0\<rparr>\<rparr>,
      ig_block_number = 5, ig_block_index = 0\<rparr>"

definition sample_witness :: "digest bridge_witness" where
  "sample_witness = \<lparr>
     bw_inserted_gers = [sample_leaf 8 2, sample_leaf 7 3],
     bw_raw_inserted_gers = [7, 8, 7],
     bw_removed_gers = [7],
     bw_bridge_exits_claimed =
       [\<lparr>global_index = 1, bridge_exit_hash = 5\<rparr>, \<lparr>global_index = 2, bridge_exit_hash = 6\<rparr>],
     bw_global_indices_unset = [1],
     bw_prev_l2_block_sketch = 100,
     bw_new_l2_block_sketch = 200,
     bw_caller_address = 0\<rparr>"

definition sample_input :: "digest bridge_constraints_input" where
  "sample_input = \<lparr>
     bci_ger_addr = 10,
     bci_prev_l2_block_hash = 100,
     bci_new_l2_block_hash = 200,
     bci_new_local_exit_root = 99,
     bci_l1_info_root = 50,
     bci_commit_imported_bridge_exits = 16,
     bci_bridge_witness = sample_witness\<rparr>"

lemmas bridge_sample_defs =
  sample_evm_def sample_table_def sample_input_def sample_witness_def sample_prims_def sample_leaf_def

lemmas bridge_verify_defs =
  bridge_verify_def verify_ger_hash_chains_def fetch_hash_chains_def execute_def execute_helper_def
  static_call_error_at_def validate_hash_chain_def rebuild_hash_chain_def fetch_bridge_address_def
  verify_claims_hash_chains_def verify_new_ler_def verify_constrained_global_indices_def
  filter_values_def checked_add_def verify_inserted_gers_def inserted_ger_ger_def
  inserted_ger_verify_def Let_def

lemma sample_input_verified:
  "bridge_verify TYPE(32) sample_prims (sample_evm sample_table) sample_input = Ok ()"
  by (simp add: bridge_sample_defs bridge_verify_defs)

lemma sample_lookup_not_Panic: "sample_lookup tbl sk ci \<noteq> Panic p"
  by (induction tbl) (auto split: if_splits)

lemma sample_evm_no_panic: "evm_no_panic (sample_evm tbl)"
  by (simp add: evm_no_panic_def sample_evm_def sample_lookup_not_Panic)

section \<open>Properties\<close>

text \<open>C3: \<open>BridgeConstraintsInput::verify\<close> refines the abstract specification of the bridge
  constraints. On inputs whose removal lists fit the address space it accepts exactly those for which
  the inserted and removed GER chains and the claimed and unset index chains of the contracts grow from
  the previous to the new block by the witness lists, the new local exit root is the root of the bridge
  contract the GER contract names, the commitment to the claims left after the unset ones are removed is
  the public one, and the GERs left after the removed ones are taken away are, in order, those of the
  inclusion proofs, each of which verifies against the L1 info root.\<close>

theorem bridge_verify_refines:
  assumes "removals_fit (t :: 'w::len itself) i"
  shows "bridge_verify t P E i = Ok () \<longleftrightarrow> bridge_constraints_hold P E i"
  using assms bridge_verify_sound bridge_verify_complete by blast

theorem bridge_verify_refines_witness:
  "bridge_constraints_hold sample_prims (sample_evm sample_table) sample_input"
proof -
  have "removals_fit TYPE(32) sample_input"
    by (simp add: removals_fit_def sample_input_def sample_witness_def)
  from bridge_verify_refines [OF this] sample_input_verified show ?thesis by blast
qed

text \<open>C4: an accepted input is bound to its two blocks. When two inputs over the same pair of L2 block
  hashes, the same GER contract and the same caller are both accepted, then their lists of inserted
  GERs, removed GERs, claim commitments and unset indices are each equal or give an explicit Keccak
  collision or a cycle of the hash chain, and their new local exit roots are equal. The executor is
  assumed to answer calls from the state of the anchor block.\<close>

theorem bridge_verify_binding:
  assumes "evm_anchored E" and "same_blocks i j"
    and "bridge_verify t P E i = Ok ()" and "bridge_verify t' P E j = Ok ()"
  shows "\<exists>bridge_address.
     chain_bound_at P E i (bci_ger_addr i) InsertedGERHashChainCall
       (bw_raw_inserted_gers (bci_bridge_witness i)) (bw_raw_inserted_gers (bci_bridge_witness j)) \<and>
     chain_bound_at P E i (bci_ger_addr i) RemovedGERHashChainCall
       (bw_removed_gers (bci_bridge_witness i)) (bw_removed_gers (bci_bridge_witness j)) \<and>
     chain_bound_at P E i bridge_address ClaimedGlobalIndexHashChainCall
       (map (claim_commitment P) (bw_bridge_exits_claimed (bci_bridge_witness i)))
       (map (claim_commitment P) (bw_bridge_exits_claimed (bci_bridge_witness j))) \<and>
     chain_bound_at P E i bridge_address UnsetGlobalIndexHashChainCall
       (bw_global_indices_unset (bci_bridge_witness i)) (bw_global_indices_unset (bci_bridge_witness j)) \<and>
     bci_new_local_exit_root i = bci_new_local_exit_root j"
proof -
  have addr: "bci_ger_addr j = bci_ger_addr i" using assms(2) by (simp add: same_blocks_def)
  note specs = assms(3,4) [THEN bridge_verify_sound, unfolded bridge_constraints_hold_def Let_def addr]
  note bound = chain_extended_bound [OF assms(1,2)]
  from specs obtain b b' where
    i: "new_call E i (decode_address E) (bci_ger_addr i) BridgeAddressCall b"
      "chain_extended P E i b ClaimedGlobalIndexHashChainCall
         (map (claim_commitment P) (bw_bridge_exits_claimed (bci_bridge_witness i)))"
      "chain_extended P E i b UnsetGlobalIndexHashChainCall (bw_global_indices_unset (bci_bridge_witness i))"
      "new_call E i (decode_bytes32 E) b GetRootCall (bci_new_local_exit_root i)" and
    j: "new_call E j (decode_address E) (bci_ger_addr i) BridgeAddressCall b'"
      "chain_extended P E j b' ClaimedGlobalIndexHashChainCall
         (map (claim_commitment P) (bw_bridge_exits_claimed (bci_bridge_witness j)))"
      "chain_extended P E j b' UnsetGlobalIndexHashChainCall (bw_global_indices_unset (bci_bridge_witness j))"
      "new_call E j (decode_bytes32 E) b' GetRootCall (bci_new_local_exit_root j)"
    by blast
  have b: "b' = b" using new_call_same_blocks [OF assms(1,2) i(1) j(1)] by simp
  have "bci_new_local_exit_root i = bci_new_local_exit_root j"
    by (rule new_call_same_blocks [OF assms(1,2) i(4) j(4) [unfolded b]])
  with specs bound [OF i(2) j(2) [unfolded b]] bound [OF i(3) j(3) [unfolded b]] bound
  show ?thesis by blast
qed

theorem bridge_verify_binding_witness:
  "\<exists>bridge_address.
     chain_bound_at sample_prims (sample_evm sample_table) sample_input 10 InsertedGERHashChainCall
       [7, 8, 7] [7, 8, 7] \<and>
     chain_bound_at sample_prims (sample_evm sample_table) sample_input 10 RemovedGERHashChainCall
       [7] [7] \<and>
     chain_bound_at sample_prims (sample_evm sample_table) sample_input bridge_address
       ClaimedGlobalIndexHashChainCall [36, 44] [36, 44] \<and>
     chain_bound_at sample_prims (sample_evm sample_table) sample_input bridge_address
       UnsetGlobalIndexHashChainCall [1] [1] \<and>
     bci_new_local_exit_root sample_input = bci_new_local_exit_root sample_input"
proof -
  have parts: "bci_ger_addr sample_input = 10"
    "bw_raw_inserted_gers (bci_bridge_witness sample_input) = [7, 8, 7]"
    "bw_removed_gers (bci_bridge_witness sample_input) = [7]"
    "map (claim_commitment sample_prims) (bw_bridge_exits_claimed (bci_bridge_witness sample_input)) = [36, 44]"
    "bw_global_indices_unset (bci_bridge_witness sample_input) = [1]"
    by (simp_all add: sample_input_def sample_witness_def sample_prims_def)
  have "same_blocks sample_input sample_input" by (simp add: same_blocks_def)
  from bridge_verify_binding [OF sample_evm_anchored this sample_input_verified sample_input_verified]
  show ?thesis unfolding parts .
qed

text \<open>the verification reports its failures as errors. With an executor that does not unwind, every
  input gives \<open>Ok\<close> or an error value; no input of the prover can make \<open>verify\<close> panic.\<close>

lemma bridge_verify_total:
  assumes "evm_no_panic E"
  shows "bridge_verify t P E i = Ok () \<or> (\<exists>e. bridge_verify t P E i = Err e)"
  using bridge_verify_not_Panic [OF assms, of t P i] by (cases "bridge_verify t P E i") auto

lemma bridge_verify_total_witness:
  "bridge_verify TYPE(32) sample_prims (sample_evm []) sample_input = Ok () \<or>
   (\<exists>e. bridge_verify TYPE(32) sample_prims (sample_evm []) sample_input = Err e)"
  by (rule bridge_verify_total [OF sample_evm_no_panic])

text \<open>the reported GER is the first one whose inclusion proof fails. When \<open>verify_inserted_gers\<close>
  returns the Merkle path error, the error carries the GER and the leaf index of an inserted GER that
  does not verify against the L1 info root, all the GERs before it verify, and the filtered hash-chain
  GERs did match the inclusion proofs.\<close>

lemma verify_inserted_gers_first_invalid:
  assumes "verify_inserted_gers t P i = Err (InvalidMerklePathGERToL1Root g idx root)"
  shows "\<exists>pre w post. bw_inserted_gers (bci_bridge_witness i) = pre @ w # post \<and>
     (\<forall>x\<in>set pre. inserted_ger_verify P x (bci_l1_info_root i)) \<and>
     \<not> inserted_ger_verify P w (bci_l1_info_root i) \<and>
     g = inserted_ger_ger P w \<and> idx = l1_info_tree_index (ig_l1_info_tree_leaf w) \<and>
     root = bci_l1_info_root i \<and>
     remove_each (\<lambda>x. x) (bw_removed_gers (bci_bridge_witness i))
       (bw_raw_inserted_gers (bci_bridge_witness i)) =
       map (inserted_ger_ger P) (bw_inserted_gers (bci_bridge_witness i))"
proof -
  let ?gs = "bw_inserted_gers (bci_bridge_witness i)"
  let ?bad = "\<lambda>x. \<not> inserted_ger_verify P x (bci_l1_info_root i)"
  have no_overflow: "filter_values t (bw_removed_gers (bci_bridge_witness i))
      (bw_raw_inserted_gers (bci_bridge_witness i)) (\<lambda>x. x) \<noteq>
      Err (InvalidMerklePathGERToL1Root g idx root)"
    by (rule filter_values_not_merkle_error)
  with assms obtain out w where
    out: "filter_values t (bw_removed_gers (bci_bridge_witness i))
      (bw_raw_inserted_gers (bci_bridge_witness i)) (\<lambda>x. x) = Ok out"
    and eq: "out = map (inserted_ger_ger P) ?gs" and w: "find ?bad ?gs = Some w"
    and err: "g = inserted_ger_ger P w" "idx = l1_info_tree_index (ig_l1_info_tree_leaf w)"
      "root = bci_l1_info_root i"
    unfolding verify_inserted_gers_def Let_def and_then_eq_Err
    by (auto split: if_splits option.splits)
  obtain pre post where "?gs = pre @ w # post" "\<forall>x\<in>set pre. \<not> ?bad x" "?bad w"
    using find_Some_split [OF w] by blast
  with err eq filter_values_Ok_remove_each [OF out] show ?thesis by auto
qed

lemma verify_inserted_gers_first_invalid_witness:
  "\<exists>pre w post. [sample_leaf 8 2, sample_leaf 7 4] = pre @ w # post \<and>
     \<not> inserted_ger_verify sample_prims w 50 \<and>
     7 = inserted_ger_ger sample_prims w \<and> 4 = l1_info_tree_index (ig_l1_info_tree_leaf w)"
proof -
  let ?w = "sample_witness\<lparr>bw_inserted_gers := [sample_leaf 8 2, sample_leaf 7 4]\<rparr>"
  let ?i = "sample_input\<lparr>bci_bridge_witness := ?w\<rparr>"
  have "verify_inserted_gers TYPE(32) sample_prims ?i = Err (InvalidMerklePathGERToL1Root 7 4 50)"
    by (simp add: bridge_sample_defs bridge_verify_defs)
  moreover have "bw_inserted_gers (bci_bridge_witness ?i) = [sample_leaf 8 2, sample_leaf 7 4]"
    and "bci_l1_info_root ?i = 50"
    by (simp_all add: sample_input_def)
  ultimately show ?thesis using verify_inserted_gers_first_invalid [of "TYPE(32)" sample_prims ?i 7 4 50]
    by metis
qed

end
