(* ===== verification/Aggchain_Types.thy ===== *)
theory Aggchain_Types
  imports Bridge_Constraints "HOL-Library.Product_Lexorder"
begin

text \<open>
  \<open>crates/aggchain-proof-types\<close>: the inputs of an aggchain proof request and the list of inserted
  GERs of a block range, sorted by block number and index in the block.

  The \<open>HashMap\<close> of GER leaves is the list of its entries in iteration order, which Rust does not
  specify, and \<open>sort_unstable_by_key\<close> may leave entries with equal keys in any order. The model uses
  a stable sort; the property at the end shows that neither freedom is observable when no two events
  of the range have the same position.
\<close>

section \<open>Data\<close>

record imported_bridge_exit_with_block_number =
  ib_block_number :: u64
  ib_bridge_exit_hash :: digest
  ib_global_index :: u256

record inserted_ger =
  proof_ger_l1root :: merkle_proof
  l1_leaf :: l1_info_tree_leaf

record inserted_ger_with_block_number =
  gb_block_number :: u64
  gb_inserted_ger :: inserted_ger
  gb_block_index :: u64

record aggchain_proof_inputs =
  ai_last_proven_block :: u64
  ai_requested_end_block :: u64
  ai_l1_info_tree_root_hash :: digest
  ai_l1_info_tree_leaf :: l1_info_tree_leaf
  ai_l1_info_tree_merkle_proof :: merkle_proof
  ai_ger_leaves :: "(string \<times> inserted_ger_with_block_number) list"
  ai_imported_bridge_exits :: "imported_bridge_exit_with_block_number list"

record 'sig optimistic_aggchain_proof_inputs =
  oi_aggchain_proof_inputs :: aggchain_proof_inputs
  oi_signature_optimistic_mode :: 'sig

section \<open>Operations\<close>

text \<open>\<open>RangeInclusive::contains\<close>\<close>

definition in_range :: "u64 \<times> u64 \<Rightarrow> u64 \<Rightarrow> bool" where
  "in_range rng n \<longleftrightarrow> fst rng \<le> n \<and> n \<le> snd rng"

definition to_inserted_GER :: "inserted_ger_with_block_number \<Rightarrow> inserted_GER" where
  "to_inserted_GER e =
     \<lparr>ig_proof = proof_ger_l1root (gb_inserted_ger e),
      ig_l1_info_tree_leaf = l1_leaf (gb_inserted_ger e),
      ig_block_number = gb_block_number e,
      ig_block_index = gb_block_index e\<rparr>"

definition event_position :: "inserted_GER \<Rightarrow> u64 \<times> u64" where
  "event_position e = (ig_block_number e, ig_block_index e)"

definition sorted_inserted_gers :: "aggchain_proof_inputs \<Rightarrow> u64 \<times> u64 \<Rightarrow> inserted_GER list" where
  "sorted_inserted_gers self rng =
     sort_key event_position
       (map to_inserted_GER
         (filter (\<lambda>e. in_range rng (gb_block_number e)) (map snd (ai_ger_leaves self))))"

section \<open>Lemmas\<close>

lemma to_inserted_GER_position [simp]:
  "event_position (to_inserted_GER e) = (gb_block_number e, gb_block_index e)"
  by (simp add: event_position_def to_inserted_GER_def)

lemma set_sorted_inserted_gers:
  "set (sorted_inserted_gers i r) =
     to_inserted_GER ` {e. e \<in> snd ` set (ai_ger_leaves i) \<and> in_range r (gb_block_number e)}"
  by (auto simp: sorted_inserted_gers_def)

lemma sorted_inserted_gers_sorted: "sorted (map event_position (sorted_inserted_gers i r))"
  by (simp add: sorted_inserted_gers_def)

text \<open>The events of the range, whatever the order of the map.\<close>

definition range_events :: "aggchain_proof_inputs \<Rightarrow> u64 \<times> u64 \<Rightarrow> inserted_GER list" where
  "range_events i r =
     map to_inserted_GER (filter (\<lambda>e. in_range r (gb_block_number e)) (map snd (ai_ger_leaves i)))"

lemma mset_range_events:
  assumes "mset (ai_ger_leaves i) = mset (ai_ger_leaves j)"
  shows "mset (range_events i r) = mset (range_events j r)"
  using assms unfolding range_events_def by simp

lemma distinct_map_mset:
  "mset xs = mset ys \<Longrightarrow> distinct (map f xs) \<longleftrightarrow> distinct (map f ys)"
  by (metis mset_eq_imp_distinct_iff mset_map)

section \<open>Properties\<close>

text \<open>the inserted GERs of a request are determined. When no two GER events of the block range
  have the same block number and index, every list that a map with the same entries in any iteration
  order and any sorting of the events of the range by position can give equals
  \<open>sorted_inserted_gers\<close>; and that list holds exactly the events whose block is in the range, in
  strictly increasing position.\<close>

lemma sorted_inserted_gers_determined:
  assumes "distinct (map event_position (range_events i r))"
    and "mset (ai_ger_leaves j) = mset (ai_ger_leaves i)"
    and "mset out = mset (range_events j r)" and "sorted (map event_position out)"
  shows "out = sorted_inserted_gers i r \<and>
     sorted_wrt (<) (map event_position out) \<and>
     set out = to_inserted_GER ` {e. e \<in> snd ` set (ai_ger_leaves i) \<and> in_range r (gb_block_number e)}"
proof -
  have m: "mset out = mset (range_events i r)"
    using assms(2,3) mset_range_events by metis
  have d: "distinct (map event_position out)"
    using assms(1) distinct_map_mset [OF m] by metis
  have "sort_key event_position (range_events i r) = out"
  proof (rule sort_key_inj_key_eq)
    show "mset (range_events i r) = mset out" using m by simp
    show "inj_on event_position (set (range_events i r))"
      using assms(1) by (simp add: distinct_map)
    show "sorted (map event_position out)" by (rule assms(4))
  qed
  then have "out = sorted_inserted_gers i r" by (simp add: sorted_inserted_gers_def range_events_def)
  moreover have "sorted_wrt (<) (map event_position out)"
    using assms(4) d by (simp add: strict_sorted_iff)
  ultimately show ?thesis using set_sorted_inserted_gers by metis
qed

definition sample_ger_event :: "u64 \<Rightarrow> u64 \<Rightarrow> digest \<Rightarrow> inserted_ger_with_block_number" where
  "sample_ger_event bn idx g =
     \<lparr>gb_block_number = bn,
      gb_inserted_ger =
        \<lparr>proof_ger_l1root = \<lparr>proof_root = 50, proof_siblings = []\<rparr>,
         l1_leaf = ig_l1_info_tree_leaf (sample_leaf g 2)\<rparr>,
      gb_block_index = idx\<rparr>"

definition sample_inputs :: aggchain_proof_inputs where
  "sample_inputs =
     \<lparr>ai_last_proven_block = 4, ai_requested_end_block = 9, ai_l1_info_tree_root_hash = 50,
      ai_l1_info_tree_leaf = ig_l1_info_tree_leaf (sample_leaf 8 2),
      ai_l1_info_tree_merkle_proof = \<lparr>proof_root = 50, proof_siblings = []\<rparr>,
      ai_ger_leaves = [(''b'', sample_ger_event 6 1 7), (''a'', sample_ger_event 5 3 8), (''c'', sample_ger_event 20 0 1)],
      ai_imported_bridge_exits = []\<rparr>"

lemma sorted_inserted_gers_determined_witness:
  "map to_inserted_GER [sample_ger_event 5 3 8, sample_ger_event 6 1 7] = sorted_inserted_gers sample_inputs (5, 9)"
proof -
  let ?out = "map to_inserted_GER [sample_ger_event 5 3 8, sample_ger_event 6 1 7]"
  have ev: "range_events sample_inputs (5, 9) =
      [to_inserted_GER (sample_ger_event 6 1 7), to_inserted_GER (sample_ger_event 5 3 8)]"
    by (simp add: range_events_def sample_inputs_def in_range_def sample_ger_event_def)
  have pos: "event_position (to_inserted_GER (sample_ger_event b k g)) = (b, k)" for b k g
    by (simp add: sample_ger_event_def)
  have "distinct (map event_position (range_events sample_inputs (5, 9)))"
    by (simp add: ev pos del: to_inserted_GER_position)
  moreover have "mset ?out = mset (range_events sample_inputs (5, 9))"
    by (simp add: ev)
  moreover have "sorted (map event_position ?out)"
    by (simp add: pos less_eq_prod_def del: to_inserted_GER_position)
  ultimately show ?thesis using sorted_inserted_gers_determined [where j = sample_inputs] by blast
qed

end
