(* ===== verification/Request_Conversion.thy ===== *)
theory Request_Conversion
  imports Aggchain_Types
begin

text \<open>
  \<open>crates/aggkit-prover-types\<close>: the messages of the aggkit prover, their conversion into the inputs
  of a proof with the errors of missing and invalid fields, and the context that is returned with a
  proof.

  The message types of \<open>agglayer-interop\<close> and their conversions belong to that crate: a leaf and a
  Merkle proof are opaque messages, fixed-size byte messages are their bytes, and the conversions are the
  fields of the record \<open>interop\<close>. The source of an error is kept as its text, as \<open>eyre\<close> displays it. A
  \<open>HashMap\<close> of the messages is the list of its entries in iteration order.
\<close>

section \<open>Messages\<close>

record ('lm, 'mm) proven_inserted_ger =
  pg_proof_ger_l1root :: "'mm option"
  pg_l1_leaf :: "'lm option"

record ('lm, 'mm) proven_inserted_ger_with_block_number =
  pgb_block_number :: u64
  pgb_proven_inserted_ger :: "('lm, 'mm) proven_inserted_ger option"
  pgb_block_index :: u64

record imported_bridge_exit_message =
  im_block_number :: u64
  im_global_index :: "byte list option"
  im_bridge_exit_hash :: "byte list option"

record ('lm, 'mm) generate_aggchain_proof_request =
  gp_last_proven_block :: u64
  gp_requested_end_block :: u64
  gp_l1_info_tree_root_hash :: "byte list option"
  gp_l1_info_tree_leaf :: "'lm option"
  gp_l1_info_tree_merkle_proof :: "'mm option"
  gp_ger_leaves :: "(string \<times> ('lm, 'mm) proven_inserted_ger_with_block_number) list"
  gp_imported_bridge_exits :: "imported_bridge_exit_message list"

record ('lm, 'mm) generate_optimistic_aggchain_proof_request =
  go_aggchain_proof_request :: "('lm, 'mm) generate_aggchain_proof_request option"
  go_optimistic_mode_signature :: "byte list option"

record ('lm, 'mm, 'sig) interop =
  digest_try_from :: "byte list \<Rightarrow> (digest, report) result"
  global_index_try_from :: "byte list \<Rightarrow> (u256, report) result"
  leaf_try_from :: "'lm \<Rightarrow> (l1_info_tree_leaf, report) result"
  merkle_proof_try_from :: "'mm \<Rightarrow> (merkle_proof, report) result"
  signature_try_from :: "byte list \<Rightarrow> ('sig, report) result"

section \<open>Errors\<close>

datatype aggchain_proof_request_error =
    MissingTokenInfo string
  | MissingBridgeExit string
  | MissingGlobalIndex string
  | MissingL1InfoTreeLeafInner string
  | MissingL1InfoTreeLeaf string
  | InvalidL1InfoTreeLeaf string report
  | MissingL1InfoTreeRootHash string
  | MissingL1InfoTreeMerkleProof string
  | InvalidL1InfoTreeMerkleProof string report
  | InvalidInsertedGerWithBlockNumberConversion string report
  | MissingInclusionProof string
  | InvalidDigest string report
  | InvalidImportedBridgeExit string report
  | MissingImportedBridgeExit string
  | MissingInsertedGer string
  | InvalidInsertedGer string report
  | InvalidOptimisticModeSignature string report
  | MissingOptimisticModeSignature string
  | InvalidAggchainProofRequest string report
  | MissingAggchainProofRequest string

text \<open>The messages of the \<open>thiserror\<close> attributes.\<close>

fun request_error_display :: "aggchain_proof_request_error \<Rightarrow> string" where
  "request_error_display (MissingTokenInfo _) = ''Missing bridge exit token info''"
| "request_error_display (MissingBridgeExit _) = ''Missing request bridge exit''"
| "request_error_display (MissingGlobalIndex _) = ''Missing request global index''"
| "request_error_display (MissingL1InfoTreeLeafInner _) = ''Missing inner l1 info tree leaf''"
| "request_error_display (MissingL1InfoTreeLeaf _) = ''Missing l1 info tree leaf''"
| "request_error_display (InvalidL1InfoTreeLeaf _ _) = ''Invalid l1 info tree leaf''"
| "request_error_display (MissingL1InfoTreeRootHash _) = ''Missing l1 info tree root hash''"
| "request_error_display (MissingL1InfoTreeMerkleProof _) = ''Missing or invalid l1 info merkle tree proof''"
| "request_error_display (InvalidL1InfoTreeMerkleProof _ _) = ''Invalid l1 info tree merkle proof''"
| "request_error_display (InvalidInsertedGerWithBlockNumberConversion _ _) =
     ''Invalid inserted GER with block number conversion''"
| "request_error_display (MissingInclusionProof _) = ''Missing inclusion proof''"
| "request_error_display (InvalidDigest _ _) = ''Invalid digest''"
| "request_error_display (InvalidImportedBridgeExit _ _) = ''Invalid imported bridge exit''"
| "request_error_display (MissingImportedBridgeExit _) = ''Missing imported bridge exit''"
| "request_error_display (MissingInsertedGer _) = ''Missing inserted ger''"
| "request_error_display (InvalidInsertedGer _ _) = ''Invalid inserted ger''"
| "request_error_display (InvalidOptimisticModeSignature _ _) = ''Invalid optimistic mode signature''"
| "request_error_display (MissingOptimisticModeSignature _) = ''Missing optimistic mode signature''"
| "request_error_display (InvalidAggchainProofRequest _ _) = ''Invalid aggchain-proof request''"
| "request_error_display (MissingAggchainProofRequest _) = ''Missing aggchain-proof request''"

fun field_path :: "aggchain_proof_request_error \<Rightarrow> string" where
  "field_path (MissingTokenInfo p) = p"
| "field_path (MissingBridgeExit p) = p"
| "field_path (MissingGlobalIndex p) = p"
| "field_path (MissingL1InfoTreeLeafInner p) = p"
| "field_path (MissingL1InfoTreeLeaf p) = p"
| "field_path (InvalidL1InfoTreeLeaf p _) = p"
| "field_path (MissingL1InfoTreeRootHash p) = p"
| "field_path (MissingL1InfoTreeMerkleProof p) = p"
| "field_path (InvalidL1InfoTreeMerkleProof p _) = p"
| "field_path (InvalidInsertedGerWithBlockNumberConversion p _) = p"
| "field_path (MissingInclusionProof p) = p"
| "field_path (InvalidDigest p _) = p"
| "field_path (InvalidImportedBridgeExit p _) = p"
| "field_path (MissingImportedBridgeExit p) = p"
| "field_path (MissingInsertedGer p) = p"
| "field_path (InvalidInsertedGer p _) = p"
| "field_path (InvalidOptimisticModeSignature p _) = p"
| "field_path (MissingOptimisticModeSignature p) = p"
| "field_path (InvalidAggchainProofRequest p _) = p"
| "field_path (MissingAggchainProofRequest p) = p"

section \<open>Conversions\<close>

definition inserted_ger_try_from ::
  "('lm, 'mm, 'sig) interop \<Rightarrow> ('lm, 'mm) proven_inserted_ger \<Rightarrow>
   (inserted_ger, aggchain_proof_request_error) result" where
  "inserted_ger_try_from I value =
     and_then (ok_or (MissingInsertedGer ''proof_ger_l1root'') (pg_proof_ger_l1root value)) (\<lambda>m.
     and_then (map_err (InvalidInsertedGer ''proof_ger_l1root'') (merkle_proof_try_from I m)) (\<lambda>proof.
     and_then (ok_or (MissingL1InfoTreeLeaf ''l1_leaf'') (pg_l1_leaf value)) (\<lambda>l.
     and_then (map_err (InvalidL1InfoTreeLeaf ''l1_leaf'') (leaf_try_from I l)) (\<lambda>leaf. Ok
       \<lparr>proof_ger_l1root = proof, l1_leaf = leaf\<rparr>))))"

definition inserted_ger_with_block_number_try_from ::
  "('lm, 'mm, 'sig) interop \<Rightarrow> ('lm, 'mm) proven_inserted_ger_with_block_number \<Rightarrow>
   (inserted_ger_with_block_number, aggchain_proof_request_error) result" where
  "inserted_ger_with_block_number_try_from I value =
     and_then (ok_or (MissingInsertedGer ''proven_inserted_ger'') (pgb_proven_inserted_ger value)) (\<lambda>g.
     and_then
       (map_err (\<lambda>error. InvalidInsertedGer ''proven_inserted_ger'' (request_error_display error))
         (inserted_ger_try_from I g)) (\<lambda>ger. Ok
       \<lparr>gb_block_number = pgb_block_number value, gb_inserted_ger = ger,
        gb_block_index = pgb_block_index value\<rparr>))"

definition imported_bridge_exit_try_from ::
  "('lm, 'mm, 'sig) interop \<Rightarrow> imported_bridge_exit_message \<Rightarrow>
   (imported_bridge_exit_with_block_number, aggchain_proof_request_error) result" where
  "imported_bridge_exit_try_from I value =
     and_then (ok_or (MissingGlobalIndex ''global_index'') (im_global_index value)) (\<lambda>g.
     and_then (map_err (InvalidDigest ''global_index'') (global_index_try_from I g)) (\<lambda>index.
     and_then (ok_or (MissingGlobalIndex ''global_index'') (im_bridge_exit_hash value)) (\<lambda>h.
     and_then (map_err (InvalidDigest ''global_index'') (digest_try_from I h)) (\<lambda>hash. Ok
       \<lparr>ib_block_number = im_block_number value, ib_bridge_exit_hash = hash, ib_global_index = index\<rparr>))))"

definition aggchain_proof_inputs_try_from ::
  "('lm, 'mm, 'sig) interop \<Rightarrow> ('lm, 'mm) generate_aggchain_proof_request \<Rightarrow>
   (aggchain_proof_inputs, aggchain_proof_request_error) result" where
  "aggchain_proof_inputs_try_from I value =
     and_then (ok_or (MissingL1InfoTreeRootHash ''l1_info_tree_root_hash'') (gp_l1_info_tree_root_hash value)) (\<lambda>h.
     and_then (map_err (InvalidDigest ''l1_info_tree_root_hash'') (digest_try_from I h)) (\<lambda>root_hash.
     and_then (ok_or (MissingL1InfoTreeLeaf ''l1_info_tree_leaf'') (gp_l1_info_tree_leaf value)) (\<lambda>l.
     and_then (map_err (InvalidL1InfoTreeLeaf ''l1_info_tree_leaf'') (leaf_try_from I l)) (\<lambda>leaf.
     and_then
       (ok_or (MissingL1InfoTreeMerkleProof ''l1_info_tree_merkle_proof'') (gp_l1_info_tree_merkle_proof value))
       (\<lambda>m.
     and_then
       (map_err (InvalidL1InfoTreeMerkleProof ''l1_info_tree_merkle_proof'') (merkle_proof_try_from I m))
       (\<lambda>proof.
     and_then
       (collect_results
         (\<lambda>(k, v). and_then
            (map_err (\<lambda>error. InvalidInsertedGerWithBlockNumberConversion ''ger_leaves'' (request_error_display error))
              (inserted_ger_with_block_number_try_from I v)) (\<lambda>ger. Ok (k, ger)))
         (gp_ger_leaves value)) (\<lambda>ger_leaves.
     and_then
       (map_err (\<lambda>error. InvalidImportedBridgeExit ''imported_bridge_exits'' (request_error_display error))
         (collect_results (imported_bridge_exit_try_from I) (gp_imported_bridge_exits value)))
       (\<lambda>imported_bridge_exits. Ok
       \<lparr>ai_last_proven_block = gp_last_proven_block value,
        ai_requested_end_block = gp_requested_end_block value,
        ai_l1_info_tree_root_hash = root_hash, ai_l1_info_tree_leaf = leaf,
        ai_l1_info_tree_merkle_proof = proof, ai_ger_leaves = ger_leaves,
        ai_imported_bridge_exits = imported_bridge_exits\<rparr>))))))))"

definition optimistic_inputs_try_from ::
  "('lm, 'mm, 'sig) interop \<Rightarrow> ('lm, 'mm) generate_optimistic_aggchain_proof_request \<Rightarrow>
   ('sig optimistic_aggchain_proof_inputs, aggchain_proof_request_error) result" where
  "optimistic_inputs_try_from I value =
     and_then
       (ok_or (MissingOptimisticModeSignature ''optimistic_mode_signature'') (go_optimistic_mode_signature value))
       (\<lambda>s.
     and_then
       (map_err (InvalidOptimisticModeSignature ''optimistic_mode_signature'') (signature_try_from I s))
       (\<lambda>signature.
     and_then
       (ok_or (MissingAggchainProofRequest ''aggchain_proof_request'') (go_aggchain_proof_request value))
       (\<lambda>r.
     and_then
       (map_err (\<lambda>error. InvalidAggchainProofRequest ''aggchain_proof_request'' (request_error_display error))
         (aggchain_proof_inputs_try_from I r)) (\<lambda>inputs. Ok
       \<lparr>oi_aggchain_proof_inputs = inputs, oi_signature_optimistic_mode = signature\<rparr>))))"

section \<open>The context of a proof\<close>

type_synonym proof_context = "string \<rightharpoonup> byte list"

text \<open>\<open>format!("{i}")\<close>\<close>

fun nat_to_string :: "nat \<Rightarrow> string" where
  "nat_to_string n =
     (if n < 10 then [char_of (48 + n)] else nat_to_string (n div 10) @ [char_of (48 + n mod 10)])"

declare nat_to_string.simps [simp del]

definition context_fields :: "aggchain_proof_inputs \<Rightarrow> (string \<times> byte list) list" where
  "context_fields self =
     [(''last_proven_block'', to_be_bytes_u64 (ai_last_proven_block self)),
      (''requested_end_block'', to_be_bytes_u64 (ai_requested_end_block self)),
      (''l1_info_tree_root_hash'', to_be_bytes_u256 (ai_l1_info_tree_root_hash self)),
      (''l1_info_tree_index'', to_be_bytes_u32 (l1_info_tree_index (ai_l1_info_tree_leaf self))),
      (''l1_info_tree_rer'', to_be_bytes_u256 (rer (ai_l1_info_tree_leaf self))),
      (''l1_info_tree_mer'', to_be_bytes_u256 (mer (ai_l1_info_tree_leaf self))),
      (''l1_info_tree_ger'', to_be_bytes_u256 (global_exit_root (inner (ai_l1_info_tree_leaf self)))),
      (''l1_info_tree_block_hash'', to_be_bytes_u256 (block_hash (inner (ai_l1_info_tree_leaf self)))),
      (''l1_info_tree_timestamp'', to_be_bytes_u64 (timestamp (inner (ai_l1_info_tree_leaf self))))]"

definition ger_context :: "string \<times> inserted_ger_with_block_number \<Rightarrow> (string \<times> byte list) list" where
  "ger_context e = (case e of (name, ger) \<Rightarrow>
     [(''ger/'' @ name @ ''/block_number'', to_be_bytes_u64 (gb_block_number ger)),
      (''ger/'' @ name @ ''/block_index'', to_be_bytes_u64 (gb_block_index ger)),
      (''ger/'' @ name @ ''/l1_leaf_index'',
        to_be_bytes_u32 (l1_info_tree_index (l1_leaf (gb_inserted_ger ger))))])"

text \<open>The bytes of the global index are the little-endian bytes of the 256-bit number, reversed.\<close>

definition as_le_bytes_u256 :: "u256 \<Rightarrow> byte list" where
  "as_le_bytes_u256 w = map (\<lambda>k. word_of_nat (unat w div 256 ^ k)) [0..<32]"

definition ibe_context :: "nat \<times> imported_bridge_exit_with_block_number \<Rightarrow> (string \<times> byte list) list" where
  "ibe_context e = (case e of (i, ibe) \<Rightarrow>
     [(''ibe/'' @ nat_to_string i @ ''/block_number'', to_be_bytes_u64 (ib_block_number ibe)),
      (''ibe/'' @ nat_to_string i @ ''/bridge_exit_hash'', to_be_bytes_u256 (ib_bridge_exit_hash ibe)),
      (''ibe/'' @ nat_to_string i @ ''/global_index'', rev (as_le_bytes_u256 (ib_global_index ibe)))])"

text \<open>Successive insertions into an empty map.\<close>

definition insert_all :: "(string \<times> byte list) list \<Rightarrow> proof_context \<Rightarrow> proof_context" where
  "insert_all es m = foldl (\<lambda>m (k, v). m(k \<mapsto> v)) m es"

definition context_of_inputs :: "aggchain_proof_inputs \<Rightarrow> proof_context" where
  "context_of_inputs self =
     insert_all (concat (map ibe_context (enumerate 0 (ai_imported_bridge_exits self))))
       (insert_all (concat (map ger_context (ai_ger_leaves self)))
         (insert_all (context_fields self) Map.empty))"

definition optimistic_context :: "'sig optimistic_aggchain_proof_inputs \<Rightarrow> proof_context" where
  "optimistic_context self = context_of_inputs (oi_aggchain_proof_inputs self)"


section \<open>Reference definitions\<close>

text \<open>The request that carries given inputs, for encoders of the field messages.\<close>

definition ger_message ::
  "(l1_info_tree_leaf \<Rightarrow> 'lm) \<Rightarrow> (merkle_proof \<Rightarrow> 'mm) \<Rightarrow> inserted_ger_with_block_number \<Rightarrow>
   ('lm, 'mm) proven_inserted_ger_with_block_number" where
  "ger_message el em g =
     \<lparr>pgb_block_number = gb_block_number g,
      pgb_proven_inserted_ger = Some
        \<lparr>pg_proof_ger_l1root = Some (em (proof_ger_l1root (gb_inserted_ger g))),
         pg_l1_leaf = Some (el (l1_leaf (gb_inserted_ger g)))\<rparr>,
      pgb_block_index = gb_block_index g\<rparr>"

definition ibe_message ::
  "(digest \<Rightarrow> byte list) \<Rightarrow> (u256 \<Rightarrow> byte list) \<Rightarrow> imported_bridge_exit_with_block_number \<Rightarrow>
   imported_bridge_exit_message" where
  "ibe_message ed eg b =
     \<lparr>im_block_number = ib_block_number b, im_global_index = Some (eg (ib_global_index b)),
      im_bridge_exit_hash = Some (ed (ib_bridge_exit_hash b))\<rparr>"

definition request_message ::
  "(digest \<Rightarrow> byte list) \<Rightarrow> (u256 \<Rightarrow> byte list) \<Rightarrow> (l1_info_tree_leaf \<Rightarrow> 'lm) \<Rightarrow> (merkle_proof \<Rightarrow> 'mm) \<Rightarrow>
   aggchain_proof_inputs \<Rightarrow> ('lm, 'mm) generate_aggchain_proof_request" where
  "request_message ed eg el em x =
     \<lparr>gp_last_proven_block = ai_last_proven_block x,
      gp_requested_end_block = ai_requested_end_block x,
      gp_l1_info_tree_root_hash = Some (ed (ai_l1_info_tree_root_hash x)),
      gp_l1_info_tree_leaf = Some (el (ai_l1_info_tree_leaf x)),
      gp_l1_info_tree_merkle_proof = Some (em (ai_l1_info_tree_merkle_proof x)),
      gp_ger_leaves = map (\<lambda>(k, g). (k, ger_message el em g)) (ai_ger_leaves x),
      gp_imported_bridge_exits = map (ibe_message ed eg) (ai_imported_bridge_exits x)\<rparr>"

text \<open>The fields of a request in the order of the conversion, each with whether it is there and valid.\<close>

definition field_valid :: "('m \<Rightarrow> ('a, report) result) \<Rightarrow> 'm option \<Rightarrow> bool" where
  "field_valid decode m = (case m of None \<Rightarrow> False | Some b \<Rightarrow> is_ok (decode b))"

definition ger_valid :: "('lm, 'mm, 'sig) interop \<Rightarrow> ('lm, 'mm) proven_inserted_ger_with_block_number \<Rightarrow> bool" where
  "ger_valid I v = (case pgb_proven_inserted_ger v of None \<Rightarrow> False
     | Some g \<Rightarrow> field_valid (merkle_proof_try_from I) (pg_proof_ger_l1root g) \<and>
         field_valid (leaf_try_from I) (pg_l1_leaf g))"

definition ibe_valid :: "('lm, 'mm, 'sig) interop \<Rightarrow> imported_bridge_exit_message \<Rightarrow> bool" where
  "ibe_valid I v \<longleftrightarrow> field_valid (global_index_try_from I) (im_global_index v) \<and>
     field_valid (digest_try_from I) (im_bridge_exit_hash v)"

definition request_fields ::
  "('lm, 'mm, 'sig) interop \<Rightarrow> ('lm, 'mm) generate_aggchain_proof_request \<Rightarrow> (string \<times> bool) list" where
  "request_fields I r =
     [(''l1_info_tree_root_hash'', field_valid (digest_try_from I) (gp_l1_info_tree_root_hash r)),
      (''l1_info_tree_leaf'', field_valid (leaf_try_from I) (gp_l1_info_tree_leaf r)),
      (''l1_info_tree_merkle_proof'', field_valid (merkle_proof_try_from I) (gp_l1_info_tree_merkle_proof r)),
      (''ger_leaves'', list_all (\<lambda>(k, v). ger_valid I v) (gp_ger_leaves r)),
      (''imported_bridge_exits'', list_all (ibe_valid I) (gp_imported_bridge_exits r))]"

definition first_invalid_field ::
  "('lm, 'mm, 'sig) interop \<Rightarrow> ('lm, 'mm) generate_aggchain_proof_request \<Rightarrow> string option" where
  "first_invalid_field I r = map_option fst (find (\<lambda>(k, valid). \<not> valid) (request_fields I r))"

text \<open>The entries of the context in the order of their insertion.\<close>

definition context_entries :: "aggchain_proof_inputs \<Rightarrow> (string \<times> byte list) list" where
  "context_entries x =
     context_fields x @ concat (map ger_context (ai_ger_leaves x)) @
       concat (map ibe_context (enumerate 0 (ai_imported_bridge_exits x)))"

section \<open>Correctness of the conversions\<close>

named_theorems conversion_defs \<open>the conversions of the parts of a request\<close>

declare inserted_ger_try_from_def [conversion_defs] inserted_ger_with_block_number_try_from_def [conversion_defs]
  imported_bridge_exit_try_from_def [conversion_defs]

lemma ger_message_decoded:
  assumes "\<And>l. leaf_try_from I (el l) = Ok l" and "\<And>p. merkle_proof_try_from I (em p) = Ok p"
  shows "inserted_ger_with_block_number_try_from I (ger_message el em g) = Ok g"
  by (simp add: conversion_defs ger_message_def assms)

lemma ibe_message_decoded:
  assumes "\<And>d. digest_try_from I (ed d) = Ok d"
    and "global_index_try_from I (eg (ib_global_index b)) = Ok (ib_global_index b)"
  shows "imported_bridge_exit_try_from I (ibe_message ed eg b) = Ok b"
  by (simp add: conversion_defs ibe_message_def assms)

lemma collect_results_map_inverse:
  "(\<And>x. x \<in> set xs \<Longrightarrow> f (g x) = Ok x) \<Longrightarrow> collect_results f (map g xs) = Ok xs"
  by (induction xs) auto

lemma request_message_decoded:
  assumes "\<And>d. digest_try_from I (ed d) = Ok d" and "\<And>l. leaf_try_from I (el l) = Ok l"
    and "\<And>p. merkle_proof_try_from I (em p) = Ok p"
    and "\<And>b. b \<in> set (ai_imported_bridge_exits x) \<Longrightarrow>
      global_index_try_from I (eg (ib_global_index b)) = Ok (ib_global_index b)"
  shows "aggchain_proof_inputs_try_from I (request_message ed eg el em x) = Ok x"
proof -
  have g: "collect_results
      (\<lambda>(k, v). and_then
         (map_err (\<lambda>error. InvalidInsertedGerWithBlockNumberConversion ''ger_leaves'' (request_error_display error))
           (inserted_ger_with_block_number_try_from I v)) (\<lambda>ger. Ok (k, ger)))
      (map (\<lambda>(k, g). (k, ger_message el em g)) (ai_ger_leaves x)) = Ok (ai_ger_leaves x)"
    by (rule collect_results_map_inverse) (auto simp: ger_message_decoded assms)
  have b: "collect_results (imported_bridge_exit_try_from I)
      (map (ibe_message ed eg) (ai_imported_bridge_exits x)) = Ok (ai_imported_bridge_exits x)"
    by (rule collect_results_map_inverse) (simp add: ibe_message_decoded assms)
  show ?thesis
    by (simp add: aggchain_proof_inputs_try_from_def request_message_def g b assms)
qed

lemma is_ok_simps [simp]:
  "is_ok (map_err f r) = is_ok r" "is_ok (ok_or e v) \<longleftrightarrow> v \<noteq> None"
  by (cases r; simp) (cases v; simp)

lemma is_ok_and_then: "is_ok (and_then r f) \<longleftrightarrow> (\<exists>x. r = Ok x \<and> is_ok (f x))"
  by (cases r) auto

lemma is_ok_collect_results: "is_ok (collect_results f xs) \<longleftrightarrow> list_all (\<lambda>x. is_ok (f x)) xs"
  by (induction xs) (auto simp: is_ok_and_then, auto simp: is_ok_conv)

lemma collect_results_eq_Err:
  "collect_results f xs = Err e \<Longrightarrow> \<exists>x. f x = Err e"
  by (induction xs) (auto simp: result_simps)

lemma ger_valid_iff: "is_ok (inserted_ger_with_block_number_try_from I v) \<longleftrightarrow> ger_valid I v"
  by (auto simp: conversion_defs ger_valid_def field_valid_def is_ok_and_then is_ok_conv result_simps
      split: option.split)

lemma ibe_valid_iff: "is_ok (imported_bridge_exit_try_from I v) \<longleftrightarrow> ibe_valid I v"
  by (auto simp: conversion_defs ibe_valid_def field_valid_def is_ok_and_then is_ok_conv result_simps
      split: option.split)

text \<open>The last two fields are collections: the conversion of the collection is described by whether every
  entry is valid, and its error names the field.\<close>

lemma ger_leaves_step:
  fixes I :: "('lm, 'mm, 'sig) interop"
  defines "convert \<equiv> (\<lambda>(k :: string, v). and_then
      (map_err (\<lambda>error. InvalidInsertedGerWithBlockNumberConversion ''ger_leaves'' (request_error_display error))
        (inserted_ger_with_block_number_try_from I v)) (\<lambda>ger. Ok (k, ger)))"
  shows "is_ok (collect_results convert xs) \<longleftrightarrow> list_all (\<lambda>(k, v). ger_valid I v) xs"
    and "collect_results convert xs = Err e \<Longrightarrow> field_path e = ''ger_leaves''"
proof -
  have "is_ok (convert (k, v)) \<longleftrightarrow> ger_valid I v" for k v
    unfolding ger_valid_iff [symmetric] convert_def
    by (auto simp: is_ok_and_then is_ok_conv result_simps)
  then show "is_ok (collect_results convert xs) \<longleftrightarrow> list_all (\<lambda>(k, v). ger_valid I v) xs"
    by (auto simp: is_ok_collect_results list_all_iff)
  assume "collect_results convert xs = Err e"
  then show "field_path e = ''ger_leaves''"
    by (auto dest!: collect_results_eq_Err simp: convert_def result_simps)
qed

lemma imported_bridge_exits_step:
  fixes I :: "('lm, 'mm, 'sig) interop"
  defines "convert \<equiv> \<lambda>xs. map_err (\<lambda>error. InvalidImportedBridgeExit ''imported_bridge_exits'' (request_error_display error))
      (collect_results (imported_bridge_exit_try_from I) xs)"
  shows "is_ok (convert xs) \<longleftrightarrow> list_all (ibe_valid I) xs"
    and "convert xs = Err e \<Longrightarrow> field_path e = ''imported_bridge_exits''"
  by (auto simp: convert_def is_ok_collect_results ibe_valid_iff result_simps)

text \<open>How the outcome of a conversion matches the first invalid field.\<close>

fun outcome_matches :: "('a, aggchain_proof_request_error) result \<Rightarrow> string option \<Rightarrow> bool" where
  "outcome_matches (Ok _) k \<longleftrightarrow> k = None"
| "outcome_matches (Err e) k \<longleftrightarrow> k = Some (field_path e)"
| "outcome_matches (Panic _) k \<longleftrightarrow> k \<noteq> None"

lemma outcome_matches_and_then:
  assumes "is_ok r \<longleftrightarrow> valid" and "\<And>e. r = Err e \<Longrightarrow> field_path e = k"
    and "\<And>x. r = Ok x \<Longrightarrow> outcome_matches (f x) (map_option fst (find (\<lambda>(k, valid). \<not> valid) fs))"
  shows "outcome_matches (and_then r f) (map_option fst (find (\<lambda>(k, valid). \<not> valid) ((k, valid) # fs)))"
  using assms by (cases r) auto

lemma field_outcome:
  assumes "\<And>x. outcome_matches (f x) (map_option fst (find (\<lambda>(k, valid). \<not> valid) fs))"
    and "field_path missing = k" and "\<And>e. field_path (invalid e) = k"
  shows "outcome_matches (and_then (ok_or missing v) (\<lambda>m. and_then (map_err invalid (decode m)) f))
     (map_option fst (find (\<lambda>(k, valid). \<not> valid) ((k, field_valid decode v) # fs)))"
proof (cases v)
  case None
  then show ?thesis using assms(2) by (simp add: field_valid_def)
next
  case (Some m)
  then show ?thesis
    using assms(1,3) by (cases "decode m") (simp_all add: field_valid_def)
qed

text \<open>The error of a rejected request names the field at fault: in the order of the conversion, it succeeds
  exactly when every field is present and decodes, and otherwise the field path of its error is the first
  field for which this is not so.\<close>

lemma request_error_matches:
  "outcome_matches (aggchain_proof_inputs_try_from I r) (first_invalid_field I r)"
  unfolding aggchain_proof_inputs_try_from_def first_invalid_field_def request_fields_def
  by (intro field_outcome outcome_matches_and_then ger_leaves_step imported_bridge_exits_step) auto

text \<open>C17: A request that carries given proof inputs is converted back to exactly these inputs, in normal and
  in optimistic mode, for all encodings of its fields that the conversions of the interop crate decode.\<close>

theorem request_roundtrip:
  assumes "\<And>d. digest_try_from I (ed d) = Ok d" and "\<And>l. leaf_try_from I (el l) = Ok l"
    and "\<And>p. merkle_proof_try_from I (em p) = Ok p" and "signature_try_from I sb = Ok sg"
    and "\<And>b. b \<in> set (ai_imported_bridge_exits x) \<Longrightarrow>
      global_index_try_from I (eg (ib_global_index b)) = Ok (ib_global_index b)"
  shows "aggchain_proof_inputs_try_from I (request_message ed eg el em x) = Ok x \<and>
    optimistic_inputs_try_from I
      \<lparr>go_aggchain_proof_request = Some (request_message ed eg el em x),
       go_optimistic_mode_signature = Some sb\<rparr> =
      Ok \<lparr>oi_aggchain_proof_inputs = x, oi_signature_optimistic_mode = sg\<rparr>"
proof -
  have "aggchain_proof_inputs_try_from I (request_message ed eg el em x) = Ok x"
    using assms by (intro request_message_decoded) auto
  then show ?thesis by (simp add: optimistic_inputs_try_from_def assms)
qed

text \<open>Conversions that check the lengths of the byte fields.\<close>

definition bytes32_decode :: "byte list \<Rightarrow> (256 word, report) result" where
  "bytes32_decode bs = (if length bs = 32 then Ok (word_of_nat (of_be_bytes bs)) else Err ''invalid length'')"

definition sample_interop ::
  "(byte list \<Rightarrow> ('sig, report) result) \<Rightarrow> (l1_info_tree_leaf, merkle_proof, 'sig) interop" where
  "sample_interop decode_signature =
     \<lparr>digest_try_from = bytes32_decode, global_index_try_from = bytes32_decode, leaf_try_from = Ok,
      merkle_proof_try_from = Ok,
      signature_try_from = decode_signature\<rparr>"

lemma bytes32_decode_word [simp]: "bytes32_decode (to_be_bytes_u256 w) = Ok w"
  unfolding bytes32_decode_def using word_of_be_bytes_roundtrip [where n = 32 and a = w] by simp

definition sample_exit_inputs :: aggchain_proof_inputs where
  "sample_exit_inputs = sample_inputs
     \<lparr>ai_imported_bridge_exits := [\<lparr>ib_block_number = 6, ib_bridge_exit_hash = 77, ib_global_index = 5\<rparr>]\<rparr>"

theorem request_roundtrip_witness:
  "optimistic_inputs_try_from
     (sample_interop (\<lambda>bs. if length bs = 65 then Ok bs else Err ''invalid signature''))
     \<lparr>go_aggchain_proof_request =
        Some (request_message (\<lambda>d. to_be_bytes_u256 d) (\<lambda>d. to_be_bytes_u256 d) id id sample_exit_inputs),
      go_optimistic_mode_signature = Some (replicate 65 7)\<rparr> =
     Ok \<lparr>oi_aggchain_proof_inputs = sample_exit_inputs, oi_signature_optimistic_mode = replicate 65 7\<rparr>"
  by (rule request_roundtrip [THEN conjunct2]) (simp_all add: sample_interop_def)

section \<open>Correctness of the context\<close>

lemma insert_all_append: "insert_all es (insert_all fs m) = insert_all (fs @ es) m"
  by (simp add: insert_all_def)

lemma insert_all_distinct: "distinct (map fst es) \<Longrightarrow> insert_all es m = m ++ map_of es"
proof (induction es arbitrary: m)
  case Nil
  show ?case by (simp add: insert_all_def)
next
  case (Cons e es)
  obtain k v where e: "e = (k, v)" by (cases e)
  then have "k \<notin> dom (map_of es)" using Cons.prems by (simp add: dom_map_of_conv_image_fst)
  then have "m(k \<mapsto> v) ++ map_of es = m ++ map_of (e # es)"
    by (auto simp: e map_add_def fun_eq_iff split: option.split)
  then show ?case using Cons e by (simp add: insert_all_def del: map_of.simps)
qed

lemma context_of_inputs_entries: "context_of_inputs x = insert_all (context_entries x) Map.empty"
  by (simp add: context_of_inputs_def context_entries_def insert_all_append)

lemma digit_char_inject:
  "m mod 10 = n mod 10" if "(char_of (48 + m mod 10) :: char) = char_of (48 + n mod 10)" for m n :: nat
  using hex_digit_inject [of "m mod 10" "n mod 10"] that
  by (simp add: hex_digit_def less_trans [OF mod_less_divisor [of 10]])

lemma nat_to_string_nonempty: "nat_to_string n \<noteq> []"
  by (subst nat_to_string.simps) simp

text \<open>Every decimal text ends with the last digit, after the text of the other digits where there are any.\<close>

lemma nat_to_string_snoc:
  "nat_to_string n = (if n < 10 then [] else nat_to_string (n div 10)) @ [char_of (48 + n mod 10)]"
  by (subst nat_to_string.simps) simp

lemma nat_to_string_inject: "nat_to_string m = nat_to_string n \<Longrightarrow> m = n"
proof (induction m arbitrary: n rule: nat_to_string.induct)
  case (1 m)
  have last: "m mod 10 = n mod 10"
    and front: "(if m < 10 then [] else nat_to_string (m div 10)) = (if n < 10 then [] else nat_to_string (n div 10))"
    using 1(2) unfolding nat_to_string_snoc [of m] nat_to_string_snoc [of n]
    by (auto dest: digit_char_inject)
  have "m div 10 = n div 10"
  proof (cases "m < 10")
    case True
    then have "n < 10" using front nat_to_string_nonempty [of "n div 10"] by (auto split: if_splits)
    with True show ?thesis by simp
  next
    case False
    then have "nat_to_string (m div 10) = nat_to_string (n div 10)"
      using front nat_to_string_nonempty [of "m div 10"] by (simp split: if_splits)
    with 1(1) False show ?thesis by blast
  qed
  with last show ?case by (metis div_mult_mod_eq)
qed

lemma rev_append_cong: "a @ b = c @ d \<Longrightarrow> rev b @ rev a = rev d @ rev c"
  by (metis rev_append)

text \<open>The keys of one event differ, and the keys of different events differ.\<close>

lemma ger_context_keys:
  "map fst (ger_context (n, g)) =
     map (\<lambda>suffix. ''ger/'' @ n @ suffix) [''/block_number'', ''/block_index'', ''/l1_leaf_index'']"
  by (simp add: ger_context_def)

lemma ibe_context_key:
  "k \<in> fst ` set (ibe_context x) \<Longrightarrow>
   \<exists>s \<in> set [''/block_number'', ''/bridge_exit_hash'', ''/global_index'']. k = ''ibe/'' @ nat_to_string (fst x) @ s"
  by (cases x) (auto simp: ibe_context_def)

lemma ibe_key_inject:
  assumes "s \<in> set [''/block_number'', ''/bridge_exit_hash'', ''/global_index'']"
    and "t \<in> set [''/block_number'', ''/bridge_exit_hash'', ''/global_index'']"
    and "nat_to_string i @ s = nat_to_string j @ t"
  shows "i = j"
proof -
  have "nat_to_string i = nat_to_string j" using assms by (auto dest: rev_append_cong)
  then show ?thesis by (rule nat_to_string_inject)
qed

lemma distinct_concat_keys:
  assumes "distinct (map key xs)" and "\<And>x. distinct (map fst (f x))"
    and "\<And>x y k. k \<in> fst ` set (f x) \<Longrightarrow> k \<in> fst ` set (f y) \<Longrightarrow> key x = key y"
  shows "distinct (map fst (concat (map f xs)))"
  using assms(1)
proof (induction xs)
  case (Cons x xs)
  have "k \<notin> fst ` set (concat (map f xs))" if "k \<in> fst ` set (f x)" for k
  proof
    assume "k \<in> fst ` set (concat (map f xs))"
    then obtain y where "y \<in> set xs" and "k \<in> fst ` set (f y)" by auto
    with assms(3) that have "key x = key y" by blast
    with \<open>y \<in> set xs\<close> Cons.prems show False by auto
  qed
  with Cons assms(2) show ?case by auto
qed simp

lemma ger_context_distinct:
  assumes "distinct (map fst gs)"
  shows "distinct (map fst (concat (map ger_context gs)))"
proof (rule distinct_concat_keys [where key = fst, OF assms])
  show "distinct (map fst (ger_context x))" for x
    by (cases x) (simp add: ger_context_def)
  fix x y k
  assume "k \<in> fst ` set (ger_context x)" and "k \<in> fst ` set (ger_context y)"
  then show "fst x = fst y"
    unfolding set_map [symmetric] ger_context_keys [of "fst x" "snd x", simplified prod.collapse]
      ger_context_keys [of "fst y" "snd y", simplified prod.collapse]
    by (auto dest: rev_append_cong)
qed

lemma ibe_context_distinct:
  "distinct (map fst (concat (map ibe_context (enumerate 0 bs))))"
proof (rule distinct_concat_keys [where key = fst])
  show "distinct (map fst (enumerate 0 bs))" by simp
  show "distinct (map fst (ibe_context x))" for x
    by (cases x) (simp add: ibe_context_def)
  fix x y k
  assume "k \<in> fst ` set (ibe_context x)" and "k \<in> fst ` set (ibe_context y)"
  then obtain s t where s: "s \<in> set [''/block_number'', ''/bridge_exit_hash'', ''/global_index'']"
    and t: "t \<in> set [''/block_number'', ''/bridge_exit_hash'', ''/global_index'']"
    and "k = ''ibe/'' @ nat_to_string (fst x) @ s" "k = ''ibe/'' @ nat_to_string (fst y) @ t"
    using ibe_context_key by meson
  then have "nat_to_string (fst x) @ s = nat_to_string (fst y) @ t" by simp
  with s t show "fst x = fst y" by (rule ibe_key_inject)
qed

lemma context_key_prefix:
  "k \<in> fst ` set (concat (map ger_context gs)) \<Longrightarrow> take 4 k = ''ger/''"
  "k \<in> fst ` set (concat (map ibe_context is)) \<Longrightarrow> take 4 k = ''ibe/''"
  "k \<in> fst ` set (context_fields x) \<Longrightarrow> take 4 k \<notin> {''ger/'', ''ibe/''}"
  by (auto simp: ger_context_def ibe_context_def context_fields_def)

lemma context_entries_distinct:
  assumes "distinct (map fst (ai_ger_leaves x))"
  shows "distinct (map fst (context_entries x))"
proof -
  define G B where "G = concat (map ger_context (ai_ger_leaves x))"
    and "B = concat (map ibe_context (enumerate 0 (ai_imported_bridge_exits x)))"
  have p: "take 4 k = ''ger/''" if "k \<in> set (map fst G)" for k
    using context_key_prefix(1) that by (simp add: G_def)
  have q: "take 4 k = ''ibe/''" if "k \<in> set (map fst B)" for k
    using context_key_prefix(2) that by (simp add: B_def)
  have r: "take 4 k \<notin> {''ger/'', ''ibe/''}" if "k \<in> set (map fst (context_fields x))" for k
    using context_key_prefix(3) that by simp
  have "set (map fst G) \<inter> set (map fst B) = {}"
    using p q by fastforce
  moreover have "set (map fst (context_fields x)) \<inter> (set (map fst G) \<union> set (map fst B)) = {}"
    using p q r by blast
  moreover have "distinct (map fst (context_fields x))" by (simp add: context_fields_def)
  ultimately show ?thesis
    using ger_context_distinct [OF assms] ibe_context_distinct [of "ai_imported_bridge_exits x"]
    unfolding context_entries_def G_def [symmetric] B_def [symmetric] map_append distinct_append set_append
    by blast
qed

lemma rev_as_le_bytes: "rev (as_le_bytes_u256 w) = to_be_bytes_u256 w"
proof -
  have "rev (map (\<lambda>k. word_of_nat (v div 256 ^ k)) [0..<n]) = nat_be_bytes n v" for n v
  proof (induction n arbitrary: v)
    case (Suc n)
    have "map (\<lambda>k. word_of_nat (v div 256 ^ k) :: byte) [0..<Suc n] =
        word_of_nat v # map (\<lambda>k. word_of_nat (v div 256 div 256 ^ k)) [0..<n]"
      by (simp add: upt_conv_Cons map_Suc_upt [symmetric] div_mult2_eq comp_def del: upt_Suc)
    with Suc show ?case by simp
  qed simp
  then show ?thesis by (simp add: as_le_bytes_u256_def)
qed

lemma context_lookup:
  assumes "distinct (map fst (ai_ger_leaves x))"
  shows "context_of_inputs x = map_of (context_entries x)"
    and "(k, v) \<in> set (context_entries x) \<Longrightarrow> context_of_inputs x k = Some v"
proof -
  have d: "distinct (map fst (context_entries x))" by (rule context_entries_distinct [OF assms])
  then show "context_of_inputs x = map_of (context_entries x)"
    by (simp add: context_of_inputs_entries insert_all_distinct)
  with d show "(k, v) \<in> set (context_entries x) \<Longrightarrow> context_of_inputs x k = Some v" by simp
qed

lemma ibe_entry:
  assumes "i < length (ai_imported_bridge_exits x)"
    and "e \<in> set (ibe_context (i, ai_imported_bridge_exits x ! i))"
  shows "e \<in> set (context_entries x)"
proof -
  have "(i, ai_imported_bridge_exits x ! i) \<in> set (enumerate 0 (ai_imported_bridge_exits x))"
    using assms(1) by (simp add: in_set_enumerate_eq)
  with assms(2) show ?thesis unfolding context_entries_def by force
qed

lemma ger_entry:
  assumes "(n, g) \<in> set (ai_ger_leaves x)" and "e \<in> set (ger_context (n, g))"
  shows "e \<in> set (context_entries x)"
  using assms unfolding context_entries_def by force

lemma of_be_bytes_word:
  "of_be_bytes (to_be_bytes_u256 w) = unat w" "of_be_bytes (to_be_bytes_u64 v) = unat v"
  using unat_bound [of w] unat_bound [of v] by simp_all

text \<open>The context returned with a proof records the inputs. When the names of the inserted GERs are
  distinct, as the keys of a map are, no entry overwrites another, so that the context is the table of all
  entries; and the big-endian numbers read back from the entries of the \<open>i\<close>-th imported bridge exit and
  of a named GER are their fields.\<close>

lemma context_records_inputs:
  assumes "distinct (map fst (ai_ger_leaves x))" and "(n, g) \<in> set (ai_ger_leaves x)"
    and "i < length (ai_imported_bridge_exits x)"
  shows "context_of_inputs x = map_of (context_entries x) \<and>
    length (context_entries x) = card (dom (context_of_inputs x)) \<and>
    map_option of_be_bytes (context_of_inputs x (''ger/'' @ n @ ''/block_number'')) = Some (unat (gb_block_number g)) \<and>
    map_option of_be_bytes (context_of_inputs x (''ger/'' @ n @ ''/block_index'')) = Some (unat (gb_block_index g)) \<and>
    map_option of_be_bytes (context_of_inputs x (''ibe/'' @ nat_to_string i @ ''/global_index'')) =
      Some (unat (ib_global_index (ai_imported_bridge_exits x ! i))) \<and>
    map_option of_be_bytes (context_of_inputs x (''ibe/'' @ nat_to_string i @ ''/bridge_exit_hash'')) =
      Some (unat (ib_bridge_exit_hash (ai_imported_bridge_exits x ! i)))"
proof -
  note lookup = context_lookup(2) [OF assms(1)]
  have "length (context_entries x) = card (dom (map_of (context_entries x)))"
    using context_entries_distinct [OF assms(1)]
    by (metis distinct_card dom_map_of_conv_image_fst length_map set_map)
  moreover have "context_of_inputs x (''ger/'' @ n @ ''/block_number'') = Some (to_be_bytes_u64 (gb_block_number g))"
    "context_of_inputs x (''ger/'' @ n @ ''/block_index'') = Some (to_be_bytes_u64 (gb_block_index g))"
    by (rule lookup, rule ger_entry [OF assms(2)], simp add: ger_context_def)+
  moreover have "context_of_inputs x (''ibe/'' @ nat_to_string i @ ''/global_index'') =
      Some (to_be_bytes_u256 (ib_global_index (ai_imported_bridge_exits x ! i)))"
    "context_of_inputs x (''ibe/'' @ nat_to_string i @ ''/bridge_exit_hash'') =
      Some (to_be_bytes_u256 (ib_bridge_exit_hash (ai_imported_bridge_exits x ! i)))"
    by (rule lookup, rule ibe_entry [OF assms(3)], simp add: ibe_context_def rev_as_le_bytes)+
  ultimately show ?thesis
    unfolding context_lookup(1) [OF assms(1)] by (simp only: of_be_bytes_word option.map simp_thms)
qed

lemma context_records_inputs_witness:
  "map_option of_be_bytes (context_of_inputs sample_exit_inputs (''ibe/'' @ nat_to_string 0 @ ''/global_index'')) = Some 5"
proof -
  have "distinct (map fst (ai_ger_leaves sample_exit_inputs))"
    and "(''a'', sample_ger_event 5 3 8) \<in> set (ai_ger_leaves sample_exit_inputs)"
    and "0 < length (ai_imported_bridge_exits sample_exit_inputs)"
    and "ib_global_index (ai_imported_bridge_exits sample_exit_inputs ! 0) = 5"
    by (simp_all add: sample_exit_inputs_def sample_inputs_def)
  then show ?thesis using context_records_inputs by fastforce
qed

end
