(* ===== verification/Prover_Config.thy ===== *)
theory Prover_Config
  imports Prover_Prelude
begin

text \<open>
  The configuration crates: \<open>prover-utils\<close>, \<open>prover-config\<close>, \<open>prover-logger\<close>,
  \<open>prover-alloy\<close>, the configurations of the contracts, the proof builder, the proposer and the
  proof service, and the two binaries' \<open>aggkit-prover-config\<close> and \<open>agglayer-prover-config\<close>.

  A \<open>Duration\<close> is its number of nanoseconds, bounded by \<open>DURATION_MAX\<close>; adding durations panics
  beyond it. Environment variables and the parsers of URLs are the record \<open>environment\<close>; a literal
  that is parsed with \<open>unwrap\<close> panics when the parser refuses it. Reading and parsing a
  configuration file are arguments of the loaders.
\<close>

section \<open>Durations\<close>

type_synonym duration = nat

definition from_secs :: "u64 \<Rightarrow> duration" where
  "from_secs s = unat s * 1000000000"

definition DURATION_MAX :: duration where
  "DURATION_MAX = (2 ^ 64 - 1) * 1000000000 + 999999999"

definition duration_add :: "duration \<Rightarrow> duration \<Rightarrow> (duration, report) result" where
  "duration_add a b =
     (if a + b \<le> DURATION_MAX then Ok (a + b) else Panic (PanicStr ''overflow when adding durations''))"

text \<open>\<open>HumanDuration\<close>: a number of seconds or a human-readable duration.\<close>

datatype human_duration = Secs u64 | Human duration

definition human_duration_new :: "duration \<Rightarrow> human_duration" where
  "human_duration_new value = Human value"

fun human_duration_get :: "human_duration \<Rightarrow> duration" where
  "human_duration_get (Secs secs) = from_secs secs"
| "human_duration_get (Human d) = d"

section \<open>Environment\<close>

type_synonym url = string

record environment =
  env_var :: "string \<Rightarrow> string option"
  url_parse :: "string \<Rightarrow> url option"
  grpc_uri_parse :: "string \<Rightarrow> url option"

definition from_env_or_default :: "environment \<Rightarrow> (string \<Rightarrow> 'a option) \<Rightarrow> string \<Rightarrow> 'a \<Rightarrow> 'a" where
  "from_env_or_default env parse key dflt =
     (case Option.bind (env_var env key) parse of None \<Rightarrow> dflt | Some v \<Rightarrow> v)"

text \<open>\<open>from_str(literal).unwrap()\<close>\<close>

definition parse_literal :: "(string \<Rightarrow> 'a option) \<Rightarrow> string \<Rightarrow> ('a, report) result" where
  "parse_literal parse s = unwrap (\<lambda>e. e) (ok_or ''called `Result::unwrap()` on an `Err` value'' (parse s))"

section \<open>Provers\<close>

definition DEFAULT_SP1_CLUSTER_ENDPOINT :: string where
  "DEFAULT_SP1_CLUSTER_ENDPOINT = ''https://rpc.production.succinct.xyz/''"

record cpu_prover_config =
  cpc_max_concurrency_limit :: u64
  cpc_proving_request_timeout :: "duration option"
  cpc_proving_timeout :: duration

record network_prover_config =
  npc_proving_request_timeout :: "duration option"
  npc_proving_timeout :: duration
  npc_sp1_cluster_endpoint :: url

record mock_prover_config =
  mpc_max_concurrency_limit :: u64
  mpc_proving_request_timeout :: "duration option"
  mpc_proving_timeout :: duration

datatype prover_type =
    NetworkProver network_prover_config
  | CpuProver cpu_prover_config
  | MockProver mock_prover_config

definition DEFAULT_PROVING_TIMEOUT_PADDING :: duration where
  "DEFAULT_PROVING_TIMEOUT_PADDING = from_secs 1"

definition cpu_get_proving_request_timeout :: "cpu_prover_config \<Rightarrow> (duration, report) result" where
  "cpu_get_proving_request_timeout self =
     (case cpc_proving_request_timeout self of
        Some t \<Rightarrow> Ok t
      | None \<Rightarrow> duration_add (cpc_proving_timeout self) DEFAULT_PROVING_TIMEOUT_PADDING)"

definition network_get_proving_request_timeout :: "network_prover_config \<Rightarrow> (duration, report) result" where
  "network_get_proving_request_timeout self =
     (case npc_proving_request_timeout self of
        Some t \<Rightarrow> Ok t
      | None \<Rightarrow> duration_add (npc_proving_timeout self) DEFAULT_PROVING_TIMEOUT_PADDING)"

definition mock_get_proving_request_timeout :: "mock_prover_config \<Rightarrow> (duration, report) result" where
  "mock_get_proving_request_timeout self =
     (case mpc_proving_request_timeout self of
        Some t \<Rightarrow> Ok t
      | None \<Rightarrow> duration_add (mpc_proving_timeout self) DEFAULT_PROVING_TIMEOUT_PADDING)"

definition default_max_concurrency_limit :: u64 where
  "default_max_concurrency_limit = 100"

definition default_local_proving_timeout :: duration where
  "default_local_proving_timeout = from_secs (60 * 5)"

definition default_network_proving_timeout :: duration where
  "default_network_proving_timeout = from_secs (60 * 5)"

definition default_sp1_cluster_endpoint :: "environment \<Rightarrow> (url, report) result" where
  "default_sp1_cluster_endpoint env =
     and_then (parse_literal (url_parse env) DEFAULT_SP1_CLUSTER_ENDPOINT) (\<lambda>dflt.
     Ok (from_env_or_default env (url_parse env) ''SP1_CLUSTER_ENDPOINT'' dflt))"

definition cpu_prover_config_default :: cpu_prover_config where
  "cpu_prover_config_default =
     \<lparr>cpc_max_concurrency_limit = default_max_concurrency_limit,
      cpc_proving_request_timeout = None,
      cpc_proving_timeout = default_local_proving_timeout\<rparr>"

definition network_prover_config_default :: "environment \<Rightarrow> (network_prover_config, report) result" where
  "network_prover_config_default env =
     and_then (default_sp1_cluster_endpoint env) (\<lambda>endpoint. Ok
       \<lparr>npc_proving_request_timeout = None,
        npc_proving_timeout = default_network_proving_timeout,
        npc_sp1_cluster_endpoint = endpoint\<rparr>)"

definition mock_prover_config_default :: mock_prover_config where
  "mock_prover_config_default =
     \<lparr>mpc_max_concurrency_limit = default_max_concurrency_limit,
      mpc_proving_request_timeout = None,
      mpc_proving_timeout = default_local_proving_timeout\<rparr>"

definition prover_type_default :: "environment \<Rightarrow> (prover_type, report) result" where
  "prover_type_default env = map_ok NetworkProver (network_prover_config_default env)"

section \<open>Logging\<close>

datatype log_format = Pretty | Json

datatype log_level = Trace | Debug | Info | Warn | Error | Fatal

datatype log_output = Stdout | Stderr | File string

record log_config =
  log_level_field :: log_level
  log_outputs :: "log_output list"
  log_format_field :: log_format

text \<open>The variants marked \<open>#[default]\<close>, also made the \<open>default\<close> of their types.\<close>

definition log_format_default :: log_format where
  "log_format_default = Pretty"

definition log_level_default :: log_level where
  "log_level_default = Info"

definition log_output_default :: log_output where
  "log_output_default = Stdout"

instantiation log_format :: default
begin

definition default_log_format :: log_format where
  "default_log_format = log_format_default"

instance ..

end

instantiation log_level :: default
begin

definition default_log_level :: log_level where
  "default_log_level = log_level_default"

instance ..

end

instantiation log_output :: default
begin

definition default_log_output :: log_output where
  "default_log_output = log_output_default"

instance ..

end

definition log_default :: log_config where
  "log_default = \<lparr>log_level_field = default, log_outputs = [], log_format_field = default\<rparr>"

fun log_level_display :: "log_level \<Rightarrow> string" where
  "log_level_display Trace = ''trace''"
| "log_level_display Debug = ''debug''"
| "log_level_display Info = ''info''"
| "log_level_display Warn = ''warn''"
| "log_level_display Error = ''error''"
| "log_level_display Fatal = ''fatal''"

text \<open>The directives of the \<open>EnvFilter\<close> built from a level.\<close>

definition env_filter_of_level :: "log_level \<Rightarrow> string" where
  "env_filter_of_level value =
     ''warn,prover='' @ log_level_display value @ '',aggkit='' @ log_level_display value @
     '',agglayer='' @ log_level_display value @ '',pessimistic_proof='' @ log_level_display value"

definition log_output_deserialize :: "string \<Rightarrow> log_output" where
  "log_output_deserialize s =
     (if s = ''stdout'' then Stdout else if s = ''stderr'' then Stderr else File s)"

text \<open>The writer of an output: a standard stream, or a file in the current directory that is never
  rotated.\<close>

datatype make_writer = StdoutWriter | StderrWriter | RollingNever string string

fun as_make_writer :: "log_output \<Rightarrow> make_writer" where
  "as_make_writer Stdout = StdoutWriter"
| "as_make_writer Stderr = StderrWriter"
| "as_make_writer (File path) = RollingNever ''.'' path"

text \<open>The layer \<open>tracing\<close> installs: its format, writer and filter. \<open>try_env\<close> is the filter of
  \<open>RUST_LOG\<close>, when it is set and valid.\<close>

record tracing_layer =
  layer_format :: log_format
  layer_writer :: make_writer
  layer_filter :: string

definition tracing :: "string option \<Rightarrow> log_config \<Rightarrow> tracing_layer" where
  "tracing try_env config =
     (let writer = (case log_outputs config of [] \<Rightarrow> default | w # _ \<Rightarrow> w);
          filter = (case try_env of Some f \<Rightarrow> f | None \<Rightarrow> env_filter_of_level (log_level_field config))
      in case log_format_field config of
           Pretty \<Rightarrow> \<lparr>layer_format = Pretty, layer_writer = as_make_writer writer, layer_filter = filter\<rparr>
         | Json \<Rightarrow> \<lparr>layer_format = Json, layer_writer = as_make_writer writer, layer_filter = filter\<rparr>)"

section \<open>Node endpoints\<close>

definition HTTP_CLIENT_CONNECTION_POOL_IDLE_TIMEOUT :: u64 where
  "HTTP_CLIENT_CONNECTION_POOL_IDLE_TIMEOUT = 90"

definition HTTP_CLIENT_MAX_IDLE_CONNECTIONS_PER_HOST :: u64 where
  "HTTP_CLIENT_MAX_IDLE_CONNECTIONS_PER_HOST = 64"

definition DEFAULT_HTTP_RPC_NODE_INITIAL_BACKOFF_MS :: u64 where
  "DEFAULT_HTTP_RPC_NODE_INITIAL_BACKOFF_MS = 5000"

definition DEFAULT_HTTP_RPC_NODE_BACKOFF_MAX_RETRIES :: u32 where
  "DEFAULT_HTTP_RPC_NODE_BACKOFF_MAX_RETRIES = 64"

text \<open>The settings of an Alloy provider: the retry policy (retries, initial backoff, compute units per
  second), the connection pool and the endpoint. Building the HTTP client can fail.\<close>

record alloy_provider =
  apr_url :: url
  apr_max_retries :: u32
  apr_backoff :: u64
  apr_compute_units :: u64
  apr_pool_max_idle :: u64
  apr_pool_idle_timeout :: duration

definition build_alloy_fill_provider ::
  "(u64 \<Rightarrow> duration \<Rightarrow> (unit, report) result) \<Rightarrow> url \<Rightarrow> u64 \<Rightarrow> u32 \<Rightarrow> (alloy_provider, report) result" where
  "build_alloy_fill_provider reqwest_build rpc_url backoff max_retries =
     and_then
       (reqwest_build HTTP_CLIENT_MAX_IDLE_CONNECTIONS_PER_HOST
          (from_secs HTTP_CLIENT_CONNECTION_POOL_IDLE_TIMEOUT)) (\<lambda>_. Ok
     \<lparr>apr_url = rpc_url, apr_max_retries = max_retries, apr_backoff = backoff, apr_compute_units = 5,
      apr_pool_max_idle = HTTP_CLIENT_MAX_IDLE_CONNECTIONS_PER_HOST,
      apr_pool_idle_timeout = from_secs HTTP_CLIENT_CONNECTION_POOL_IDLE_TIMEOUT\<rparr>)"

text \<open>\<open>AlloyProvider::new\<close> builds the same provider once more and keeps it as its client.\<close>

definition alloy_provider_new ::
  "(u64 \<Rightarrow> duration \<Rightarrow> (unit, report) result) \<Rightarrow> url \<Rightarrow> u64 \<Rightarrow> u32 \<Rightarrow> (alloy_provider, report) result" where
  "alloy_provider_new reqwest_build rpc_url backoff max_retries =
     and_then
       (reqwest_build HTTP_CLIENT_MAX_IDLE_CONNECTIONS_PER_HOST
          (from_secs HTTP_CLIENT_CONNECTION_POOL_IDLE_TIMEOUT)) (\<lambda>_. Ok
     \<lparr>apr_url = rpc_url, apr_max_retries = max_retries, apr_backoff = backoff, apr_compute_units = 5,
      apr_pool_max_idle = HTTP_CLIENT_MAX_IDLE_CONNECTIONS_PER_HOST,
      apr_pool_idle_timeout = from_secs HTTP_CLIENT_CONNECTION_POOL_IDLE_TIMEOUT\<rparr>)"

definition l1_rpc_endpoint_default :: "environment \<Rightarrow> (url, report) result" where
  "l1_rpc_endpoint_default env = parse_literal (url_parse env) ''http://anvil-mock-l1-rpc:8545''"

definition default_l2_execution_layer_url :: "environment \<Rightarrow> (url, report) result" where
  "default_l2_execution_layer_url env = parse_literal (url_parse env) ''http://anvil-mock-l2-rpc:8545''"

definition default_l2_consensus_layer_url :: "environment \<Rightarrow> (url, report) result" where
  "default_l2_consensus_layer_url env =
     parse_literal (url_parse env) ''http://rollup-node-mock-l2-rpc:8545''"

section \<open>Contracts, builder, proposer and service\<close>

definition GLOBAL_EXIT_ROOT_MANAGER_L2_SOVEREIGN_CHAIN_ADDRESS :: address where
  "GLOBAL_EXIT_ROOT_MANAGER_L2_SOVEREIGN_CHAIN_ADDRESS = 0xa40D5f56745a118D0906a34E69aeC8C0Db1cB8fA"

definition POLYGON_ROLLUP_MANAGER :: address where
  "POLYGON_ROLLUP_MANAGER = 0xB7f8BC63BbcaD18155201308C8f3540b07f84F5e"

definition STATIC_CALL_CALLER_ADDRESS :: address where
  "STATIC_CALL_CALLER_ADDRESS = 0xe859276098f208D003ca6904C6cC26629Ee364Ce"

record aggchain_proof_contracts_config =
  cc_l1_rpc_endpoint :: url
  cc_l2_execution_layer_rpc_endpoint :: url
  cc_l2_consensus_layer_rpc_endpoint :: url
  cc_polygon_rollup_manager :: address
  cc_global_exit_root_manager_v2_sovereign_chain :: address
  cc_static_call_caller_address :: address
  cc_evm_sketch_genesis :: string

definition default_output_at_block_endpoint :: "environment \<Rightarrow> string" where
  "default_output_at_block_endpoint env =
     from_env_or_default env Some ''L2_OUTPUT_AT_BLOCK_ENDPOINT'' ''optimism_outputAtBlock''"

definition default_evm_sketch_genesis :: string where
  "default_evm_sketch_genesis = ''mainnet''"

definition contracts_config_default :: "environment \<Rightarrow> (aggchain_proof_contracts_config, report) result" where
  "contracts_config_default env =
     and_then (l1_rpc_endpoint_default env) (\<lambda>l1.
     and_then (default_l2_execution_layer_url env) (\<lambda>l2_el.
     and_then (default_l2_consensus_layer_url env) (\<lambda>l2_cl. Ok
       \<lparr>cc_l1_rpc_endpoint = l1,
        cc_l2_execution_layer_rpc_endpoint = l2_el,
        cc_l2_consensus_layer_rpc_endpoint = l2_cl,
        cc_polygon_rollup_manager = POLYGON_ROLLUP_MANAGER,
        cc_global_exit_root_manager_v2_sovereign_chain =
          GLOBAL_EXIT_ROOT_MANAGER_L2_SOVEREIGN_CHAIN_ADDRESS,
        cc_static_call_caller_address = STATIC_CALL_CALLER_ADDRESS,
        cc_evm_sketch_genesis = default_evm_sketch_genesis\<rparr>)))"

record aggchain_proof_builder_config =
  bc_network_id :: u32
  bc_primary_prover :: prover_type
  bc_fallback_prover :: "prover_type option"
  bc_proving_timeout :: duration
  bc_contracts :: aggchain_proof_contracts_config

definition default_aggchain_prover_timeout :: duration where
  "default_aggchain_prover_timeout = from_secs 3600"

definition builder_config_default :: "environment \<Rightarrow> (aggchain_proof_builder_config, report) result" where
  "builder_config_default env =
     and_then (network_prover_config_default env) (\<lambda>network.
     and_then (contracts_config_default env) (\<lambda>contracts. Ok
       \<lparr>bc_network_id = 0, bc_primary_prover = NetworkProver network, bc_fallback_prover = None,
        bc_proving_timeout = default_aggchain_prover_timeout, bc_contracts = contracts\<rparr>))"

definition DEFAULT_PROPOSER_SERVICE_ENDPOINT :: string where
  "DEFAULT_PROPOSER_SERVICE_ENDPOINT = ''http://proposer-mock-rpc:3000''"

record proposer_client_config =
  pcc_proposer_endpoint :: url
  pcc_sp1_cluster_endpoint :: url
  pcc_request_timeout :: duration
  pcc_proving_timeout :: duration

definition default_proposer_service_endpoint :: "environment \<Rightarrow> (url, report) result" where
  "default_proposer_service_endpoint env =
     and_then (parse_literal (grpc_uri_parse env) DEFAULT_PROPOSER_SERVICE_ENDPOINT) (\<lambda>dflt.
     Ok (from_env_or_default env (grpc_uri_parse env) ''PROPOSER_SERVICE_ENDPOINT'' dflt))"

definition default_request_timeout :: duration where
  "default_request_timeout = from_secs 600"

definition default_proving_timeout :: duration where
  "default_proving_timeout = from_secs 3600"

definition proposer_client_config_default :: "environment \<Rightarrow> (proposer_client_config, report) result" where
  "proposer_client_config_default env =
     and_then (default_proposer_service_endpoint env) (\<lambda>endpoint.
     and_then (default_sp1_cluster_endpoint env) (\<lambda>cluster. Ok
       \<lparr>pcc_proposer_endpoint = endpoint, pcc_sp1_cluster_endpoint = cluster,
        pcc_request_timeout = default_request_timeout, pcc_proving_timeout = default_proving_timeout\<rparr>))"

record proposer_service_config =
  psc_mock :: bool
  psc_client :: proposer_client_config
  psc_l1_rpc_endpoint :: url

definition proposer_service_config_default :: "environment \<Rightarrow> (proposer_service_config, report) result" where
  "proposer_service_config_default env =
     and_then (proposer_client_config_default env) (\<lambda>client.
     and_then (l1_rpc_endpoint_default env) (\<lambda>l1. Ok
       \<lparr>psc_mock = False, psc_client = client, psc_l1_rpc_endpoint = l1\<rparr>))"

record aggchain_proof_service_config =
  sc_aggchain_proof_builder :: aggchain_proof_builder_config
  sc_proposer_service :: proposer_service_config

definition service_config_default :: "environment \<Rightarrow> (aggchain_proof_service_config, report) result" where
  "service_config_default env =
     and_then (builder_config_default env) (\<lambda>builder.
     and_then (proposer_service_config_default env) (\<lambda>proposer. Ok
       \<lparr>sc_aggchain_proof_builder = builder, sc_proposer_service = proposer\<rparr>))"

section \<open>The two binaries\<close>

record socket_addr =
  sa_ip :: "byte list"
  sa_port :: u16

definition DEFAULT_IP :: "byte list" where
  "DEFAULT_IP = [0, 0, 0, 0]"

record grpc_config =
  gc_max_decoding_message_size :: u64
  gc_max_encoding_message_size :: u64

definition default_max_decoding_message_size :: u64 where
  "default_max_decoding_message_size = 4 * 1024 * 1024"

definition default_max_encoding_message_size :: u64 where
  "default_max_encoding_message_size = 4 * 1024 * 1024"

definition same_as_default_max_decoding_message_size :: "u64 \<Rightarrow> bool" where
  "same_as_default_max_decoding_message_size value \<longleftrightarrow> value = default_max_decoding_message_size"

definition same_as_default_max_encoding_message_size :: "u64 \<Rightarrow> bool" where
  "same_as_default_max_encoding_message_size value \<longleftrightarrow> value = default_max_encoding_message_size"

definition grpc_config_default :: grpc_config where
  "grpc_config_default =
     \<lparr>gc_max_decoding_message_size = default_max_decoding_message_size,
      gc_max_encoding_message_size = default_max_encoding_message_size\<rparr>"

text \<open>\<open>UnableToReadConfigFile\<close> carries the path and the cause.\<close>

datatype configuration_error =
    UnableToReadConfigFile string report
  | DeserializationError report

record aggkit_prover_config =
  kc_grpc_endpoint :: socket_addr
  kc_grpc :: grpc_config
  kc_log :: log_config
  kc_telemetry_addr :: socket_addr
  kc_shutdown_runtime_timeout :: duration
  kc_aggchain_proof_service :: aggchain_proof_service_config
  kc_primary_prover :: prover_type
  kc_fallback_prover :: "prover_type option"

definition aggkit_default_socket_addr :: socket_addr where
  "aggkit_default_socket_addr = \<lparr>sa_ip = [127, 0, 0, 1], sa_port = 8081\<rparr>"

definition aggkit_default_runtime_shutdown_timeout :: duration where
  "aggkit_default_runtime_shutdown_timeout = from_secs 30"

definition aggkit_default_metrics_api_addr :: socket_addr where
  "aggkit_default_metrics_api_addr = \<lparr>sa_ip = DEFAULT_IP, sa_port = 3001\<rparr>"

definition aggkit_prover_config_default :: "environment \<Rightarrow> (aggkit_prover_config, report) result" where
  "aggkit_prover_config_default env =
     and_then (service_config_default env) (\<lambda>service.
     and_then (network_prover_config_default env) (\<lambda>network. Ok
       \<lparr>kc_grpc_endpoint = aggkit_default_socket_addr,
        kc_grpc = grpc_config_default,
        kc_log = log_default,
        kc_telemetry_addr = aggkit_default_metrics_api_addr,
        kc_shutdown_runtime_timeout = aggkit_default_runtime_shutdown_timeout,
        kc_aggchain_proof_service = service,
        kc_primary_prover = NetworkProver network,
        kc_fallback_prover = None\<rparr>))"

definition aggkit_try_load ::
  "(string \<Rightarrow> (string, report) result) \<Rightarrow> (string \<Rightarrow> (aggkit_prover_config, report) result) \<Rightarrow> string \<Rightarrow>
   (aggkit_prover_config, configuration_error) result" where
  "aggkit_try_load read_to_string deserialize path =
     and_then (map_err (UnableToReadConfigFile path) (read_to_string path)) (\<lambda>reader.
     map_err DeserializationError (deserialize reader))"

record agglayer_prover_config =
  lc_grpc_endpoint :: socket_addr
  lc_grpc :: grpc_config
  lc_log :: log_config
  lc_telemetry_addr :: socket_addr
  lc_shutdown_runtime_timeout :: duration
  lc_max_concurrency_limit :: u64
  lc_max_request_duration :: duration
  lc_max_buffered_queries :: u64
  lc_primary_prover :: prover_type
  lc_fallback_prover :: "prover_type option"

definition agglayer_default_socket_addr :: socket_addr where
  "agglayer_default_socket_addr = \<lparr>sa_ip = [127, 0, 0, 1], sa_port = 8080\<rparr>"

definition agglayer_default_runtime_shutdown_timeout :: duration where
  "agglayer_default_runtime_shutdown_timeout = from_secs 5"

definition agglayer_default_metrics_api_addr :: socket_addr where
  "agglayer_default_metrics_api_addr = \<lparr>sa_ip = DEFAULT_IP, sa_port = 3000\<rparr>"

definition default_max_buffered_queries :: u64 where
  "default_max_buffered_queries = 100"

definition default_max_request_duration :: duration where
  "default_max_request_duration = from_secs (60 * 5)"

definition agglayer_prover_config_default :: "environment \<Rightarrow> (agglayer_prover_config, report) result" where
  "agglayer_prover_config_default env =
     and_then (network_prover_config_default env) (\<lambda>network. Ok
       \<lparr>lc_grpc_endpoint = agglayer_default_socket_addr,
        lc_grpc = grpc_config_default,
        lc_log = log_default,
        lc_telemetry_addr = agglayer_default_metrics_api_addr,
        lc_shutdown_runtime_timeout = agglayer_default_runtime_shutdown_timeout,
        lc_max_concurrency_limit = default_max_concurrency_limit,
        lc_max_request_duration = default_max_request_duration,
        lc_max_buffered_queries = default_max_buffered_queries,
        lc_primary_prover = NetworkProver network,
        lc_fallback_prover = None\<rparr>)"

definition agglayer_try_load ::
  "(string \<Rightarrow> (string, report) result) \<Rightarrow> (string \<Rightarrow> (agglayer_prover_config, report) result) \<Rightarrow> string \<Rightarrow>
   (agglayer_prover_config, configuration_error) result" where
  "agglayer_try_load read_to_string deserialize path =
     and_then (map_err (UnableToReadConfigFile path) (read_to_string path)) (\<lambda>reader.
     map_err DeserializationError (deserialize reader))"

section \<open>Lemmas\<close>

text \<open>The request timeout that was not configured is one second more than the proving timeout, when
  that is a duration.\<close>

lemma duration_add_eq_Ok: "duration_add a b = Ok c \<longleftrightarrow> a + b \<le> DURATION_MAX \<and> c = a + b"
  by (auto simp: duration_add_def)

lemma duration_add_not_Err [simp]: "duration_add a b \<noteq> Err e"
  by (simp add: duration_add_def)

lemma human_duration_roundtrip: "human_duration_get (human_duration_new d) = d"
  by (simp add: human_duration_new_def)

section \<open>Timeouts\<close>

text \<open>The outer request timeout leaves room for the prover's own timeout. For each kind of prover
  whose request timeout is not configured, \<open>get_proving_request_timeout\<close> returns one second more than
  the proving timeout, and it panics exactly when that sum is not a \<open>Duration\<close>; a configured request
  timeout is returned as it is.\<close>

lemma proving_request_timeout_padding:
  "(npc_proving_request_timeout n = None \<longrightarrow>
      (case network_get_proving_request_timeout n of
         Ok t \<Rightarrow> t = npc_proving_timeout n + 1000000000 \<and> t \<le> DURATION_MAX
       | Err e \<Rightarrow> False
       | Panic p \<Rightarrow> DURATION_MAX < npc_proving_timeout n + 1000000000)) \<and>
   (cpc_proving_request_timeout c = None \<longrightarrow>
      (case cpu_get_proving_request_timeout c of
         Ok t \<Rightarrow> t = cpc_proving_timeout c + 1000000000 \<and> t \<le> DURATION_MAX
       | Err e \<Rightarrow> False
       | Panic p \<Rightarrow> DURATION_MAX < cpc_proving_timeout c + 1000000000)) \<and>
   (npc_proving_request_timeout n = Some u \<longrightarrow> network_get_proving_request_timeout n = Ok u) \<and>
   (cpc_proving_request_timeout c = Some v \<longrightarrow> cpu_get_proving_request_timeout c = Ok v)"
  by (auto simp: network_get_proving_request_timeout_def cpu_get_proving_request_timeout_def
      duration_add_def DEFAULT_PROVING_TIMEOUT_PADDING_def from_secs_def)

lemma cpu_default_request_timeout:
  "cpu_get_proving_request_timeout cpu_prover_config_default = Ok 301000000000"
proof -
  have none: "cpc_proving_request_timeout cpu_prover_config_default = None"
    and t: "cpc_proving_timeout cpu_prover_config_default = 300000000000"
    by (simp_all add: cpu_prover_config_default_def default_local_proving_timeout_def from_secs_def)
  have "\<not> DURATION_MAX < 300000000000 + 1000000000" by (simp add: DURATION_MAX_def)
  then show ?thesis
    using proving_request_timeout_padding [of undefined cpu_prover_config_default undefined undefined] none
    unfolding t by (cases "cpu_get_proving_request_timeout cpu_prover_config_default") auto
qed

end
