(* ===== verification/Executor.thy ===== *)
theory Executor
  imports Prover_Config
begin

text \<open>
  \<open>crates/prover-executor\<close>: the Tower services that run SP1 provers, the executor with a primary and
  a fallback prover, and the wrappers that turn panics of the SP1 SDK into errors.

  A service is its readiness at each poll and the outcome of a call. Futures are their outcomes:
  \<open>ready().await\<close> polls until the service is ready, with fuel for the number of polls, so that
  \<open>None\<close> is a future that is still pending. The SP1 SDK, the Tower layers and the thread pool are
  parameters: the records \<open>sp1_sdk\<close>, \<open>tower_layers\<close> and the flag \<open>pool_up\<close>.

  The locale \<open>checked_prover\<close> is the contract of a prover service: what it returns has been verified.
  It is interpreted on the local and the network executor; the services around them keep it.
\<close>

section \<open>Errors\<close>

datatype sp1_verification_error =
    Sp1VersionMismatch string
  | Sp1Core report
  | Sp1Recursion report
  | Sp1Plonk report
  | Sp1Groth16 report
  | Sp1InvalidPublicValues
  | Sp1Other report

datatype proof_verification_error =
    VersionMismatch string
  | Core string
  | Recursion string
  | Plonk string
  | Groth16 string
  | InvalidPublicValues
  | Other string

fun proof_verification_error_of :: "sp1_verification_error \<Rightarrow> proof_verification_error" where
  "proof_verification_error_of (Sp1VersionMismatch v) = VersionMismatch v"
| "proof_verification_error_of (Sp1Core c) = Core c"
| "proof_verification_error_of (Sp1Recursion r) = Recursion r"
| "proof_verification_error_of (Sp1Plonk e) = Plonk e"
| "proof_verification_error_of (Sp1Groth16 e) = Groth16 e"
| "proof_verification_error_of Sp1InvalidPublicValues = InvalidPublicValues"
| "proof_verification_error_of (Sp1Other e) = Core e"

datatype executor_error =
    UnableToExecuteProver
  | ProverFailed string
  | ProofVerificationFailed proof_verification_error
  | ExecutorFailed "byte list"
  | UnableToInitializePrimaryProver
  | UnableToInitializeFallbackProver

section \<open>Calls into the SP1 SDK\<close>

text \<open>\<open>Sp1PanicError\<close> is its message; the report of it has the text of its \<open>Display\<close>.\<close>

fun sp1_panic_message :: "panic_payload \<Rightarrow> string" where
  "sp1_panic_message (PanicString message) = message"
| "sp1_panic_message (PanicStr message) = message"
| "sp1_panic_message PanicOther = ''<unknown message type>''"

definition sp1_panic_report :: "panic_payload \<Rightarrow> report" where
  "sp1_panic_report p = ''Panic occurred during SP1 call: '' @ sp1_panic_message p"

text \<open>The outcome of the closure is kept as a value; a panic becomes an error.\<close>

fun sp1_fast :: "('a, 'e) result \<Rightarrow> (('a, 'e) result, report) result" where
  "sp1_fast (Ok x) = Ok (Ok x)"
| "sp1_fast (Err e) = Ok (Err e)"
| "sp1_fast (Panic p) = Err (sp1_panic_report p)"

text \<open>Joining a blocking task fails only when the pool is shut down.\<close>

definition sp1_blocking :: "bool \<Rightarrow> ('a, 'e) result \<Rightarrow> (('a, 'e) result, report) result" where
  "sp1_blocking pool_up f =
     (if pool_up then sp1_fast f else Err ''Failed running blocking task for SP1 call'')"

definition sp1_block_in_place :: "('a, 'e) result \<Rightarrow> (('a, 'e) result, report) result" where
  "sp1_block_in_place f =
     map_err (\<lambda>_. ''Failed running blocking task in place for SP1 call'') (sp1_fast f)"

definition sp1_async :: "('a, 'e) result \<Rightarrow> (('a, 'e) result, report) result" where
  "sp1_async f = sp1_fast f"

section \<open>Services\<close>

datatype 'a poll = Pending | Ready 'a

record ('req, 'res, 'e) service =
  sv_poll_ready :: "nat \<Rightarrow> (unit, 'e) result poll"
  sv_call :: "'req \<Rightarrow> ('res, 'e) result"

text \<open>\<open>ready().await\<close>: poll from attempt \<open>n\<close> on, at most \<open>fuel\<close> times.\<close>

fun ready_await :: "nat \<Rightarrow> (nat \<Rightarrow> 'a poll) \<Rightarrow> nat \<Rightarrow> 'a option" where
  "ready_await 0 p n = None"
| "ready_await (Suc fuel) p n =
     (case p n of Pending \<Rightarrow> ready_await fuel p (Suc n) | Ready r \<Rightarrow> Some r)"

definition service_map_err ::
  "('e \<Rightarrow> 'f) \<Rightarrow> ('req, 'res, 'e) service \<Rightarrow> ('req, 'res, 'f) service" where
  "service_map_err f s =
     \<lparr>sv_poll_ready = (\<lambda>n. case sv_poll_ready s n of Pending \<Rightarrow> Pending | Ready r \<Rightarrow> Ready (map_err f r)),
      sv_call = (\<lambda>req. map_err f (sv_call s req))\<rparr>"

text \<open>The boxed error of a layer: an error of the inner service, or one of the layer itself.\<close>

datatype box_error = BoxExecutor executor_error | BoxOther string

fun downcast_error :: "box_error \<Rightarrow> executor_error" where
  "downcast_error (BoxExecutor error) = error"
| "downcast_error (BoxOther error) = ProverFailed error"

record ('req, 'res) tower_layers =
  timeout_layer ::
    "duration \<Rightarrow> ('req, 'res, box_error) service \<Rightarrow> ('req, 'res, box_error) service"
  concurrency_limit_layer ::
    "u64 \<Rightarrow> ('req, 'res, box_error) service \<Rightarrow> ('req, 'res, box_error) service"

definition build_network_service ::
  "('req, 'res) tower_layers \<Rightarrow> duration \<Rightarrow> ('req, 'res, executor_error) service \<Rightarrow>
   ('req, 'res, executor_error) service" where
  "build_network_service L timeout service =
     service_map_err downcast_error (timeout_layer L timeout (service_map_err BoxExecutor service))"

definition build_local_service ::
  "('req, 'res) tower_layers \<Rightarrow> duration \<Rightarrow> u64 \<Rightarrow> ('req, 'res, executor_error) service \<Rightarrow>
   ('req, 'res, executor_error) service" where
  "build_local_service L timeout concurrency service =
     service_map_err downcast_error
       (timeout_layer L timeout
         (concurrency_limit_layer L concurrency (service_map_err BoxExecutor service)))"

section \<open>Provers\<close>

datatype proof_type = StarkProof | PlonkProof

record 'stdin request =
  rq_stdin :: 'stdin
  rq_proof_type :: proof_type

record 'proof response =
  rs_proof :: 'proof

datatype fulfillment_strategy = Hosted

datatype sp1_mode = CompressedMode | PlonkMode

text \<open>The prover objects of the SDK. \<open>cpu_run\<close> runs a proof request with its keys, input, mode and
  whether deferred proofs are verified; \<open>network_run\<close> with the timeout and the strategy.\<close>

record ('stdin, 'proof, 'pk, 'vk) cpu_prover =
  cpu_setup :: "byte list \<Rightarrow> ('pk \<times> 'vk, report) result"
  cpu_run :: "'pk \<Rightarrow> 'stdin \<Rightarrow> sp1_mode \<Rightarrow> bool \<Rightarrow> ('proof, report) result"
  cpu_verify :: "'proof \<Rightarrow> 'vk \<Rightarrow> (unit, sp1_verification_error) result"

record ('stdin, 'proof, 'pk, 'vk) network_prover =
  network_setup :: "byte list \<Rightarrow> ('pk \<times> 'vk, report) result"
  network_run :: "'pk \<Rightarrow> 'stdin \<Rightarrow> sp1_mode \<Rightarrow> duration \<Rightarrow> fulfillment_strategy \<Rightarrow> ('proof, report) result"
  network_verify :: "'proof \<Rightarrow> 'vk \<Rightarrow> (unit, sp1_verification_error) result"

fun mode_of :: "proof_type \<Rightarrow> sp1_mode" where
  "mode_of PlonkProof = PlonkMode"
| "mode_of StarkProof = CompressedMode"

record ('stdin, 'proof, 'pk, 'vk) local_executor =
  le_proving_key :: 'pk
  le_verification_key :: 'vk
  le_is_mock :: bool
  le_prover :: "('stdin, 'proof, 'pk, 'vk) cpu_prover"

definition local_executor_prove ::
  "('stdin, 'proof, 'pk, 'vk) local_executor \<Rightarrow> 'stdin request \<Rightarrow> ('proof response, executor_error) result" where
  "local_executor_prove self req =
     and_then
       (map_err ProverFailed
         (cpu_run (le_prover self) (le_proving_key self) (rq_stdin req) (mode_of (rq_proof_type req))
           (\<not> le_is_mock self))) (\<lambda>proof.
     and_then
       (map_err (\<lambda>error. ProofVerificationFailed (proof_verification_error_of error))
         (cpu_verify (le_prover self) proof (le_verification_key self))) (\<lambda>_.
     Ok \<lparr>rs_proof = proof\<rparr>))"

definition local_executor_call ::
  "bool \<Rightarrow> ('stdin, 'proof, 'pk, 'vk) local_executor \<Rightarrow> 'stdin request \<Rightarrow>
   ('proof response, executor_error) result" where
  "local_executor_call pool_up self req =
     and_then (map_err (\<lambda>_. UnableToExecuteProver) (sp1_blocking pool_up (local_executor_prove self req)))
       (\<lambda>res. res)"

definition local_service ::
  "bool \<Rightarrow> ('stdin, 'proof, 'pk, 'vk) local_executor \<Rightarrow> ('stdin request, 'proof response, executor_error) service" where
  "local_service pool_up self =
     \<lparr>sv_poll_ready = (\<lambda>_. Ready (Ok ())), sv_call = local_executor_call pool_up self\<rparr>"

record ('stdin, 'proof, 'pk, 'vk) network_executor =
  ne_prover :: "('stdin, 'proof, 'pk, 'vk) network_prover"
  ne_proving_key :: 'pk
  ne_verification_key :: 'vk
  ne_timeout :: duration

definition network_executor_prove ::
  "('stdin, 'proof, 'pk, 'vk) network_executor \<Rightarrow> 'stdin request \<Rightarrow> ('proof response, executor_error) result" where
  "network_executor_prove self req =
     and_then
       (map_err ProverFailed
         (network_run (ne_prover self) (ne_proving_key self) (rq_stdin req) (mode_of (rq_proof_type req))
           (ne_timeout self) Hosted)) (\<lambda>proof.
     and_then
       (map_err (\<lambda>error. ProofVerificationFailed (proof_verification_error_of error))
         (network_verify (ne_prover self) proof (ne_verification_key self))) (\<lambda>_.
     Ok \<lparr>rs_proof = proof\<rparr>))"

definition network_executor_call ::
  "('stdin, 'proof, 'pk, 'vk) network_executor \<Rightarrow> 'stdin request \<Rightarrow> ('proof response, executor_error) result" where
  "network_executor_call self req =
     and_then (map_err (\<lambda>_. UnableToExecuteProver) (sp1_async (network_executor_prove self req)))
       (\<lambda>res. res)"

definition network_service ::
  "('stdin, 'proof, 'pk, 'vk) network_executor \<Rightarrow> ('stdin request, 'proof response, executor_error) service" where
  "network_service self =
     \<lparr>sv_poll_ready = (\<lambda>_. Ready (Ok ())), sv_call = network_executor_call self\<rparr>"

section \<open>The executor\<close>

record ('stdin, 'proof, 'vk) executor =
  ex_vkey :: 'vk
  ex_primary :: "('stdin request, 'proof response, executor_error) service"
  ex_fallback :: "('stdin request, 'proof response, executor_error) service option"

record ('stdin, 'proof, 'pk, 'vk) sp1_sdk =
  sdk_network_client :: "url \<Rightarrow> (('stdin, 'proof, 'pk, 'vk) network_prover, report) result"
  sdk_cpu_new :: "(('stdin, 'proof, 'pk, 'vk) cpu_prover, report) result"
  sdk_cpu_mock :: "(('stdin, 'proof, 'pk, 'vk) cpu_prover, report) result"

text \<open>\<open>create_prover\<close>: the client, its keys and the service around it, in one call of the blocking
  pool that catches panics. The \<open>result\<close> of the closure has no errors of its own.\<close>

definition create_prover ::
  "bool \<Rightarrow> ('stdin request, 'proof response) tower_layers \<Rightarrow> ('stdin, 'proof, 'pk, 'vk) sp1_sdk \<Rightarrow>
   prover_type \<Rightarrow> byte list \<Rightarrow>
   ('vk \<times> ('stdin request, 'proof response, executor_error) service, report) result" where
  "create_prover pool_up L sdk prover_type program =
     and_then (sp1_blocking pool_up
       (case prover_type of
          NetworkProver config \<Rightarrow>
            and_then (sdk_network_client sdk (npc_sp1_cluster_endpoint config)) (\<lambda>network_prover.
            and_then (network_setup network_prover program) (\<lambda>(proving_key, verification_key).
            and_then (network_get_proving_request_timeout config) (\<lambda>timeout. Ok
              (verification_key,
               build_network_service L timeout
                 (network_service
                   \<lparr>ne_prover = network_prover, ne_proving_key = proving_key,
                    ne_verification_key = verification_key,
                    ne_timeout = npc_proving_timeout config\<rparr>)))))
        | CpuProver config \<Rightarrow>
            and_then (sdk_cpu_new sdk) (\<lambda>prover.
            and_then (cpu_setup prover program) (\<lambda>(proving_key, verification_key).
            and_then (cpu_get_proving_request_timeout config) (\<lambda>timeout. Ok
              (verification_key,
               build_local_service L timeout (cpc_max_concurrency_limit config)
                 (local_service pool_up
                   \<lparr>le_proving_key = proving_key, le_verification_key = verification_key,
                    le_is_mock = False, le_prover = prover\<rparr>)))))
        | MockProver config \<Rightarrow>
            and_then (sdk_cpu_mock sdk) (\<lambda>prover.
            and_then (cpu_setup prover program) (\<lambda>(proving_key, verification_key).
            and_then (mock_get_proving_request_timeout config) (\<lambda>timeout. Ok
              (verification_key,
               build_local_service L timeout (mpc_max_concurrency_limit config)
                 (local_service pool_up
                   \<lparr>le_proving_key = proving_key, le_verification_key = verification_key,
                    le_is_mock = True, le_prover = prover\<rparr>)))))))
       (\<lambda>r. r)"

definition executor_new ::
  "bool \<Rightarrow> ('stdin request, 'proof response) tower_layers \<Rightarrow> ('stdin, 'proof, 'pk, 'vk) sp1_sdk \<Rightarrow>
   prover_type \<Rightarrow> prover_type option \<Rightarrow> byte list \<Rightarrow> (('stdin, 'proof, 'vk) executor, report) result" where
  "executor_new pool_up L sdk primary fallback program =
     and_then
       (map_err (\<lambda>_. ''Failed creating primary prover'') (create_prover pool_up L sdk primary program))
       (\<lambda>(vkey, primary).
     and_then
       (case fallback of
          Some config \<Rightarrow>
            and_then
              (map_err (\<lambda>_. ''Failed creating secondary prover'')
                (create_prover pool_up L sdk config program)) (\<lambda>(vk, svc). Ok (Some svc))
        | None \<Rightarrow> Ok None) (\<lambda>fallback.
     Ok \<lparr>ex_vkey = vkey, ex_primary = primary, ex_fallback = fallback\<rparr>))"

definition compute_program_vkey ::
  "bool \<Rightarrow> ('stdin request, 'proof response) tower_layers \<Rightarrow> ('stdin, 'proof, 'pk, 'vk) sp1_sdk \<Rightarrow>
   byte list \<Rightarrow> ('vk, report) result" where
  "compute_program_vkey pool_up L sdk program =
     and_then
       (map_err (\<lambda>_. ''Failed creating fake prover to compute program vkey'')
         (executor_new pool_up L sdk (CpuProver cpu_prover_config_default) None program))
       (\<lambda>ex. Ok (ex_vkey ex))"

text \<open>The readiness of the executor at a poll: the primary first, then the fallback.\<close>

definition executor_poll_ready ::
  "('stdin, 'proof, 'vk) executor \<Rightarrow> nat \<Rightarrow> (unit, executor_error) result poll" where
  "executor_poll_ready self n =
     (case sv_poll_ready (ex_primary self) n of
        Pending \<Rightarrow> Pending
      | Ready (Err _) \<Rightarrow> Ready (Err UnableToInitializePrimaryProver)
      | Ready (Panic p) \<Rightarrow> Ready (Panic p)
      | Ready (Ok _) \<Rightarrow>
          (case ex_fallback self of
             Some fallback \<Rightarrow>
               (case sv_poll_ready fallback n of
                  Pending \<Rightarrow> Pending
                | Ready r \<Rightarrow> Ready (map_err (\<lambda>_. UnableToInitializeFallbackProver) r))
           | None \<Rightarrow> Ready (Ok ())))"

text \<open>\<open>service.ready().await?.call(req).await\<close>\<close>

definition ready_call ::
  "nat \<Rightarrow> ('req, 'res, 'e) service \<Rightarrow> 'req \<Rightarrow> ('res, 'e) result option" where
  "ready_call fuel s req =
     (case ready_await fuel (sv_poll_ready s) 0 of
        None \<Rightarrow> None
      | Some r \<Rightarrow> Some (and_then r (\<lambda>_. sv_call s req)))"

definition executor_call ::
  "nat \<Rightarrow> ('stdin, 'proof, 'vk) executor \<Rightarrow> 'stdin request \<Rightarrow>
   ('proof response, executor_error) result option" where
  "executor_call fuel self req =
     (case ready_await fuel (sv_poll_ready (ex_primary self)) 0 of
        None \<Rightarrow> None
      | Some (Err e) \<Rightarrow> Some (Err e)
      | Some (Panic p) \<Rightarrow> Some (Panic p)
      | Some (Ok _) \<Rightarrow>
          (case sv_call (ex_primary self) req of
             Ok res \<Rightarrow> Some (Ok res)
           | Panic p \<Rightarrow> Some (Panic p)
           | Err err \<Rightarrow>
               (case ex_fallback self of
                  Some fallback \<Rightarrow> ready_call fuel fallback req
                | None \<Rightarrow> Some (Err err))))"

section \<open>Readiness\<close>

lemma ready_await_eq_Some:
  "ready_await fuel p n = Some r \<longleftrightarrow>
     (\<exists>k<fuel. p (n + k) = Ready r \<and> (\<forall>j<k. p (n + j) = Pending))"
proof (induction fuel arbitrary: n)
  case 0
  show ?case by simp
next
  case (Suc fuel)
  show ?case
  proof (cases "p n")
    case Pending
    have "(\<exists>k<Suc fuel. p (n + k) = Ready r \<and> (\<forall>j<k. p (n + j) = Pending)) \<longleftrightarrow>
        (\<exists>k<fuel. p (Suc n + k) = Ready r \<and> (\<forall>j<k. p (Suc n + j) = Pending))"
      using Pending by (auto simp: Ex_less_Suc2 All_less_Suc2)
    with Pending show ?thesis by (simp add: Suc.IH)
  next
    case (Ready x)
    then show ?thesis by (auto simp: Ex_less_Suc2 All_less_Suc2)
  qed
qed

text \<open>A service that becomes ready within the fuel.\<close>

definition ready_by :: "nat \<Rightarrow> ('req, 'res, 'e) service \<Rightarrow> bool" where
  "ready_by fuel s \<longleftrightarrow> (\<exists>k<fuel. sv_poll_ready s k \<noteq> Pending)"

lemma ready_await_defined:
  "(\<exists>k<fuel. p (n + k) \<noteq> Pending) \<Longrightarrow> \<exists>r. ready_await fuel p n = Some r"
proof (induction fuel arbitrary: n)
  case (Suc fuel)
  show ?case
  proof (cases "p n")
    case Pending
    with Suc.prems have "\<exists>k<fuel. p (Suc n + k) \<noteq> Pending" by (auto simp: Ex_less_Suc2)
    with Suc.IH [of "Suc n"] Pending show ?thesis by simp
  qed simp
qed simp

lemma ready_call_defined: "ready_by fuel s \<Longrightarrow> \<exists>r. ready_call fuel s req = Some r"
  using ready_await_defined [of fuel "sv_poll_ready s" 0] by (auto simp: ready_by_def ready_call_def)

section \<open>The contract of a prover\<close>

locale checked_prover =
  fixes prove :: "'stdin request \<Rightarrow> ('proof response, executor_error) result"
    and accepts :: "'proof \<Rightarrow> bool"
  assumes prove_checked: "prove req = Ok res \<Longrightarrow> accepts (rs_proof res)"
    and prove_no_panic: "prove req \<noteq> Panic p"
begin

lemma prove_outcome:
  "(\<exists>res. prove req = Ok res \<and> accepts (rs_proof res)) \<or> (\<exists>e. prove req = Err e)"
  using prove_checked prove_no_panic by (cases "prove req") auto

lemma weaken: "(\<And>proof. accepts proof \<Longrightarrow> accepts' proof) \<Longrightarrow> checked_prover prove accepts'"
  using prove_checked prove_no_panic by (simp add: checked_prover_def)

end

lemma sp1_fast_flatten_Ok: "and_then (map_err f (sp1_fast r)) (\<lambda>x. x) = Ok y \<longleftrightarrow> r = Ok y"
  by (cases r) auto

lemma sp1_fast_flatten_not_Panic: "and_then (map_err f (sp1_fast r)) (\<lambda>x. x) \<noteq> Panic p"
  by (cases r) auto

interpretation local_prover: checked_prover
  "local_executor_call pool_up self"
  "\<lambda>proof. cpu_verify (le_prover self) proof (le_verification_key self) = Ok ()"
  for pool_up self
proof
  fix req res
  assume "local_executor_call pool_up self req = Ok res"
  then have "local_executor_prove self req = Ok res"
    by (cases pool_up) (simp_all add: local_executor_call_def sp1_blocking_def sp1_fast_flatten_Ok)
  then show "cpu_verify (le_prover self) (rs_proof res) (le_verification_key self) = Ok ()"
    by (auto simp: local_executor_prove_def result_simps)
next
  fix req p
  show "local_executor_call pool_up self req \<noteq> Panic p"
    by (cases pool_up)
      (simp_all add: local_executor_call_def sp1_blocking_def sp1_fast_flatten_not_Panic)
qed

interpretation network_prover: checked_prover
  "network_executor_call self"
  "\<lambda>proof. network_verify (ne_prover self) proof (ne_verification_key self) = Ok ()"
  for self
proof
  fix req res
  assume "network_executor_call self req = Ok res"
  then have "network_executor_prove self req = Ok res"
    by (simp add: network_executor_call_def sp1_async_def sp1_fast_flatten_Ok)
  then show "network_verify (ne_prover self) (rs_proof res) (ne_verification_key self) = Ok ()"
    by (auto simp: network_executor_prove_def result_simps)
next
  fix req p
  show "network_executor_call self req \<noteq> Panic p"
    by (simp add: network_executor_call_def sp1_async_def sp1_fast_flatten_not_Panic)
qed

text \<open>What the executor relies on of the Tower layers: a layer delays readiness, and it answers with
  the answer of the inner service or with an error of its own.\<close>

definition layer_transparent ::
  "(('req, 'res, box_error) service \<Rightarrow> ('req, 'res, box_error) service) \<Rightarrow> bool" where
  "layer_transparent f \<longleftrightarrow>
     (\<forall>s req. sv_call (f s) req = sv_call s req \<or> (\<exists>m. sv_call (f s) req = Err (BoxOther m))) \<and>
     (\<forall>s n. sv_poll_ready (f s) n = Pending \<or> sv_poll_ready (f s) n = sv_poll_ready s n)"

definition layers_transparent :: "('req, 'res) tower_layers \<Rightarrow> bool" where
  "layers_transparent L \<longleftrightarrow>
     (\<forall>d. layer_transparent (timeout_layer L d)) \<and> (\<forall>n. layer_transparent (concurrency_limit_layer L n))"

lemma layer_transparent_comp:
  assumes "layer_transparent f" and "layer_transparent g"
  shows "layer_transparent (\<lambda>s. f (g s))"
  using assms unfolding layer_transparent_def by metis

lemma layered_checked:
  assumes "layer_transparent f" and "checked_prover (sv_call s) acc"
  shows "checked_prover (sv_call (service_map_err downcast_error (f (service_map_err BoxExecutor s)))) acc"
proof
  fix req
  let ?s = "service_map_err BoxExecutor s"
  have inner: "sv_call ?s req = map_err BoxExecutor (sv_call s req)" by (simp add: service_map_err_def)
  have alt: "sv_call (f ?s) req = map_err BoxExecutor (sv_call s req) \<or> (\<exists>m. sv_call (f ?s) req = Err (BoxOther m))"
    using assms(1) inner unfolding layer_transparent_def by metis
  {
    fix res
    assume "sv_call (service_map_err downcast_error (f ?s)) req = Ok res"
    then have "sv_call (f ?s) req = Ok res" by (simp add: service_map_err_def result_simps)
    with alt have "sv_call s req = Ok res" by (metis map_err_eq_Ok result.distinct(1))
    then show "acc (rs_proof res)" using assms(2) by (simp add: checked_prover_def)
  next
    fix p
    have "sv_call (f ?s) req \<noteq> Panic p"
      using alt assms(2) by (auto simp: checked_prover_def result_simps)
    then show "sv_call (service_map_err downcast_error (f ?s)) req \<noteq> Panic p"
      by (simp add: service_map_err_def result_simps)
  }
qed

lemma build_network_checked:
  assumes "layers_transparent L" and "checked_prover (sv_call s) acc"
  shows "checked_prover (sv_call (build_network_service L t s)) acc"
  using layered_checked [of "timeout_layer L t"] assms
  unfolding build_network_service_def layers_transparent_def by blast

lemma build_local_checked:
  assumes "layers_transparent L" and "checked_prover (sv_call s) acc"
  shows "checked_prover (sv_call (build_local_service L t c s)) acc"
  using layered_checked [of "\<lambda>s. timeout_layer L t (concurrency_limit_layer L c s)"] assms
    layer_transparent_comp [of "timeout_layer L t" "concurrency_limit_layer L c"]
  unfolding build_local_service_def layers_transparent_def by blast

text \<open>A prover service never fails to become ready.\<close>

definition ready_or_pending :: "('req, 'res, 'e) service \<Rightarrow> bool" where
  "ready_or_pending s \<longleftrightarrow> (\<forall>n. sv_poll_ready s n = Pending \<or> sv_poll_ready s n = Ready (Ok ()))"

lemma layered_ready:
  assumes "layer_transparent f" and "ready_or_pending s"
  shows "ready_or_pending (service_map_err downcast_error (f (service_map_err BoxExecutor s)))"
proof -
  have "sv_poll_ready (f (service_map_err BoxExecutor s)) n = Pending \<or>
      sv_poll_ready (f (service_map_err BoxExecutor s)) n = Ready (Ok ())" for n
  proof -
    have "sv_poll_ready (service_map_err BoxExecutor s) n = Pending \<or>
        sv_poll_ready (service_map_err BoxExecutor s) n = Ready (Ok ())"
      using assms(2) [unfolded ready_or_pending_def, THEN spec, of n] by (auto simp: service_map_err_def)
    then show ?thesis using assms(1) unfolding layer_transparent_def by metis
  qed
  then have "sv_poll_ready (service_map_err downcast_error (f (service_map_err BoxExecutor s))) n = Pending \<or>
      sv_poll_ready (service_map_err downcast_error (f (service_map_err BoxExecutor s))) n = Ready (Ok ())" for n
    by (metis (no_types, lifting) map_err.simps(1) poll.case service.select_convs(1) service_map_err_def)
  then show ?thesis by (simp add: ready_or_pending_def)
qed

section \<open>Created provers\<close>

text \<open>The proof verifies under the key with the prover that a configuration stands for.\<close>

fun sdk_accepts :: "('stdin, 'proof, 'pk, 'vk) sp1_sdk \<Rightarrow> prover_type \<Rightarrow> 'vk \<Rightarrow> 'proof \<Rightarrow> bool" where
  "sdk_accepts sdk (NetworkProver c) vk proof \<longleftrightarrow>
     (\<exists>np. sdk_network_client sdk (npc_sp1_cluster_endpoint c) = Ok np \<and> network_verify np proof vk = Ok ())"
| "sdk_accepts sdk (CpuProver c) vk proof \<longleftrightarrow>
     (\<exists>cp. sdk_cpu_new sdk = Ok cp \<and> cpu_verify cp proof vk = Ok ())"
| "sdk_accepts sdk (MockProver c) vk proof \<longleftrightarrow>
     (\<exists>cp. sdk_cpu_mock sdk = Ok cp \<and> cpu_verify cp proof vk = Ok ())"

lemma sp1_blocking_flatten_Ok:
  "and_then (sp1_blocking up r) (\<lambda>x. x) = Ok y \<longleftrightarrow> up \<and> r = Ok y"
  by (cases up; cases r) (auto simp: sp1_blocking_def)

lemma network_service_checked:
  assumes "\<And>proof. network_verify (ne_prover n) proof (ne_verification_key n) = Ok () \<Longrightarrow> acc proof"
  shows "checked_prover (sv_call (network_service n)) acc"
  using network_prover.weaken [of n acc] assms by (simp add: network_service_def)

lemma local_service_checked:
  assumes "\<And>proof. cpu_verify (le_prover l) proof (le_verification_key l) = Ok () \<Longrightarrow> acc proof"
  shows "checked_prover (sv_call (local_service up l)) acc"
  using local_prover.weaken [of l acc up] assms by (simp add: local_service_def)

lemma create_prover_checked:
  assumes "create_prover up L sdk pt program = Ok (vk, svc)" and "layers_transparent L"
  shows "checked_prover (sv_call svc) (sdk_accepts sdk pt vk)" and "ready_or_pending svc"
proof -
  have lay: "layer_transparent (timeout_layer L t)" "layer_transparent (\<lambda>s. timeout_layer L t (concurrency_limit_layer L c s))"
    for t c
    using assms(2) layer_transparent_comp unfolding layers_transparent_def by blast+
  have rdy: "ready_or_pending (network_service n)" "ready_or_pending (local_service up l)" for n l
    by (simp_all add: ready_or_pending_def network_service_def local_service_def)
  show "checked_prover (sv_call svc) (sdk_accepts sdk pt vk)"
  proof (cases pt)
    case (NetworkProver c)
    then obtain np pk t where np: "sdk_network_client sdk (npc_sp1_cluster_endpoint c) = Ok np"
      and svc: "svc = build_network_service L t (network_service \<lparr>ne_prover = np, ne_proving_key = pk,
         ne_verification_key = vk, ne_timeout = npc_proving_timeout c\<rparr>)"
      using assms(1) unfolding create_prover_def sp1_blocking_flatten_Ok by (auto simp: result_simps)
    have "checked_prover (sv_call (network_service \<lparr>ne_prover = np, ne_proving_key = pk,
         ne_verification_key = vk, ne_timeout = npc_proving_timeout c\<rparr>)) (sdk_accepts sdk pt vk)"
      using np NetworkProver by (intro network_service_checked) auto
    then show ?thesis unfolding svc by (rule build_network_checked [OF assms(2)])
  next
    case (CpuProver c)
    then obtain cp pk t where cp: "sdk_cpu_new sdk = Ok cp"
      and svc: "svc = build_local_service L t (cpc_max_concurrency_limit c) (local_service up
         \<lparr>le_proving_key = pk, le_verification_key = vk, le_is_mock = False, le_prover = cp\<rparr>)"
      using assms(1) unfolding create_prover_def sp1_blocking_flatten_Ok by (auto simp: result_simps)
    have "checked_prover (sv_call (local_service up
         \<lparr>le_proving_key = pk, le_verification_key = vk, le_is_mock = False, le_prover = cp\<rparr>)) (sdk_accepts sdk pt vk)"
      using cp CpuProver by (intro local_service_checked) auto
    then show ?thesis unfolding svc by (rule build_local_checked [OF assms(2)])
  next
    case (MockProver c)
    then obtain cp pk t where cp: "sdk_cpu_mock sdk = Ok cp"
      and svc: "svc = build_local_service L t (mpc_max_concurrency_limit c) (local_service up
         \<lparr>le_proving_key = pk, le_verification_key = vk, le_is_mock = True, le_prover = cp\<rparr>)"
      using assms(1) unfolding create_prover_def sp1_blocking_flatten_Ok by (auto simp: result_simps)
    have "checked_prover (sv_call (local_service up
         \<lparr>le_proving_key = pk, le_verification_key = vk, le_is_mock = True, le_prover = cp\<rparr>)) (sdk_accepts sdk pt vk)"
      using cp MockProver by (intro local_service_checked) auto
    then show ?thesis unfolding svc by (rule build_local_checked [OF assms(2)])
  qed
  show "ready_or_pending svc"
    using assms(1) unfolding create_prover_def sp1_blocking_flatten_Ok
    by (auto simp: result_simps build_network_service_def build_local_service_def
        intro!: layered_ready lay rdy split: prover_type.splits)
qed

section \<open>Calls of the executor\<close>

lemma executor_call_eq:
  "executor_call fuel ex req =
     (case ready_call fuel (ex_primary ex) req of
        None \<Rightarrow> None
      | Some r \<Rightarrow>
          (case (ready_await fuel (sv_poll_ready (ex_primary ex)) 0, r, ex_fallback ex) of
             (Some (Ok _), Err _, Some fallback) \<Rightarrow> ready_call fuel fallback req
           | _ \<Rightarrow> Some r))"
  by (auto simp: executor_call_def ready_call_def split: option.splits result.splits)

text \<open>An answer of the executor is an answer of the primary, or of the fallback after an error of the
  primary.\<close>

lemma executor_call_Ok:
  assumes "executor_call fuel ex req = Some (Ok res)"
  shows "sv_call (ex_primary ex) req = Ok res \<or>
     (\<exists>fb e. ex_fallback ex = Some fb \<and> sv_call (ex_primary ex) req = Err e \<and> sv_call fb req = Ok res)"
  using assms by (auto simp: executor_call_def ready_call_def result_simps split: option.splits result.splits)

lemma executor_new_eq_Ok:
  "executor_new up L sdk primary fallback program = Ok ex \<longleftrightarrow>
     create_prover up L sdk primary program = Ok (ex_vkey ex, ex_primary ex) \<and>
     (case fallback of
        None \<Rightarrow> ex_fallback ex = None
      | Some c \<Rightarrow> \<exists>vk svc. create_prover up L sdk c program = Ok (vk, svc) \<and> ex_fallback ex = Some svc)"
  by (cases fallback; cases ex) (auto simp: executor_new_def result_simps)

lemma ready_or_pending_await:
  "ready_or_pending s \<Longrightarrow> ready_await fuel (sv_poll_ready s) n \<in> {None, Some (Ok ())}"
proof (induction fuel arbitrary: n)
  case (Suc fuel)
  from Suc.prems have "sv_poll_ready s n = Pending \<or> sv_poll_ready s n = Ready (Ok ())"
    by (simp add: ready_or_pending_def)
  with Suc.IH [OF Suc.prems, of "Suc n"] show ?case by auto
qed simp

lemma executor_services:
  assumes "executor_new up L sdk primary fallback program = Ok ex" and "layers_transparent L"
  shows "checked_prover (sv_call (ex_primary ex)) (sdk_accepts sdk primary (ex_vkey ex))"
    and "ready_or_pending (ex_primary ex)"
    and "ex_fallback ex = Some fb \<Longrightarrow> \<exists>c vk. fallback = Some c \<and> checked_prover (sv_call fb) (sdk_accepts sdk c vk)"
    and "ex_fallback ex = Some fb \<Longrightarrow> ready_or_pending fb"
proof -
  have p: "create_prover up L sdk primary program = Ok (ex_vkey ex, ex_primary ex)"
    using assms(1) by (simp add: executor_new_eq_Ok)
  show "checked_prover (sv_call (ex_primary ex)) (sdk_accepts sdk primary (ex_vkey ex))"
    and "ready_or_pending (ex_primary ex)"
    using create_prover_checked [OF p assms(2)] by auto
  assume fb: "ex_fallback ex = Some fb"
  then obtain c vk where c: "fallback = Some c" "create_prover up L sdk c program = Ok (vk, fb)"
    using assms(1) by (auto simp: executor_new_eq_Ok split: option.splits)
  show "\<exists>c vk. fallback = Some c \<and> checked_prover (sv_call fb) (sdk_accepts sdk c vk)"
    and "ready_or_pending fb"
    using create_prover_checked [OF c(2) assms(2)] c(1) by auto
qed

lemma ready_by_await:
  assumes "ready_by fuel s" and "ready_or_pending s"
  shows "ready_await fuel (sv_poll_ready s) 0 = Some (Ok ())"
  using ready_or_pending_await [OF assms(2), of fuel 0] ready_await_defined [of fuel "sv_poll_ready s" 0]
    assms(1)
  by (auto simp: ready_by_def)

lemma executor_call_ready:
  assumes "executor_new up L sdk primary fallback program = Ok ex" and "layers_transparent L"
    and "ready_by fuel (ex_primary ex)" and "\<forall>fb. ex_fallback ex = Some fb \<longrightarrow> ready_by fuel fb"
  shows "executor_call fuel ex req =
     Some (case sv_call (ex_primary ex) req of
             Ok res \<Rightarrow> Ok res
           | Err e \<Rightarrow> (case ex_fallback ex of None \<Rightarrow> Err e | Some fb \<Rightarrow> sv_call fb req)
           | Panic p \<Rightarrow> Panic p)"
proof -
  have "ready_await fuel (sv_poll_ready (ex_primary ex)) 0 = Some (Ok ())"
    using executor_services(2) [OF assms(1,2)] assms(3) by (rule ready_by_await [rotated])
  moreover have "ready_await fuel (sv_poll_ready fb) 0 = Some (Ok ())" if "ex_fallback ex = Some fb" for fb
    using executor_services(4) [OF assms(1,2) that] assms(4) that by (intro ready_by_await) auto
  ultimately show ?thesis
    by (auto simp: executor_call_def ready_call_def split: option.splits result.splits)
qed

text \<open>Every answer carries a proof that the answering prover verified.\<close>

lemma executor_call_accepted:
  assumes "executor_new up L sdk primary fallback program = Ok ex" and "layers_transparent L"
    and "executor_call fuel ex req = Some (Ok res)"
  shows "sdk_accepts sdk primary (ex_vkey ex) (rs_proof res) \<or>
     (\<exists>c vk svc e. fallback = Some c \<and> create_prover up L sdk c program = Ok (vk, svc) \<and>
        sv_call (ex_primary ex) req = Err e \<and> sdk_accepts sdk c vk (rs_proof res))"
  using executor_call_Ok [OF assms(3)]
proof
  assume ok: "sv_call (ex_primary ex) req = Ok res"
  have "create_prover up L sdk primary program = Ok (ex_vkey ex, ex_primary ex)"
    using assms(1) by (simp add: executor_new_eq_Ok)
  then have "checked_prover (sv_call (ex_primary ex)) (sdk_accepts sdk primary (ex_vkey ex))"
    using assms(2) by (rule create_prover_checked)
  then show ?thesis using ok by (simp add: checked_prover_def)
next
  assume "\<exists>fb e. ex_fallback ex = Some fb \<and> sv_call (ex_primary ex) req = Err e \<and> sv_call fb req = Ok res"
  then obtain fb e where fb: "ex_fallback ex = Some fb" and e: "sv_call (ex_primary ex) req = Err e"
    and ok: "sv_call fb req = Ok res" by blast
  then obtain c vk where c: "fallback = Some c" "create_prover up L sdk c program = Ok (vk, fb)"
    using assms(1) by (auto simp: executor_new_eq_Ok split: option.splits)
  then have "checked_prover (sv_call fb) (sdk_accepts sdk c vk)"
    using assms(2) by (intro create_prover_checked)
  then show ?thesis using ok c e by (auto simp: checked_prover_def)
qed

section \<open>A concrete executor\<close>

text \<open>Provers over numbers: a proof is the input plus the key, the network prover fails on odd inputs,
  and the local prover accepts what it made. The layers do nothing.\<close>

definition sample_layers :: "('req, 'res) tower_layers" where
  "sample_layers = \<lparr>timeout_layer = (\<lambda>d s. s), concurrency_limit_layer = (\<lambda>n s. s)\<rparr>"

definition sample_cpu :: "(nat, nat, nat, nat) cpu_prover" where
  "sample_cpu =
     \<lparr>cpu_setup = (\<lambda>program. Ok (length program, length program)),
      cpu_run = (\<lambda>pk stdin mode deferred. Ok (stdin + pk)),
      cpu_verify = (\<lambda>proof vk. if vk \<le> proof then Ok () else Err Sp1InvalidPublicValues)\<rparr>"

definition sample_network :: "(nat, nat, nat, nat) network_prover" where
  "sample_network =
     \<lparr>network_setup = (\<lambda>program. Ok (length program, length program)),
      network_run = (\<lambda>pk stdin mode t strategy. if even stdin then Ok (stdin + pk) else Panic (PanicStr ''odd'')),
      network_verify = (\<lambda>proof vk. if vk \<le> proof then Ok () else Err Sp1InvalidPublicValues)\<rparr>"

definition sample_sdk :: "(nat, nat, nat, nat) sp1_sdk" where
  "sample_sdk =
     \<lparr>sdk_network_client = (\<lambda>u. Ok sample_network), sdk_cpu_new = Ok sample_cpu, sdk_cpu_mock = Ok sample_cpu\<rparr>"

definition sample_network_config :: network_prover_config where
  "sample_network_config =
     \<lparr>npc_proving_request_timeout = Some 5, npc_proving_timeout = 4, npc_sp1_cluster_endpoint = ''http://c''\<rparr>"

definition sample_cpu_config :: cpu_prover_config where
  "sample_cpu_config =
     \<lparr>cpc_max_concurrency_limit = 2, cpc_proving_request_timeout = Some 5, cpc_proving_timeout = 4\<rparr>"

lemma sample_layers_transparent: "layers_transparent sample_layers"
  by (simp add: layers_transparent_def layer_transparent_def sample_layers_def)

lemmas executor_defs =
  executor_new_def create_prover_def sp1_blocking_def build_network_service_def build_local_service_def
  service_map_err_def network_service_def local_service_def network_executor_call_def
  network_executor_prove_def local_executor_call_def local_executor_prove_def sp1_async_def
  executor_call_def ready_call_def network_get_proving_request_timeout_def
  cpu_get_proving_request_timeout_def
lemmas executor_sample_defs =
  sample_layers_def sample_cpu_def sample_network_def sample_sdk_def sample_network_config_def
  sample_cpu_config_def

definition sample_executor :: "(nat, nat, nat) executor" where
  "sample_executor =
     (case executor_new True sample_layers sample_sdk (NetworkProver sample_network_config)
        (Some (CpuProver sample_cpu_config)) [1, 2, 3] of Ok ex \<Rightarrow> ex)"

lemma sample_executor_new:
  "executor_new True sample_layers sample_sdk (NetworkProver sample_network_config)
     (Some (CpuProver sample_cpu_config)) [1, 2, 3] = Ok sample_executor"
proof -
  have "\<exists>ex. executor_new True sample_layers sample_sdk (NetworkProver sample_network_config)
     (Some (CpuProver sample_cpu_config)) [1, 2, 3] = Ok ex"
    by (simp add: executor_defs executor_sample_defs)
  then show ?thesis by (auto simp: sample_executor_def)
qed

text \<open>On an odd input the network prover panics and the local prover answers.\<close>

lemma sample_executor_call:
  "executor_call 1 sample_executor \<lparr>rq_stdin = 5, rq_proof_type = PlonkProof\<rparr> = Some (Ok \<lparr>rs_proof = 8\<rparr>)"
  unfolding sample_executor_def by (simp add: executor_defs executor_sample_defs)

lemma sample_executor_ready:
  "ready_by 1 (ex_primary sample_executor)"
  "\<forall>fb. ex_fallback sample_executor = Some fb \<longrightarrow> ready_by 1 fb"
  unfolding sample_executor_def by (simp_all add: ready_by_def executor_defs executor_sample_defs)

section \<open>Properties\<close>

text \<open>C9: every proof the executor returns has been verified. For an executor built by
  \<open>Executor::new\<close> over layers that only delay or fail, an \<open>Ok\<close> answer carries a proof that the primary
  prover accepts under the key \<open>get_vkey\<close> returns, or, after the primary failed, one that the fallback
  prover accepts under the key of its own setup of the same program.\<close>

theorem executor_proof_verified:
  assumes "executor_new up L sdk primary fallback program = Ok ex" and "layers_transparent L"
    and "executor_call fuel ex req = Some (Ok res)"
  shows "sdk_accepts sdk primary (ex_vkey ex) (rs_proof res) \<or>
     (\<exists>c vk svc e. fallback = Some c \<and> create_prover up L sdk c program = Ok (vk, svc) \<and>
        sv_call (ex_primary ex) req = Err e \<and> sdk_accepts sdk c vk (rs_proof res))"
  by (rule executor_call_accepted [OF assms])

theorem executor_proof_verified_witness:
  "sdk_accepts sample_sdk (NetworkProver sample_network_config) (ex_vkey sample_executor) 8 \<or>
   (\<exists>c vk svc e. Some (CpuProver sample_cpu_config) = Some c \<and>
      create_prover True sample_layers sample_sdk c [1, 2, 3] = Ok (vk, svc) \<and>
      sv_call (ex_primary sample_executor) \<lparr>rq_stdin = 5, rq_proof_type = PlonkProof\<rparr> = Err e \<and>
      sdk_accepts sample_sdk c vk 8)"
  using executor_proof_verified
    [OF sample_executor_new sample_layers_transparent sample_executor_call] by simp

text \<open>the fallback takes over exactly on an error of the primary. For an executor built by
  \<open>Executor::new\<close> whose services become ready within the polls made, a call returns the response of
  the primary when it succeeds, the outcome of the fallback when the primary returns an error and a
  fallback is configured, and the error of the primary otherwise.\<close>

lemma executor_fallback:
  assumes "executor_new up L sdk primary fallback program = Ok ex" and "layers_transparent L"
    and "ready_by fuel (ex_primary ex)" and "\<forall>fb. ex_fallback ex = Some fb \<longrightarrow> ready_by fuel fb"
  shows "executor_call fuel ex req =
     Some (case sv_call (ex_primary ex) req of
             Ok res \<Rightarrow> Ok res
           | Err e \<Rightarrow> (case ex_fallback ex of None \<Rightarrow> Err e | Some fb \<Rightarrow> sv_call fb req)
           | Panic p \<Rightarrow> Panic p)"
  by (rule executor_call_ready [OF assms])

lemma executor_fallback_witness:
  "executor_call 1 sample_executor \<lparr>rq_stdin = 5, rq_proof_type = PlonkProof\<rparr> =
     Some (case sv_call (ex_primary sample_executor) \<lparr>rq_stdin = 5, rq_proof_type = PlonkProof\<rparr> of
             Ok res \<Rightarrow> Ok res
           | Err e \<Rightarrow> (case ex_fallback sample_executor of
               None \<Rightarrow> Err e | Some fb \<Rightarrow> sv_call fb \<lparr>rq_stdin = 5, rq_proof_type = PlonkProof\<rparr>)
           | Panic p \<Rightarrow> Panic p)"
  by (rule executor_fallback [OF sample_executor_new sample_layers_transparent sample_executor_ready])

text \<open>C26: the executor answers and contains the panics of the SDK. For an executor built by
  \<open>Executor::new\<close>, as soon as the primary and the fallback become ready within the polls made, a call
  returns, and it returns a response or an error: no panic of a prover client reaches the caller.\<close>

theorem executor_answers:
  assumes "executor_new up L sdk primary fallback program = Ok ex" and "layers_transparent L"
    and "ready_by fuel (ex_primary ex)" and "\<forall>fb. ex_fallback ex = Some fb \<longrightarrow> ready_by fuel fb"
  shows "(\<exists>res. executor_call fuel ex req = Some (Ok res)) \<or> (\<exists>e. executor_call fuel ex req = Some (Err e))"
proof -
  have primary: "sv_call (ex_primary ex) req \<noteq> Panic p" for p
    using executor_services [OF assms(1,2)] by (auto simp: checked_prover_def)
  have fallback: "sv_call fb req \<noteq> Panic p" if "ex_fallback ex = Some fb" for fb p
    using executor_services(3) [OF assms(1,2) that] by (auto simp: checked_prover_def)
  note call = executor_call_ready [OF assms, of req]
  show ?thesis
  proof (cases "sv_call (ex_primary ex) req")
    case (Err e)
    show ?thesis
    proof (cases "ex_fallback ex")
      case (Some fb)
      with Err call have "executor_call fuel ex req = Some (sv_call fb req)" by simp
      with fallback [OF Some] show ?thesis by (cases "sv_call fb req") auto
    qed (use Err call in simp)
  qed (use primary call in simp_all)
qed

theorem executor_answers_witness:
  "(\<exists>res. executor_call 1 sample_executor \<lparr>rq_stdin = 6, rq_proof_type = PlonkProof\<rparr> = Some (Ok res)) \<or>
   (\<exists>e. executor_call 1 sample_executor \<lparr>rq_stdin = 6, rq_proof_type = PlonkProof\<rparr> = Some (Err e))"
  by (rule executor_answers [OF sample_executor_new sample_layers_transparent sample_executor_ready])

end
