(* ===== verification/Full_Execution_Proof.thy ===== *)
theory Full_Execution_Proof
  imports Bridge_Constraints
begin

text \<open>
  \<open>crates/aggchain-proof-core/src/full_execution_proof.rs\<close>, \<open>error.rs\<close> and
  \<open>vkey_hash.rs\<close>: the public values of the full execution proof (FEP), the commitment to the chain
  parameters, and the verification of the FEP by its deferred SP1 proof or, in optimistic mode, by the
  signature of the trusted sequencer.

  A BabyBear element is its canonical \<open>u32\<close> (below the BabyBear prime, \<open>babybear_wf\<close>), an element
  of the field of BN254 a natural number below \<open>bn254_order\<close>. The record \<open>guest\<close> holds what differs
  between the zkVM and the host: the target, and which deferred proofs the zkVM accepts.
\<close>

section \<open>Errors\<close>

text \<open>\<open>ProofError\<close>: \<open>MismatchL1Head\<close> carries the hash of the leaf and the one of the public values,
  \<open>InvalidInclusionProofL1Head\<close> the index, the leaf hash and the root, \<open>InvalidSigner\<close> the declared
  and the recovered signer.\<close>

datatype proof_error =
    BridgeConstraintsError bridge_constraints_error
  | MismatchL1Head digest digest
  | InvalidInclusionProofL1Head u32 digest digest
  | InvalidSignature
  | InvalidSigner address address

section \<open>Roots\<close>

definition OUTPUT_ROOT_VERSION :: "byte list" where
  "OUTPUT_ROOT_VERSION = replicate 32 0"

datatype l2_pre_root = L2PreRoot digest

datatype claim_root = ClaimRoot digest

fun l2_pre_root_bytes :: "l2_pre_root \<Rightarrow> digest" where
  "l2_pre_root_bytes (L2PreRoot d) = d"

fun claim_root_bytes :: "claim_root \<Rightarrow> digest" where
  "claim_root_bytes (ClaimRoot d) = d"

fun l2_pre_root_of_claim :: "claim_root \<Rightarrow> l2_pre_root" where
  "l2_pre_root_of_claim (ClaimRoot d) = L2PreRoot d"

definition compute_output_root :: "digest \<Rightarrow> digest \<Rightarrow> digest \<Rightarrow> claim_root" where
  "compute_output_root state_root unused_withdrawal_storage_root unused_block_hash = ClaimRoot state_root"

section \<open>Verification key hashes\<close>

type_synonym hash_u32 = "u32 list"
type_synonym babybear_digest = "u32 list"

definition BABYBEAR_PRIME :: nat where
  "BABYBEAR_PRIME = 2013265921"

definition babybear_wf :: "babybear_digest \<Rightarrow> bool" where
  "babybear_wf d \<longleftrightarrow> length d = 8 \<and> (\<forall>w\<in>set d. unat w < BABYBEAR_PRIME)"

definition to_hash_u32 :: "babybear_digest \<Rightarrow> hash_u32" where
  "to_hash_u32 self = map (\<lambda>n. n) self"

text \<open>\<open>BigUint::to_bytes_be\<close>: the shortest big-endian representation, one byte for zero.\<close>

fun biguint_to_bytes_be :: "nat \<Rightarrow> byte list" where
  "biguint_to_bytes_be v =
     (if v < 256 then [word_of_nat v] else biguint_to_bytes_be (v div 256) @ [word_of_nat v])"

declare biguint_to_bytes_be.simps [simp del]

text \<open>The loop over the limbs, in the field: \<open>result *= 2 ^ 31; result += word\<close>.\<close>

definition bn254_pack :: "nat \<Rightarrow> babybear_digest \<Rightarrow> nat" where
  "bn254_pack q ws =
     foldl (\<lambda>result word. (result * (2 ^ 31 mod q) mod q + unat word mod q) mod q) 0 ws"

text \<open>The last step copies into the last 31 bytes of a 32-byte array; \<open>copy_from_slice\<close> panics when
  the lengths differ.\<close>

definition to_hash_bn254 :: "'sig prims \<Rightarrow> babybear_digest \<Rightarrow> (digest, proof_error) result" where
  "to_hash_bn254 P self =
     (let vkey_bytes = biguint_to_bytes_be (bn254_pack (bn254_order P) self)
      in if length vkey_bytes \<noteq> 31
         then Panic (PanicString ''copy_from_slice: source slice length does not match destination slice length'')
         else Ok (word_of_nat (of_be_bytes (0 # vkey_bytes))))"

section \<open>Public values of the FEP\<close>

record 'sig fep_inputs =
  fep_l1_head :: digest
  fep_claim_block_num :: u32
  fep_rollup_config_hash :: digest
  fep_prev_state_root :: digest
  fep_prev_withdrawal_storage_root :: digest
  fep_prev_block_hash :: digest
  fep_new_state_root :: digest
  fep_new_withdrawal_storage_root :: digest
  fep_new_block_hash :: digest
  fep_aggregation_vkey_hash :: babybear_digest
  fep_range_vkey_commitment :: digest
  fep_trusted_sequencer :: address
  fep_signature_optimistic_mode :: "'sig option"
  fep_l1_info_tree_leaf :: l1_info_tree_leaf
  fep_l1_head_inclusion_proof :: merkle_proof

record aggregation_proof_public_values =
  ag_l1_head :: digest
  ag_l2_pre_root :: digest
  ag_l2_post_root :: digest
  ag_l2_block_number :: u64
  ag_rollup_config_hash :: digest
  ag_multi_block_vkey :: digest
  ag_prover_address :: address

definition aggregation_proof_public_values_of ::
  "'sig fep_inputs \<Rightarrow> aggregation_proof_public_values" where
  "aggregation_proof_public_values_of inputs = \<lparr>
     ag_l1_head = fep_l1_head inputs,
     ag_l2_pre_root = fep_prev_state_root inputs,
     ag_l2_post_root = fep_new_state_root inputs,
     ag_l2_block_number = ucast (fep_claim_block_num inputs),
     ag_rollup_config_hash = fep_rollup_config_hash inputs,
     ag_multi_block_vkey = fep_range_vkey_commitment inputs,
     ag_prover_address = fep_trusted_sequencer inputs\<rparr>"

text \<open>The fields of the \<open>sol!\<close> struct, with their Solidity types.\<close>

definition aggregation_public_values_fields :: "aggregation_proof_public_values \<Rightarrow> sol_value list" where
  "aggregation_public_values_fields v =
     [SolBytes32 (ag_l1_head v), SolBytes32 (ag_l2_pre_root v), SolBytes32 (ag_l2_post_root v),
      SolUint64 (ag_l2_block_number v), SolBytes32 (ag_rollup_config_hash v),
      SolBytes32 (ag_multi_block_vkey v), SolAddress (ag_prover_address v)]"

datatype optimistic_mode = Sp1Mode | EcdsaMode

definition optimistic_mode :: "'sig fep_inputs \<Rightarrow> optimistic_mode" where
  "optimistic_mode self =
     (if fep_signature_optimistic_mode self \<noteq> None then EcdsaMode else Sp1Mode)"

record aggchain_params_values =
  ap_l2_pre_root :: digest
  ap_claim_root :: digest
  ap_claim_block_num :: u256
  ap_rollup_config_hash :: digest
  ap_optimistic_mode :: bool
  ap_trusted_sequencer :: address
  ap_range_vkey_commitment :: digest
  ap_aggregation_vkey_hash :: digest

definition aggchain_params_values_of ::
  "'sig prims \<Rightarrow> 'sig fep_inputs \<Rightarrow> (aggchain_params_values, proof_error) result" where
  "aggchain_params_values_of P inputs =
     and_then (to_hash_bn254 P (fep_aggregation_vkey_hash inputs)) (\<lambda>vkey_hash. Ok \<lparr>
       ap_l2_pre_root = fep_prev_state_root inputs,
       ap_claim_root = fep_new_state_root inputs,
       ap_claim_block_num = ucast (fep_claim_block_num inputs),
       ap_rollup_config_hash = fep_rollup_config_hash inputs,
       ap_optimistic_mode = (optimistic_mode inputs = EcdsaMode),
       ap_trusted_sequencer = fep_trusted_sequencer inputs,
       ap_range_vkey_commitment = fep_range_vkey_commitment inputs,
       ap_aggregation_vkey_hash = vkey_hash\<rparr>)"

definition aggchain_params_fields :: "aggchain_params_values \<Rightarrow> sol_value list" where
  "aggchain_params_fields v =
     [SolBytes32 (ap_l2_pre_root v), SolBytes32 (ap_claim_root v), SolUint256 (ap_claim_block_num v),
      SolBytes32 (ap_rollup_config_hash v), SolBool (ap_optimistic_mode v),
      SolAddress (ap_trusted_sequencer v), SolBytes32 (ap_range_vkey_commitment v),
      SolBytes32 (ap_aggregation_vkey_hash v)]"

definition sha256_public_values :: "'sig prims \<Rightarrow> 'sig fep_inputs \<Rightarrow> digest" where
  "sha256_public_values P self =
     sha256_digest P
       (abi_encode P (aggregation_public_values_fields (aggregation_proof_public_values_of self)))"

definition encoded_aggchain_params :: "'sig prims \<Rightarrow> 'sig fep_inputs \<Rightarrow> (byte list, proof_error) result" where
  "encoded_aggchain_params P self =
     and_then (aggchain_params_values_of P self) (\<lambda>values.
     Ok (abi_encode_packed P (aggchain_params_fields values)))"

definition aggchain_params :: "'sig prims \<Rightarrow> 'sig fep_inputs \<Rightarrow> (digest, proof_error) result" where
  "aggchain_params P self =
     and_then (encoded_aggchain_params P self) (\<lambda>encoded. Ok (keccak256 P encoded))"

definition compute_l2_pre_root :: "'sig fep_inputs \<Rightarrow> l2_pre_root" where
  "compute_l2_pre_root self =
     l2_pre_root_of_claim
       (compute_output_root (fep_prev_state_root self) (fep_prev_withdrawal_storage_root self)
         (fep_prev_block_hash self))"

definition compute_claim_root :: "'sig fep_inputs \<Rightarrow> claim_root" where
  "compute_claim_root self =
     compute_output_root (fep_new_state_root self) (fep_new_withdrawal_storage_root self)
       (fep_new_block_hash self)"

section \<open>Verification\<close>

record guest =
  target_zkvm :: bool
  deferred_proof_ok :: "hash_u32 \<Rightarrow> digest \<Rightarrow> bool"

definition verify_l1_head ::
  "'sig prims \<Rightarrow> 'sig fep_inputs \<Rightarrow> digest \<Rightarrow> (unit, proof_error) result" where
  "verify_l1_head P self l1_info_root =
     (let leaf = fep_l1_info_tree_leaf self in
      if fep_l1_head self \<noteq> block_hash (inner leaf)
      then Err (MismatchL1Head (block_hash (inner leaf)) (fep_l1_head self))
      else
        (let inclusion_proof_valid =
           merkle_verify P (fep_l1_head_inclusion_proof self) (leaf_hash P leaf) (l1_info_tree_index leaf)
         in if \<not> (inclusion_proof_valid \<and> l1_info_root = proof_root (fep_l1_head_inclusion_proof self))
            then Err (InvalidInclusionProofL1Head (l1_info_tree_index leaf) (leaf_hash P leaf) l1_info_root)
            else Ok ()))"

text \<open>The digest the trusted sequencer signs in optimistic mode.\<close>

definition signature_commitment ::
  "'sig prims \<Rightarrow> 'sig fep_inputs \<Rightarrow> digest \<Rightarrow> digest \<Rightarrow> digest" where
  "signature_commitment P self new_local_exit_root commit_imported_bridge_exits =
     keccak256_combine P
       [sha256_public_values P self, new_local_exit_root, commit_imported_bridge_exits]"

text \<open>\<open>FepInputs::verify\<close>. In the zkVM an SP1 proof that does not verify aborts the execution.\<close>

definition fep_verify ::
  "guest \<Rightarrow> 'sig prims \<Rightarrow> 'sig fep_inputs \<Rightarrow> digest \<Rightarrow> digest \<Rightarrow> digest \<Rightarrow> (unit, proof_error) result" where
  "fep_verify G P self l1_info_root new_local_exit_root commit_imported_bridge_exits =
     (case fep_signature_optimistic_mode self of
        Some signature \<Rightarrow>
          and_then
            (ok_or InvalidSignature
              (recover_address_from_prehash P signature
                (signature_commitment P self new_local_exit_root commit_imported_bridge_exits)))
            (\<lambda>recovered_signer.
               if recovered_signer \<noteq> fep_trusted_sequencer self
               then Err (InvalidSigner (fep_trusted_sequencer self) recovered_signer)
               else Ok ())
      | None \<Rightarrow>
          and_then (verify_l1_head P self l1_info_root) (\<lambda>_.
            if \<not> target_zkvm G
            then Panic (PanicString
              ''internal error: entered unreachable code: verify_sp1_proof is not callable outside of SP1'')
            else if deferred_proof_ok G (to_hash_u32 (fep_aggregation_vkey_hash self))
                      (sha256_public_values P self)
            then Ok ()
            else Panic PanicOther))"

section \<open>Packing of the limbs\<close>

text \<open>The number the limbs stand for, most significant first, with 31 bits each.\<close>

definition pack31 :: "babybear_digest \<Rightarrow> nat" where
  "pack31 ws = foldl (\<lambda>r w. r * 2 ^ 31 + unat w) 0 ws"

lemma pack31_Nil [simp]: "pack31 [] = 0"
  by (simp add: pack31_def)

lemma pack31_snoc [simp]: "pack31 (ws @ [w]) = pack31 ws * 2 ^ 31 + unat w"
  by (simp add: pack31_def)

lemma babybear_limb: "unat w < BABYBEAR_PRIME \<Longrightarrow> unat w < 2 ^ 31"
  by (simp add: BABYBEAR_PRIME_def)

lemma pack31_bound: "\<forall>w\<in>set ws. unat w < 2 ^ 31 \<Longrightarrow> pack31 ws < 2 ^ (31 * length ws)"
proof (induction ws rule: rev_induct)
  case (snoc w ws)
  then have "pack31 ws + 1 \<le> 2 ^ (31 * length ws)" and w: "unat w < 2 ^ 31" by auto
  then have "(pack31 ws + 1) * 2 ^ 31 \<le> 2 ^ (31 * length ws) * 2 ^ 31"
    by (intro mult_right_mono) auto
  with w show ?case by (simp add: power_add)
qed simp

lemma pack31_Cons: "pack31 (w # ws) = unat w * 2 ^ (31 * length ws) + pack31 ws"
proof (induction ws rule: rev_induct)
  case (snoc v ws)
  have "pack31 (w # ws @ [v]) = pack31 (w # ws) * 2 ^ 31 + unat v"
    using pack31_snoc [of "w # ws" v] by simp
  with snoc show ?case by (simp add: power_add algebra_simps)
qed (simp add: pack31_def)

lemma pack31_inject:
  assumes "length ws = length vs" and "\<forall>w\<in>set ws. unat w < 2 ^ 31" and "\<forall>v\<in>set vs. unat v < 2 ^ 31"
    and "pack31 ws = pack31 vs"
  shows "ws = vs"
  using assms
proof (induction ws vs rule: rev_induct2)
  case (4 w ws v vs)
  have "unat w < 2 ^ 31" and "unat v < 2 ^ 31" using 4 by auto
  then have "unat w = (pack31 ws * 2 ^ 31 + unat w) mod 2 ^ 31"
    and "unat v = (pack31 vs * 2 ^ 31 + unat v) mod 2 ^ 31" by auto
  with "4.prems" have "unat w = unat v" by (metis pack31_snoc)
  with 4 show ?case by (simp add: word_unat_eq_iff)
qed auto

text \<open>The field of BN254 is large enough for eight limbs: no reduction happens.\<close>

lemma bn254_pack_pack31:
  assumes "2 ^ 248 \<le> q" and "length ws \<le> 8" and "\<forall>w\<in>set ws. unat w < 2 ^ 31"
  shows "bn254_pack q ws = pack31 ws"
  using assms(2,3)
proof (induction ws rule: rev_induct)
  case (snoc w ws)
  have "pack31 (ws @ [w]) < 2 ^ (31 * length (ws @ [w]))" using snoc.prems by (intro pack31_bound) auto
  also have "\<dots> \<le> 2 ^ 248" using snoc.prems by (intro power_increasing) auto
  also note assms(1)
  finally have small: "pack31 ws * 2 ^ 31 + unat w < q" by simp
  have "(2 :: nat) ^ 31 < 2 ^ 248" by (rule power_strict_increasing) auto
  with assms(1) have "(2 :: nat) ^ 31 < q" by linarith
  with snoc small show ?case by (simp add: bn254_pack_def)
qed (simp add: bn254_pack_def)

lemma of_be_bytes_biguint: "of_be_bytes (biguint_to_bytes_be v) = v"
proof (induction v rule: biguint_to_bytes_be.induct)
  case (1 v)
  show ?case
  proof (cases "v < 256")
    case True
    then show ?thesis
      using of_be_bytes_snoc [of "[]" "word_of_nat v"]
      by (subst biguint_to_bytes_be.simps) (simp add: unat_byte_of_nat)
  next
    case False
    then show ?thesis
      using 1 by (subst biguint_to_bytes_be.simps) (simp add: unat_byte_of_nat)
  qed
qed

lemma length_biguint_bound:
  "v < 256 ^ length (biguint_to_bytes_be v) \<and>
   (length (biguint_to_bytes_be v) > 1 \<longrightarrow> 256 ^ (length (biguint_to_bytes_be v) - 1) \<le> v) \<and>
   biguint_to_bytes_be v \<noteq> []"
proof (induction v rule: biguint_to_bytes_be.induct)
  case (1 v)
  show ?case
  proof (cases "v < 256")
    case True
    then show ?thesis by (subst biguint_to_bytes_be.simps, simp)+
  next
    case False
    define n where "n = length (biguint_to_bytes_be (v div 256))"
    have len: "length (biguint_to_bytes_be v) = Suc n"
      using False by (subst biguint_to_bytes_be.simps) (simp add: n_def)
    have "v div 256 < 256 ^ n" and "n > 1 \<longrightarrow> 256 ^ (n - 1) \<le> v div 256" and "n > 0"
      using 1 False by (auto simp: n_def)
    moreover from this have "256 ^ n \<le> v"
      using False by (cases "n = 1") (auto simp: power_eq_if less_eq_div_iff_mult_less_eq)
    ultimately show ?thesis
      unfolding len using len by (auto simp: div_less_iff_less_mult)
  qed
qed

lemma length_biguint_31: "length (biguint_to_bytes_be v) = 31 \<longleftrightarrow> 2 ^ 240 \<le> v \<and> v < 2 ^ 248"
proof -
  let ?n = "length (biguint_to_bytes_be v)"
  have b: "v < 256 ^ ?n" "?n > 1 \<longrightarrow> 256 ^ (?n - 1) \<le> v" "?n > 0"
    using length_biguint_bound [of v] by auto
  show ?thesis
  proof
    assume "?n = 31"
    with b have "v < 256 ^ 31" and "256 ^ 30 \<le> v" by auto
    then show "2 ^ 240 \<le> v \<and> v < 2 ^ 248" by simp
  next
    assume v: "2 ^ 240 \<le> v \<and> v < 2 ^ 248"
    have "\<not> ?n \<le> 30"
    proof
      assume "?n \<le> 30"
      then have "256 ^ ?n \<le> (256 :: nat) ^ 30" by (intro power_increasing) auto
      with b(1) v show False by simp
    qed
    moreover have "\<not> 32 \<le> ?n"
    proof
      assume n: "32 \<le> ?n"
      then have "(256 :: nat) ^ 31 \<le> 256 ^ (?n - 1)" by (intro power_increasing) auto
      also have "\<dots> \<le> v" using b(2) n by auto
      finally show False using v by simp
    qed
    ultimately show "?n = 31" by linarith
  qed
qed

lemma babybear_wf_limbs:
  assumes "babybear_wf d"
  shows "\<forall>w\<in>set d. unat w < 2 ^ 31" and "length d = 8"
  using assms babybear_limb by (auto simp only: babybear_wf_def)

lemma to_hash_bn254_cases:
  assumes "bn254_large P" and "babybear_wf d"
  shows "to_hash_bn254 P d =
     (if pack31 d < 2 ^ 240
      then Panic (PanicString ''copy_from_slice: source slice length does not match destination slice length'')
      else Ok (word_of_nat (pack31 d)))"
proof -
  have limbs: "\<forall>w\<in>set d. unat w < 2 ^ 31" and len: "length d = 8"
    using babybear_wf_limbs [OF assms(2)] .
  have pack: "bn254_pack (bn254_order P) d = pack31 d"
    using assms(1) limbs len by (intro bn254_pack_pack31) (auto simp: bn254_large_def)
  have "pack31 d < 2 ^ 248" using pack31_bound [OF limbs] len by simp
  moreover have "of_be_bytes (0 # bs) = of_be_bytes bs" for bs
    by (simp add: of_be_bytes_def)
  ultimately show ?thesis
    by (simp add: to_hash_bn254_def Let_def pack length_biguint_31 of_be_bytes_biguint)
qed

lemma to_hash_bn254_Ok:
  assumes "bn254_large P" and "babybear_wf d" and "2 ^ 240 \<le> pack31 d"
  shows "to_hash_bn254 P d = Ok (word_of_nat (pack31 d))"
  using assms(3) unfolding to_hash_bn254_cases [OF assms(1,2)] by simp

lemma pack31_first_limb:
  assumes "babybear_wf (w # ws)"
  shows "pack31 (w # ws) < 2 ^ 240 \<longleftrightarrow> unat w < 2 ^ 23"
proof -
  have "length ws = 7" and limbs: "\<forall>v\<in>set ws. unat v < 2 ^ 31"
    using babybear_wf_limbs [OF assms] by auto
  then have rest: "pack31 ws < 2 ^ 217" using pack31_bound [OF limbs] by simp
  have "pack31 (w # ws) = unat w * 2 ^ 217 + pack31 ws"
    using \<open>length ws = 7\<close> by (simp add: pack31_Cons)
  moreover have "(2 :: nat) ^ 240 = 2 ^ 23 * 2 ^ 217" by simp
  ultimately show ?thesis using rest by auto
qed

lemma to_hash_bn254_inject:
  assumes "bn254_large P" and "babybear_wf d" and "babybear_wf d'"
    and "to_hash_bn254 P d = Ok h" and "to_hash_bn254 P d' = Ok h"
  shows "d = d'"
proof -
  note limbs = babybear_wf_limbs
  have bound: "pack31 e < 2 ^ 256" if "babybear_wf e" for e
  proof -
    have "pack31 e < 2 ^ 248" using pack31_bound [OF limbs(1) [OF that]] limbs(2) [OF that] by simp
    then show ?thesis by simp
  qed
  have "(word_of_nat (pack31 d) :: digest) = word_of_nat (pack31 d')"
    using assms(4,5)
    unfolding to_hash_bn254_cases [OF assms(1,2)] to_hash_bn254_cases [OF assms(1,3)]
    by (simp split: if_splits)
  then have "unat (word_of_nat (pack31 d) :: digest) = unat (word_of_nat (pack31 d') :: digest)" by simp
  then have "pack31 d = pack31 d'"
    using bound [OF assms(2)] bound [OF assms(3)] by (simp add: unat_of_nat)
  then show ?thesis using limbs assms(2,3) by (intro pack31_inject) auto
qed

section \<open>Encodings are injective\<close>

lemma unat_ucast_up:
  "LENGTH('a::len) \<le> LENGTH('b::len) \<Longrightarrow> unat (ucast (w :: 'a word) :: 'b word) = unat w"
  by transfer (simp add: min_def take_bit_take_bit)

lemma ucast_up_inject:
  "LENGTH('a::len) \<le> LENGTH('b::len) \<Longrightarrow> (ucast (v :: 'a word) :: 'b word) = ucast w \<longleftrightarrow> v = w"
  by (metis unat_ucast_up word_unat_eq_iff)

lemma abi_word_bytes:
  "abi_word (SolBytes32 a) = abi_word (SolBytes32 b) \<longleftrightarrow> a = b"
  "abi_word (SolUint64 c) = abi_word (SolUint64 d) \<longleftrightarrow> c = d"
  "abi_word (SolAddress e) = abi_word (SolAddress f) \<longleftrightarrow> e = f"
  by (simp_all add: word_be_bytes_inject)

lemma aggregation_public_values_inject:
  assumes "abi_conforms P"
  shows "abi_encode P (aggregation_public_values_fields v) = abi_encode P (aggregation_public_values_fields w)
     \<longleftrightarrow> v = w"
  using assms
  by (auto simp: abi_conforms_encode aggregation_public_values_fields_def append_eq_fixed
      abi_word_bytes simp del: abi_word.simps append_eq_append_conv)

lemma aggchain_params_inject:
  assumes "abi_conforms P"
  shows "abi_encode_packed P (aggchain_params_fields v) = abi_encode_packed P (aggchain_params_fields w)
     \<longleftrightarrow> v = w"
  using assms
  by (auto simp: abi_conforms_packed aggchain_params_fields_def append_eq_fixed word_be_bytes_inject)

lemma encoded_aggchain_params_inject:
  assumes "abi_conforms P" and "bn254_large P"
    and "babybear_wf (fep_aggregation_vkey_hash f)" and "babybear_wf (fep_aggregation_vkey_hash g)"
    and "encoded_aggchain_params P f = Ok bs"
    and "encoded_aggchain_params P g = Ok bs"
  shows "fep_prev_state_root f = fep_prev_state_root g \<and> fep_new_state_root f = fep_new_state_root g \<and>
     fep_claim_block_num f = fep_claim_block_num g \<and>
     fep_rollup_config_hash f = fep_rollup_config_hash g \<and>
     optimistic_mode f = optimistic_mode g \<and>
     fep_trusted_sequencer f = fep_trusted_sequencer g \<and>
     fep_range_vkey_commitment f = fep_range_vkey_commitment g \<and>
     fep_aggregation_vkey_hash f = fep_aggregation_vkey_hash g"
proof -
  obtain v w where v: "aggchain_params_values_of P f = Ok v"
    and w: "aggchain_params_values_of P g = Ok w"
    and "abi_encode_packed P (aggchain_params_fields v) = abi_encode_packed P (aggchain_params_fields w)"
    using assms(5,6) unfolding encoded_aggchain_params_def by (auto simp: result_simps)
  then have "v = w" by (simp add: aggchain_params_inject [OF assms(1)])
  obtain h k where h: "to_hash_bn254 P (fep_aggregation_vkey_hash f) = Ok h"
    and k: "to_hash_bn254 P (fep_aggregation_vkey_hash g) = Ok k"
    using v w unfolding aggchain_params_values_of_def by (auto simp: result_simps)
  have fields: "h = k \<and> fep_prev_state_root f = fep_prev_state_root g \<and>
      fep_new_state_root f = fep_new_state_root g \<and> fep_claim_block_num f = fep_claim_block_num g \<and>
      fep_rollup_config_hash f = fep_rollup_config_hash g \<and>
      (optimistic_mode f = EcdsaMode \<longleftrightarrow> optimistic_mode g = EcdsaMode) \<and>
      fep_trusted_sequencer f = fep_trusted_sequencer g \<and>
      fep_range_vkey_commitment f = fep_range_vkey_commitment g"
    using v w h k \<open>v = w\<close> unfolding aggchain_params_values_of_def
    by (auto simp: ucast_up_inject)
  with to_hash_bn254_inject [OF assms(2-4) h] k have "fep_aggregation_vkey_hash f = fep_aggregation_vkey_hash g"
    by simp
  moreover have "optimistic_mode f = optimistic_mode g"
    using fields by (cases "optimistic_mode f"; cases "optimistic_mode g") auto
  ultimately show ?thesis using fields by simp
qed

section \<open>Verification\<close>

lemma verify_l1_head_eq_Ok:
  "verify_l1_head P f root = Ok () \<longleftrightarrow>
     fep_l1_head f = block_hash (inner (fep_l1_info_tree_leaf f)) \<and>
     merkle_verify P (fep_l1_head_inclusion_proof f) (leaf_hash P (fep_l1_info_tree_leaf f))
       (l1_info_tree_index (fep_l1_info_tree_leaf f)) \<and>
     root = proof_root (fep_l1_head_inclusion_proof f)"
  by (simp add: verify_l1_head_def Let_def)

lemma verify_l1_head_not_Panic [simp]: "verify_l1_head P f root \<noteq> Panic p"
  by (simp add: verify_l1_head_def Let_def)

text \<open>What the execution proof of an accepted witness stands on.\<close>

definition fep_accepted ::
  "guest \<Rightarrow> 'sig prims \<Rightarrow> 'sig fep_inputs \<Rightarrow> digest \<Rightarrow> digest \<Rightarrow> digest \<Rightarrow> bool" where
  "fep_accepted G P f l1_info_root ler ibe \<longleftrightarrow>
     (case fep_signature_optimistic_mode f of
        Some sig \<Rightarrow>
          recover_address_from_prehash P sig
            (keccak256_combine P [sha256_public_values P f, ler, ibe]) = Some (fep_trusted_sequencer f)
      | None \<Rightarrow>
          fep_l1_head f = block_hash (inner (fep_l1_info_tree_leaf f)) \<and>
          merkle_verify P (fep_l1_head_inclusion_proof f) (leaf_hash P (fep_l1_info_tree_leaf f))
            (l1_info_tree_index (fep_l1_info_tree_leaf f)) \<and>
          l1_info_root = proof_root (fep_l1_head_inclusion_proof f) \<and>
          target_zkvm G \<and>
          deferred_proof_ok G (fep_aggregation_vkey_hash f) (sha256_public_values P f))"

lemma fep_verify_eq_Ok:
  "fep_verify G P f root ler ibe = Ok () \<longleftrightarrow> fep_accepted G P f root ler ibe"
proof (cases "fep_signature_optimistic_mode f")
  case None
  then show ?thesis
    unfolding fep_verify_def fep_accepted_def
    by (simp add: and_then_eq_Ok verify_l1_head_eq_Ok to_hash_u32_def)
next
  case (Some sig)
  then show ?thesis
    unfolding fep_verify_def fep_accepted_def signature_commitment_def
    by (simp add: and_then_eq_Ok ok_or_eq_Ok)
qed

section \<open>Concrete inputs\<close>

definition sample_vkey :: babybear_digest where
  "sample_vkey = [8388608, 0, 0, 0, 0, 0, 0, 9]"

definition sample_fep :: "(digest \<times> address) fep_inputs" where
  "sample_fep = \<lparr>
     fep_l1_head = 40, fep_claim_block_num = 9, fep_rollup_config_hash = 77,
     fep_prev_state_root = 21, fep_prev_withdrawal_storage_root = 22, fep_prev_block_hash = 100,
     fep_new_state_root = 31, fep_new_withdrawal_storage_root = 32, fep_new_block_hash = 200,
     fep_aggregation_vkey_hash = sample_vkey, fep_range_vkey_commitment = 66,
     fep_trusted_sequencer = 5, fep_signature_optimistic_mode = None,
     fep_l1_info_tree_leaf = ig_l1_info_tree_leaf (sample_leaf 8 2),
     fep_l1_head_inclusion_proof = \<lparr>proof_root = 50, proof_siblings = []\<rparr>\<rparr>"

text \<open>The zkVM with one deferred proof for the sample verification key.\<close>

definition sample_guest :: guest where
  "sample_guest = \<lparr>target_zkvm = True, deferred_proof_ok = (\<lambda>vk pv. vk = sample_vkey \<and> pv = 224)\<rparr>"

lemma sample_vkey_wf: "babybear_wf sample_vkey"
  by (simp add: sample_vkey_def babybear_wf_def BABYBEAR_PRIME_def)

lemma sha256_sample: "sha256_public_values sample_prims f = 224"
  by (simp add: sha256_public_values_def sample_prims_def aggregation_public_values_fields_def)

lemma sample_fep_accepted: "fep_accepted sample_guest sample_prims sample_fep 50 ler ibe"
  unfolding fep_accepted_def sha256_sample
  by (simp add: sample_fep_def sample_guest_def sample_prims_def sample_leaf_def)

section \<open>Properties\<close>

text \<open>C10: \<open>FepInputs::verify\<close> on every branch. It returns \<open>Ok\<close> exactly when, in optimistic mode, the
  signature recovers the trusted sequencer on \<open>keccak(sha256(public values), new LER, commitment)\<close>, and
  otherwise, in the zkVM, the L1 head is the block hash of the L1 info leaf, the leaf is included in the
  L1 info root, and the deferred SP1 proof for the aggregation key and the hashed public values
  verifies. Otherwise it returns the error of the first failing check: a signature that does not recover, a
  signer that is not the sequencer, an L1 head that is not the block hash of the leaf, or a leaf that is not
  included in the root. It panics only without a signature, after the L1 head was verified.\<close>

theorem fep_verify_outcomes:
  "(fep_verify G P f root ler ibe = Ok () \<longleftrightarrow> fep_accepted G P f root ler ibe) \<and>
   (fep_verify G P f root ler ibe = Err InvalidSignature \<longleftrightarrow>
      (\<exists>sig. fep_signature_optimistic_mode f = Some sig \<and>
         recover_address_from_prehash P sig (signature_commitment P f ler ibe) = None)) \<and>
   (fep_verify G P f root ler ibe = Err (InvalidSigner d r) \<longleftrightarrow>
      (\<exists>sig. fep_signature_optimistic_mode f = Some sig \<and> d = fep_trusted_sequencer f \<and> r \<noteq> d \<and>
         recover_address_from_prehash P sig (signature_commitment P f ler ibe) = Some r)) \<and>
   (fep_verify G P f root ler ibe = Err (MismatchL1Head a b) \<longleftrightarrow>
      fep_signature_optimistic_mode f = None \<and> a = block_hash (inner (fep_l1_info_tree_leaf f)) \<and>
      b = fep_l1_head f \<and> a \<noteq> b) \<and>
   (fep_verify G P f root ler ibe = Err (InvalidInclusionProofL1Head i h l1) \<longleftrightarrow>
      fep_signature_optimistic_mode f = None \<and> fep_l1_head f = block_hash (inner (fep_l1_info_tree_leaf f)) \<and>
      i = l1_info_tree_index (fep_l1_info_tree_leaf f) \<and> h = leaf_hash P (fep_l1_info_tree_leaf f) \<and> l1 = root \<and>
      \<not> (merkle_verify P (fep_l1_head_inclusion_proof f) h i \<and> root = proof_root (fep_l1_head_inclusion_proof f))) \<and>
   ((\<exists>p. fep_verify G P f root ler ibe = Panic p) \<longleftrightarrow>
      fep_signature_optimistic_mode f = None \<and> verify_l1_head P f root = Ok () \<and>
      \<not> (target_zkvm G \<and> deferred_proof_ok G (fep_aggregation_vkey_hash f) (sha256_public_values P f)))"
proof (intro conjI)
  show "fep_verify G P f root ler ibe = Ok () \<longleftrightarrow> fep_accepted G P f root ler ibe"
    by (rule fep_verify_eq_Ok)
  have l1: "verify_l1_head P f root \<noteq> Err InvalidSignature"
    "verify_l1_head P f root \<noteq> Err (InvalidSigner d r)"
    by (auto simp: verify_l1_head_def Let_def)
  show "fep_verify G P f root ler ibe = Err InvalidSignature \<longleftrightarrow>
      (\<exists>sig. fep_signature_optimistic_mode f = Some sig \<and>
         recover_address_from_prehash P sig (signature_commitment P f ler ibe) = None)"
    by (auto simp: fep_verify_def and_then_eq_Err ok_or_eq_Err l1 split: option.splits if_splits)
  show "fep_verify G P f root ler ibe = Err (InvalidSigner d r) \<longleftrightarrow>
      (\<exists>sig. fep_signature_optimistic_mode f = Some sig \<and> d = fep_trusted_sequencer f \<and> r \<noteq> d \<and>
         recover_address_from_prehash P sig (signature_commitment P f ler ibe) = Some r)"
    by (auto simp: fep_verify_def and_then_eq_Err ok_or_eq_Err ok_or_eq_Ok l1 split: option.splits if_splits)
  show "fep_verify G P f root ler ibe = Err (MismatchL1Head a b) \<longleftrightarrow>
      fep_signature_optimistic_mode f = None \<and> a = block_hash (inner (fep_l1_info_tree_leaf f)) \<and>
      b = fep_l1_head f \<and> a \<noteq> b"
    by (auto simp: fep_verify_def and_then_eq_Err ok_or_eq_Err verify_l1_head_def Let_def split: option.splits if_splits)
  show "fep_verify G P f root ler ibe = Err (InvalidInclusionProofL1Head i h l1) \<longleftrightarrow>
      fep_signature_optimistic_mode f = None \<and> fep_l1_head f = block_hash (inner (fep_l1_info_tree_leaf f)) \<and>
      i = l1_info_tree_index (fep_l1_info_tree_leaf f) \<and> h = leaf_hash P (fep_l1_info_tree_leaf f) \<and> l1 = root \<and>
      \<not> (merkle_verify P (fep_l1_head_inclusion_proof f) h i \<and> root = proof_root (fep_l1_head_inclusion_proof f))"
    by (auto simp: fep_verify_def and_then_eq_Err ok_or_eq_Err verify_l1_head_def Let_def split: option.splits if_splits)
  show "(\<exists>p. fep_verify G P f root ler ibe = Panic p) \<longleftrightarrow>
      fep_signature_optimistic_mode f = None \<and> verify_l1_head P f root = Ok () \<and>
      \<not> (target_zkvm G \<and> deferred_proof_ok G (fep_aggregation_vkey_hash f) (sha256_public_values P f))"
    by (auto simp: fep_verify_def and_then_eq_Panic ok_or_eq_Panic to_hash_u32_def split: option.splits if_splits)
qed

text \<open>C39: the panic of \<open>to_hash_bn254\<close>. For a well-formed digest of eight BabyBear elements the
  function panics exactly when the first element is below \<open>2 ^ 23\<close>, because the shortest big-endian
  representation then has fewer than the 31 bytes that \<open>copy_from_slice\<close> expects; otherwise it returns
  the packed number.\<close>

theorem to_hash_bn254_outcome:
  assumes "bn254_large P" and "babybear_wf (w # ws)"
  shows "((\<exists>m. to_hash_bn254 P (w # ws) = Panic m) \<longleftrightarrow> unat w < 2 ^ 23) \<and>
    (2 ^ 23 \<le> unat w \<longrightarrow>
       to_hash_bn254 P (w # ws) =
         Ok (word_of_nat (foldl (\<lambda>r v. r * 2 ^ 31 + unat v) 0 (w # ws))))"
  unfolding to_hash_bn254_cases [OF assms] pack31_first_limb [OF assms(2)] pack31_def [symmetric]
  by simp

theorem to_hash_bn254_outcome_witness:
  "(\<exists>m. to_hash_bn254 sample_prims [8388607, 0, 0, 0, 0, 0, 0, 9] = Panic m) \<and>
   to_hash_bn254 sample_prims sample_vkey =
     Ok (word_of_nat (foldl (\<lambda>r v. r * 2 ^ 31 + unat v) 0 sample_vkey))"
proof -
  have wf: "babybear_wf [8388607, 0, 0, 0, 0, 0, 0, 9]"
    by (simp add: babybear_wf_def BABYBEAR_PRIME_def)
  have "babybear_wf [8388608, 0, 0, 0, 0, 0, 0, 9]" using sample_vkey_wf by (simp add: sample_vkey_def)
  from to_hash_bn254_outcome [OF sample_prims_bn254 this] to_hash_bn254_outcome [OF sample_prims_bn254 wf]
  show ?thesis by (simp add: sample_vkey_def)
qed

text \<open>the published key hash determines the key. When \<open>to_hash_bn254\<close> returns the same 32 bytes
  for two well-formed digests then the digests are equal, so the hash in the chain parameters fixes the
  key that \<open>verify_sp1_proof\<close> is called with.\<close>

lemma to_hash_bn254_injective:
  assumes "bn254_large P" and "babybear_wf d" and "babybear_wf d'"
    and "to_hash_bn254 P d = Ok h" and "to_hash_bn254 P d' = Ok h"
  shows "d = d'"
  using to_hash_bn254_inject [OF assms] .

lemma to_hash_bn254_injective_witness: "sample_vkey = sample_vkey"
proof -
  have "to_hash_bn254 sample_prims sample_vkey = Ok (word_of_nat (pack31 sample_vkey))"
    by (rule to_hash_bn254_Ok [OF sample_prims_bn254 sample_vkey_wf])
      (simp add: pack31_def sample_vkey_def)
  from to_hash_bn254_injective [OF sample_prims_bn254 sample_vkey_wf sample_vkey_wf this this]
  show ?thesis .
qed

end
