(* ===== verification/Aggchain_Proof.thy ===== *)
theory Aggchain_Proof
  imports Full_Execution_Proof
begin

text \<open>
  \<open>crates/aggchain-proof-core/src/proof.rs\<close> and the guest program
  \<open>crates/aggchain-proof-program/src/main.rs\<close>: the witness of an aggchain proof, the public values
  the program commits to, and its verification, which combines the execution proof with the bridge
  constraints.

  \<open>aggchain_main\<close> is the program: what it commits to, or how it aborts. \<open>aggchain_statement\<close> is the
  statement a verifier of the proof may conclude; the properties say that the program commits to public
  values exactly when the statement holds of its witness.
\<close>

section \<open>Data and operations\<close>

text \<open>\<open>0xa40d5f56745a118d0906a34e69aec8c0db1cb8fa\<close>\<close>

definition L2_GER_ADDR :: address where
  "L2_GER_ADDR = 0xa40d5f56745a118d0906a34e69aec8c0db1cb8fa"

definition AGGCHAIN_TYPE :: u16 where
  "AGGCHAIN_TYPE = 0x0001"

record ('sig, 'sk) aggchain_proof_witness =
  aw_prev_local_exit_root :: digest
  aw_new_local_exit_root :: digest
  aw_l1_info_root :: digest
  aw_origin_network :: u32
  aw_fep :: "'sig fep_inputs"
  aw_commit_imported_bridge_exits :: digest
  aw_bridge_witness :: "'sk bridge_witness"

definition public_values ::
  "'sig prims \<Rightarrow> ('sig, 'sk) aggchain_proof_witness \<Rightarrow> (aggchain_proof_public_values, proof_error) result" where
  "public_values P self =
     and_then (aggchain_params P (aw_fep self)) (\<lambda>params. Ok \<lparr>
       pv_prev_local_exit_root = aw_prev_local_exit_root self,
       pv_new_local_exit_root = aw_new_local_exit_root self,
       pv_l1_info_root = aw_l1_info_root self,
       pv_origin_network = aw_origin_network self,
       pv_commit_imported_bridge_exits = aw_commit_imported_bridge_exits self,
       pv_aggchain_params = params\<rparr>)"

definition bridge_constraints_input_of ::
  "('sig, 'sk) aggchain_proof_witness \<Rightarrow> 'sk bridge_constraints_input" where
  "bridge_constraints_input_of self = \<lparr>
     bci_ger_addr = L2_GER_ADDR,
     bci_prev_l2_block_hash = fep_prev_block_hash (aw_fep self),
     bci_new_l2_block_hash = fep_new_block_hash (aw_fep self),
     bci_new_local_exit_root = aw_new_local_exit_root self,
     bci_l1_info_root = aw_l1_info_root self,
     bci_commit_imported_bridge_exits = aw_commit_imported_bridge_exits self,
     bci_bridge_witness = aw_bridge_witness self\<rparr>"

definition verify_aggchain_inputs ::
  "guest \<Rightarrow> 'w::len itself \<Rightarrow> 'sig prims \<Rightarrow> 'sk evm \<Rightarrow> ('sig, 'sk) aggchain_proof_witness \<Rightarrow>
   (aggchain_proof_public_values, proof_error) result" where
  "verify_aggchain_inputs G usize P E self =
     and_then
       (fep_verify G P (aw_fep self) (aw_l1_info_root self) (aw_new_local_exit_root self)
          (aw_commit_imported_bridge_exits self)) (\<lambda>_.
     and_then
       (map_err BridgeConstraintsError (bridge_verify usize P E (bridge_constraints_input_of self))) (\<lambda>_.
     public_values P self))"

text \<open>The program reads the witness, unwraps the verification and commits to the public values:
  \<open>Ok pv\<close> is an execution that ends with \<open>pv\<close> committed. The text of an error (\<open>Debug\<close>) is an
  argument. The zkVM has 32-bit \<open>usize\<close>.\<close>

definition aggchain_main ::
  "(proof_error \<Rightarrow> string) \<Rightarrow> guest \<Rightarrow> 'sig prims \<Rightarrow> 'sk evm \<Rightarrow> ('sig, 'sk) aggchain_proof_witness \<Rightarrow>
   (aggchain_proof_public_values, unit) result" where
  "aggchain_main debug G P E aggchain_witness =
     and_then (unwrap debug (verify_aggchain_inputs G TYPE(32) P E aggchain_witness))
       (\<lambda>aggchain_proof_public_values. Ok aggchain_proof_public_values)"

section \<open>The statement of a proof\<close>

definition aggchain_statement ::
  "guest \<Rightarrow> 'sig prims \<Rightarrow> 'sk evm \<Rightarrow> ('sig, 'sk) aggchain_proof_witness \<Rightarrow>
   aggchain_proof_public_values \<Rightarrow> bool" where
  "aggchain_statement G P E w pv \<longleftrightarrow>
     fep_accepted G P (aw_fep w) (pv_l1_info_root pv) (pv_new_local_exit_root pv)
       (pv_commit_imported_bridge_exits pv) \<and>
     bridge_constraints_hold P E \<lparr>
       bci_ger_addr = L2_GER_ADDR,
       bci_prev_l2_block_hash = fep_prev_block_hash (aw_fep w),
       bci_new_l2_block_hash = fep_new_block_hash (aw_fep w),
       bci_new_local_exit_root = pv_new_local_exit_root pv,
       bci_l1_info_root = pv_l1_info_root pv,
       bci_commit_imported_bridge_exits = pv_commit_imported_bridge_exits pv,
       bci_bridge_witness = aw_bridge_witness w\<rparr> \<and>
     aggchain_params P (aw_fep w) = Ok (pv_aggchain_params pv) \<and>
     pv_prev_local_exit_root pv = aw_prev_local_exit_root w \<and>
     pv_new_local_exit_root pv = aw_new_local_exit_root w \<and>
     pv_l1_info_root pv = aw_l1_info_root w \<and>
     pv_origin_network pv = aw_origin_network w \<and>
     pv_commit_imported_bridge_exits pv = aw_commit_imported_bridge_exits w"

lemma public_values_eq_Ok:
  "public_values P w = Ok pv \<longleftrightarrow>
     aggchain_params P (aw_fep w) = Ok (pv_aggchain_params pv) \<and>
     pv_prev_local_exit_root pv = aw_prev_local_exit_root w \<and>
     pv_new_local_exit_root pv = aw_new_local_exit_root w \<and>
     pv_l1_info_root pv = aw_l1_info_root w \<and>
     pv_origin_network pv = aw_origin_network w \<and>
     pv_commit_imported_bridge_exits pv = aw_commit_imported_bridge_exits w"
  unfolding public_values_def and_then_eq_Ok by (cases pv) auto

lemma verify_aggchain_inputs_eq_Ok:
  "verify_aggchain_inputs G t P E w = Ok pv \<longleftrightarrow>
     fep_accepted G P (aw_fep w) (aw_l1_info_root w) (aw_new_local_exit_root w)
       (aw_commit_imported_bridge_exits w) \<and>
     bridge_verify t P E (bridge_constraints_input_of w) = Ok () \<and>
     public_values P w = Ok pv"
  unfolding verify_aggchain_inputs_def by (simp add: and_then_eq_Ok fep_verify_eq_Ok map_err_eq_Ok)

lemma aggchain_main_eq_Ok:
  "aggchain_main debug G P E w = Ok pv \<longleftrightarrow> verify_aggchain_inputs G TYPE(32) P E w = Ok pv"
  unfolding aggchain_main_def by (simp add: result_simps)

lemma verify_aggchain_inputs_statement:
  assumes "removals_fit t (bridge_constraints_input_of w)"
  shows "verify_aggchain_inputs G t P E w = Ok pv \<longleftrightarrow> aggchain_statement G P E w pv"
proof -
  have "bridge_verify t P E (bridge_constraints_input_of w) = Ok () \<longleftrightarrow>
      bridge_constraints_hold P E (bridge_constraints_input_of w)"
    using assms bridge_verify_sound bridge_verify_complete by blast
  then show ?thesis
    unfolding verify_aggchain_inputs_eq_Ok public_values_eq_Ok aggchain_statement_def
      bridge_constraints_input_of_def by auto
qed

lemma encoded_aggchain_params_not_Err: "encoded_aggchain_params P f \<noteq> Err e"
  by (simp add: encoded_aggchain_params_def aggchain_params_values_of_def to_hash_bn254_def Let_def
      result_simps)

section \<open>A concrete witness\<close>

text \<open>The sample input of the bridge constraints at the fixed address of the GER contract.\<close>

definition sample_chain_table :: call_table where
  "sample_chain_table =
     map (\<lambda>(b, a, c, v). (b, if a = 10 then L2_GER_ADDR else a, c, v)) sample_table"

definition sample_aggchain_witness :: "(digest \<times> address, digest) aggchain_proof_witness" where
  "sample_aggchain_witness = \<lparr>
     aw_prev_local_exit_root = 98, aw_new_local_exit_root = 99, aw_l1_info_root = 50,
     aw_origin_network = 3, aw_fep = sample_fep, aw_commit_imported_bridge_exits = 16,
     aw_bridge_witness = sample_witness\<rparr>"

lemma sample_aggchain_bridge:
  "bridge_verify TYPE(32) sample_prims (sample_evm sample_chain_table)
     (bridge_constraints_input_of sample_aggchain_witness) = Ok ()"
  by (simp add: bridge_sample_defs bridge_verify_defs sample_chain_table_def L2_GER_ADDR_def
      bridge_constraints_input_of_def sample_aggchain_witness_def sample_fep_def)

lemma sample_aggchain_params: "\<exists>d. aggchain_params sample_prims sample_fep = Ok d"
proof -
  have "to_hash_bn254 sample_prims (fep_aggregation_vkey_hash sample_fep) = Ok (word_of_nat (pack31 sample_vkey))"
    unfolding sample_fep_def fep_inputs.simps
    by (rule to_hash_bn254_Ok [OF sample_prims_bn254 sample_vkey_wf]) (simp add: pack31_def sample_vkey_def)
  then show ?thesis
    by (simp add: aggchain_params_def encoded_aggchain_params_def aggchain_params_values_of_def)
qed

lemma sample_aggchain_committed:
  "\<exists>pv. aggchain_main debug sample_guest sample_prims (sample_evm sample_chain_table)
     sample_aggchain_witness = Ok pv"
proof -
  obtain d where d: "aggchain_params sample_prims sample_fep = Ok d"
    using sample_aggchain_params by blast
  have "fep_accepted sample_guest sample_prims (aw_fep sample_aggchain_witness)
      (aw_l1_info_root sample_aggchain_witness) (aw_new_local_exit_root sample_aggchain_witness)
      (aw_commit_imported_bridge_exits sample_aggchain_witness)"
    using sample_fep_accepted by (simp add: sample_aggchain_witness_def)
  moreover have "\<exists>pv. public_values sample_prims sample_aggchain_witness = Ok pv"
    using d by (simp add: public_values_def sample_aggchain_witness_def)
  ultimately show ?thesis
    using sample_aggchain_bridge by (simp add: aggchain_main_eq_Ok verify_aggchain_inputs_eq_Ok)
qed

section \<open>Properties\<close>

text \<open>C2: the aggchain proof program is sound and complete for its statement. On a witness whose
  removal lists fit the 32-bit address space of the zkVM, the program commits to public values exactly
  when these are the ones of the witness, the execution proof (or the signature of the trusted
  sequencer) is accepted for them, all bridge constraints hold between the two L2 blocks of the
  execution proof, and the committed chain parameters are the hash of the FEP parameters.\<close>

theorem aggchain_main_statement:
  assumes "removals_fit TYPE(32) (bridge_constraints_input_of w)"
  shows "aggchain_main debug G P E w = Ok pv \<longleftrightarrow> aggchain_statement G P E w pv"
  using verify_aggchain_inputs_statement [OF assms] by (simp add: aggchain_main_eq_Ok)

theorem aggchain_main_statement_witness:
  "\<exists>pv. aggchain_statement sample_guest sample_prims (sample_evm sample_chain_table)
     sample_aggchain_witness pv"
proof -
  have "removals_fit TYPE(32) (bridge_constraints_input_of sample_aggchain_witness)"
    by (simp add: removals_fit_def bridge_constraints_input_of_def sample_aggchain_witness_def
        sample_witness_def)
  note iff = aggchain_main_statement [OF this]
  obtain pv where "aggchain_main (\<lambda>_. []) sample_guest sample_prims (sample_evm sample_chain_table)
      sample_aggchain_witness = Ok pv"
    using sample_aggchain_committed by blast
  then show ?thesis unfolding iff by blast
qed

text \<open>C11: the committed chain parameters bind the execution proof. When two executions of the program
  commit to the same \<open>aggchain_params\<close> (with well-formed aggregation keys), then the previous and new
  state roots, the block number, the rollup configuration, the mode, the trusted sequencer and both
  verification keys agree, or the two packed encodings are a Keccak collision.\<close>

theorem aggchain_params_binding:
  assumes "abi_conforms P" and "bn254_large P"
    and "babybear_wf (fep_aggregation_vkey_hash (aw_fep w))"
    and "babybear_wf (fep_aggregation_vkey_hash (aw_fep v))"
    and "aggchain_main debug G P E w = Ok pv" and "aggchain_main debug G' P E' v = Ok qv"
    and "pv_aggchain_params pv = pv_aggchain_params qv"
  shows "(\<exists>a b. encoded_aggchain_params P (aw_fep w) = Ok a \<and> encoded_aggchain_params P (aw_fep v) = Ok b \<and>
        a \<noteq> b \<and> keccak256 P a = keccak256 P b) \<or>
     (fep_prev_state_root (aw_fep w) = fep_prev_state_root (aw_fep v) \<and>
      fep_new_state_root (aw_fep w) = fep_new_state_root (aw_fep v) \<and>
      fep_claim_block_num (aw_fep w) = fep_claim_block_num (aw_fep v) \<and>
      fep_rollup_config_hash (aw_fep w) = fep_rollup_config_hash (aw_fep v) \<and>
      optimistic_mode (aw_fep w) = optimistic_mode (aw_fep v) \<and>
      fep_trusted_sequencer (aw_fep w) = fep_trusted_sequencer (aw_fep v) \<and>
      fep_range_vkey_commitment (aw_fep w) = fep_range_vkey_commitment (aw_fep v) \<and>
      fep_aggregation_vkey_hash (aw_fep w) = fep_aggregation_vkey_hash (aw_fep v))"
proof -
  have "aggchain_params P (aw_fep w) = Ok (pv_aggchain_params pv)"
    and "aggchain_params P (aw_fep v) = Ok (pv_aggchain_params pv)"
    using assms(5-7)
    by (simp_all add: aggchain_main_eq_Ok verify_aggchain_inputs_eq_Ok public_values_eq_Ok)
  then obtain a b where a: "encoded_aggchain_params P (aw_fep w) = Ok a"
    and b: "encoded_aggchain_params P (aw_fep v) = Ok b" and "keccak256 P a = keccak256 P b"
    unfolding aggchain_params_def by (auto simp: and_then_eq_Ok)
  then show ?thesis
    using encoded_aggchain_params_inject [OF assms(1-4) a] by (cases "a = b") auto
qed

theorem aggchain_params_binding_witness:
  "(\<exists>a b. encoded_aggchain_params sample_prims sample_fep = Ok a \<and>
      encoded_aggchain_params sample_prims sample_fep = Ok b \<and> a \<noteq> b \<and>
      keccak256 sample_prims a = keccak256 sample_prims b) \<or>
   fep_aggregation_vkey_hash sample_fep = fep_aggregation_vkey_hash sample_fep"
proof -
  have fep: "aw_fep sample_aggchain_witness = sample_fep" by (simp add: sample_aggchain_witness_def)
  have wf: "babybear_wf (fep_aggregation_vkey_hash (aw_fep sample_aggchain_witness))"
    using sample_vkey_wf by (simp add: fep sample_fep_def)
  obtain pv where pv: "aggchain_main (\<lambda>_. []) sample_guest sample_prims (sample_evm sample_chain_table)
      sample_aggchain_witness = Ok pv"
    using sample_aggchain_committed by blast
  from aggchain_params_binding [OF sample_prims_abi sample_prims_bn254 wf wf pv pv refl]
  show ?thesis unfolding fep by blast
qed

text \<open>an execution of the program ends with committed public values or with a panic, and what it
  commits to is at once what was verified: the public values repeat the exit roots, the L1 info root,
  the network and the commitment of the witness, and the new local exit root is the root that the bridge
  contract reports at the new L2 block.\<close>

lemma aggchain_main_commits:
  "(\<forall>e. aggchain_main debug G P E w \<noteq> Err e) \<and>
   (aggchain_main debug G P E w = Ok pv \<longrightarrow>
     pv_prev_local_exit_root pv = aw_prev_local_exit_root w \<and>
     pv_l1_info_root pv = aw_l1_info_root w \<and> pv_origin_network pv = aw_origin_network w \<and>
     pv_commit_imported_bridge_exits pv = aw_commit_imported_bridge_exits w \<and>
     (\<exists>bridge_address.
        new_call E (bridge_constraints_input_of w) (decode_address E) L2_GER_ADDR BridgeAddressCall
          bridge_address \<and>
        new_call E (bridge_constraints_input_of w) (decode_bytes32 E) bridge_address GetRootCall
          (pv_new_local_exit_root pv)))"
proof (intro conjI impI)
  show "\<forall>e. aggchain_main debug G P E w \<noteq> Err e"
    by (simp add: aggchain_main_def result_simps)
next
  assume ok: "aggchain_main debug G P E w = Ok pv"
  then have parts: "bridge_constraints_hold P E (bridge_constraints_input_of w)" "public_values P w = Ok pv"
    using bridge_verify_sound by (auto simp: aggchain_main_eq_Ok verify_aggchain_inputs_eq_Ok)
  then show "pv_prev_local_exit_root pv = aw_prev_local_exit_root w"
    "pv_l1_info_root pv = aw_l1_info_root w" "pv_origin_network pv = aw_origin_network w"
    "pv_commit_imported_bridge_exits pv = aw_commit_imported_bridge_exits w"
    by (simp_all add: public_values_eq_Ok)
  have "bci_ger_addr (bridge_constraints_input_of w) = L2_GER_ADDR"
    "bci_new_local_exit_root (bridge_constraints_input_of w) = pv_new_local_exit_root pv"
    using parts(2) by (simp_all add: bridge_constraints_input_of_def public_values_eq_Ok)
  with parts(1) show "\<exists>bridge_address.
        new_call E (bridge_constraints_input_of w) (decode_address E) L2_GER_ADDR BridgeAddressCall
          bridge_address \<and>
        new_call E (bridge_constraints_input_of w) (decode_bytes32 E) bridge_address GetRootCall
          (pv_new_local_exit_root pv)"
    unfolding bridge_constraints_hold_def Let_def by auto
qed

lemma aggchain_main_commits_witness:
  "\<exists>bridge_address.
     new_call (sample_evm sample_chain_table) (bridge_constraints_input_of sample_aggchain_witness)
       (decode_bytes32 (sample_evm sample_chain_table)) bridge_address GetRootCall 99"
proof -
  obtain pv where pv: "aggchain_main (\<lambda>_. []) sample_guest sample_prims (sample_evm sample_chain_table)
      sample_aggchain_witness = Ok pv"
    using sample_aggchain_committed by blast
  have "pv_new_local_exit_root pv = 99"
    using pv by (simp add: aggchain_main_eq_Ok verify_aggchain_inputs_eq_Ok public_values_eq_Ok
        sample_aggchain_witness_def)
  with aggchain_main_commits [of "\<lambda>_. []" sample_guest sample_prims "sample_evm sample_chain_table"
      sample_aggchain_witness pv] pv
  show ?thesis by auto
qed

end
