(* ===== verification/Contracts.thy ===== *)
theory Contracts
  imports Executor Aggchain_Proof
begin

text \<open>
  \<open>crates/aggchain-proof-contracts\<close>: the client of the L1 and L2 contracts, the parsing of the L2
  output of a block, the sketches of L2 blocks the proof program executes its static calls on, and the
  decorator for Erigon nodes.

  The nodes, the file system and the sketch builder of \<open>sp1-cc-host-executor\<close> are parameters (the
  records \<open>chain_rpc\<close>, \<open>file_system\<close> and \<open>sketch_host\<close>). A sketch under construction records the
  state that calls touch (interior mutability in Rust); the model threads it through the calls. JSON
  values are as \<open>serde_json\<close> has them. The strings of configuration values are ASCII: trimming and
  lower-casing are those of ASCII.
\<close>

section \<open>Errors\<close>

datatype contracts_error =
    ProviderInitializationError report
  | ContractAbiFileError report
  | ContractAbiJsonError report
  | InvalidContractAddress report
  | BridgeAddressError report
  | AggchainFepAddressError report
  | LocalExitRootError report
  | AsyncEngineSetupError report
  | RollupNodeInitError report
  | L2OutputAtBlockRetrievalError report
  | L2OutputAtBlockValueMissing string
  | L2OutputAtBlockInvalidValue string report
  | InvalidRollupIdToRollupData report
  | OpSuccinctConfigRetrievalError report
  | SelectedOpSuccinctConfigRetrievalError report
  | AggchainVKeyRetrievalError report
  | InvalidHostStaticCall report static_call_stage
  | InvalidPreBlockSketchFinalization report
  | InvalidNewBlockSketchFinalization report
  | HostExecutorPreBlockInitialization report
  | HostExecutorNewBlockInitialization report
  | UnableToRetrieveTrustedSequencerAddress report
  | InvalidEvmSketchGenesisInput string
  | InvalidOpSuccinctConfigName string
  | ContractsOther report

section \<open>Values\<close>

record l2_output_at_block =
  ob_version :: digest
  ob_state_root :: digest
  ob_withdrawal_storage_root :: digest
  ob_latest_block_hash :: digest
  ob_output_root :: digest

record op_succinct_config =
  os_aggregation_vkey_hash :: digest
  os_range_vkey_commitment :: digest
  os_rollup_config_hash :: digest

datatype genesis = Mainnet | Sepolia | OpMainnet | Linea | CustomGenesis string

datatype block_number_or_tag = Number u64

datatype json =
    JNull
  | JBool bool
  | JNumber int
  | JString string
  | JArray "json list"
  | JObject "(string \<times> json) list"

fun json_get :: "json \<Rightarrow> string \<Rightarrow> json option" where
  "json_get (JObject members) field = map_of members field"
| "json_get _ field = None"

fun json_as_str :: "json \<Rightarrow> string option" where
  "json_as_str (JString s) = Some s"
| "json_as_str _ = None"

section \<open>Genesis of the sketches\<close>

record file_system =
  fs_exists :: "string \<Rightarrow> bool"
  fs_read_to_string :: "string \<Rightarrow> (string, report) result"
  genesis_config_from_json :: "string \<Rightarrow> (string, report) result"

definition is_whitespace :: "char \<Rightarrow> bool" where
  "is_whitespace c \<longleftrightarrow> (let n = of_char c :: nat in n = 32 \<or> (9 \<le> n \<and> n \<le> 13))"

definition trim :: "string \<Rightarrow> string" where
  "trim s = rev (dropWhile is_whitespace (rev (dropWhile is_whitespace s)))"

definition char_to_lowercase :: "char \<Rightarrow> char" where
  "char_to_lowercase c =
     (let n = of_char c :: nat in if 65 \<le> n \<and> n \<le> 90 then char_of (n + 32) else c)"

definition to_lowercase :: "string \<Rightarrow> string" where
  "to_lowercase s = map char_to_lowercase s"

definition parse_evm_sketch_genesis :: "file_system \<Rightarrow> string \<Rightarrow> (genesis, contracts_error) result" where
  "parse_evm_sketch_genesis FS evm_sketch_genesis =
     (let s = trim evm_sketch_genesis in
      if s = [] then Err (InvalidEvmSketchGenesisInput ''evm sketch genesis input is empty'')
      else if to_lowercase s = ''mainnet'' then Ok Mainnet
      else if to_lowercase s = ''sepolia'' then Ok Sepolia
      else if to_lowercase s = ''opmainnet'' then Ok OpMainnet
      else if to_lowercase s = ''linea'' then Ok Linea
      else if \<not> fs_exists FS s
      then Err (InvalidEvmSketchGenesisInput (''custom genesis json file does not exist: '' @ s))
      else
        and_then (map_err InvalidEvmSketchGenesisInput (fs_read_to_string FS s)) (\<lambda>genesis_json_str.
        and_then
          (map_err (\<lambda>e. InvalidEvmSketchGenesisInput (''could not parse json str: '' @ e))
            (genesis_config_from_json FS genesis_json_str)) (\<lambda>config.
        Ok (CustomGenesis config))))"

section \<open>Sketches of L2 blocks\<close>

record ('hs, 'sk) sketch_host =
  sketch_build :: "block_number_or_tag \<Rightarrow> genesis \<Rightarrow> url \<Rightarrow> ('hs, report) result"
  sketch_call_raw :: "'hs \<Rightarrow> contract_input \<Rightarrow> ('hs \<times> byte list, report) result"
  sketch_finalize :: "'hs \<Rightarrow> ('sk, report) result"

definition host_execute ::
  "('hs, 'sk) sketch_host \<Rightarrow> address \<Rightarrow> address \<Rightarrow> 'hs \<Rightarrow> sol_call \<Rightarrow> static_call_stage \<Rightarrow>
   ('hs, contracts_error) result" where
  "host_execute S caller_address contract_address sketch calldata stage =
     and_then
       (map_err (\<lambda>source. InvalidHostStaticCall source stage)
         (sketch_call_raw S sketch
           \<lparr>ci_contract_address = contract_address, ci_caller_address = caller_address,
            ci_calldata = calldata\<rparr>)) (\<lambda>(sketch', output_bytes).
     Ok sketch')"

text \<open>The body that both clients run inside \<open>sp1_async\<close> for the previous block.\<close>

definition prev_l2_block_sketch ::
  "('hs, 'sk) sketch_host \<Rightarrow> (report \<Rightarrow> contracts_error) \<Rightarrow> address \<Rightarrow> address \<Rightarrow> address \<Rightarrow>
   ('hs, report) result \<Rightarrow> ('sk, contracts_error) result" where
  "prev_l2_block_sketch S init_error caller_address ger_address bridge_address built =
     and_then (map_err init_error built) (\<lambda>sketch.
     and_then (host_execute S caller_address ger_address sketch InsertedGERHashChainCall
       (PrevHashChain InsertedGER)) (\<lambda>sketch.
     and_then (host_execute S caller_address ger_address sketch RemovedGERHashChainCall
       (PrevHashChain RemovedGER)) (\<lambda>sketch.
     and_then (host_execute S caller_address bridge_address sketch ClaimedGlobalIndexHashChainCall
       (PrevHashChain ClaimedGlobalIndex)) (\<lambda>sketch.
     and_then (host_execute S caller_address bridge_address sketch UnsetGlobalIndexHashChainCall
       (PrevHashChain UnsetGlobalIndex)) (\<lambda>sketch.
     map_err InvalidPreBlockSketchFinalization (sketch_finalize S sketch))))))"

text \<open>The same for the new block; the two clients differ in the error of a failed finalisation.\<close>

definition new_l2_block_sketch ::
  "('hs, 'sk) sketch_host \<Rightarrow> (report \<Rightarrow> contracts_error) \<Rightarrow> address \<Rightarrow> address \<Rightarrow> address \<Rightarrow>
   ('hs, report) result \<Rightarrow> ('sk, contracts_error) result" where
  "new_l2_block_sketch S finalize_error caller_address ger_address bridge_address built =
     and_then (map_err HostExecutorNewBlockInitialization built) (\<lambda>sketch.
     and_then (host_execute S caller_address ger_address sketch BridgeAddressCall BridgeAddress) (\<lambda>sketch.
     and_then (host_execute S caller_address bridge_address sketch GetRootCall NewLer) (\<lambda>sketch.
     and_then (host_execute S caller_address ger_address sketch InsertedGERHashChainCall
       (NewHashChain InsertedGER)) (\<lambda>sketch.
     and_then (host_execute S caller_address ger_address sketch RemovedGERHashChainCall
       (NewHashChain RemovedGER)) (\<lambda>sketch.
     and_then (host_execute S caller_address bridge_address sketch ClaimedGlobalIndexHashChainCall
       (NewHashChain ClaimedGlobalIndex)) (\<lambda>sketch.
     and_then (host_execute S caller_address bridge_address sketch UnsetGlobalIndexHashChainCall
       (NewHashChain UnsetGlobalIndex)) (\<lambda>sketch.
     map_err finalize_error (sketch_finalize S sketch))))))))"

text \<open>\<open>sp1_async(..).await.context(msg).map_err(Error::Other)?\<close>\<close>

definition sketch_guarded :: "string \<Rightarrow> ('sk, contracts_error) result \<Rightarrow> ('sk, contracts_error) result" where
  "sketch_guarded msg r = and_then (map_err (\<lambda>_. ContractsOther msg) (sp1_async r)) (\<lambda>x. x)"

section \<open>The contracts client\<close>

record contract_instance =
  ct_address :: address
  ct_provider :: alloy_provider

record aggchain_contracts_rpc_client =
  cl_l2_root_provider_endpoint :: url
  cl_l2_cl_client :: url
  cl_polygon_zkevm_bridge_v2 :: contract_instance
  cl_global_exit_root_manager_l2 :: contract_instance
  cl_aggchain_fep :: contract_instance
  cl_trusted_sequencer_addr :: address
  cl_static_call_caller_address :: address
  cl_evm_sketch_genesis :: genesis
  cl_op_succinct_config_name :: digest

text \<open>The nodes: contract calls (\<open>getRoot\<close> takes the block), and JSON-RPC requests by endpoint, method
  and block parameter. \<open>opSuccinctConfigs\<close> returns the aggregation key, the range key commitment and
  the hash of the rollup configuration.\<close>

record chain_rpc =
  rpc_reqwest_build :: "u64 \<Rightarrow> duration \<Rightarrow> (unit, report) result"
  rpc_http_client_build :: "url \<Rightarrow> (url, report) result"
  rpc_request :: "url \<Rightarrow> string \<Rightarrow> string \<Rightarrow> (json, report) result"
  rpc_get_root :: "contract_instance \<Rightarrow> u64 \<Rightarrow> (digest, report) result"
  rpc_bridge_address :: "contract_instance \<Rightarrow> (address, report) result"
  rpc_rollup_contract :: "contract_instance \<Rightarrow> u32 \<Rightarrow> (address, report) result"
  rpc_trusted_sequencer :: "contract_instance \<Rightarrow> (address, report) result"
  rpc_selected_op_succinct_config_name :: "contract_instance \<Rightarrow> (digest, report) result"
  rpc_op_succinct_configs :: "contract_instance \<Rightarrow> digest \<Rightarrow> (digest \<times> digest \<times> digest, report) result"
  rpc_b256_from_str :: "string \<Rightarrow> (digest, report) result"

definition get_l2_local_exit_root ::
  "chain_rpc \<Rightarrow> aggchain_contracts_rpc_client \<Rightarrow> u64 \<Rightarrow> (digest, contracts_error) result" where
  "get_l2_local_exit_root R self block_number =
     map_err LocalExitRootError (rpc_get_root R (cl_polygon_zkevm_bridge_v2 self) block_number)"

text \<open>\<open>format!("0x{n:x}")\<close>\<close>

fun to_hex :: "nat \<Rightarrow> string" where
  "to_hex n = (if n < 16 then [hex_digit n] else to_hex (n div 16) @ [hex_digit (n mod 16)])"

declare to_hex.simps [simp del]

definition block_param :: "u64 \<Rightarrow> string" where
  "block_param block_number = ''0x'' @ to_hex (unat block_number)"

definition parse_hash :: "chain_rpc \<Rightarrow> json \<Rightarrow> string \<Rightarrow> (digest, contracts_error) result" where
  "parse_hash R j field =
     and_then (ok_or (L2OutputAtBlockValueMissing field) (json_get j field)) (\<lambda>v.
     and_then (ok_or (L2OutputAtBlockValueMissing field) (json_as_str v)) (\<lambda>value_str.
     map_err (L2OutputAtBlockInvalidValue field) (rpc_b256_from_str R value_str)))"

definition parse_l2_output_root :: "chain_rpc \<Rightarrow> json \<Rightarrow> (l2_output_at_block, contracts_error) result" where
  "parse_l2_output_root R j =
     and_then (ok_or (L2OutputAtBlockValueMissing ''blockRef'') (json_get j ''blockRef'')) (\<lambda>block_ref.
     and_then (parse_hash R j ''version'') (\<lambda>version.
     and_then (parse_hash R j ''stateRoot'') (\<lambda>state_root.
     and_then (parse_hash R j ''withdrawalStorageRoot'') (\<lambda>withdrawal_storage_root.
     and_then (parse_hash R block_ref ''hash'') (\<lambda>latest_block_hash.
     and_then (parse_hash R j ''outputRoot'') (\<lambda>output_root. Ok
       \<lparr>ob_version = version, ob_state_root = state_root,
        ob_withdrawal_storage_root = withdrawal_storage_root,
        ob_latest_block_hash = latest_block_hash, ob_output_root = output_root\<rparr>))))))"

definition get_l2_output_at_block ::
  "environment \<Rightarrow> chain_rpc \<Rightarrow> aggchain_contracts_rpc_client \<Rightarrow> u64 \<Rightarrow>
   (l2_output_at_block, contracts_error) result" where
  "get_l2_output_at_block env R self block_number =
     and_then
       (map_err L2OutputAtBlockRetrievalError
         (rpc_request R (cl_l2_cl_client self) (default_output_at_block_endpoint env)
           (block_param block_number))) (\<lambda>j.
     parse_l2_output_root R j)"

definition get_op_succinct_config ::
  "chain_rpc \<Rightarrow> aggchain_contracts_rpc_client \<Rightarrow> (op_succinct_config, contracts_error) result" where
  "get_op_succinct_config R self =
     and_then
       (map_err OpSuccinctConfigRetrievalError
         (rpc_op_succinct_configs R (cl_aggchain_fep self) (cl_op_succinct_config_name self)))
       (\<lambda>(aggregation_vkey, range_vkey_commitment, rollup_config_hash). Ok
         \<lparr>os_aggregation_vkey_hash = aggregation_vkey, os_range_vkey_commitment = range_vkey_commitment,
          os_rollup_config_hash = rollup_config_hash\<rparr>)"

definition get_trusted_sequencer_address ::
  "aggchain_contracts_rpc_client \<Rightarrow> (address, contracts_error) result" where
  "get_trusted_sequencer_address self = Ok (cl_trusted_sequencer_addr self)"

definition get_prev_l2_block_sketch ::
  "('hs, 'sk) sketch_host \<Rightarrow> aggchain_contracts_rpc_client \<Rightarrow> block_number_or_tag \<Rightarrow>
   ('sk, contracts_error) result" where
  "get_prev_l2_block_sketch S self prev_l2_block =
     sketch_guarded ''Failed getting previous L2 block sketch''
       (prev_l2_block_sketch S HostExecutorPreBlockInitialization
         (cl_static_call_caller_address self)
         (ct_address (cl_global_exit_root_manager_l2 self))
         (ct_address (cl_polygon_zkevm_bridge_v2 self))
         (sketch_build S prev_l2_block (cl_evm_sketch_genesis self) (cl_l2_root_provider_endpoint self)))"

definition get_new_l2_block_sketch ::
  "('hs, 'sk) sketch_host \<Rightarrow> aggchain_contracts_rpc_client \<Rightarrow> block_number_or_tag \<Rightarrow>
   ('sk, contracts_error) result" where
  "get_new_l2_block_sketch S self new_l2_block =
     sketch_guarded ''Failed getting new L2 block sketch''
       (new_l2_block_sketch S InvalidNewBlockSketchFinalization
         (cl_static_call_caller_address self)
         (ct_address (cl_global_exit_root_manager_l2 self))
         (ct_address (cl_polygon_zkevm_bridge_v2 self))
         (sketch_build S new_l2_block (cl_evm_sketch_genesis self) (cl_l2_root_provider_endpoint self)))"

definition contracts_client_new ::
  "chain_rpc \<Rightarrow> file_system \<Rightarrow> u32 \<Rightarrow> aggchain_proof_contracts_config \<Rightarrow>
   (aggchain_contracts_rpc_client, contracts_error) result" where
  "contracts_client_new R FS network_id config =
     and_then
       (map_err ProviderInitializationError
         (build_alloy_fill_provider (rpc_reqwest_build R) (cc_l1_rpc_endpoint config)
           DEFAULT_HTTP_RPC_NODE_INITIAL_BACKOFF_MS DEFAULT_HTTP_RPC_NODE_BACKOFF_MAX_RETRIES)) (\<lambda>l1_client.
     and_then
       (map_err ProviderInitializationError
         (build_alloy_fill_provider (rpc_reqwest_build R) (cc_l2_execution_layer_rpc_endpoint config)
           DEFAULT_HTTP_RPC_NODE_INITIAL_BACKOFF_MS DEFAULT_HTTP_RPC_NODE_BACKOFF_MAX_RETRIES)) (\<lambda>l2_el_client.
     and_then
       (map_err RollupNodeInitError
         (rpc_http_client_build R (cc_l2_consensus_layer_rpc_endpoint config))) (\<lambda>l2_cl_client.
     let global_exit_root_manager_l2 =
       \<lparr>ct_address = cc_global_exit_root_manager_v2_sovereign_chain config, ct_provider = l2_el_client\<rparr> in
     and_then
       (map_err BridgeAddressError (rpc_bridge_address R global_exit_root_manager_l2))
       (\<lambda>polygon_zkevm_bridge_address.
     let polygon_rollup_manager =
       \<lparr>ct_address = cc_polygon_rollup_manager config, ct_provider = l1_client\<rparr> in
     and_then
       (map_err AggchainFepAddressError (rpc_rollup_contract R polygon_rollup_manager network_id))
       (\<lambda>aggchain_fep_address.
     let aggchain_fep = \<lparr>ct_address = aggchain_fep_address, ct_provider = l1_client\<rparr> in
     and_then
       (map_err UnableToRetrieveTrustedSequencerAddress (rpc_trusted_sequencer R aggchain_fep))
       (\<lambda>trusted_sequencer_addr.
     and_then
       (map_err SelectedOpSuccinctConfigRetrievalError
         (rpc_selected_op_succinct_config_name R aggchain_fep)) (\<lambda>op_succinct_config_name.
     and_then (parse_evm_sketch_genesis FS (cc_evm_sketch_genesis config)) (\<lambda>evm_sketch_genesis. Ok
       \<lparr>cl_l2_root_provider_endpoint = cc_l2_execution_layer_rpc_endpoint config,
        cl_l2_cl_client = l2_cl_client,
        cl_polygon_zkevm_bridge_v2 =
          \<lparr>ct_address = polygon_zkevm_bridge_address, ct_provider = l2_el_client\<rparr>,
        cl_global_exit_root_manager_l2 = global_exit_root_manager_l2,
        cl_aggchain_fep = aggchain_fep,
        cl_trusted_sequencer_addr = trusted_sequencer_addr,
        cl_static_call_caller_address = cc_static_call_caller_address config,
        cl_evm_sketch_genesis = evm_sketch_genesis,
        cl_op_succinct_config_name = op_succinct_config_name\<rparr>))))))))"

section \<open>The traits of a contracts client, and the Erigon decorator\<close>

record 'sk contracts_client =
  ac_get_l2_local_exit_root :: "u64 \<Rightarrow> (digest, contracts_error) result"
  ac_get_l2_output_at_block :: "u64 \<Rightarrow> (l2_output_at_block, contracts_error) result"
  ac_get_op_succinct_config :: "(op_succinct_config, contracts_error) result"
  ac_get_trusted_sequencer_address :: "(address, contracts_error) result"
  ac_get_prev_l2_block_sketch :: "block_number_or_tag \<Rightarrow> ('sk, contracts_error) result"
  ac_get_new_l2_block_sketch :: "block_number_or_tag \<Rightarrow> ('sk, contracts_error) result"

definition rpc_contracts_client ::
  "environment \<Rightarrow> chain_rpc \<Rightarrow> ('hs, 'sk) sketch_host \<Rightarrow> aggchain_contracts_rpc_client \<Rightarrow>
   'sk contracts_client" where
  "rpc_contracts_client env R S self =
     \<lparr>ac_get_l2_local_exit_root = get_l2_local_exit_root R self,
      ac_get_l2_output_at_block = get_l2_output_at_block env R self,
      ac_get_op_succinct_config = get_op_succinct_config R self,
      ac_get_trusted_sequencer_address = get_trusted_sequencer_address self,
      ac_get_prev_l2_block_sketch = get_prev_l2_block_sketch S self,
      ac_get_new_l2_block_sketch = get_new_l2_block_sketch S self\<rparr>"

record 'sk erigon_contracts_client =
  er_inner :: "'sk contracts_client"
  er_l2_client :: url
  er_static_call_caller_address :: address
  er_global_exit_root_manager_l2 :: contract_instance
  er_polygon_zkevm_bridge_v2 :: contract_instance
  er_sketch_genesis :: genesis

definition erigon_new ::
  "chain_rpc \<Rightarrow> file_system \<Rightarrow> 'sk contracts_client \<Rightarrow> url \<Rightarrow> aggchain_proof_contracts_config \<Rightarrow>
   ('sk erigon_contracts_client, contracts_error) result" where
  "erigon_new R FS inner_client l2endpoint config =
     and_then (map_err RollupNodeInitError (rpc_http_client_build R l2endpoint)) (\<lambda>l2_client.
     and_then
       (map_err ProviderInitializationError
         (build_alloy_fill_provider (rpc_reqwest_build R) (cc_l2_execution_layer_rpc_endpoint config)
           DEFAULT_HTTP_RPC_NODE_INITIAL_BACKOFF_MS DEFAULT_HTTP_RPC_NODE_BACKOFF_MAX_RETRIES)) (\<lambda>l2_el_client.
     let global_exit_root_manager_l2 =
       \<lparr>ct_address = cc_global_exit_root_manager_v2_sovereign_chain config, ct_provider = l2_el_client\<rparr> in
     and_then
       (map_err BridgeAddressError (rpc_bridge_address R global_exit_root_manager_l2))
       (\<lambda>polygon_zkevm_bridge_address.
     and_then (parse_evm_sketch_genesis FS (cc_evm_sketch_genesis config)) (\<lambda>sketch_genesis. Ok
       \<lparr>er_inner = inner_client, er_l2_client = l2_client,
        er_static_call_caller_address = cc_static_call_caller_address config,
        er_global_exit_root_manager_l2 = global_exit_root_manager_l2,
        er_polygon_zkevm_bridge_v2 =
          \<lparr>ct_address = polygon_zkevm_bridge_address, ct_provider = l2_el_client\<rparr>,
        er_sketch_genesis = sketch_genesis\<rparr>))))"

text \<open>The sketches of the decorator are built at a fixed local endpoint; \<open>Url::parse(..).unwrap()\<close> of
  the literal is inside the guarded body.\<close>

definition erigon_sketch_build ::
  "environment \<Rightarrow> ('hs, 'sk) sketch_host \<Rightarrow> 'sk erigon_contracts_client \<Rightarrow> block_number_or_tag \<Rightarrow>
   ('hs, report) result" where
  "erigon_sketch_build env S self block_number =
     and_then (parse_literal (url_parse env) ''http://127.0.0.1:8123'') (\<lambda>u.
     sketch_build S block_number (er_sketch_genesis self) u)"

definition erigon_get_prev_l2_block_sketch ::
  "environment \<Rightarrow> ('hs, 'sk) sketch_host \<Rightarrow> 'sk erigon_contracts_client \<Rightarrow> block_number_or_tag \<Rightarrow>
   ('sk, contracts_error) result" where
  "erigon_get_prev_l2_block_sketch env S self block_number =
     sketch_guarded ''Failed getting previous L2 block sketch''
       (prev_l2_block_sketch S HostExecutorNewBlockInitialization
         (er_static_call_caller_address self)
         (ct_address (er_global_exit_root_manager_l2 self))
         (ct_address (er_polygon_zkevm_bridge_v2 self))
         (erigon_sketch_build env S self block_number))"

definition erigon_get_new_l2_block_sketch ::
  "environment \<Rightarrow> ('hs, 'sk) sketch_host \<Rightarrow> 'sk erigon_contracts_client \<Rightarrow> block_number_or_tag \<Rightarrow>
   ('sk, contracts_error) result" where
  "erigon_get_new_l2_block_sketch env S self block_number =
     sketch_guarded ''Failed getting new L2 block sketch''
       (new_l2_block_sketch S InvalidPreBlockSketchFinalization
         (er_static_call_caller_address self)
         (ct_address (er_global_exit_root_manager_l2 self))
         (ct_address (er_polygon_zkevm_bridge_v2 self))
         (erigon_sketch_build env S self block_number))"

definition erigon_get_l2_output_at_block ::
  "chain_rpc \<Rightarrow> 'sk erigon_contracts_client \<Rightarrow> u64 \<Rightarrow> (l2_output_at_block, contracts_error) result" where
  "erigon_get_l2_output_at_block R self block_number =
     and_then
       (map_err L2OutputAtBlockRetrievalError
         (rpc_request R (er_l2_client self) ''eth_getBlockByNumber'' (block_param block_number))) (\<lambda>j.
     and_then (parse_hash R j ''stateRoot'') (\<lambda>state_root.
     and_then (parse_hash R j ''withdrawalsRoot'') (\<lambda>withdrawal_storage_root.
     and_then (parse_hash R j ''hash'') (\<lambda>latest_block_hash.
     and_then (parse_hash R j ''stateRoot'') (\<lambda>output_root. Ok
       \<lparr>ob_version = 0, ob_state_root = state_root,
        ob_withdrawal_storage_root = withdrawal_storage_root,
        ob_latest_block_hash = latest_block_hash, ob_output_root = output_root\<rparr>)))))"

definition erigon_contracts ::
  "environment \<Rightarrow> chain_rpc \<Rightarrow> ('hs, 'sk) sketch_host \<Rightarrow> 'sk erigon_contracts_client \<Rightarrow> 'sk contracts_client" where
  "erigon_contracts env R S self =
     \<lparr>ac_get_l2_local_exit_root = ac_get_l2_local_exit_root (er_inner self),
      ac_get_l2_output_at_block = erigon_get_l2_output_at_block R self,
      ac_get_op_succinct_config = ac_get_op_succinct_config (er_inner self),
      ac_get_trusted_sequencer_address = ac_get_trusted_sequencer_address (er_inner self),
      ac_get_prev_l2_block_sketch = erigon_get_prev_l2_block_sketch env S self,
      ac_get_new_l2_block_sketch = erigon_get_new_l2_block_sketch env S self\<rparr>"

section \<open>The calls recorded in a sketch\<close>

fun run_host_calls ::
  "('hs, 'sk) sketch_host \<Rightarrow> 'hs \<Rightarrow> contract_input list \<Rightarrow> ('hs, report) result" where
  "run_host_calls S hs [] = Ok hs"
| "run_host_calls S hs (ci # cs) = and_then (sketch_call_raw S hs ci) (\<lambda>(hs', _). run_host_calls S hs' cs)"

definition prev_block_calls :: "address \<Rightarrow> address \<Rightarrow> address \<Rightarrow> contract_input list" where
  "prev_block_calls caller ger bridge =
     [\<lparr>ci_contract_address = ger, ci_caller_address = caller, ci_calldata = InsertedGERHashChainCall\<rparr>,
      \<lparr>ci_contract_address = ger, ci_caller_address = caller, ci_calldata = RemovedGERHashChainCall\<rparr>,
      \<lparr>ci_contract_address = bridge, ci_caller_address = caller, ci_calldata = ClaimedGlobalIndexHashChainCall\<rparr>,
      \<lparr>ci_contract_address = bridge, ci_caller_address = caller, ci_calldata = UnsetGlobalIndexHashChainCall\<rparr>]"

definition new_block_calls :: "address \<Rightarrow> address \<Rightarrow> address \<Rightarrow> contract_input list" where
  "new_block_calls caller ger bridge =
     \<lparr>ci_contract_address = ger, ci_caller_address = caller, ci_calldata = BridgeAddressCall\<rparr> #
     \<lparr>ci_contract_address = bridge, ci_caller_address = caller, ci_calldata = GetRootCall\<rparr> #
     prev_block_calls caller ger bridge"

lemma sketch_guarded_eq_Ok: "sketch_guarded msg r = Ok x \<longleftrightarrow> r = Ok x"
  by (cases r) (auto simp: sketch_guarded_def sp1_async_def)

lemma sketch_guarded_not_Panic: "sketch_guarded msg r \<noteq> Panic p"
  by (cases r) (auto simp: sketch_guarded_def sp1_async_def)

lemma prev_l2_block_sketch_eq_Ok:
  "prev_l2_block_sketch S ie caller ger bridge built = Ok sk \<longleftrightarrow>
     (\<exists>hs hs'. built = Ok hs \<and> run_host_calls S hs (prev_block_calls caller ger bridge) = Ok hs' \<and>
        sketch_finalize S hs' = Ok sk)"
  unfolding prev_l2_block_sketch_def prev_block_calls_def host_execute_def
  by (simp add: and_then_eq_Ok map_err_eq_Ok split: prod.splits) blast

lemma new_l2_block_sketch_eq_Ok:
  "new_l2_block_sketch S fe caller ger bridge built = Ok sk \<longleftrightarrow>
     (\<exists>hs hs'. built = Ok hs \<and> run_host_calls S hs (new_block_calls caller ger bridge) = Ok hs' \<and>
        sketch_finalize S hs' = Ok sk)"
  unfolding new_l2_block_sketch_def new_block_calls_def prev_block_calls_def host_execute_def
  by (simp add: and_then_eq_Ok map_err_eq_Ok split: prod.splits) blast

text \<open>What \<open>sp1-cc\<close> promises: a finalised sketch lets the client executor replay the calls that were
  made on the host.\<close>

definition prefetched :: "'sk evm \<Rightarrow> 'sk \<Rightarrow> contract_input list \<Rightarrow> bool" where
  "prefetched E sk cs \<longleftrightarrow>
     (\<exists>client. client_eth E sk = Ok client \<and> (\<forall>ci\<in>set cs. \<exists>pv. client ci = Ok pv))"

definition sketch_replays :: "('hs, 'sk) sketch_host \<Rightarrow> 'sk evm \<Rightarrow> bool" where
  "sketch_replays S E \<longleftrightarrow>
     (\<forall>tag gen u hs cs hs' sk.
        sketch_build S tag gen u = Ok hs \<and> run_host_calls S hs cs = Ok hs' \<and>
        sketch_finalize S hs' = Ok sk \<longrightarrow> prefetched E sk cs)"

text \<open>Failures of the client executor in the proof program.\<close>

fun client_failure :: "bridge_constraints_error \<Rightarrow> bool" where
  "client_failure (StaticCallError _ (ClientInitialization _)) = True"
| "client_failure (StaticCallError _ (ClientExecution _)) = True"
| "client_failure _ = False"

definition no_client_failure :: "('a, bridge_constraints_error) result \<Rightarrow> bool" where
  "no_client_failure r \<longleftrightarrow> (\<forall>e. r = Err e \<longrightarrow> \<not> client_failure e)"

lemma no_client_failure_Ok [simp]: "no_client_failure (Ok x)"
  by (simp add: no_client_failure_def)

lemma no_client_failure_Err [simp]: "no_client_failure (Err e) \<longleftrightarrow> \<not> client_failure e"
  by (simp add: no_client_failure_def)

lemma no_client_failure_and_then:
  "no_client_failure r \<Longrightarrow> (\<And>x. r = Ok x \<Longrightarrow> no_client_failure (f x)) \<Longrightarrow> no_client_failure (and_then r f)"
  by (cases r) (auto simp: no_client_failure_def)

lemma execute_prefetched:
  assumes "prefetched E sk cs"
    and "\<lparr>ci_contract_address = sc_address self, ci_caller_address = caller, ci_calldata = call\<rparr> \<in> set cs"
  shows "no_client_failure (execute E dec self caller sk call)"
proof -
  obtain client pv where c: "client_eth E sk = Ok client"
    and pv: "client \<lparr>ci_contract_address = sc_address self, ci_caller_address = caller, ci_calldata = call\<rparr> = Ok pv"
    using assms unfolding prefetched_def by blast
  show ?thesis
    unfolding execute_def execute_helper_def static_call_error_at_def c
    by (cases "dec (contract_output pv)") (auto simp: pv no_client_failure_def)
qed

lemma filter_values_no_client_failure: "no_client_failure (filter_values t removed vs key)"
  by (auto simp: no_client_failure_def filter_values_def result_simps dest!: count_removals_eq_Err)

lemma validate_no_client_failure: "no_client_failure (validate_hash_chain P hs a b ty)"
  by (simp add: validate_hash_chain_def Let_def)

text \<open>With both sketches prefetched for the calls of its contracts, the bridge verification does not
  fail in the client executor.\<close>

lemma bridge_verify_prefetched:
  assumes "prefetched E (bw_prev_l2_block_sketch (bci_bridge_witness i))
      (prev_block_calls (bw_caller_address (bci_bridge_witness i)) (bci_ger_addr i) bridge)"
    and "prefetched E (bw_new_l2_block_sketch (bci_bridge_witness i))
      (new_block_calls (bw_caller_address (bci_bridge_witness i)) (bci_ger_addr i) bridge)"
    and "\<And>b. fetch_bridge_address E i = Ok b \<Longrightarrow> b = bridge"
  shows "no_client_failure (bridge_verify t P E i)"
proof -
  note calls = execute_prefetched [OF assms(1)] execute_prefetched [OF assms(2)]
  note ncf = no_client_failure_and_then calls validate_no_client_failure filter_values_no_client_failure
  note mem = prev_block_calls_def new_block_calls_def
  have fetch: "no_client_failure (fetch_hash_chains E dec i ty a c)"
    if "\<lparr>ci_contract_address = a, ci_caller_address = bw_caller_address (bci_bridge_witness i), ci_calldata = c\<rparr>
      \<in> set (prev_block_calls (bw_caller_address (bci_bridge_witness i)) (bci_ger_addr i) bridge)"
    for dec :: "byte list \<Rightarrow> (digest, report) result" and ty a c
    unfolding fetch_hash_chains_def using that
    by (intro ncf) (auto simp: new_block_calls_def)
  have ger: "no_client_failure (verify_ger_hash_chains P E i)"
    unfolding verify_ger_hash_chains_def
    by (intro no_client_failure_and_then fetch) (auto simp: mem intro!: ncf fetch)
  have addr: "no_client_failure (fetch_bridge_address E i)"
    unfolding fetch_bridge_address_def by (rule calls(2)) (simp add: mem)
  have claims: "no_client_failure (verify_claims_hash_chains P E i bridge)"
    unfolding verify_claims_hash_chains_def Let_def
    by (intro no_client_failure_and_then fetch) (auto simp: mem intro!: ncf fetch)
  have ler: "no_client_failure (verify_new_ler E i bridge)"
    unfolding verify_new_ler_def
    by (rule no_client_failure_and_then, rule calls(2)) (simp_all add: mem)
  have gi: "no_client_failure (verify_constrained_global_indices t P i)"
    unfolding verify_constrained_global_indices_def Let_def by (rule ncf(1), rule ncf(5)) simp
  have gers: "no_client_failure (verify_inserted_gers t P i)"
    unfolding verify_inserted_gers_def Let_def
    by (rule ncf(1), rule ncf(5)) (simp split: option.splits)
  show ?thesis
    unfolding bridge_verify_def
    by (rule no_client_failure_and_then [OF ger], rule no_client_failure_and_then [OF addr])
      (use assms(3) claims ler gi gers in \<open>auto intro!: no_client_failure_and_then\<close>)
qed

lemma contracts_client_new_Ok:
  assumes "contracts_client_new R FS network_id config = Ok cl"
  shows "ct_address (cl_global_exit_root_manager_l2 cl) = cc_global_exit_root_manager_v2_sovereign_chain config"
    and "cl_static_call_caller_address cl = cc_static_call_caller_address config"
    and "rpc_bridge_address R (cl_global_exit_root_manager_l2 cl) =
      Ok (ct_address (cl_polygon_zkevm_bridge_v2 cl))"
    and "parse_evm_sketch_genesis FS (cc_evm_sketch_genesis config) = Ok (cl_evm_sketch_genesis cl)"
  using assms unfolding contracts_client_new_def Let_def by (auto simp: result_simps)

text \<open>The contract the client reads is the one the proof program is bound to.\<close>

lemma default_ger_manager: "GLOBAL_EXIT_ROOT_MANAGER_L2_SOVEREIGN_CHAIN_ADDRESS = L2_GER_ADDR"
  by (simp add: GLOBAL_EXIT_ROOT_MANAGER_L2_SOVEREIGN_CHAIN_ADDRESS_def L2_GER_ADDR_def)

section \<open>Output of a block\<close>

text \<open>The response of the rollup node for an output, with hashes printed by \<open>pr\<close>.\<close>

definition json_of_output :: "(digest \<Rightarrow> string) \<Rightarrow> l2_output_at_block \<Rightarrow> json" where
  "json_of_output pr out = JObject
     [(''version'', JString (pr (ob_version out))),
      (''outputRoot'', JString (pr (ob_output_root out))),
      (''blockRef'', JObject [(''hash'', JString (pr (ob_latest_block_hash out)))]),
      (''withdrawalStorageRoot'', JString (pr (ob_withdrawal_storage_root out))),
      (''stateRoot'', JString (pr (ob_state_root out)))]"

lemma parse_hash_eq_Ok:
  "parse_hash R j field = Ok d \<longleftrightarrow>
     (\<exists>str. json_get j field = Some (JString str) \<and> rpc_b256_from_str R str = Ok d)"
proof -
  have "json_as_str v = Some str \<longleftrightarrow> v = JString str" for v str by (cases v) auto
  then show ?thesis unfolding parse_hash_def by (auto simp: result_simps)
qed

lemma to_hex_inject: "to_hex m = to_hex n \<Longrightarrow> m = n"
proof (induction m arbitrary: n rule: to_hex.induct)
  case (1 m)
  have ne: "to_hex k \<noteq> []" for k by (cases "k < 16") (simp_all add: to_hex.simps [of k])
  show ?case
  proof (cases "m < 16 \<or> n < 16")
    case True
    then have "m < 16 \<and> n < 16"
      using "1.prems" ne ne [symmetric] by (auto simp: to_hex.simps [of m] to_hex.simps [of n] split: if_splits)
    then show ?thesis
      using "1.prems" hex_digit_inject by (simp add: to_hex.simps [of m] to_hex.simps [of n])
  next
    case False
    then have "to_hex (m div 16) = to_hex (n div 16)" and d: "hex_digit (m mod 16) = hex_digit (n mod 16)"
      using "1.prems" by (simp_all add: to_hex.simps [of m] to_hex.simps [of n])
    then have "m div 16 = n div 16" using False "1.IH" by simp
    moreover have "m mod 16 = n mod 16" using d by (intro hex_digit_inject) simp_all
    ultimately show ?thesis by (metis div_mult_mod_eq)
  qed
qed

section \<open>Concrete nodes\<close>

text \<open>A sketch host over the table of contract outputs: block 4 has the hash 100, the others 200.\<close>

definition sample_sketch_host :: "call_table \<Rightarrow> (digest, digest) sketch_host" where
  "sample_sketch_host tbl =
     \<lparr>sketch_build = (\<lambda>tag g u. Ok (case tag of Number n \<Rightarrow> if n = 4 then 100 else 200)),
      sketch_call_raw = (\<lambda>sk ci. map_ok (\<lambda>pv. (sk, contract_output pv)) (sample_lookup tbl sk ci)),
      sketch_finalize = Ok\<rparr>"

lemma sample_run_host_calls:
  "run_host_calls (sample_sketch_host tbl) hs cs = Ok hs' \<Longrightarrow>
     hs' = hs \<and> (\<forall>ci\<in>set cs. \<exists>pv. sample_lookup tbl hs ci = Ok pv)"
  by (induction cs) (auto simp: sample_sketch_host_def result_simps)

lemma sample_sketch_replays: "sketch_replays (sample_sketch_host tbl) (sample_evm tbl)"
  unfolding sketch_replays_def prefetched_def
  by (auto simp: sample_evm_def dest!: sample_run_host_calls) (simp add: sample_sketch_host_def)

definition sample_rpc :: chain_rpc where
  "sample_rpc =
     \<lparr>rpc_reqwest_build = (\<lambda>n d. Ok ()),
      rpc_http_client_build = Ok,
      rpc_request = (\<lambda>u m p. Ok (json_of_output (\<lambda>d. replicate (unat d) CHR ''0'')
         \<lparr>ob_version = 0, ob_state_root = 31, ob_withdrawal_storage_root = 32,
          ob_latest_block_hash = (if p = ''0x4'' then 100 else 200), ob_output_root = 33\<rparr>)),
      rpc_get_root = (\<lambda>c n. Ok (if n = 4 then 98 else 99)),
      rpc_bridge_address = (\<lambda>c. Ok 20),
      rpc_rollup_contract = (\<lambda>c n. Ok 30),
      rpc_trusted_sequencer = (\<lambda>c. Ok 5),
      rpc_selected_op_succinct_config_name = (\<lambda>c. Ok 1),
      rpc_op_succinct_configs = (\<lambda>c n. Ok (88, 66, 77)),
      rpc_b256_from_str = (\<lambda>str. Ok (word_of_nat (length str)))\<rparr>"

definition sample_fs :: file_system where
  "sample_fs =
     \<lparr>fs_exists = (\<lambda>p. False), fs_read_to_string = (\<lambda>p. Err ''not found''),
      genesis_config_from_json = Ok\<rparr>"

definition sample_contracts_config :: aggchain_proof_contracts_config where
  "sample_contracts_config =
     \<lparr>cc_l1_rpc_endpoint = ''http://l1'', cc_l2_execution_layer_rpc_endpoint = ''http://l2'',
      cc_l2_consensus_layer_rpc_endpoint = ''http://rollup'',
      cc_polygon_rollup_manager = POLYGON_ROLLUP_MANAGER,
      cc_global_exit_root_manager_v2_sovereign_chain = GLOBAL_EXIT_ROOT_MANAGER_L2_SOVEREIGN_CHAIN_ADDRESS,
      cc_static_call_caller_address = 0, cc_evm_sketch_genesis = ''  Sepolia ''\<rparr>"

lemma sample_genesis: "parse_evm_sketch_genesis sample_fs ''  Sepolia '' = Ok Sepolia"
  by code_simp

lemma sample_client_new: "\<exists>cl. contracts_client_new sample_rpc sample_fs 3 sample_contracts_config = Ok cl"
  by (simp add: contracts_client_new_def sample_rpc_def sample_contracts_config_def
      build_alloy_fill_provider_def sample_genesis)

section \<open>Properties\<close>

text \<open>C23: the host prefetches what the proof program calls. Let the sketches of a witness be those that
  the contracts client returns for the previous and the new block, with the caller of the client and
  with the GER manager configured as the fixed address of the program. If the bridge contract named at
  the new block is the one the client was created with, then the bridge verification of that witness
  does not fail in the client executor, neither in its initialisation nor in any static call. The host
  executor is assumed to build sketches on which the calls made can be replayed.\<close>

theorem program_calls_prefetched:
  assumes "sketch_replays S E" and "contracts_client_new R FS network_id config = Ok cl"
    and "cc_global_exit_root_manager_v2_sovereign_chain config = GLOBAL_EXIT_ROOT_MANAGER_L2_SOVEREIGN_CHAIN_ADDRESS"
    and "get_prev_l2_block_sketch S cl prev = Ok (bw_prev_l2_block_sketch (aw_bridge_witness w))"
    and "get_new_l2_block_sketch S cl new = Ok (bw_new_l2_block_sketch (aw_bridge_witness w))"
    and "bw_caller_address (aw_bridge_witness w) = cc_static_call_caller_address config"
    and "\<forall>b. fetch_bridge_address E (bridge_constraints_input_of w) = Ok b \<longrightarrow>
      b = ct_address (cl_polygon_zkevm_bridge_v2 cl)"
    and "bridge_verify t P E (bridge_constraints_input_of w) = Err e"
  shows "\<not> client_failure e"
proof -
  let ?i = "bridge_constraints_input_of w"
  note cl = contracts_client_new_Ok [OF assms(2)]
  have i: "bci_bridge_witness ?i = aw_bridge_witness w" "bci_ger_addr ?i = L2_GER_ADDR"
    by (simp_all add: bridge_constraints_input_of_def)
  have "prefetched E (bw_prev_l2_block_sketch (aw_bridge_witness w))
      (prev_block_calls (bw_caller_address (aw_bridge_witness w)) L2_GER_ADDR
        (ct_address (cl_polygon_zkevm_bridge_v2 cl)))"
    using assms(1,3,4,6) cl(1,2) default_ger_manager
    unfolding get_prev_l2_block_sketch_def sketch_guarded_eq_Ok prev_l2_block_sketch_eq_Ok sketch_replays_def
    by metis
  moreover have "prefetched E (bw_new_l2_block_sketch (aw_bridge_witness w))
      (new_block_calls (bw_caller_address (aw_bridge_witness w)) L2_GER_ADDR
        (ct_address (cl_polygon_zkevm_bridge_v2 cl)))"
    using assms(1,3,5,6) cl(1,2) default_ger_manager
    unfolding get_new_l2_block_sketch_def sketch_guarded_eq_Ok new_l2_block_sketch_eq_Ok sketch_replays_def
    by metis
  ultimately have "no_client_failure (bridge_verify t P E ?i)"
    using assms(7) by (intro bridge_verify_prefetched) (simp_all add: i)
  with assms(8) show ?thesis by (simp add: no_client_failure_def)
qed

text \<open>An input whose new local exit root is wrong, over the sketches of the client.\<close>

theorem program_calls_prefetched_witness:
  "\<not> client_failure (MismatchNewLocalExitRoot 99 42)"
proof -
  let ?S = "sample_sketch_host sample_chain_table" and ?E = "sample_evm sample_chain_table"
  let ?w = "sample_aggchain_witness\<lparr>aw_new_local_exit_root := 42\<rparr>"
  obtain cl where cl: "contracts_client_new sample_rpc sample_fs 3 sample_contracts_config = Ok cl"
    using sample_client_new by blast
  have addr: "ct_address (cl_global_exit_root_manager_l2 cl) = L2_GER_ADDR"
    "ct_address (cl_polygon_zkevm_bridge_v2 cl) = 20" "cl_static_call_caller_address cl = 0"
    using contracts_client_new_Ok [OF cl] default_ger_manager
    by (simp_all add: sample_contracts_config_def sample_rpc_def)
  have prev: "get_prev_l2_block_sketch ?S cl (Number 4) = Ok (bw_prev_l2_block_sketch (aw_bridge_witness ?w))"
    unfolding get_prev_l2_block_sketch_def sketch_guarded_eq_Ok prev_l2_block_sketch_eq_Ok addr
    by (simp add: sample_sketch_host_def sample_chain_table_def sample_table_def prev_block_calls_def
        L2_GER_ADDR_def sample_aggchain_witness_def sample_witness_def)
  have new: "get_new_l2_block_sketch ?S cl (Number 9) = Ok (bw_new_l2_block_sketch (aw_bridge_witness ?w))"
    unfolding get_new_l2_block_sketch_def sketch_guarded_eq_Ok new_l2_block_sketch_eq_Ok addr
    by (simp add: sample_sketch_host_def sample_chain_table_def sample_table_def prev_block_calls_def
        new_block_calls_def L2_GER_ADDR_def sample_aggchain_witness_def sample_witness_def)
  have verify: "bridge_verify TYPE(32) sample_prims ?E (bridge_constraints_input_of ?w) =
      Err (MismatchNewLocalExitRoot 99 42)"
    by (simp add: bridge_sample_defs bridge_verify_defs sample_chain_table_def L2_GER_ADDR_def
        bridge_constraints_input_of_def sample_aggchain_witness_def sample_fep_def)
  have "fetch_bridge_address ?E (bridge_constraints_input_of ?w) = Ok 20"
    by (simp add: bridge_sample_defs bridge_verify_defs sample_chain_table_def L2_GER_ADDR_def
        bridge_constraints_input_of_def sample_aggchain_witness_def sample_fep_def)
  then have bridge: "\<forall>b. fetch_bridge_address ?E (bridge_constraints_input_of ?w) = Ok b \<longrightarrow>
      b = ct_address (cl_polygon_zkevm_bridge_v2 cl)"
    using addr by simp
  show ?thesis
    by (rule program_calls_prefetched [OF sample_sketch_replays cl _ prev new _ bridge verify])
      (simp_all add: sample_contracts_config_def sample_aggchain_witness_def sample_witness_def)
qed

text \<open>the output of a block is read back from the response of the rollup node. For every output and
  every printing of hashes that the hash parser inverts, \<open>parse_l2_output_root\<close> of the printed response
  returns that output; and whatever it accepts has all five hashes as strings at their fields, the block
  hash below \<open>blockRef\<close>.\<close>

lemma l2_output_roundtrip:
  assumes "\<forall>d. rpc_b256_from_str R (pr d) = Ok d"
  shows "parse_l2_output_root R (json_of_output pr out) = Ok out \<and>
    (\<forall>j res. parse_l2_output_root R j = Ok res \<longrightarrow>
      (\<exists>b v st wd h r. json_get j ''blockRef'' = Some b \<and>
        json_get j ''version'' = Some (JString v) \<and> rpc_b256_from_str R v = Ok (ob_version res) \<and>
        json_get j ''stateRoot'' = Some (JString st) \<and> rpc_b256_from_str R st = Ok (ob_state_root res) \<and>
        json_get j ''withdrawalStorageRoot'' = Some (JString wd) \<and>
        rpc_b256_from_str R wd = Ok (ob_withdrawal_storage_root res) \<and>
        json_get b ''hash'' = Some (JString h) \<and> rpc_b256_from_str R h = Ok (ob_latest_block_hash res) \<and>
        json_get j ''outputRoot'' = Some (JString r) \<and> rpc_b256_from_str R r = Ok (ob_output_root res)))"
proof (intro conjI allI impI)
  show "parse_l2_output_root R (json_of_output pr out) = Ok out"
    using assms by (simp add: parse_l2_output_root_def parse_hash_def json_of_output_def)
next
  fix j res
  assume "parse_l2_output_root R j = Ok res"
  then show "\<exists>b v st wd h r. json_get j ''blockRef'' = Some b \<and>
        json_get j ''version'' = Some (JString v) \<and> rpc_b256_from_str R v = Ok (ob_version res) \<and>
        json_get j ''stateRoot'' = Some (JString st) \<and> rpc_b256_from_str R st = Ok (ob_state_root res) \<and>
        json_get j ''withdrawalStorageRoot'' = Some (JString wd) \<and>
        rpc_b256_from_str R wd = Ok (ob_withdrawal_storage_root res) \<and>
        json_get b ''hash'' = Some (JString h) \<and> rpc_b256_from_str R h = Ok (ob_latest_block_hash res) \<and>
        json_get j ''outputRoot'' = Some (JString r) \<and> rpc_b256_from_str R r = Ok (ob_output_root res)"
    unfolding parse_l2_output_root_def and_then_eq_Ok ok_or_eq_Ok parse_hash_eq_Ok by force
qed

lemma l2_output_roundtrip_witness:
  "parse_l2_output_root sample_rpc
     (json_of_output (\<lambda>d. replicate (unat d) CHR ''0'')
       \<lparr>ob_version = 0, ob_state_root = 1, ob_withdrawal_storage_root = 2, ob_latest_block_hash = 3,
        ob_output_root = 4\<rparr>) =
   Ok \<lparr>ob_version = 0, ob_state_root = 1, ob_withdrawal_storage_root = 2, ob_latest_block_hash = 3,
       ob_output_root = 4\<rparr>"
proof -
  have "\<forall>d. rpc_b256_from_str sample_rpc (replicate (unat d) CHR ''0'') = Ok d"
    by (simp add: sample_rpc_def)
  from l2_output_roundtrip [OF this] show ?thesis by blast
qed

text \<open>a request names its block. The hexadecimal parameters of two block numbers are equal only for
  equal numbers, so the output of one block is never requested for another.\<close>

lemma block_param_injective: "block_param m = block_param n \<longleftrightarrow> m = n"
  by (auto simp: block_param_def word_unat_eq_iff dest: to_hex_inject)

end
