(* ===== verification/Proposer.thy ===== *)
theory Proposer
  imports Executor Full_Execution_Proof
begin

text \<open>
  \<open>crates/proposer-client\<close> and \<open>crates/proposer-service\<close>: the request of an aggregation proof from
  the proposer, the wait for it on the SP1 network (or the mock proposer), and the service that returns
  it verified, with the public values of the execution it proves.

  The gRPC client of the proposer, the SP1 provers, the L1 node and the decoders are parameters. The
  traits of the sources are records of functions: \<open>aggregation_prover\<close> and \<open>proposer_client\<close>.
\<close>

section \<open>Errors\<close>

type_synonym request_id = digest

record grpc_conversion_error =
  gce_field :: string
  gce_source :: report

datatype proof_request_error =
    ParsingResponse grpc_conversion_error
  | RequestFailed string
  | GrpcStatus report

datatype proposer_client_error =
    Proving request_id string
  | Verification request_id report
  | Requesting proof_request_error
  | Connect report

text \<open>\<open>Display\<close> of a request id and of the errors; \<open>dbg\<close> is \<open>Debug\<close> of a string.\<close>

definition request_id_display :: "request_id \<Rightarrow> string" where
  "request_id_display r = hex_encode (nat_be_bytes 32 (unat r))"

fun proposer_client_error_display :: "(string \<Rightarrow> string) \<Rightarrow> proposer_client_error \<Rightarrow> string" where
  "proposer_client_error_display dbg (Proving r e) =
     ''Proof request with request_id '' @ request_id_display r @ '' error: '' @ dbg e"
| "proposer_client_error_display dbg (Verification r e) = ''Proof verification error''"
| "proposer_client_error_display dbg (Requesting e) = ''Error requesting proof''"
| "proposer_client_error_display dbg (Connect e) = ''Error initializing grpc connection''"

section \<open>Request identifiers\<close>

text \<open>\<open>TryFrom<&[u8]>\<close>: exactly 32 bytes.\<close>

definition request_id_try_from :: "byte list \<Rightarrow> (request_id, report) result" where
  "request_id_try_from value =
     (if length value = 32 then Ok (word_of_nat (of_be_bytes value))
      else Err ''could not convert slice to array'')"

text \<open>\<open>u64::from_str\<close>: an optional plus sign and decimal digits, within the range.\<close>

definition decimal_digit :: "char \<Rightarrow> nat option" where
  "decimal_digit c = (let n = of_char c :: nat in if 48 \<le> n \<and> n \<le> 57 then Some (n - 48) else None)"

fun decimal_value :: "nat \<Rightarrow> string \<Rightarrow> nat option" where
  "decimal_value acc [] = Some acc"
| "decimal_value acc (c # cs) =
     (case decimal_digit c of None \<Rightarrow> None | Some d \<Rightarrow> decimal_value (acc * 10 + d) cs)"

definition u64_from_str :: "string \<Rightarrow> u64 option" where
  "u64_from_str s =
     (let digits = (case s of c # cs \<Rightarrow> if c = CHR ''+'' then cs else s | [] \<Rightarrow> s)
      in if digits = [] then None
         else (case decimal_value 0 digits of
                 None \<Rightarrow> None
               | Some v \<Rightarrow> if v < 2 ^ 64 then Some (word_of_nat v) else None))"

text \<open>\<open>encoding[24..].copy_from_slice(&id.to_be_bytes())\<close>\<close>

definition request_id_of_u64 :: "u64 \<Rightarrow> request_id" where
  "request_id_of_u64 n = word_of_nat (of_be_bytes (replicate 24 0 @ to_be_bytes_u64 n))"

text \<open>\<open>Debug\<close> of an ASCII string: in quotes, with its escapes.\<close>

definition escape_debug :: "char \<Rightarrow> string" where
  "escape_debug c =
     (let n = of_char c :: nat in
      if n = 0 then [CHR 0x5C, CHR ''0'']
      else if n = 9 then [CHR 0x5C, CHR ''t'']
      else if n = 10 then [CHR 0x5C, CHR ''n'']
      else if n = 13 then [CHR 0x5C, CHR ''r'']
      else if n = 34 \<or> n = 92 then [CHR 0x5C, c]
      else if n < 32 \<or> n = 127
      then [CHR 0x5C] @ ''u{'' @ (if n < 16 then [hex_digit n] else [hex_digit (n div 16), hex_digit (n mod 16)]) @ ''}''
      else [c])"

definition str_debug :: "string \<Rightarrow> string" where
  "str_debug s = [CHR 0x22] @ concat (map escape_debug s) @ [CHR 0x22]"

definition request_id_deserialize ::
  "(string \<Rightarrow> digest option) \<Rightarrow> string \<Rightarrow> (request_id, report) result" where
  "request_id_deserialize b256_from_str value =
     (case b256_from_str value of
        Some r \<Rightarrow> Ok r
      | None \<Rightarrow>
          (case u64_from_str value of
             Some n \<Rightarrow> Ok (request_id_of_u64 n)
           | None \<Rightarrow> Err (''invalid request id: '' @ str_debug value)))"

text \<open>The identifier of a mock proof is an \<open>i64\<close>, kept as its 64 bits.\<close>

type_synonym mock_proof_id = u64

section \<open>The proposer RPC\<close>

record aggregation_proof_proposer_request =
  apq_last_proven_block :: u64
  apq_requested_end_block :: u64
  apq_l1_block_number :: u64
  apq_l1_block_hash :: digest

record aggregation_proof_proposer_response =
  apr_request_id :: request_id
  apr_last_proven_block :: u64
  apr_end_block :: u64

record grpc_agg_proof_request =
  gq_last_proven_block :: u64
  gq_requested_end_block :: u64
  gq_l1_block_number :: u64
  gq_l1_block_hash :: string

record grpc_agg_proof_response =
  gr_last_proven_block :: u64
  gr_end_block :: u64
  gr_proof_request_id :: "byte list"

record proofs_client =
  grpc_request_agg_proof :: "grpc_agg_proof_request \<Rightarrow> (grpc_agg_proof_response, report) result"
  grpc_get_mock_proof :: "u64 \<Rightarrow> (byte list, report) result"

definition grpc_agg_proof_request_of :: "aggregation_proof_proposer_request \<Rightarrow> grpc_agg_proof_request" where
  "grpc_agg_proof_request_of request =
     \<lparr>gq_last_proven_block = apq_last_proven_block request,
      gq_requested_end_block = apq_requested_end_block request,
      gq_l1_block_number = apq_l1_block_number request,
      gq_l1_block_hash = hex_encode (nat_be_bytes 32 (unat (apq_l1_block_hash request)))\<rparr>"

definition convert_field ::
  "('t \<Rightarrow> ('u, report) result) \<Rightarrow> string \<Rightarrow> 't \<Rightarrow> ('u, grpc_conversion_error) result" where
  "convert_field try_from field value =
     map_err (\<lambda>e. \<lparr>gce_field = field, gce_source = e\<rparr>) (try_from value)"

definition agg_proof_response_try_from ::
  "grpc_agg_proof_response \<Rightarrow> (aggregation_proof_proposer_response, proof_request_error) result" where
  "agg_proof_response_try_from response =
     and_then
       (map_err ParsingResponse
         (convert_field request_id_try_from ''proof_request_id'' (gr_proof_request_id response)))
       (\<lambda>request_id. Ok
         \<lparr>apr_request_id = request_id, apr_last_proven_block = gr_last_proven_block response,
          apr_end_block = gr_end_block response\<rparr>)"

definition rpc_request_agg_proof ::
  "proofs_client \<Rightarrow> aggregation_proof_proposer_request \<Rightarrow>
   (aggregation_proof_proposer_response, proposer_client_error) result" where
  "rpc_request_agg_proof client request =
     map_err Requesting
       (and_then (map_err GrpcStatus (grpc_request_agg_proof client (grpc_agg_proof_request_of request)))
         agg_proof_response_try_from)"

text \<open>The conversion of the mock proof's bytes to a vector cannot fail.\<close>

definition rpc_get_mock_proof ::
  "proofs_client \<Rightarrow> mock_proof_id \<Rightarrow> (byte list, proposer_client_error) result" where
  "rpc_get_mock_proof client proof_id =
     map_err Requesting
       (and_then (map_err GrpcStatus (grpc_get_mock_proof client proof_id)) (\<lambda>proof.
         map_err ParsingResponse (convert_field Ok ''proof'' proof)))"

definition proposer_rpc_client_new ::
  "(url \<Rightarrow> duration \<Rightarrow> (proofs_client, report) result) \<Rightarrow> url \<Rightarrow> duration \<Rightarrow>
   (proofs_client, proposer_client_error) result" where
  "proposer_rpc_client_new connect rpc_endpoint timeout = map_err Connect (connect rpc_endpoint timeout)"

section \<open>Aggregation provers\<close>

text \<open>An SP1 proof: only a compressed one carries the reduced proof \<open>'c\<close>.\<close>

datatype 'c sp1_proof = CoreShards | Compressed 'c | PlonkBytes | Groth16Bytes

datatype sp1_proof_mode = ModeCore | ModeCompressed | ModePlonk | ModeGroth16

fun sp1_proof_mode_of :: "'c sp1_proof \<Rightarrow> sp1_proof_mode" where
  "sp1_proof_mode_of CoreShards = ModeCore"
| "sp1_proof_mode_of (Compressed c) = ModeCompressed"
| "sp1_proof_mode_of PlonkBytes = ModePlonk"
| "sp1_proof_mode_of Groth16Bytes = ModeGroth16"

fun try_as_compressed :: "'c sp1_proof \<Rightarrow> 'c option" where
  "try_as_compressed (Compressed c) = Some c"
| "try_as_compressed _ = None"

record 'c sp1_proof_with_pv =
  sp_proof :: "'c sp1_proof"
  sp_public_values :: "byte list"

record ('c, 'pk, 'vk) aggregation_prover =
  agp_compute_pkey_vkey :: "byte list \<Rightarrow> ('pk \<times> 'vk, report) result"
  agp_wait_for_proof :: "request_id \<Rightarrow> duration option \<Rightarrow> ('c sp1_proof_with_pv, report) result"
  agp_verify_aggregated_proof :: "'c sp1_proof_with_pv \<Rightarrow> 'vk \<Rightarrow> (unit, report) result"

text \<open>The SDK objects behind the provers.\<close>

record ('c, 'pk, 'vk) sdk_network_prover =
  snp_setup :: "byte list \<Rightarrow> ('pk \<times> 'vk, report) result"
  snp_wait_proof :: "request_id \<Rightarrow> duration option \<Rightarrow> ('c sp1_proof_with_pv, report) result"
  snp_verify :: "'c sp1_proof_with_pv \<Rightarrow> 'vk \<Rightarrow> (unit, report) result"

definition network_compute_pkey_vkey ::
  "('c, 'pk, 'vk) sdk_network_prover \<Rightarrow> byte list \<Rightarrow> ('pk \<times> 'vk, report) result" where
  "network_compute_pkey_vkey self program =
     and_then (sp1_block_in_place (snp_setup self program)) (\<lambda>r. r)"

definition network_wait_for_proof ::
  "('c, 'pk, 'vk) sdk_network_prover \<Rightarrow> request_id \<Rightarrow> duration option \<Rightarrow>
   ('c sp1_proof_with_pv, report) result" where
  "network_wait_for_proof self request_id timeout =
     and_then (sp1_async (snp_wait_proof self request_id timeout)) (\<lambda>r.
     map_err (\<lambda>_. ''Failed waiting for proof'') r)"

definition network_verify_aggregated_proof ::
  "('c, 'pk, 'vk) sdk_network_prover \<Rightarrow> 'c sp1_proof_with_pv \<Rightarrow> 'vk \<Rightarrow> (unit, report) result" where
  "network_verify_aggregated_proof self proof vkey =
     and_then (sp1_fast (snp_verify self proof vkey)) (\<lambda>r. r)"

definition network_aggregation_prover ::
  "('c, 'pk, 'vk) sdk_network_prover \<Rightarrow> ('c, 'pk, 'vk) aggregation_prover" where
  "network_aggregation_prover self =
     \<lparr>agp_compute_pkey_vkey = network_compute_pkey_vkey self,
      agp_wait_for_proof = network_wait_for_proof self,
      agp_verify_aggregated_proof = network_verify_aggregated_proof self\<rparr>"

text \<open>\<open>new_network_prover\<close>: the key of the environment variable, inside the guarded closure.\<close>

definition new_network_prover ::
  "environment \<Rightarrow> (url \<Rightarrow> string \<Rightarrow> (('c, 'pk, 'vk) sdk_network_prover, report) result) \<Rightarrow> url \<Rightarrow>
   (('c, 'pk, 'vk) sdk_network_prover, report) result" where
  "new_network_prover env build endpoint =
     and_then (sp1_fast
       (and_then
         (ok_or ''Failed to get NETWORK_PRIVATE_KEY, when building NetworkProver for proposer-client''
           (env_var env ''NETWORK_PRIVATE_KEY'')) (\<lambda>private_key.
       build endpoint private_key))) (\<lambda>r. r)"

record ('c, 'pk, 'vk) mock_grpc_prover =
  mg_proposer_rpc :: proofs_client
  mg_setup :: "byte list \<Rightarrow> ('pk \<times> 'vk, report) result"
  mg_verify :: "'c sp1_proof_with_pv \<Rightarrow> 'vk \<Rightarrow> (unit, report) result"
  mg_deserialize :: "byte list \<Rightarrow> ('c sp1_proof_with_pv, report) result"

definition mock_proof_id_of :: "request_id \<Rightarrow> mock_proof_id" where
  "mock_proof_id_of request_id =
     word_of_nat (of_be_bytes (drop 24 (nat_be_bytes 32 (unat request_id))))"

text \<open>\<open>debug_assert!\<close> is checked in debug builds only.\<close>

text \<open>\<open>Display\<close> of a \<open>B256\<close>, unlike that of a \<open>RequestId\<close>, has the prefix \<open>0x\<close>.\<close>

definition b256_display :: "digest \<Rightarrow> string" where
  "b256_display d = ''0x'' @ hex_encode (nat_be_bytes 32 (unat d))"

definition mock_wait_for_proof ::
  "bool \<Rightarrow> (string \<Rightarrow> string) \<Rightarrow> ('c, 'pk, 'vk) mock_grpc_prover \<Rightarrow> request_id \<Rightarrow> duration option \<Rightarrow>
   ('c sp1_proof_with_pv, report) result" where
  "mock_wait_for_proof debug_assertions dbg self request_id timeout =
     (let proof_id = mock_proof_id_of request_id in
      if debug_assertions \<and> \<not> list_all (\<lambda>v. v = 0) (take 24 (nat_be_bytes 32 (unat request_id)))
      then Panic (PanicStr ''assertion failed: request_id[..24].iter().all(|v| *v == 0)'')
      else
        and_then
          (map_err (proposer_client_error_display dbg) (rpc_get_mock_proof (mg_proposer_rpc self) proof_id))
          (\<lambda>proof.
        map_err (\<lambda>_. ''deserializing proof '' @ b256_display request_id)
          (and_then (sp1_fast (mg_deserialize self proof)) (\<lambda>r. r))))"

definition mock_verify_aggregated_proof ::
  "('c, 'pk, 'vk) mock_grpc_prover \<Rightarrow> 'c sp1_proof_with_pv \<Rightarrow> 'vk \<Rightarrow> (unit, report) result" where
  "mock_verify_aggregated_proof self proof vkey =
     map_err (\<lambda>_. ''Verifying aggregated proof'')
       (and_then (sp1_fast (mg_verify self proof vkey)) (\<lambda>r. r))"

definition mock_aggregation_prover ::
  "bool \<Rightarrow> (string \<Rightarrow> string) \<Rightarrow> ('c, 'pk, 'vk) mock_grpc_prover \<Rightarrow> ('c, 'pk, 'vk) aggregation_prover" where
  "mock_aggregation_prover debug_assertions dbg self =
     \<lparr>agp_compute_pkey_vkey = (\<lambda>program. and_then (sp1_block_in_place (mg_setup self program)) (\<lambda>r. r)),
      agp_wait_for_proof = mock_wait_for_proof debug_assertions dbg self,
      agp_verify_aggregated_proof = mock_verify_aggregated_proof self\<rparr>"

section \<open>The proposer client\<close>

record ('c, 'pk, 'vk) client =
  ct_proposer_rpc :: proofs_client
  ct_prover_rpc :: "('c, 'pk, 'vk) aggregation_prover"
  ct_proving_timeout :: "duration option"

record ('c, 'vk) proposer_client =
  pc_request_agg_proof ::
    "aggregation_proof_proposer_request \<Rightarrow> (aggregation_proof_proposer_response, proposer_client_error) result"
  pc_wait_for_proof :: "request_id \<Rightarrow> ('c sp1_proof_with_pv, proposer_client_error) result"
  pc_verify_agg_proof ::
    "request_id \<Rightarrow> 'c sp1_proof_with_pv \<Rightarrow> 'vk \<Rightarrow> (unit, proposer_client_error) result"

definition client_wait_for_proof ::
  "('c, 'pk, 'vk) client \<Rightarrow> request_id \<Rightarrow> ('c sp1_proof_with_pv, proposer_client_error) result" where
  "client_wait_for_proof self request_id =
     map_err (Proving request_id)
       (agp_wait_for_proof (ct_prover_rpc self) request_id (ct_proving_timeout self))"

definition client_verify_agg_proof ::
  "('c, 'pk, 'vk) client \<Rightarrow> request_id \<Rightarrow> 'c sp1_proof_with_pv \<Rightarrow> 'vk \<Rightarrow> (unit, proposer_client_error) result" where
  "client_verify_agg_proof self request_id proof vkey =
     map_err (Verification request_id) (agp_verify_aggregated_proof (ct_prover_rpc self) proof vkey)"

definition proposer_client_of :: "('c, 'pk, 'vk) client \<Rightarrow> ('c, 'vk) proposer_client" where
  "proposer_client_of self =
     \<lparr>pc_request_agg_proof = rpc_request_agg_proof (ct_proposer_rpc self),
      pc_wait_for_proof = client_wait_for_proof self,
      pc_verify_agg_proof = client_verify_agg_proof self\<rparr>"

section \<open>The proposer service\<close>

datatype proposer_service_error =
    AlloyProviderError report
  | ClientError proposer_client_error
  | UnsupportedAggregationProofMode sp1_proof_mode
  | FepPublicValuesDeserializeFailure report
  | ProposerOther report

record fep_proposer_request =
  fq_last_proven_block :: u64
  fq_requested_end_block :: u64
  fq_l1_block_hash :: digest

record 'c proposer_response =
  pr_aggregation_proof :: 'c
  pr_last_proven_block :: u64
  pr_end_block :: u64
  pr_public_values :: aggregation_proof_public_values

record ('c, 'vk) proposer_service =
  ps_client :: "('c, 'vk) proposer_client"
  ps_l1_get_block_number :: "digest \<Rightarrow> (u64, report) result"
  ps_aggregation_vkey :: 'vk

text \<open>The service is always ready. The message of the L1 error is the context added to it.\<close>

definition proposer_service_call ::
  "(byte list \<Rightarrow> (aggregation_proof_public_values, report) result) \<Rightarrow> ('c, 'vk) proposer_service \<Rightarrow>
   fep_proposer_request \<Rightarrow> ('c proposer_response, proposer_service_error) result" where
  "proposer_service_call abi_decode self req =
     and_then
       (map_err (\<lambda>e. AlloyProviderError (''Getting the block number for hash 0x'' @
            hex_encode (nat_be_bytes 32 (unat (fq_l1_block_hash req)))))
         (ps_l1_get_block_number self (fq_l1_block_hash req))) (\<lambda>l1_block_number.
     and_then
       (map_err ClientError
         (pc_request_agg_proof (ps_client self)
           \<lparr>apq_last_proven_block = fq_last_proven_block req,
            apq_requested_end_block = fq_requested_end_block req,
            apq_l1_block_number = l1_block_number,
            apq_l1_block_hash = fq_l1_block_hash req\<rparr>)) (\<lambda>response.
     and_then
       (map_err ClientError (pc_wait_for_proof (ps_client self) (apr_request_id response)))
       (\<lambda>proof_with_pv.
     and_then
       (map_err FepPublicValuesDeserializeFailure (abi_decode (sp_public_values proof_with_pv)))
       (\<lambda>public_values.
     and_then
       (map_err ClientError
         (pc_verify_agg_proof (ps_client self) (apr_request_id response) proof_with_pv
           (ps_aggregation_vkey self))) (\<lambda>_.
     and_then
       (ok_or (UnsupportedAggregationProofMode (sp1_proof_mode_of (sp_proof proof_with_pv)))
         (try_as_compressed (sp_proof proof_with_pv))) (\<lambda>aggregation_proof. Ok
       \<lparr>pr_aggregation_proof = aggregation_proof,
        pr_last_proven_block = apr_last_proven_block response,
        pr_end_block = apr_end_block response,
        pr_public_values = public_values\<rparr>))))))"

text \<open>The constructors. \<open>erigon_elf\<close> is the aggregation program of the repository; the key is the
  one the prover computes for it.\<close>

definition extract_aggregation_vkey ::
  "('c, 'pk, 'vk) aggregation_prover \<Rightarrow> byte list \<Rightarrow> ('vk, report) result" where
  "extract_aggregation_vkey prover elf =
     and_then (agp_compute_pkey_vkey prover elf) (\<lambda>(pkey, vkey). Ok vkey)"

definition proposer_service_new ::
  "(url \<Rightarrow> duration \<Rightarrow> (proofs_client, report) result) \<Rightarrow> byte list \<Rightarrow> ('c, 'pk, 'vk) aggregation_prover \<Rightarrow>
   proposer_service_config \<Rightarrow> (digest \<Rightarrow> (u64, report) result) \<Rightarrow>
   (('c, 'vk) proposer_service, proposer_service_error) result" where
  "proposer_service_new connect erigon_elf prover config l1_rpc =
     and_then
       (map_err ClientError
         (proposer_rpc_client_new connect (pcc_proposer_endpoint (psc_client config))
           (pcc_request_timeout (psc_client config)))) (\<lambda>proposer_rpc_client.
     and_then
       (map_err (\<lambda>_. ProposerOther ''Retrieving aggregation vkey'')
         (extract_aggregation_vkey prover erigon_elf)) (\<lambda>aggregation_vkey. Ok
       \<lparr>ps_client = proposer_client_of
          \<lparr>ct_proposer_rpc = proposer_rpc_client, ct_prover_rpc = prover,
           ct_proving_timeout = Some (pcc_proving_timeout (psc_client config))\<rparr>,
        ps_l1_get_block_number = l1_rpc,
        ps_aggregation_vkey = aggregation_vkey\<rparr>))"

definition proposer_service_new_network ::
  "environment \<Rightarrow> (url \<Rightarrow> duration \<Rightarrow> (proofs_client, report) result) \<Rightarrow>
   (url \<Rightarrow> string \<Rightarrow> (('c, 'pk, 'vk) sdk_network_prover, report) result) \<Rightarrow> byte list \<Rightarrow>
   proposer_service_config \<Rightarrow> (digest \<Rightarrow> (u64, report) result) \<Rightarrow>
   (('c, 'vk) proposer_service, proposer_service_error) result" where
  "proposer_service_new_network env connect build erigon_elf config l1_rpc =
     (if psc_mock config
      then Panic (PanicStr ''Building a network proposer service with a mock config'')
      else
        and_then
          (map_err ProposerOther
            (new_network_prover env build (pcc_sp1_cluster_endpoint (psc_client config)))) (\<lambda>prover.
        proposer_service_new connect erigon_elf (network_aggregation_prover prover) config l1_rpc))"

definition proposer_service_new_mock ::
  "bool \<Rightarrow> (string \<Rightarrow> string) \<Rightarrow> (url \<Rightarrow> duration \<Rightarrow> (proofs_client, report) result) \<Rightarrow>
   (proofs_client \<Rightarrow> ('c, 'pk, 'vk) mock_grpc_prover) \<Rightarrow> byte list \<Rightarrow>
   proposer_service_config \<Rightarrow> (digest \<Rightarrow> (u64, report) result) \<Rightarrow>
   (('c, 'vk) proposer_service, proposer_service_error) result" where
  "proposer_service_new_mock debug_assertions dbg connect mock_prover_new erigon_elf config l1_rpc =
     (if \<not> psc_mock config
      then Panic (PanicStr ''Building a mock proposer service with a non-mock config'')
      else
        and_then
          (map_err ClientError
            (proposer_rpc_client_new connect (pcc_proposer_endpoint (psc_client config))
              (pcc_request_timeout (psc_client config)))) (\<lambda>proposer_rpc_client.
        proposer_service_new connect erigon_elf
          (mock_aggregation_prover debug_assertions dbg (mock_prover_new proposer_rpc_client)) config l1_rpc))"

section \<open>The contract of an aggregation prover\<close>

locale aggregation_verifier =
  fixes verify :: "'c sp1_proof_with_pv \<Rightarrow> 'vk \<Rightarrow> (unit, report) result"
    and accepts :: "'c sp1_proof_with_pv \<Rightarrow> 'vk \<Rightarrow> bool"
  assumes verify_iff: "verify proof vkey = Ok () \<longleftrightarrow> accepts proof vkey"
    and verify_no_panic: "verify proof vkey \<noteq> Panic p"
begin

lemma client_verify_iff:
  assumes "agp_verify_aggregated_proof (ct_prover_rpc c) = verify"
  shows "client_verify_agg_proof c r proof vkey = Ok () \<longleftrightarrow> accepts proof vkey"
  using assms verify_iff by (simp add: client_verify_agg_proof_def map_err_eq_Ok)

text \<open>A service over such a prover returns only proofs that were accepted under its key.\<close>

lemma service_verified:
  assumes "ps_client svc = proposer_client_of c" and "agp_verify_aggregated_proof (ct_prover_rpc c) = verify"
    and "proposer_service_call dec svc req = Ok resp"
  shows "\<exists>n response pwpv.
     ps_l1_get_block_number svc (fq_l1_block_hash req) = Ok n \<and>
     rpc_request_agg_proof (ct_proposer_rpc c)
       \<lparr>apq_last_proven_block = fq_last_proven_block req, apq_requested_end_block = fq_requested_end_block req,
        apq_l1_block_number = n, apq_l1_block_hash = fq_l1_block_hash req\<rparr> = Ok response \<and>
     client_wait_for_proof c (apr_request_id response) = Ok pwpv \<and>
     accepts pwpv (ps_aggregation_vkey svc) \<and>
     sp_proof pwpv = Compressed (pr_aggregation_proof resp) \<and>
     dec (sp_public_values pwpv) = Ok (pr_public_values resp) \<and>
     pr_last_proven_block resp = apr_last_proven_block response \<and>
     pr_end_block resp = apr_end_block response"
proof -
  have compressed: "try_as_compressed p = Some x \<longleftrightarrow> p = Compressed x" for p :: "'c sp1_proof" and x
    by (cases p) auto
  show ?thesis
    using assms(3) unfolding proposer_service_call_def
    by (auto simp: result_simps assms(1) proposer_client_of_def client_verify_iff [OF assms(2)] compressed)
qed

end

interpretation network_verifier: aggregation_verifier
  "network_verify_aggregated_proof self" "\<lambda>proof vkey. snp_verify self proof vkey = Ok ()"
  for self
proof
  fix proof' vkey p
  show "network_verify_aggregated_proof self proof' vkey = Ok () \<longleftrightarrow> snp_verify self proof' vkey = Ok ()"
    by (cases "snp_verify self proof' vkey") (simp_all add: network_verify_aggregated_proof_def)
  show "network_verify_aggregated_proof self proof' vkey \<noteq> Panic p"
    by (cases "snp_verify self proof' vkey") (simp_all add: network_verify_aggregated_proof_def)
qed

interpretation mock_verifier: aggregation_verifier
  "mock_verify_aggregated_proof self" "\<lambda>proof vkey. mg_verify self proof vkey = Ok ()"
  for self
proof
  fix proof' vkey p
  show "mock_verify_aggregated_proof self proof' vkey = Ok () \<longleftrightarrow> mg_verify self proof' vkey = Ok ()"
    by (cases "mg_verify self proof' vkey") (simp_all add: mock_verify_aggregated_proof_def)
  show "mock_verify_aggregated_proof self proof' vkey \<noteq> Panic p"
    by (cases "mg_verify self proof' vkey") (simp_all add: mock_verify_aggregated_proof_def)
qed

lemma sp1_block_in_place_flatten_Ok: "and_then (sp1_block_in_place r) (\<lambda>x. x) = Ok y \<longleftrightarrow> r = Ok y"
  by (cases r) (auto simp: sp1_block_in_place_def)

lemma proposer_service_new_eq_Ok:
  assumes "proposer_service_new connect elf prover config l1 = Ok svc"
  shows "\<exists>c pk. ps_client svc = proposer_client_of c \<and> ct_prover_rpc c = prover \<and>
     agp_compute_pkey_vkey prover elf = Ok (pk, ps_aggregation_vkey svc) \<and> ps_l1_get_block_number svc = l1"
  using assms unfolding proposer_service_new_def extract_aggregation_vkey_def
  by (fastforce simp: result_simps)

text \<open>Everything the service of \<open>new_network\<close> returns was accepted by the network prover.\<close>

lemma new_network_verified:
  assumes "proposer_service_new_network env connect build elf config l1 = Ok svc"
    and "proposer_service_call dec svc req = Ok resp"
  shows "\<exists>prover pk pwpv.
     new_network_prover env build (pcc_sp1_cluster_endpoint (psc_client config)) = Ok prover \<and>
     snp_setup prover elf = Ok (pk, ps_aggregation_vkey svc) \<and>
     snp_verify prover pwpv (ps_aggregation_vkey svc) = Ok () \<and>
     sp_proof pwpv = Compressed (pr_aggregation_proof resp) \<and>
     dec (sp_public_values pwpv) = Ok (pr_public_values resp)"
proof -
  obtain prover where prover: "new_network_prover env build (pcc_sp1_cluster_endpoint (psc_client config)) = Ok prover"
    and new: "proposer_service_new connect elf (network_aggregation_prover prover) config l1 = Ok svc"
    using assms(1) unfolding proposer_service_new_network_def by (auto simp: result_simps split: if_splits)
  obtain c pk where c: "ps_client svc = proposer_client_of c" "ct_prover_rpc c = network_aggregation_prover prover"
    and key: "agp_compute_pkey_vkey (network_aggregation_prover prover) elf = Ok (pk, ps_aggregation_vkey svc)"
    using proposer_service_new_eq_Ok [OF new] by blast
  have "agp_verify_aggregated_proof (ct_prover_rpc c) = network_verify_aggregated_proof prover"
    using c(2) by (simp add: network_aggregation_prover_def)
  from network_verifier.service_verified [OF c(1) this assms(2)]
  obtain pwpv where "snp_verify prover pwpv (ps_aggregation_vkey svc) = Ok ()"
    "sp_proof pwpv = Compressed (pr_aggregation_proof resp)"
    "dec (sp_public_values pwpv) = Ok (pr_public_values resp)" by blast
  moreover have "snp_setup prover elf = Ok (pk, ps_aggregation_vkey svc)"
    using key by (simp add: network_aggregation_prover_def network_compute_pkey_vkey_def sp1_block_in_place_flatten_Ok)
  ultimately show ?thesis using prover by blast
qed

section \<open>Properties\<close>

text \<open>C25: an aggregation proof is returned only verified. Whatever the service built by
  \<open>new_network\<close> answers with \<open>Ok\<close>: the network prover was built with the key of the environment, the
  service's verification key is the one this prover computes for the aggregation program, the returned
  proof is the compressed proof of a proof with public values that the prover accepts under that key,
  and the returned public values are decoded from that proof.\<close>

theorem proposer_proof_verified:
  assumes "proposer_service_new_network env connect build elf config l1 = Ok svc"
    and "proposer_service_call dec svc req = Ok resp"
  shows "\<exists>prover pk pwpv.
     new_network_prover env build (pcc_sp1_cluster_endpoint (psc_client config)) = Ok prover \<and>
     snp_setup prover elf = Ok (pk, ps_aggregation_vkey svc) \<and>
     snp_verify prover pwpv (ps_aggregation_vkey svc) = Ok () \<and>
     sp_proof pwpv = Compressed (pr_aggregation_proof resp) \<and>
     dec (sp_public_values pwpv) = Ok (pr_public_values resp)"
  by (rule new_network_verified [OF assms])

text \<open>A proposer and a network prover with one proof.\<close>

definition sample_apv :: aggregation_proof_public_values where
  "sample_apv = aggregation_proof_public_values_of sample_fep"

definition sample_sdk_prover :: "(nat, nat, nat) sdk_network_prover" where
  "sample_sdk_prover =
     \<lparr>snp_setup = (\<lambda>program. Ok (0, length program)),
      snp_wait_proof = (\<lambda>r t. Ok \<lparr>sp_proof = Compressed 7, sp_public_values = []\<rparr>),
      snp_verify = (\<lambda>p vk. if vk = 2 then Ok () else Err ''bad key'')\<rparr>"

definition sample_proofs_client :: proofs_client where
  "sample_proofs_client =
     \<lparr>grpc_request_agg_proof = (\<lambda>q. Ok \<lparr>gr_last_proven_block = gq_last_proven_block q,
        gr_end_block = gq_requested_end_block q, gr_proof_request_id = replicate 32 1\<rparr>),
      grpc_get_mock_proof = (\<lambda>i. Err ''no mock'')\<rparr>"

definition sample_env :: environment where
  "sample_env = \<lparr>env_var = (\<lambda>k. Some ''secret''), url_parse = Some, grpc_uri_parse = Some\<rparr>"

definition sample_proposer_config :: proposer_service_config where
  "sample_proposer_config =
     \<lparr>psc_mock = False,
      psc_client = \<lparr>pcc_proposer_endpoint = ''http://p'', pcc_sp1_cluster_endpoint = ''http://c'',
        pcc_request_timeout = 1, pcc_proving_timeout = 1\<rparr>,
      psc_l1_rpc_endpoint = ''http://l1''\<rparr>"

definition sample_proposer_service :: "(nat, nat) proposer_service" where
  "sample_proposer_service =
     \<lparr>ps_client = proposer_client_of
        \<lparr>ct_proposer_rpc = sample_proofs_client,
         ct_prover_rpc = network_aggregation_prover sample_sdk_prover, ct_proving_timeout = Some 1\<rparr>,
      ps_l1_get_block_number = (\<lambda>h. Ok 12), ps_aggregation_vkey = 2\<rparr>"

definition sample_fep_request :: fep_proposer_request where
  "sample_fep_request = \<lparr>fq_last_proven_block = 4, fq_requested_end_block = 9, fq_l1_block_hash = 40\<rparr>"

definition sample_proposer_response :: "nat proposer_response" where
  "sample_proposer_response =
     \<lparr>pr_aggregation_proof = 7, pr_last_proven_block = 4, pr_end_block = 9, pr_public_values = sample_apv\<rparr>"

lemma sample_proposer_new:
  "proposer_service_new_network sample_env (\<lambda>u d. Ok sample_proofs_client) (\<lambda>u k. Ok sample_sdk_prover)
     [1, 2] sample_proposer_config (\<lambda>h. Ok 12) = Ok sample_proposer_service"
  by (simp add: proposer_service_new_network_def new_network_prover_def proposer_service_new_def
      proposer_rpc_client_new_def extract_aggregation_vkey_def network_aggregation_prover_def
      network_compute_pkey_vkey_def sp1_block_in_place_def sample_env_def sample_sdk_prover_def
      sample_proposer_config_def sample_proposer_service_def)

lemma sample_proposer_call:
  "proposer_service_call (\<lambda>bs. Ok sample_apv) sample_proposer_service sample_fep_request =
     Ok sample_proposer_response"
  by (simp add: proposer_service_call_def sample_proposer_service_def proposer_client_of_def
      rpc_request_agg_proof_def agg_proof_response_try_from_def convert_field_def request_id_try_from_def
      client_wait_for_proof_def client_verify_agg_proof_def network_aggregation_prover_def
      network_wait_for_proof_def network_verify_aggregated_proof_def sp1_async_def
      sample_proofs_client_def sample_sdk_prover_def grpc_agg_proof_request_of_def
      sample_fep_request_def sample_proposer_response_def)

theorem proposer_proof_verified_witness:
  "\<exists>prover pk pwpv.
     new_network_prover sample_env (\<lambda>u k. Ok sample_sdk_prover) ''http://c'' = Ok prover \<and>
     snp_setup prover [1, 2] = Ok (pk, 2 :: nat) \<and> snp_verify prover pwpv 2 = Ok () \<and>
     sp_proof pwpv = Compressed 7"
  using proposer_proof_verified [OF sample_proposer_new sample_proposer_call]
  by (fastforce simp: sample_proposer_config_def sample_proposer_service_def sample_proposer_response_def)

text \<open>The identifier of a mock proof survives its encoding as a request id. The id of a mock proof,
  written into the last eight bytes of a request id as the deserialisation does, is read back by the
  mock prover, and the first 24 bytes are zero, so the debug assertion holds.\<close>

lemma mock_proof_id_roundtrip:
  "mock_proof_id_of (request_id_of_u64 n) = n \<and>
   take 24 (nat_be_bytes 32 (unat (request_id_of_u64 n))) = replicate 24 0"
proof -
  let ?bs = "replicate 24 0 @ to_be_bytes_u64 n :: byte list"
  have len: "length ?bs = 32" by simp
  have "of_be_bytes ?bs < 256 ^ 32" using of_be_bytes_bound [of ?bs] by simp
  then have "unat (request_id_of_u64 n) = of_be_bytes ?bs"
    by (simp add: request_id_of_u64_def unat_of_nat)
  then have bytes: "nat_be_bytes 32 (unat (request_id_of_u64 n)) = ?bs"
    using nat_be_bytes_of_be_bytes [of ?bs] len by simp
  have "mock_proof_id_of (request_id_of_u64 n) = n"
    using word_of_be_bytes_roundtrip [of 8 n] by (simp add: mock_proof_id_of_def bytes)
  then show ?thesis by (simp add: bytes)
qed

end
