(* ===== verification/Proof_Builder.thy ===== *)
theory Proof_Builder
  imports Contracts Proposer Aggchain_Types
begin

text \<open>
  \<open>crates/aggchain-proof-builder\<close>: the service that collects the chain data of a request, builds the
  witness of the proof program, has it proved and returns the proof with its public values.

  The standard input of the program is kept as the witness written to it and the aggregation proof
  attached to it. The SDK's functions on verification keys, the codecs and the build settings are the
  record \<open>builder_env\<close>; the buffer around the executor is an argument of the constructor. The arguments
  of a log macro are evaluated only when its level is enabled, so that \<open>be_log_info\<close> decides whether the
  chain parameters are computed for the log.
\<close>

section \<open>Data\<close>

datatype builder_error =
    L2ChainDataRetrievalError contracts_error
  | L1ChainDataRetrievalError contracts_error
  | ProverExecutorError executor_error
  | ProverServiceError string
  | ProverFailedToExecute box_error
  | GeneratedProofIsNotCompressed
  | UnableToSerializeProof report
  | UnableToSerializeVkey report
  | ProverWitnessGenerationError
  | ProverServiceReadyError box_error
  | MismatchAggregationElfVkeyHash hash_u32 hash_u32
  | MismatchAggregationVkeyHash digest digest
  | MismatchRangeVkeyCommitment digest digest
  | MismatchAggregationProofPublicValues aggregation_proof_public_values aggregation_proof_public_values
  | UnableToFetchTrustedSequencerAddress contracts_error
  | BuilderOther report

definition MAX_CONCURRENT_REQUESTS :: nat where
  "MAX_CONCURRENT_REQUESTS = 100"

datatype ('sig, 'c) fep_verification =
    ProofVerification 'c aggregation_proof_public_values
  | OptimisticVerification 'sig

record ('sig, 'c) builder_request =
  br_fep_verification :: "('sig, 'c) fep_verification"
  br_end_block :: u64
  br_aggchain_proof_inputs :: aggchain_proof_inputs

record builder_response =
  bs_proof :: "byte list"
  bs_vkey :: "byte list"
  bs_aggchain_params :: digest
  bs_last_proven_block :: u64
  bs_end_block :: u64
  bs_output_root :: claim_root
  bs_new_local_exit_root :: digest
  bs_public_values :: aggchain_proof_public_values

record ('sig, 'sk, 'c, 'vk) sp1_stdin =
  in_witness :: "('sig, 'sk) aggchain_proof_witness"
  in_proof :: "('c \<times> 'vk) option"

record ('sig, 'sk, 'c, 'vk) aggchain_prover_inputs =
  pi_output_root :: claim_root
  pi_stdin :: "('sig, 'sk, 'c, 'vk) sp1_stdin"

text \<open>The constants of the proposer programs, the functions on keys, the codecs, and the build: overflow
  checks, and whether the info level is logged.\<close>

record ('sig, 'sk, 'c, 'vk) builder_env =
  be_aggchain_proof_elf :: "byte list"
  be_aggregation_vkey :: "('vk, report) result"
  be_aggregation_vkey_hash :: hash_u32
  be_range_vkey_commitment :: digest
  be_hash_u32 :: "'vk \<Rightarrow> (hash_u32, report) result"
  be_hash_babybear :: "'vk \<Rightarrow> babybear_digest"
  be_bytes32_raw :: "'vk \<Rightarrow> digest"
  be_write_stdin :: "('sig, 'sk) aggchain_proof_witness \<Rightarrow> (unit, report) result"
  be_decode_public_values :: "byte list \<Rightarrow> (aggchain_proof_public_values, report) result"
  be_serialize_vkey :: "'vk \<Rightarrow> (byte list, report) result"
  be_serialize_proof :: "'c \<Rightarrow> (byte list, report) result"
  be_error_display :: "builder_error \<Rightarrow> report"
  be_overflow_checks :: bool
  be_log_info :: bool

record ('sig, 'sk, 'c, 'vk) aggchain_proof_builder =
  ab_contracts_client :: "'sk contracts_client"
  ab_network_id :: u32
  ab_prover ::
    "(('sig, 'sk, 'c, 'vk) sp1_stdin request, 'c sp1_proof_with_pv response, box_error) service"
  ab_aggregation_vkey :: 'vk
  ab_aggchain_vkey :: 'vk
  ab_range_vkey_commitment :: digest
  ab_static_call_caller_address :: address

section \<open>Operations\<close>

definition validate_op_succinct_config_keys ::
  "('vk \<Rightarrow> digest) \<Rightarrow> op_succinct_config \<Rightarrow> 'vk \<Rightarrow> digest \<Rightarrow> (unit, builder_error) result" where
  "validate_op_succinct_config_keys bytes32_raw config aggregation_vkey expected_range_vkey_commitment =
     (let expected_aggregation_vkey_hash = bytes32_raw aggregation_vkey in
      if os_aggregation_vkey_hash config \<noteq> expected_aggregation_vkey_hash
      then Err (MismatchAggregationVkeyHash (os_aggregation_vkey_hash config) expected_aggregation_vkey_hash)
      else if os_range_vkey_commitment config \<noteq> expected_range_vkey_commitment
      then Err (MismatchRangeVkeyCommitment (os_range_vkey_commitment config) expected_range_vkey_commitment)
      else Ok ())"

definition aggchain_proof_builder_new ::
  "bool \<Rightarrow> (('sig, 'sk, 'c, 'vk) sp1_stdin request, 'c sp1_proof_with_pv response) tower_layers \<Rightarrow>
   (('sig, 'sk, 'c, 'vk) sp1_stdin, 'c sp1_proof_with_pv, 'pk, 'vk) sp1_sdk \<Rightarrow>
   ((('sig, 'sk, 'c, 'vk) sp1_stdin, 'c sp1_proof_with_pv, 'vk) executor \<Rightarrow> nat \<Rightarrow>
     (('sig, 'sk, 'c, 'vk) sp1_stdin request, 'c sp1_proof_with_pv response, box_error) service) \<Rightarrow>
   ('sig, 'sk, 'c, 'vk) builder_env \<Rightarrow> aggchain_proof_builder_config \<Rightarrow> 'sk contracts_client \<Rightarrow>
   (('sig, 'sk, 'c, 'vk) aggchain_proof_builder, report) result" where
  "aggchain_proof_builder_new pool_up L sdk buffer B config contracts_client =
     and_then
       (map_err (\<lambda>_. ''Failed creating executor for AggchainProofBuilder'')
         (executor_new pool_up L sdk (bc_primary_prover config) (bc_fallback_prover config)
           (be_aggchain_proof_elf B))) (\<lambda>executor.
     let aggchain_vkey = ex_vkey executor; prover = buffer executor MAX_CONCURRENT_REQUESTS in
     and_then (unwrap (\<lambda>e. ''vkey not encoded correctly: '' @ e) (be_aggregation_vkey B)) (\<lambda>aggregation_vkey.
     let range_vkey_commitment = be_range_vkey_commitment B in
     and_then
       (map_err (\<lambda>_. ''Computing VKey hash'')
         (and_then (sp1_fast (be_hash_u32 B aggregation_vkey)) (\<lambda>r. r))) (\<lambda>retrieved.
     if retrieved \<noteq> be_aggregation_vkey_hash B
     then Err (be_error_display B (MismatchAggregationElfVkeyHash retrieved (be_aggregation_vkey_hash B)))
     else
       and_then
         (map_err (\<lambda>e. be_error_display B (L1ChainDataRetrievalError e))
           (ac_get_op_succinct_config contracts_client)) (\<lambda>op_succinct_config.
       and_then
         (map_err (be_error_display B)
           (validate_op_succinct_config_keys (be_bytes32_raw B) op_succinct_config aggregation_vkey
             range_vkey_commitment)) (\<lambda>_. Ok
         \<lparr>ab_contracts_client = contracts_client,
          ab_network_id = bc_network_id config,
          ab_prover = prover,
          ab_aggregation_vkey = aggregation_vkey,
          ab_aggchain_vkey = aggchain_vkey,
          ab_range_vkey_commitment = range_vkey_commitment,
          ab_static_call_caller_address = cc_static_call_caller_address (bc_contracts config)\<rparr>)))))"

text \<open>The claims of the request in the range of blocks.\<close>

definition claims_in_range ::
  "aggchain_proof_inputs \<Rightarrow> u64 \<times> u64 \<Rightarrow> global_index_with_leaf_hash list" where
  "claims_in_range inputs rng =
     map (\<lambda>ib. \<lparr>global_index = ib_global_index ib, bridge_exit_hash = ib_bridge_exit_hash ib\<rparr>)
       (filter (\<lambda>ib. in_range rng (ib_block_number ib)) (ai_imported_bridge_exits inputs))"

text \<open>The match on \<open>request.fep_verification\<close>: the public values of the proof are compared with those
  of the chain, or the signature is put into the inputs.\<close>

fun apply_fep_verification ::
  "('sig, 'c) fep_verification \<Rightarrow> 'sig fep_inputs \<Rightarrow> ('sig fep_inputs, builder_error) result" where
  "apply_fep_verification (ProofVerification aggregation_proof aggregation_proof_public_values) fep_inputs =
     (let retrieved_from_contracts = aggregation_proof_public_values_of fep_inputs in
      if aggregation_proof_public_values \<noteq> retrieved_from_contracts
      then Err (MismatchAggregationProofPublicValues retrieved_from_contracts aggregation_proof_public_values)
      else Ok fep_inputs)"
| "apply_fep_verification (OptimisticVerification signature) fep_inputs =
     Ok (fep_inputs\<lparr>fep_signature_optimistic_mode := Some signature\<rparr>)"

fun stdin_proof :: "('sig, 'c) fep_verification \<Rightarrow> 'vk \<Rightarrow> ('c \<times> 'vk) option" where
  "stdin_proof (ProofVerification aggregation_proof pvs) aggregation_vkey = Some (aggregation_proof, aggregation_vkey)"
| "stdin_proof (OptimisticVerification signature) aggregation_vkey = None"

text \<open>The log line that prints the hashed parameters panics with them.\<close>

definition log_aggchain_params ::
  "('sig, 'sk, 'c, 'vk) builder_env \<Rightarrow> 'sig prims \<Rightarrow> 'sig fep_inputs \<Rightarrow> (unit, builder_error) result" where
  "log_aggchain_params B P fep_inputs =
     (if be_log_info B
      then (case aggchain_params P fep_inputs of Panic p \<Rightarrow> Panic p | _ \<Rightarrow> Ok ())
      else Ok ())"

text \<open>The two struct literals of \<open>retrieve_chain_data\<close>.\<close>

definition fep_inputs_of ::
  "('sig, 'sk, 'c, 'vk) builder_env \<Rightarrow> aggchain_proof_inputs \<Rightarrow> u64 \<Rightarrow> 'vk \<Rightarrow> op_succinct_config \<Rightarrow>
   l2_output_at_block \<Rightarrow> l2_output_at_block \<Rightarrow> address \<Rightarrow> 'sig fep_inputs" where
  "fep_inputs_of B inputs end_block aggregation_vkey config l2_pre_root_output_at_block
      claim_root_output_at_block trusted_sequencer = \<lparr>
     fep_l1_head = block_hash (inner (ai_l1_info_tree_leaf inputs)),
     fep_claim_block_num = ucast end_block,
     fep_rollup_config_hash = os_rollup_config_hash config,
     fep_prev_state_root = ob_state_root l2_pre_root_output_at_block,
     fep_prev_withdrawal_storage_root = ob_withdrawal_storage_root l2_pre_root_output_at_block,
     fep_prev_block_hash = ob_latest_block_hash l2_pre_root_output_at_block,
     fep_new_state_root = ob_state_root claim_root_output_at_block,
     fep_new_withdrawal_storage_root = ob_withdrawal_storage_root claim_root_output_at_block,
     fep_new_block_hash = ob_latest_block_hash claim_root_output_at_block,
     fep_aggregation_vkey_hash = be_hash_babybear B aggregation_vkey,
     fep_range_vkey_commitment = be_range_vkey_commitment B,
     fep_trusted_sequencer = trusted_sequencer,
     fep_signature_optimistic_mode = None,
     fep_l1_info_tree_leaf = ai_l1_info_tree_leaf inputs,
     fep_l1_head_inclusion_proof = ai_l1_info_tree_merkle_proof inputs\<rparr>"

definition prover_witness_of ::
  "'sig prims \<Rightarrow> aggchain_proof_inputs \<Rightarrow> u64 \<times> u64 \<Rightarrow> u32 \<Rightarrow> address \<Rightarrow> digest \<Rightarrow> digest \<Rightarrow> 'sk \<Rightarrow> 'sk \<Rightarrow>
   'sig fep_inputs \<Rightarrow> ('sig, 'sk) aggchain_proof_witness" where
  "prover_witness_of P inputs new_blocks_range network_id static_call_caller_address
      prev_local_exit_root new_local_exit_root prev_sketch new_sketch fep_inputs =
     (let inserted_gers = sorted_inserted_gers inputs new_blocks_range;
          inserted_gers_hash_chain = map (inserted_ger_ger P) inserted_gers;
          bridge_exits_claimed = claims_in_range inputs new_blocks_range
      in \<lparr>
        aw_prev_local_exit_root = prev_local_exit_root,
        aw_new_local_exit_root = new_local_exit_root,
        aw_l1_info_root = ai_l1_info_tree_root_hash inputs,
        aw_origin_network = network_id,
        aw_fep = fep_inputs,
        aw_commit_imported_bridge_exits =
          ibe_commitment P bridge_exits_claimed IMPORTED_BRIDGE_EXIT_COMMITMENT_VERSION,
        aw_bridge_witness = \<lparr>
          bw_inserted_gers = inserted_gers,
          bw_raw_inserted_gers = inserted_gers_hash_chain,
          bw_removed_gers = [],
          bw_bridge_exits_claimed = bridge_exits_claimed,
          bw_global_indices_unset = [],
          bw_prev_l2_block_sketch = prev_sketch,
          bw_new_l2_block_sketch = new_sketch,
          bw_caller_address = static_call_caller_address\<rparr>\<rparr>)"

definition retrieve_chain_data ::
  "('sig, 'sk, 'c, 'vk) builder_env \<Rightarrow> 'sig prims \<Rightarrow> 'sk contracts_client \<Rightarrow> ('sig, 'c) builder_request \<Rightarrow>
   u32 \<Rightarrow> 'vk \<Rightarrow> address \<Rightarrow> digest \<Rightarrow> (('sig, 'sk, 'c, 'vk) aggchain_prover_inputs, builder_error) result" where
  "retrieve_chain_data B P contracts_client request network_id aggregation_vkey
      static_call_caller_address range_vkey_commitment =
     (let inputs = br_aggchain_proof_inputs request; end_block = br_end_block request in
     and_then (arith_add (be_overflow_checks B) (ai_last_proven_block inputs) 1) (\<lambda>first_block.
     let new_blocks_range = (first_block, end_block) in
     and_then
       (map_err L2ChainDataRetrievalError
         (ac_get_l2_local_exit_root contracts_client (ai_last_proven_block inputs))) (\<lambda>prev_local_exit_root.
     and_then
       (map_err L2ChainDataRetrievalError
         (ac_get_l2_local_exit_root contracts_client end_block)) (\<lambda>new_local_exit_root.
     and_then
       (map_err L2ChainDataRetrievalError
         (ac_get_l2_output_at_block contracts_client (ai_last_proven_block inputs)))
       (\<lambda>l2_pre_root_output_at_block.
     and_then
       (map_err L2ChainDataRetrievalError
         (ac_get_l2_output_at_block contracts_client end_block)) (\<lambda>claim_root_output_at_block.
     and_then
       (map_err L1ChainDataRetrievalError (ac_get_op_succinct_config contracts_client))
       (\<lambda>op_succinct_config.
     and_then
       (validate_op_succinct_config_keys (be_bytes32_raw B) op_succinct_config aggregation_vkey
         range_vkey_commitment) (\<lambda>_.
     and_then
       (map_err L2ChainDataRetrievalError
         (ac_get_prev_l2_block_sketch contracts_client (Number (ai_last_proven_block inputs))))
       (\<lambda>prev_l2_block_sketch.
     and_then
       (map_err L2ChainDataRetrievalError
         (ac_get_new_l2_block_sketch contracts_client (Number end_block))) (\<lambda>new_l2_block_sketch.
     and_then
       (map_err UnableToFetchTrustedSequencerAddress (ac_get_trusted_sequencer_address contracts_client))
       (\<lambda>trusted_sequencer.
     let fep_inputs = fep_inputs_of B inputs end_block aggregation_vkey op_succinct_config
           l2_pre_root_output_at_block claim_root_output_at_block trusted_sequencer in
     and_then (apply_fep_verification (br_fep_verification request) fep_inputs) (\<lambda>fep_inputs.
     and_then (log_aggchain_params B P fep_inputs) (\<lambda>_.
     let prover_witness = prover_witness_of P inputs new_blocks_range network_id static_call_caller_address
           prev_local_exit_root new_local_exit_root prev_l2_block_sketch new_l2_block_sketch fep_inputs;
         output_root = compute_claim_root (aw_fep prover_witness) in
     and_then
       (map_err (\<lambda>_. BuilderOther ''Failed to build SP1 stdin'')
         (and_then (sp1_fast (be_write_stdin B prover_witness)) (\<lambda>r. r))) (\<lambda>_. Ok
       \<lparr>pi_output_root = output_root,
        pi_stdin = \<lparr>in_witness = prover_witness,
          in_proof = stdin_proof (br_fep_verification request) aggregation_vkey\<rparr>\<rparr>))))))))))))))"

definition builder_poll_ready ::
  "('sig, 'sk, 'c, 'vk) aggchain_proof_builder \<Rightarrow> nat \<Rightarrow> (unit, builder_error) result poll" where
  "builder_poll_ready self n =
     (case sv_poll_ready (ab_prover self) n of
        Pending \<Rightarrow> Pending
      | Ready r \<Rightarrow>
          Ready (map_err
            (\<lambda>e. case e of BoxExecutor error \<Rightarrow> ProverExecutorError error | BoxOther m \<Rightarrow> ProverServiceError m) r))"

text \<open>What happens after the prover answered.\<close>

definition builder_finish ::
  "('sig, 'sk, 'c, 'vk) builder_env \<Rightarrow> 'vk \<Rightarrow> u64 \<Rightarrow> u64 \<Rightarrow> claim_root \<Rightarrow> 'c sp1_proof_with_pv \<Rightarrow>
   (builder_response, builder_error) result" where
  "builder_finish B aggchain_vkey last_proven_block end_block output_root proof =
     and_then (unwrap (\<lambda>e. e) (be_decode_public_values B (sp_public_values proof))) (\<lambda>public_input.
     and_then (ok_or GeneratedProofIsNotCompressed (try_as_compressed (sp_proof proof))) (\<lambda>stark.
     and_then (map_err UnableToSerializeVkey (be_serialize_vkey B aggchain_vkey)) (\<lambda>vkey.
     and_then (map_err UnableToSerializeProof (be_serialize_proof B stark)) (\<lambda>proof_bytes. Ok
       \<lparr>bs_proof = proof_bytes, bs_vkey = vkey,
        bs_aggchain_params = pv_aggchain_params public_input,
        bs_last_proven_block = last_proven_block, bs_end_block = end_block,
        bs_output_root = output_root,
        bs_new_local_exit_root = pv_new_local_exit_root public_input,
        bs_public_values = public_input\<rparr>))))"

text \<open>The body of \<open>call\<close>, and \<open>call\<close>, which turns its panics into errors. \<open>None\<close> is a call that still
  waits for the prover to be ready.\<close>

definition builder_body ::
  "nat \<Rightarrow> ('sig, 'sk, 'c, 'vk) builder_env \<Rightarrow> 'sig prims \<Rightarrow> ('sig, 'sk, 'c, 'vk) aggchain_proof_builder \<Rightarrow>
   ('sig, 'c) builder_request \<Rightarrow> (builder_response, builder_error) result option" where
  "builder_body fuel B P self req =
     (case retrieve_chain_data B P (ab_contracts_client self) req (ab_network_id self)
             (ab_aggregation_vkey self) (ab_static_call_caller_address self)
             (ab_range_vkey_commitment self) of
        Err e \<Rightarrow> Some (Err e)
      | Panic p \<Rightarrow> Some (Panic p)
      | Ok aggchain_prover_inputs \<Rightarrow>
          (case ready_await fuel (sv_poll_ready (ab_prover self)) 0 of
             None \<Rightarrow> None
           | Some ready \<Rightarrow> Some
               (and_then (map_err ProverServiceReadyError ready) (\<lambda>_.
                and_then
                  (map_err ProverFailedToExecute
                    (sv_call (ab_prover self)
                      \<lparr>rq_stdin = pi_stdin aggchain_prover_inputs, rq_proof_type = StarkProof\<rparr>)) (\<lambda>response.
                builder_finish B (ab_aggchain_vkey self)
                  (ai_last_proven_block (br_aggchain_proof_inputs req)) (br_end_block req)
                  (pi_output_root aggchain_prover_inputs) (rs_proof response))))))"

definition builder_call ::
  "nat \<Rightarrow> ('sig, 'sk, 'c, 'vk) builder_env \<Rightarrow> 'sig prims \<Rightarrow> ('sig, 'sk, 'c, 'vk) aggchain_proof_builder \<Rightarrow>
   ('sig, 'c) builder_request \<Rightarrow> (builder_response, builder_error) result option" where
  "builder_call fuel B P self req =
     map_option (\<lambda>r. and_then (map_err BuilderOther (sp1_async r)) (\<lambda>res. res))
       (builder_body fuel B P self req)"

section \<open>The witness of a request\<close>

lemma apply_fep_verification_Ok:
  assumes "apply_fep_verification v fep = Ok fep'"
  shows "fep_l1_head fep' = fep_l1_head fep" and "fep_claim_block_num fep' = fep_claim_block_num fep"
    and "fep_l1_info_tree_leaf fep' = fep_l1_info_tree_leaf fep"
    and "fep_l1_head_inclusion_proof fep' = fep_l1_head_inclusion_proof fep"
    and "fep_prev_block_hash fep' = fep_prev_block_hash fep" and "fep_new_block_hash fep' = fep_new_block_hash fep"
    and "fep_new_state_root fep' = fep_new_state_root fep"
    and "fep_aggregation_vkey_hash fep' = fep_aggregation_vkey_hash fep"
    and "aggregation_proof_public_values_of fep' = aggregation_proof_public_values_of fep"
    and "v = ProofVerification c pv \<Longrightarrow> fep' = fep \<and> pv = aggregation_proof_public_values_of fep"
    and "v = OptimisticVerification sig \<Longrightarrow> fep_signature_optimistic_mode fep' = Some sig"
  using assms
  by (cases v; simp add: Let_def aggregation_proof_public_values_of_def split: if_splits; fastforce)+

text \<open>Where the parts of the witness come from.\<close>

lemma retrieve_chain_data_Ok:
  assumes "retrieve_chain_data B P cc req network_id vk caller rvc = Ok pi"
  defines "w \<equiv> in_witness (pi_stdin pi)" and "inputs \<equiv> br_aggchain_proof_inputs req"
  shows "\<exists>first.
     (arith_add (be_overflow_checks B) (ai_last_proven_block inputs) 1 :: (u64, builder_error) result) = Ok first \<and>
     bw_inserted_gers (aw_bridge_witness w) = sorted_inserted_gers inputs (first, br_end_block req) \<and>
     bw_bridge_exits_claimed (aw_bridge_witness w) = claims_in_range inputs (first, br_end_block req)"
    and "bw_raw_inserted_gers (aw_bridge_witness w) =
      map (inserted_ger_ger P) (bw_inserted_gers (aw_bridge_witness w))"
    and "bw_removed_gers (aw_bridge_witness w) = []" and "bw_global_indices_unset (aw_bridge_witness w) = []"
    and "bw_caller_address (aw_bridge_witness w) = caller"
    and "aw_commit_imported_bridge_exits w =
      ibe_commitment P (bw_bridge_exits_claimed (aw_bridge_witness w)) IMPORTED_BRIDGE_EXIT_COMMITMENT_VERSION"
    and "aw_l1_info_root w = ai_l1_info_tree_root_hash inputs" and "aw_origin_network w = network_id"
    and "ac_get_l2_local_exit_root cc (ai_last_proven_block inputs) = Ok (aw_prev_local_exit_root w)"
    and "ac_get_l2_local_exit_root cc (br_end_block req) = Ok (aw_new_local_exit_root w)"
    and "ac_get_prev_l2_block_sketch cc (Number (ai_last_proven_block inputs)) =
      Ok (bw_prev_l2_block_sketch (aw_bridge_witness w))"
    and "ac_get_new_l2_block_sketch cc (Number (br_end_block req)) =
      Ok (bw_new_l2_block_sketch (aw_bridge_witness w))"
    and "fep_l1_head (aw_fep w) = block_hash (inner (fep_l1_info_tree_leaf (aw_fep w)))"
    and "fep_l1_info_tree_leaf (aw_fep w) = ai_l1_info_tree_leaf inputs"
    and "fep_l1_head_inclusion_proof (aw_fep w) = ai_l1_info_tree_merkle_proof inputs"
    and "fep_claim_block_num (aw_fep w) = ucast (br_end_block req)"
    and "fep_aggregation_vkey_hash (aw_fep w) = be_hash_babybear B vk"
    and "pi_output_root pi = ClaimRoot (fep_new_state_root (aw_fep w))"
    and "br_fep_verification req = ProofVerification c pv \<Longrightarrow>
      fep_signature_optimistic_mode (aw_fep w) = None \<and> aggregation_proof_public_values_of (aw_fep w) = pv \<and>
      in_proof (pi_stdin pi) = Some (c, vk)"
    and "br_fep_verification req = OptimisticVerification sig \<Longrightarrow>
      fep_signature_optimistic_mode (aw_fep w) = Some sig \<and> in_proof (pi_stdin pi) = None"
proof -
  obtain first prev_ler new_ler out_prev out_new config sk_prev sk_new seq fep where
    first0: "(arith_add (be_overflow_checks B) (ai_last_proven_block (br_aggchain_proof_inputs req)) 1 :: (u64, builder_error) result) = Ok first"
    and calls0: "ac_get_l2_local_exit_root cc (ai_last_proven_block (br_aggchain_proof_inputs req)) = Ok prev_ler"
      "ac_get_l2_local_exit_root cc (br_end_block req) = Ok new_ler"
      "ac_get_prev_l2_block_sketch cc (Number (ai_last_proven_block (br_aggchain_proof_inputs req))) = Ok sk_prev"
      "ac_get_new_l2_block_sketch cc (Number (br_end_block req)) = Ok sk_new"
    and fep0: "apply_fep_verification (br_fep_verification req)
      (fep_inputs_of B (br_aggchain_proof_inputs req) (br_end_block req) vk config out_prev out_new seq) = Ok fep"
    and pi0: "pi = \<lparr>pi_output_root = compute_claim_root (aw_fep
         (prover_witness_of P (br_aggchain_proof_inputs req) (first, br_end_block req) network_id caller prev_ler new_ler sk_prev sk_new fep)),
       pi_stdin = \<lparr>in_witness = prover_witness_of P (br_aggchain_proof_inputs req) (first, br_end_block req) network_id caller
         prev_ler new_ler sk_prev sk_new fep,
       in_proof = stdin_proof (br_fep_verification req) vk\<rparr>\<rparr>"
    using assms(1) unfolding retrieve_chain_data_def Let_def and_then_eq_Ok map_err_eq_Ok
      result.inject
    by (elim exE conjE) (rule that, assumption+, rule sym)
  note first = first0 [folded inputs_def] and calls = calls0 [folded inputs_def]
    and fep = fep0 [folded inputs_def] and pi = pi0 [folded inputs_def]
  note fep_facts = apply_fep_verification_Ok [OF fep]
  note w = w_def pi prover_witness_of_def Let_def
  show "\<exists>first.
     (arith_add (be_overflow_checks B) (ai_last_proven_block inputs) 1 :: (u64, builder_error) result) = Ok first \<and>
     bw_inserted_gers (aw_bridge_witness w) = sorted_inserted_gers inputs (first, br_end_block req) \<and>
     bw_bridge_exits_claimed (aw_bridge_witness w) = claims_in_range inputs (first, br_end_block req)"
    using first by (simp add: w)
  show "bw_raw_inserted_gers (aw_bridge_witness w) =
      map (inserted_ger_ger P) (bw_inserted_gers (aw_bridge_witness w))"
    "bw_removed_gers (aw_bridge_witness w) = []" "bw_global_indices_unset (aw_bridge_witness w) = []"
    "bw_caller_address (aw_bridge_witness w) = caller"
    "aw_commit_imported_bridge_exits w =
      ibe_commitment P (bw_bridge_exits_claimed (aw_bridge_witness w)) IMPORTED_BRIDGE_EXIT_COMMITMENT_VERSION"
    "aw_l1_info_root w = ai_l1_info_tree_root_hash inputs" "aw_origin_network w = network_id"
    by (simp_all add: w)
  show "ac_get_l2_local_exit_root cc (ai_last_proven_block inputs) = Ok (aw_prev_local_exit_root w)"
    "ac_get_l2_local_exit_root cc (br_end_block req) = Ok (aw_new_local_exit_root w)"
    "ac_get_prev_l2_block_sketch cc (Number (ai_last_proven_block inputs)) =
      Ok (bw_prev_l2_block_sketch (aw_bridge_witness w))"
    "ac_get_new_l2_block_sketch cc (Number (br_end_block req)) =
      Ok (bw_new_l2_block_sketch (aw_bridge_witness w))"
    using calls by (simp_all add: w)
  show "fep_l1_head (aw_fep w) = block_hash (inner (fep_l1_info_tree_leaf (aw_fep w)))"
    "fep_l1_info_tree_leaf (aw_fep w) = ai_l1_info_tree_leaf inputs"
    "fep_l1_head_inclusion_proof (aw_fep w) = ai_l1_info_tree_merkle_proof inputs"
    "fep_claim_block_num (aw_fep w) = ucast (br_end_block req)"
    "fep_aggregation_vkey_hash (aw_fep w) = be_hash_babybear B vk"
    "pi_output_root pi = ClaimRoot (fep_new_state_root (aw_fep w))"
    using fep_facts by (simp_all add: w fep_inputs_of_def compute_claim_root_def compute_output_root_def)
  show "br_fep_verification req = ProofVerification c pv \<Longrightarrow>
      fep_signature_optimistic_mode (aw_fep w) = None \<and> aggregation_proof_public_values_of (aw_fep w) = pv \<and>
      in_proof (pi_stdin pi) = Some (c, vk)"
    using fep_facts(10) by (auto simp: w fep_inputs_of_def)
  show "br_fep_verification req = OptimisticVerification sig \<Longrightarrow>
      fep_signature_optimistic_mode (aw_fep w) = Some sig \<and> in_proof (pi_stdin pi) = None"
    using fep_facts(11) by (auto simp: w)
qed

text \<open>What the contracts on L1 contribute: the trusted sequencer and the configuration, whose keys passed
  the validation.\<close>

lemma retrieve_chain_data_contracts:
  assumes "retrieve_chain_data B P cc req network_id vk caller rvc = Ok pi"
  shows "ac_get_trusted_sequencer_address cc = Ok (fep_trusted_sequencer (aw_fep (in_witness (pi_stdin pi))))"
    and "\<exists>config. ac_get_op_succinct_config cc = Ok config \<and>
       os_aggregation_vkey_hash config = be_bytes32_raw B vk \<and> os_range_vkey_commitment config = rvc \<and>
       fep_rollup_config_hash (aw_fep (in_witness (pi_stdin pi))) = os_rollup_config_hash config"
proof -
  obtain config out_prev out_new seq fep rng prev_ler new_ler sk_prev sk_new where
    config: "ac_get_op_succinct_config cc = Ok config"
    "validate_op_succinct_config_keys (be_bytes32_raw B) config vk rvc = Ok ()"
    and seq: "ac_get_trusted_sequencer_address cc = Ok seq"
    and fep: "apply_fep_verification (br_fep_verification req)
      (fep_inputs_of B (br_aggchain_proof_inputs req) (br_end_block req) vk config out_prev out_new seq) = Ok fep"
    and w: "in_witness (pi_stdin pi) = prover_witness_of P (br_aggchain_proof_inputs req) rng network_id caller
         prev_ler new_ler sk_prev sk_new fep"
    using assms unfolding retrieve_chain_data_def Let_def and_then_eq_Ok map_err_eq_Ok result.inject
    by (elim exE conjE) (rule that, assumption+, simp, assumption+, auto)
  have same: "fep_trusted_sequencer fep = seq \<and> fep_rollup_config_hash fep = os_rollup_config_hash config"
    using fep by (cases "br_fep_verification req") (auto simp: fep_inputs_of_def Let_def split: if_splits)
  then show "ac_get_trusted_sequencer_address cc = Ok (fep_trusted_sequencer (aw_fep (in_witness (pi_stdin pi))))"
    using seq by (simp add: w prover_witness_of_def Let_def)
  show "\<exists>config. ac_get_op_succinct_config cc = Ok config \<and>
       os_aggregation_vkey_hash config = be_bytes32_raw B vk \<and> os_range_vkey_commitment config = rvc \<and>
       fep_rollup_config_hash (aw_fep (in_witness (pi_stdin pi))) = os_rollup_config_hash config"
    using config same
    by (auto simp: w prover_witness_of_def Let_def validate_op_succinct_config_keys_def split: if_splits)
qed

lemma builder_call_Ok:
  assumes "builder_call fuel B P ab req = Some (Ok resp)"
  shows "\<exists>pi response.
     retrieve_chain_data B P (ab_contracts_client ab) req (ab_network_id ab) (ab_aggregation_vkey ab)
       (ab_static_call_caller_address ab) (ab_range_vkey_commitment ab) = Ok pi \<and>
     sv_call (ab_prover ab) \<lparr>rq_stdin = pi_stdin pi, rq_proof_type = StarkProof\<rparr> = Ok response \<and>
     builder_finish B (ab_aggchain_vkey ab) (ai_last_proven_block (br_aggchain_proof_inputs req))
       (br_end_block req) (pi_output_root pi) (rs_proof response) = Ok resp"
proof -
  obtain r where r: "builder_body fuel B P ab req = Some r"
    and "and_then (map_err BuilderOther (sp1_async r)) (\<lambda>res. res) = Ok resp"
    using assms unfolding builder_call_def by auto
  then have "r = Ok resp" by (simp add: sp1_async_def sp1_fast_flatten_Ok)
  with r show ?thesis
    unfolding builder_body_def by (auto simp: result_simps split: result.splits option.splits)
qed

lemma builder_finish_Ok:
  "builder_finish B vk lpb eb root proof = Ok resp \<Longrightarrow>
     be_decode_public_values B (sp_public_values proof) = Ok (bs_public_values resp) \<and>
     (\<exists>stark. sp_proof proof = Compressed stark \<and> be_serialize_proof B stark = Ok (bs_proof resp)) \<and>
     be_serialize_vkey B vk = Ok (bs_vkey resp) \<and>
     bs_aggchain_params resp = pv_aggchain_params (bs_public_values resp) \<and>
     bs_new_local_exit_root resp = pv_new_local_exit_root (bs_public_values resp) \<and>
     bs_last_proven_block resp = lpb \<and> bs_end_block resp = eb \<and> bs_output_root resp = root"
  unfolding builder_finish_def by (cases "sp_proof proof") (auto simp: result_simps)

text \<open>The configuration a builder was made with.\<close>

lemma builder_new_Ok:
  assumes "aggchain_proof_builder_new up L sdk buffer B config cc = Ok ab"
  shows "ab_contracts_client ab = cc \<and> ab_network_id ab = bc_network_id config \<and>
     be_aggregation_vkey B = Ok (ab_aggregation_vkey ab) \<and>
     ab_range_vkey_commitment ab = be_range_vkey_commitment B \<and>
     ab_static_call_caller_address ab = cc_static_call_caller_address (bc_contracts config) \<and>
     (\<exists>ex. executor_new up L sdk (bc_primary_prover config) (bc_fallback_prover config)
          (be_aggchain_proof_elf B) = Ok ex \<and>
        ab_prover ab = buffer ex MAX_CONCURRENT_REQUESTS \<and> ab_aggchain_vkey ab = ex_vkey ex)"
  using assms unfolding aggchain_proof_builder_new_def Let_def
  by (auto simp: and_then_eq_Ok map_err_eq_Ok unwrap_eq_Ok split: if_splits)

section \<open>A concrete request\<close>

definition sample_builder_env :: "(digest \<times> address, digest, nat, nat) builder_env" where
  "sample_builder_env =
     \<lparr>be_aggchain_proof_elf = [1, 2, 3],
      be_aggregation_vkey = Ok 2, be_aggregation_vkey_hash = sample_vkey, be_range_vkey_commitment = 66,
      be_hash_u32 = (\<lambda>vk. Ok sample_vkey), be_hash_babybear = (\<lambda>vk. sample_vkey), be_bytes32_raw = (\<lambda>vk. 88),
      be_write_stdin = (\<lambda>w. Ok ()),
      be_decode_public_values = (\<lambda>bs.
        if bs \<noteq> [] then Err ''trailing bytes''
        else map_err (\<lambda>_. ''not committed'')
          (aggchain_main (\<lambda>_. []) sample_guest sample_prims (sample_evm sample_chain_table)
            sample_aggchain_witness)),
      be_serialize_vkey = (\<lambda>vk. Ok [7]), be_serialize_proof = (\<lambda>c. Ok [8]),
      be_error_display = (\<lambda>e. ''error''), be_overflow_checks = True, be_log_info = False\<rparr>"

definition sample_contracts_client :: "digest contracts_client" where
  "sample_contracts_client =
     \<lparr>ac_get_l2_local_exit_root = (\<lambda>n. Ok (if n = 4 then 98 else 99)),
      ac_get_l2_output_at_block = (\<lambda>n. Ok (if n = 4
        then \<lparr>ob_version = 0, ob_state_root = 21, ob_withdrawal_storage_root = 22,
          ob_latest_block_hash = 100, ob_output_root = 21\<rparr>
        else \<lparr>ob_version = 0, ob_state_root = 31, ob_withdrawal_storage_root = 32,
          ob_latest_block_hash = 200, ob_output_root = 31\<rparr>)),
      ac_get_op_succinct_config = Ok \<lparr>os_aggregation_vkey_hash = 88, os_range_vkey_commitment = 66,
        os_rollup_config_hash = 77\<rparr>,
      ac_get_trusted_sequencer_address = Ok 5,
      ac_get_prev_l2_block_sketch = (\<lambda>t. Ok (case t of Number n \<Rightarrow> if n = 4 then 100 else 200)),
      ac_get_new_l2_block_sketch = (\<lambda>t. Ok (case t of Number n \<Rightarrow> if n = 4 then 100 else 200))\<rparr>"

text \<open>With the public values that the chain data above gives.\<close>

definition sample_builder_request :: "(digest \<times> address, nat) builder_request" where
  "sample_builder_request =
     \<lparr>br_fep_verification = ProofVerification 7 sample_apv, br_end_block = 9,
      br_aggchain_proof_inputs = sample_inputs\<rparr>"

lemma sample_retrieve:
  "\<exists>pi. retrieve_chain_data sample_builder_env sample_prims sample_contracts_client sample_builder_request
     3 2 0 66 = Ok pi"
proof -
  have "apply_fep_verification (ProofVerification 7 sample_apv)
      (fep_inputs_of sample_builder_env sample_inputs 9 2
        \<lparr>os_aggregation_vkey_hash = 88, os_range_vkey_commitment = 66, os_rollup_config_hash = 77\<rparr>
        \<lparr>ob_version = 0, ob_state_root = 21, ob_withdrawal_storage_root = 22, ob_latest_block_hash = 100, ob_output_root = 21\<rparr>
        \<lparr>ob_version = 0, ob_state_root = 31, ob_withdrawal_storage_root = 32, ob_latest_block_hash = 200, ob_output_root = 31\<rparr>
        5) = Ok (fep_inputs_of sample_builder_env sample_inputs 9 2
        \<lparr>os_aggregation_vkey_hash = 88, os_range_vkey_commitment = 66, os_rollup_config_hash = 77\<rparr>
        \<lparr>ob_version = 0, ob_state_root = 21, ob_withdrawal_storage_root = 22, ob_latest_block_hash = 100, ob_output_root = 21\<rparr>
        \<lparr>ob_version = 0, ob_state_root = 31, ob_withdrawal_storage_root = 32, ob_latest_block_hash = 200, ob_output_root = 31\<rparr>
        5)"
    by (simp add: sample_apv_def aggregation_proof_public_values_of_def sample_fep_def fep_inputs_of_def
        sample_builder_env_def sample_inputs_def sample_leaf_def)
  moreover have "(arith_add True (4 :: u64) 1 :: (u64, builder_error) result) = Ok 5"
    by (simp add: arith_add_def checked_add_def)
  ultimately show ?thesis
    unfolding retrieve_chain_data_def Let_def
    by (simp add: sample_builder_request_def sample_contracts_client_def validate_op_succinct_config_keys_def
        log_aggchain_params_def sample_builder_env_def sample_inputs_def)
qed

section \<open>Properties\<close>



text \<open>in proof mode the program checks the proof of the proposer against the public values that came
  with it. When the builder accepts a request with an aggregation proof, the attached proof and key are
  the given ones, and the execution proof of the witness is accepted by the program exactly when the
  inclusion proof of the L1 info leaf verifies against the root and the deferred proof verifies for the
  aggregation key and the SHA-256 of the encoding of the given public values.\<close>

lemma builder_proof_mode:
  assumes "retrieve_chain_data B P cc req network_id vk caller rvc = Ok pi"
    and "br_fep_verification req = ProofVerification agg pv" and "target_zkvm G"
  shows "in_proof (pi_stdin pi) = Some (agg, vk) \<and>
    (fep_verify G P (aw_fep (in_witness (pi_stdin pi))) root ler ibe = Ok () \<longleftrightarrow>
       merkle_verify P (ai_l1_info_tree_merkle_proof (br_aggchain_proof_inputs req))
         (leaf_hash P (ai_l1_info_tree_leaf (br_aggchain_proof_inputs req)))
         (l1_info_tree_index (ai_l1_info_tree_leaf (br_aggchain_proof_inputs req))) \<and>
       root = proof_root (ai_l1_info_tree_merkle_proof (br_aggchain_proof_inputs req)) \<and>
       deferred_proof_ok G (be_hash_babybear B vk)
         (sha256_digest P (abi_encode P (aggregation_public_values_fields pv))))"
proof -
  note w = retrieve_chain_data_Ok [OF assms(1)]
  have mode: "fep_signature_optimistic_mode (aw_fep (in_witness (pi_stdin pi))) = None"
    "aggregation_proof_public_values_of (aw_fep (in_witness (pi_stdin pi))) = pv"
    "in_proof (pi_stdin pi) = Some (agg, vk)"
    using w(19) [OF assms(2)] by auto
  show ?thesis
    using assms(3) w(13-17) mode(1,3)
    unfolding fep_verify_eq_Ok fep_accepted_def sha256_public_values_def mode(2) by simp
qed

lemma builder_proof_mode_witness:
  "\<exists>pi. retrieve_chain_data sample_builder_env sample_prims sample_contracts_client sample_builder_request
       3 2 0 66 = Ok pi \<and>
     in_proof (pi_stdin pi) = Some (7, 2) \<and>
     fep_verify sample_guest sample_prims (aw_fep (in_witness (pi_stdin pi))) 50 0 0 = Ok ()"
proof -
  obtain pi where pi: "retrieve_chain_data sample_builder_env sample_prims sample_contracts_client
      sample_builder_request 3 2 0 66 = Ok pi"
    using sample_retrieve by blast
  have req: "br_fep_verification sample_builder_request = ProofVerification 7 sample_apv"
    "br_aggchain_proof_inputs sample_builder_request = sample_inputs"
    by (simp_all add: sample_builder_request_def)
  have "target_zkvm sample_guest" by (simp add: sample_guest_def)
  note mode = builder_proof_mode [OF pi req(1) this, of 50 0 0, unfolded req(2)]
  have "deferred_proof_ok sample_guest (be_hash_babybear sample_builder_env 2)
      (sha256_digest sample_prims (abi_encode sample_prims (aggregation_public_values_fields sample_apv)))"
    by (simp add: sample_guest_def sample_builder_env_def sample_prims_def aggregation_public_values_fields_def)
  moreover have "merkle_verify sample_prims (ai_l1_info_tree_merkle_proof sample_inputs)
      (leaf_hash sample_prims (ai_l1_info_tree_leaf sample_inputs))
      (l1_info_tree_index (ai_l1_info_tree_leaf sample_inputs)) \<and>
      50 = proof_root (ai_l1_info_tree_merkle_proof sample_inputs)"
    by (simp add: sample_prims_def sample_inputs_def sample_leaf_def)
  ultimately show ?thesis using mode pi by auto
qed

text \<open>C40: the block number of the execution proof is the end block modulo \<open>2 ^ 32\<close>. The witness of an
  accepted request carries the end block truncated to 32 bits; in proof mode the builder then accepts
  only public values whose block number is that truncation, so a proof whose block number is the end
  block itself is accepted only below \<open>2 ^ 32\<close>; in optimistic mode nothing compares the two numbers.\<close>

theorem builder_block_number:
  assumes "retrieve_chain_data B P cc req network_id vk caller rvc = Ok pi"
  shows "unat (fep_claim_block_num (aw_fep (in_witness (pi_stdin pi)))) = unat (br_end_block req) mod 2 ^ 32 \<and>
    (br_fep_verification req = ProofVerification agg pv \<and> ag_l2_block_number pv = br_end_block req \<longrightarrow>
       unat (br_end_block req) < 2 ^ 32)"
proof -
  note w = retrieve_chain_data_Ok [OF assms]
  have num: "unat (fep_claim_block_num (aw_fep (in_witness (pi_stdin pi)))) = unat (br_end_block req) mod 2 ^ 32"
    using w(16) by (simp add: unsigned_ucast_eq take_bit_eq_mod)
  moreover have "unat (br_end_block req) < 2 ^ 32"
    if "br_fep_verification req = ProofVerification agg pv" and "ag_l2_block_number pv = br_end_block req"
  proof -
    have "ag_l2_block_number pv = ucast (fep_claim_block_num (aw_fep (in_witness (pi_stdin pi))))"
      using w(19) [OF that(1)] by (auto simp: aggregation_proof_public_values_of_def)
    then have "unat (br_end_block req) = unat (fep_claim_block_num (aw_fep (in_witness (pi_stdin pi))))"
      using that(2) by (simp add: unat_ucast_up)
    then show ?thesis using unat_bound [of "fep_claim_block_num (aw_fep (in_witness (pi_stdin pi)))"] by simp
  qed
  ultimately show ?thesis by blast
qed

theorem builder_block_number_witness:
  "\<exists>pi. retrieve_chain_data sample_builder_env sample_prims sample_contracts_client sample_builder_request
       3 2 0 66 = Ok pi \<and>
     unat (fep_claim_block_num (aw_fep (in_witness (pi_stdin pi)))) = 9"
proof -
  obtain pi where pi: "retrieve_chain_data sample_builder_env sample_prims sample_contracts_client
      sample_builder_request 3 2 0 66 = Ok pi"
    using sample_retrieve by blast
  moreover have "br_end_block sample_builder_request = 9" by (simp add: sample_builder_request_def)
  ultimately show ?thesis using builder_block_number [OF pi] by auto
qed

text \<open>C30: a call of the builder never unwinds. Whatever panics inside - the overflow of the first block
  number, the parameters in the log, the prover, the decoding of its public values - comes back as an
  error; an \<open>Ok\<close> answer repeats the block range of the request, and its public values, parameters and
  local exit root are those decoded from the proof.\<close>

theorem builder_call_contained:
  assumes "builder_call fuel B P ab req = Some r"
  shows "(\<exists>e. r = Err e) \<or>
    (\<exists>resp. r = Ok resp \<and>
       bs_last_proven_block resp = ai_last_proven_block (br_aggchain_proof_inputs req) \<and>
       bs_end_block resp = br_end_block req \<and>
       bs_aggchain_params resp = pv_aggchain_params (bs_public_values resp) \<and>
       bs_new_local_exit_root resp = pv_new_local_exit_root (bs_public_values resp) \<and>
       (\<exists>pi response.
          retrieve_chain_data B P (ab_contracts_client ab) req (ab_network_id ab) (ab_aggregation_vkey ab)
            (ab_static_call_caller_address ab) (ab_range_vkey_commitment ab) = Ok pi \<and>
          bs_output_root resp = pi_output_root pi \<and>
          sv_call (ab_prover ab) \<lparr>rq_stdin = pi_stdin pi, rq_proof_type = StarkProof\<rparr> = Ok response \<and>
          be_decode_public_values B (sp_public_values (rs_proof response)) = Ok (bs_public_values resp)))"
proof (cases r)
  case (Ok resp)
  with assms have "builder_call fuel B P ab req = Some (Ok resp)" by simp
  from builder_call_Ok [OF this] obtain pi response where
    "retrieve_chain_data B P (ab_contracts_client ab) req (ab_network_id ab) (ab_aggregation_vkey ab)
            (ab_static_call_caller_address ab) (ab_range_vkey_commitment ab) = Ok pi"
    and "sv_call (ab_prover ab) \<lparr>rq_stdin = pi_stdin pi, rq_proof_type = StarkProof\<rparr> = Ok response"
    and fin: "builder_finish B (ab_aggchain_vkey ab) (ai_last_proven_block (br_aggchain_proof_inputs req))
       (br_end_block req) (pi_output_root pi) (rs_proof response) = Ok resp" by blast
  with builder_finish_Ok [OF fin] Ok show ?thesis by blast
next
  case (Panic p)
  then have False
    using assms sp1_fast_flatten_not_Panic unfolding builder_call_def sp1_async_def by auto
  then show ?thesis ..
qed simp

theorem builder_call_contained_witness:
  "\<exists>r. builder_call 1 (sample_builder_env\<lparr>be_log_info := True\<rparr>) sample_prims
       \<lparr>ab_contracts_client = sample_contracts_client, ab_network_id = 3,
        ab_prover = \<lparr>sv_poll_ready = (\<lambda>n. Ready (Ok ())), sv_call = (\<lambda>req. Panic PanicOther)\<rparr>,
        ab_aggregation_vkey = 2, ab_aggchain_vkey = 3, ab_range_vkey_commitment = 66,
        ab_static_call_caller_address = 0\<rparr> sample_builder_request = Some r \<and>
     (\<forall>p. r \<noteq> Panic p)"
proof -
  let ?ab = "\<lparr>ab_contracts_client = sample_contracts_client, ab_network_id = 3,
        ab_prover = \<lparr>sv_poll_ready = (\<lambda>n. Ready (Ok ())), sv_call = (\<lambda>req. Panic PanicOther)\<rparr>,
        ab_aggregation_vkey = 2, ab_aggchain_vkey = 3, ab_range_vkey_commitment = 66,
        ab_static_call_caller_address = 0\<rparr>"
  obtain r where r: "builder_call 1 (sample_builder_env\<lparr>be_log_info := True\<rparr>) sample_prims ?ab
      sample_builder_request = Some r"
    by (cases "retrieve_chain_data (sample_builder_env\<lparr>be_log_info := True\<rparr>) sample_prims
        sample_contracts_client sample_builder_request 3 2 0 66")
      (auto simp: builder_call_def builder_body_def)
  from builder_call_contained [OF r] have "r \<noteq> Panic p" for p by auto
  with r show ?thesis by blast
qed

end
