(* ===== verification/Proof_Service.thy ===== *)
theory Proof_Service
  imports Proof_Builder
begin

text \<open>
  \<open>crates/aggchain-proof-service\<close>: the service that orchestrates an aggchain proof. A normal request
  fetches an aggregation proof from the proposer and hands it to the builder; an optimistic request
  hands the signature of the request to the builder. The response carries the custom chain data of the
  certificate.

  The two inner services are kept as the trait objects of the code: a poll and a call, where \<open>None\<close> is
  a call that still waits. The major version of the proof program, which the build script of
  \<open>aggchain-proof-core\<close> writes into \<open>AGGCHAIN_PROOF_PROGRAM_VERSION\<close>, is an argument.
\<close>

section \<open>Custom chain data\<close>

text \<open>\<open>VKeySelector\<close> holds the four big-endian bytes of program version and aggchain type.\<close>

type_synonym vkey_selector = "byte list"

definition vkey_selector_new :: "u16 \<Rightarrow> u16 \<Rightarrow> vkey_selector" where
  "vkey_selector_new program aggchain_type =
     to_be_bytes_u32 (or (push_bit 16 (ucast program :: u32)) (ucast aggchain_type))"

definition AGGCHAIN_VKEY_SELECTOR :: "u16 \<Rightarrow> vkey_selector" where
  "AGGCHAIN_VKEY_SELECTOR program_version = vkey_selector_new program_version AGGCHAIN_TYPE"

record custom_chain_data =
  cd_selector :: u32
  cd_output_root :: digest
  cd_l2_block_number :: digest

definition custom_chain_data_fields :: "custom_chain_data \<Rightarrow> sol_value list" where
  "custom_chain_data_fields d =
     [SolBytes4 (cd_selector d), SolBytes32 (cd_output_root d), SolBytes32 (cd_l2_block_number d)]"

definition compute_custom_chain_data ::
  "'sig prims \<Rightarrow> u16 \<Rightarrow> claim_root \<Rightarrow> u64 \<Rightarrow> byte list" where
  "compute_custom_chain_data P program_version output_root l2_block_number =
     abi_encode P (custom_chain_data_fields
       \<lparr>cd_selector = word_of_nat (of_be_bytes (AGGCHAIN_VKEY_SELECTOR program_version)),
        cd_output_root = claim_root_bytes output_root,
        cd_l2_block_number = ucast l2_block_number\<rparr>)"

section \<open>Data of the service\<close>

datatype service_error =
    AlloyProviderInitializationFailed report
  | ProposerServiceInitFailed proposer_service_error
  | ProposerServiceError proposer_service_error
  | ProposerServiceRequestFailed proposer_service_error
  | AggchainProofBuilderInitFailed report
  | AggchainProofBuilderPollReadyFailed builder_error
  | AggchainProofBuilderRequestFailed builder_error
  | ContractsClientInitFailed contracts_error
  | AggchainProofVkeyResolveFailed contracts_error

datatype 'sig service_request =
    NormalRequest aggchain_proof_inputs
  | OptimisticRequest "'sig optimistic_aggchain_proof_inputs"

record service_response =
  ss_proof :: "byte list"
  ss_aggchain_params :: digest
  ss_vkey :: "byte list"
  ss_last_proven_block :: u64
  ss_end_block :: u64
  ss_local_exit_root_hash :: digest
  ss_custom_chain_data :: "byte list"
  ss_public_values :: aggchain_proof_public_values

text \<open>A boxed service whose call may still wait.\<close>

record ('req, 'res, 'e) boxed_service =
  bx_poll_ready :: "nat \<Rightarrow> (unit, 'e) result poll"
  bx_call :: "'req \<Rightarrow> ('res, 'e) result option"

record ('sig, 'c) aggchain_proof_service =
  sv_proposer_service :: "(fep_proposer_request, 'c proposer_response, proposer_service_error) boxed_service"
  sv_aggchain_proof_builder :: "(('sig, 'c) builder_request, builder_response, builder_error) boxed_service"

section \<open>Operations\<close>

text \<open>\<open>fut.await.map_err(f)?\<close> on a call that may still wait.\<close>

fun await_then :: "('a, 'e) result option \<Rightarrow> ('a \<Rightarrow> ('b, 'e) result option) \<Rightarrow> ('b, 'e) result option" where
  "await_then None f = None"
| "await_then (Some (Ok x)) f = f x"
| "await_then (Some (Err e)) f = Some (Err e)"
| "await_then (Some (Panic p)) f = Some (Panic p)"

definition service_response_of ::
  "'sig prims \<Rightarrow> u16 \<Rightarrow> u64 \<Rightarrow> u64 \<Rightarrow> builder_response \<Rightarrow> service_response" where
  "service_response_of P program_version last_proven_block end_block aggchain_proof_response =
     \<lparr>ss_proof = bs_proof aggchain_proof_response,
      ss_aggchain_params = bs_aggchain_params aggchain_proof_response,
      ss_vkey = bs_vkey aggchain_proof_response,
      ss_last_proven_block = last_proven_block,
      ss_end_block = end_block,
      ss_local_exit_root_hash = bs_new_local_exit_root aggchain_proof_response,
      ss_custom_chain_data =
        compute_custom_chain_data P program_version (bs_output_root aggchain_proof_response) end_block,
      ss_public_values = bs_public_values aggchain_proof_response\<rparr>"

definition handle_normal_request ::
  "'sig prims \<Rightarrow> u16 \<Rightarrow> ('sig, 'c) aggchain_proof_service \<Rightarrow> aggchain_proof_inputs \<Rightarrow>
   (service_response, service_error) result option" where
  "handle_normal_request P program_version self inputs =
     (let proposer_request =
        \<lparr>fq_last_proven_block = ai_last_proven_block inputs,
         fq_requested_end_block = ai_requested_end_block inputs,
         fq_l1_block_hash = block_hash (inner (ai_l1_info_tree_leaf inputs))\<rparr> in
      await_then
        (map_option (map_err ProposerServiceError) (bx_call (sv_proposer_service self) proposer_request))
        (\<lambda>aggregation_proof_response.
      let builder_request =
        \<lparr>br_fep_verification = ProofVerification (pr_aggregation_proof aggregation_proof_response)
           (pr_public_values aggregation_proof_response),
         br_end_block = pr_end_block aggregation_proof_response,
         br_aggchain_proof_inputs = inputs\<rparr> in
      await_then
        (map_option (map_err AggchainProofBuilderRequestFailed)
          (bx_call (sv_aggchain_proof_builder self) builder_request))
        (\<lambda>aggchain_proof_response. Some (Ok
          (service_response_of P program_version (ai_last_proven_block inputs)
            (br_end_block builder_request) aggchain_proof_response)))))"

definition handle_optimistic_request ::
  "'sig prims \<Rightarrow> u16 \<Rightarrow> ('sig, 'c) aggchain_proof_service \<Rightarrow> 'sig optimistic_aggchain_proof_inputs \<Rightarrow>
   (service_response, service_error) result option" where
  "handle_optimistic_request P program_version self request =
     (let inputs = oi_aggchain_proof_inputs request;
          builder_request =
            \<lparr>br_fep_verification = OptimisticVerification (oi_signature_optimistic_mode request),
             br_end_block = ai_requested_end_block inputs,
             br_aggchain_proof_inputs = inputs\<rparr> in
      await_then
        (map_option (map_err AggchainProofBuilderRequestFailed)
          (bx_call (sv_aggchain_proof_builder self) builder_request))
        (\<lambda>aggchain_proof_response. Some (Ok
          (service_response_of P program_version (ai_last_proven_block inputs)
            (br_end_block builder_request) aggchain_proof_response))))"

definition service_poll_ready ::
  "('sig, 'c) aggchain_proof_service \<Rightarrow> nat \<Rightarrow> (unit, service_error) result poll" where
  "service_poll_ready self n =
     (case bx_poll_ready (sv_proposer_service self) n of
        Pending \<Rightarrow> Pending
      | Ready (Err e) \<Rightarrow> Ready (Err (ProposerServiceError e))
      | Ready (Panic p) \<Rightarrow> Ready (Panic p)
      | Ready (Ok _) \<Rightarrow>
          (case bx_poll_ready (sv_aggchain_proof_builder self) n of
             Pending \<Rightarrow> Pending
           | Ready r \<Rightarrow> Ready (map_err AggchainProofBuilderPollReadyFailed r)))"

fun service_call ::
  "'sig prims \<Rightarrow> u16 \<Rightarrow> ('sig, 'c) aggchain_proof_service \<Rightarrow> 'sig service_request \<Rightarrow>
   (service_response, service_error) result option" where
  "service_call P program_version self (NormalRequest inputs) =
     handle_normal_request P program_version self inputs"
| "service_call P program_version self (OptimisticRequest inputs) =
     handle_optimistic_request P program_version self inputs"

text \<open>The surroundings of \<open>AggchainProofService::new\<close>: nodes and files, the gRPC connection, the SDK with its
  layers and buffer, and the codecs.\<close>

record ('sig, 'sk, 'c, 'pk, 'vk, 'hs) service_env =
  ve_environment :: environment
  ve_rpc :: chain_rpc
  ve_files :: file_system
  ve_sketch_host :: "('hs, 'sk) sketch_host"
  ve_get_block_number :: "alloy_provider \<Rightarrow> digest \<Rightarrow> (u64, report) result"
  ve_connect :: "url \<Rightarrow> duration \<Rightarrow> (proofs_client, report) result"
  ve_network_prover :: "url \<Rightarrow> string \<Rightarrow> (('c, 'pk, 'vk) sdk_network_prover, report) result"
  ve_mock_prover :: "proofs_client \<Rightarrow> ('c, 'pk, 'vk) mock_grpc_prover"
  ve_erigon_elf :: "byte list"
  ve_abi_decode :: "byte list \<Rightarrow> (aggregation_proof_public_values, report) result"
  ve_debug_assertions :: bool
  ve_debug_string :: "string \<Rightarrow> string"
  ve_pool_up :: bool
  ve_layers :: "(('sig, 'sk, 'c, 'vk) sp1_stdin request, 'c sp1_proof_with_pv response) tower_layers"
  ve_sdk :: "(('sig, 'sk, 'c, 'vk) sp1_stdin, 'c sp1_proof_with_pv, 'pk, 'vk) sp1_sdk"
  ve_buffer :: "(('sig, 'sk, 'c, 'vk) sp1_stdin, 'c sp1_proof_with_pv, 'vk) executor \<Rightarrow> nat \<Rightarrow>
     (('sig, 'sk, 'c, 'vk) sp1_stdin request, 'c sp1_proof_with_pv response, box_error) service"
  ve_builder_env :: "('sig, 'sk, 'c, 'vk) builder_env"
  ve_prims :: "'sig prims"

definition proposer_boxed ::
  "(byte list \<Rightarrow> (aggregation_proof_public_values, report) result) \<Rightarrow> ('c, 'vk) proposer_service \<Rightarrow>
   (fep_proposer_request, 'c proposer_response, proposer_service_error) boxed_service" where
  "proposer_boxed abi_decode svc =
     \<lparr>bx_poll_ready = (\<lambda>_. Ready (Ok ())), bx_call = (\<lambda>req. Some (proposer_service_call abi_decode svc req))\<rparr>"

definition builder_boxed ::
  "nat \<Rightarrow> ('sig, 'sk, 'c, 'vk) builder_env \<Rightarrow> 'sig prims \<Rightarrow> ('sig, 'sk, 'c, 'vk) aggchain_proof_builder \<Rightarrow>
   (('sig, 'c) builder_request, builder_response, builder_error) boxed_service" where
  "builder_boxed fuel B P ab =
     \<lparr>bx_poll_ready = builder_poll_ready ab, bx_call = builder_call fuel B P ab\<rparr>"

definition service_proposer ::
  "('sig, 'sk, 'c, 'pk, 'vk, 'hs) service_env \<Rightarrow> proposer_service_config \<Rightarrow> alloy_provider \<Rightarrow>
   (('c, 'vk) proposer_service, service_error) result" where
  "service_proposer V config l1_rpc_client =
     map_err ProposerServiceInitFailed
       (if psc_mock config
        then proposer_service_new_mock (ve_debug_assertions V) (ve_debug_string V) (ve_connect V)
          (ve_mock_prover V) (ve_erigon_elf V) config (ve_get_block_number V l1_rpc_client)
        else proposer_service_new_network (ve_environment V) (ve_connect V) (ve_network_prover V)
          (ve_erigon_elf V) config (ve_get_block_number V l1_rpc_client))"

definition service_new ::
  "nat \<Rightarrow> ('sig, 'sk, 'c, 'pk, 'vk, 'hs) service_env \<Rightarrow> aggchain_proof_service_config \<Rightarrow>
   (('sig, 'c) aggchain_proof_service, service_error) result" where
  "service_new fuel V config =
     (let R = ve_rpc V; builder_config = sc_aggchain_proof_builder config;
          proposer_config = sc_proposer_service config; contracts_config = bc_contracts builder_config in
      and_then
        (map_err AlloyProviderInitializationFailed
          (alloy_provider_new (rpc_reqwest_build R) (psc_l1_rpc_endpoint proposer_config)
            DEFAULT_HTTP_RPC_NODE_INITIAL_BACKOFF_MS DEFAULT_HTTP_RPC_NODE_BACKOFF_MAX_RETRIES))
        (\<lambda>l1_rpc_client.
      and_then
        (map_err ContractsClientInitFailed
          (contracts_client_new R (ve_files V) (bc_network_id builder_config) contracts_config))
        (\<lambda>contract_l1_client.
      and_then
        (map_err ContractsClientInitFailed
          (erigon_new R (ve_files V)
            (rpc_contracts_client (ve_environment V) R (ve_sketch_host V) contract_l1_client)
            (cc_l2_execution_layer_rpc_endpoint contracts_config) contracts_config))
        (\<lambda>contract_l1_client_erigon.
      and_then (service_proposer V proposer_config l1_rpc_client) (\<lambda>proposer_service.
      and_then
        (map_err AggchainProofBuilderInitFailed
          (aggchain_proof_builder_new (ve_pool_up V) (ve_layers V) (ve_sdk V) (ve_buffer V)
            (ve_builder_env V) builder_config
            (erigon_contracts (ve_environment V) R (ve_sketch_host V) contract_l1_client_erigon)))
        (\<lambda>aggchain_proof_builder. Ok
          \<lparr>sv_proposer_service = proposer_boxed (ve_abi_decode V) proposer_service,
           sv_aggchain_proof_builder =
             builder_boxed fuel (ve_builder_env V) (ve_prims V) aggchain_proof_builder\<rparr>))))))"


section \<open>What a service is made of\<close>

lemma await_then_eq_Ok:
  "await_then r f = Some (Ok y) \<longleftrightarrow> (\<exists>x. r = Some (Ok x) \<and> f x = Some (Ok y))"
  by (cases "(r, f)" rule: await_then.cases) auto

lemma map_err_option_eq_Ok: "map_option (map_err g) r = Some (Ok x) \<longleftrightarrow> r = Some (Ok x)"
  by (cases r) (auto simp: map_err_eq_Ok)

lemmas await_simps = await_then_eq_Ok map_err_option_eq_Ok

text \<open>The clients of a service: the RPC client, the Erigon decorator around it, and the builder over that.\<close>

definition service_contracts ::
  "('sig, 'sk, 'c, 'pk, 'vk, 'hs) service_env \<Rightarrow> 'sk erigon_contracts_client \<Rightarrow> 'sk contracts_client" where
  "service_contracts V er = erigon_contracts (ve_environment V) (ve_rpc V) (ve_sketch_host V) er"

definition service_clients ::
  "('sig, 'sk, 'c, 'pk, 'vk, 'hs) service_env \<Rightarrow> aggchain_proof_builder_config \<Rightarrow>
   aggchain_contracts_rpc_client \<Rightarrow> 'sk erigon_contracts_client \<Rightarrow> bool" where
  "service_clients V config cl er \<longleftrightarrow>
     contracts_client_new (ve_rpc V) (ve_files V) (bc_network_id config) (bc_contracts config) = Ok cl \<and>
     erigon_new (ve_rpc V) (ve_files V)
       (rpc_contracts_client (ve_environment V) (ve_rpc V) (ve_sketch_host V) cl)
       (cc_l2_execution_layer_rpc_endpoint (bc_contracts config)) (bc_contracts config) = Ok er"

lemma service_new_Ok:
  assumes "service_new fuel V config = Ok svc"
  obtains l1 ps ab cl er where
    "service_proposer V (sc_proposer_service config) l1 = Ok ps"
    and "sv_proposer_service svc = proposer_boxed (ve_abi_decode V) ps"
    and "sv_aggchain_proof_builder svc = builder_boxed fuel (ve_builder_env V) (ve_prims V) ab"
    and "service_clients V (sc_aggchain_proof_builder config) cl er"
    and "aggchain_proof_builder_new (ve_pool_up V) (ve_layers V) (ve_sdk V) (ve_buffer V)
       (ve_builder_env V) (sc_aggchain_proof_builder config) (service_contracts V er) = Ok ab"
  using assms unfolding service_new_def Let_def and_then_eq_Ok map_err_eq_Ok result.inject
  by (elim exE conjE) (rule that, assumption, auto simp: service_clients_def service_contracts_def)

lemma service_sequencer:
  assumes "service_clients V config cl er"
  shows "ac_get_trusted_sequencer_address (service_contracts V er) = Ok (cl_trusted_sequencer_addr cl)"
proof -
  have "er_inner er = rpc_contracts_client (ve_environment V) (ve_rpc V) (ve_sketch_host V) cl"
    using assms unfolding service_clients_def erigon_new_def Let_def and_then_eq_Ok map_err_eq_Ok result.inject
    by auto
  then show ?thesis
    by (simp add: service_contracts_def erigon_contracts_def rpc_contracts_client_def
        get_trusted_sequencer_address_def)
qed

lemma normal_request_Ok:
  assumes "handle_normal_request P ver svc inputs = Some (Ok resp)"
  obtains presp bresp where
    "bx_call (sv_proposer_service svc)
       \<lparr>fq_last_proven_block = ai_last_proven_block inputs,
        fq_requested_end_block = ai_requested_end_block inputs,
        fq_l1_block_hash = block_hash (inner (ai_l1_info_tree_leaf inputs))\<rparr> = Some (Ok presp)"
    and "bx_call (sv_aggchain_proof_builder svc)
       \<lparr>br_fep_verification = ProofVerification (pr_aggregation_proof presp) (pr_public_values presp),
        br_end_block = pr_end_block presp, br_aggchain_proof_inputs = inputs\<rparr> = Some (Ok bresp)"
    and "resp = service_response_of P ver (ai_last_proven_block inputs) (pr_end_block presp) bresp"
  using assms unfolding handle_normal_request_def Let_def await_simps by auto

lemma optimistic_request_Ok:
  assumes "handle_optimistic_request P ver svc req = Some (Ok resp)"
  obtains bresp where
    "bx_call (sv_aggchain_proof_builder svc)
       \<lparr>br_fep_verification = OptimisticVerification (oi_signature_optimistic_mode req),
        br_end_block = ai_requested_end_block (oi_aggchain_proof_inputs req),
        br_aggchain_proof_inputs = oi_aggchain_proof_inputs req\<rparr> = Some (Ok bresp)"
    and "resp = service_response_of P ver (ai_last_proven_block (oi_aggchain_proof_inputs req))
       (ai_requested_end_block (oi_aggchain_proof_inputs req)) bresp"
  using assms unfolding handle_optimistic_request_def Let_def await_simps by auto

text \<open>The part of an answer that comes from the builder.\<close>

lemma boxed_builder_Ok:
  assumes "aggchain_proof_builder_new up L sdk buffer B config cc = Ok ab"
    and "bx_call (builder_boxed fuel B P' ab) req = Some (Ok bresp)"
  obtains vk pi where "be_aggregation_vkey B = Ok vk"
    and "retrieve_chain_data B P' cc req (bc_network_id config) vk
       (cc_static_call_caller_address (bc_contracts config)) (be_range_vkey_commitment B) = Ok pi"
    and "bs_output_root bresp = ClaimRoot (fep_new_state_root (aw_fep (in_witness (pi_stdin pi))))"
proof -
  have "builder_call fuel B P' ab req = Some (Ok bresp)" using assms(2) by (simp add: builder_boxed_def)
  from builder_call_Ok [OF this] obtain pi response where
    pi: "retrieve_chain_data B P' (ab_contracts_client ab) req (ab_network_id ab) (ab_aggregation_vkey ab)
       (ab_static_call_caller_address ab) (ab_range_vkey_commitment ab) = Ok pi"
    and "sv_call (ab_prover ab) \<lparr>rq_stdin = pi_stdin pi, rq_proof_type = StarkProof\<rparr> = Ok response"
    and fin: "builder_finish B (ab_aggchain_vkey ab) (ai_last_proven_block (br_aggchain_proof_inputs req))
       (br_end_block req) (pi_output_root pi) (rs_proof response) = Ok bresp" by blast
  show ?thesis
    using that [of "ab_aggregation_vkey ab" pi] builder_new_Ok [OF assms(1)] pi
      builder_finish_Ok [OF fin] retrieve_chain_data_Ok(18) [OF pi] by simp
qed

section \<open>The layout of the custom chain data\<close>

lemma vkey_selector_bytes:
  "vkey_selector_new p t = nat_be_bytes 2 (unat p) @ nat_be_bytes 2 (unat t)"
proof -
  have "and (push_bit 16 (ucast p :: u32)) (ucast t) = 0"
    by (rule bit_word_eqI) (auto simp: bit_simps dest: bit_imp_le_length)
  then have sum: "or (push_bit 16 (ucast p :: u32)) (ucast t) = push_bit 16 (ucast p) + ucast t"
    using word_plus_and_or [of "push_bit 16 (ucast p :: u32)" "ucast t"] by simp
  have eq: "push_bit 16 (ucast p :: u32) + ucast t = word_of_nat (unat p * 65536 + unat t)"
    by (simp add: push_bit_eq_mult)
  have "unat p * 65536 + unat t < 2 ^ 32"
    using unat_bound [of p] unat_bound [of t] by simp
  then have "unat (or (push_bit 16 (ucast p :: u32)) (ucast t)) = unat p * 65536 + unat t"
    unfolding sum eq unat_of_nat by simp
  then show ?thesis
    using nat_be_bytes_append [of 2 2 "unat p * 65536 + unat t"] unat_bound [of t]
      nat_be_bytes_eq_iff [of 2 "unat p * 65536 + unat t" "unat t"]
    by (simp add: vkey_selector_new_def)
qed


section \<open>A concrete service\<close>

text \<open>Block 4 has the state root 21 and the hash 100, every other block 31 and 200. The network prover of
  the SDK produces one proof without public values.\<close>

definition sample_chain_json :: "string \<Rightarrow> json" where
  "sample_chain_json p =
     JObject (if p = ''0x4''
       then [(''stateRoot'', JString (replicate 21 CHR ''0'')), (''withdrawalsRoot'', JString (replicate 22 CHR ''0'')),
             (''hash'', JString (replicate 100 CHR ''0''))]
       else [(''stateRoot'', JString (replicate 31 CHR ''0'')), (''withdrawalsRoot'', JString (replicate 32 CHR ''0'')),
             (''hash'', JString (replicate 200 CHR ''0''))])"

definition sample_service_rpc :: chain_rpc where
  "sample_service_rpc = sample_rpc\<lparr>rpc_request := (\<lambda>u m p. Ok (sample_chain_json p))\<rparr>"

definition sample_service_host :: "(digest, digest) sketch_host" where
  "sample_service_host =
     \<lparr>sketch_build = (\<lambda>tag g u. Ok (case tag of Number n \<Rightarrow> if n = 4 then 100 else 200)),
      sketch_call_raw = (\<lambda>sk ci. Ok (sk, [])), sketch_finalize = Ok\<rparr>"

definition sample_proof :: "nat sp1_proof_with_pv" where
  "sample_proof = \<lparr>sp_proof = Compressed 7, sp_public_values = []\<rparr>"

definition sample_service_sdk ::
  "((digest \<times> address, digest, nat, nat) sp1_stdin, nat sp1_proof_with_pv, nat, nat) sp1_sdk" where
  "sample_service_sdk =
     \<lparr>sdk_network_client = (\<lambda>u. Ok
        \<lparr>network_setup = (\<lambda>program. Ok (length program, length program)),
         network_run = (\<lambda>pk stdin mode t strategy. Ok sample_proof),
         network_verify = (\<lambda>proof vk. if proof = sample_proof then Ok () else Err Sp1InvalidPublicValues)\<rparr>),
      sdk_cpu_new = Err ''no cpu'', sdk_cpu_mock = Err ''no mock''\<rparr>"

definition sample_buffer ::
  "('stdin, 'proof, 'vk) executor \<Rightarrow> nat \<Rightarrow> ('stdin request, 'proof response, box_error) service" where
  "sample_buffer ex bound =
     \<lparr>sv_poll_ready = (\<lambda>n. Ready (Ok ())),
      sv_call = (\<lambda>req. case executor_call 1 ex req of
          None \<Rightarrow> Err (BoxOther ''pending'') | Some r \<Rightarrow> map_err BoxExecutor r)\<rparr>"

definition sample_service_env :: "(digest \<times> address, digest, nat, nat, nat, digest) service_env" where
  "sample_service_env =
     \<lparr>ve_environment = sample_env, ve_rpc = sample_service_rpc, ve_files = sample_fs,
      ve_sketch_host = sample_service_host, ve_get_block_number = (\<lambda>p h. Ok 12),
      ve_connect = (\<lambda>u d. Ok sample_proofs_client), ve_network_prover = (\<lambda>u k. Ok sample_sdk_prover),
      ve_mock_prover = (\<lambda>c. \<lparr>mg_proposer_rpc = c, mg_setup = (\<lambda>p. Err ''mock''),
        mg_verify = (\<lambda>p v. Err ''mock''), mg_deserialize = (\<lambda>b. Err ''mock'')\<rparr>),
      ve_erigon_elf = [1, 2], ve_abi_decode = (\<lambda>bs. Ok sample_apv),
      ve_debug_assertions = True, ve_debug_string = (\<lambda>x. x),
      ve_pool_up = True, ve_layers = sample_layers, ve_sdk = sample_service_sdk, ve_buffer = sample_buffer,
      ve_builder_env = sample_builder_env, ve_prims = sample_prims\<rparr>"

definition sample_builder_config :: aggchain_proof_builder_config where
  "sample_builder_config =
     \<lparr>bc_network_id = 3, bc_primary_prover = NetworkProver sample_network_config, bc_fallback_prover = None,
      bc_proving_timeout = 1, bc_contracts = sample_contracts_config\<rparr>"

definition sample_service_config :: aggchain_proof_service_config where
  "sample_service_config =
     \<lparr>sc_aggchain_proof_builder = sample_builder_config, sc_proposer_service = sample_proposer_config\<rparr>"

definition sample_rpc_client :: aggchain_contracts_rpc_client where
  "sample_rpc_client =
     (case contracts_client_new sample_service_rpc sample_fs 3 sample_contracts_config of Ok cl \<Rightarrow> cl)"

lemmas sample_client_defs =
  contracts_client_new_def sample_service_rpc_def sample_rpc_def sample_contracts_config_def
  build_alloy_fill_provider_def sample_genesis

lemma sample_rpc_client_new:
  "contracts_client_new sample_service_rpc sample_fs 3 sample_contracts_config = Ok sample_rpc_client"
  by (simp add: sample_rpc_client_def sample_client_defs)

definition sample_erigon :: "digest erigon_contracts_client" where
  "sample_erigon =
     (case erigon_new sample_service_rpc sample_fs
        (rpc_contracts_client sample_env sample_service_rpc sample_service_host sample_rpc_client)
        ''http://l2'' sample_contracts_config of Ok er \<Rightarrow> er)"

lemma sample_erigon_new:
  "erigon_new sample_service_rpc sample_fs
     (rpc_contracts_client sample_env sample_service_rpc sample_service_host sample_rpc_client)
     ''http://l2'' sample_contracts_config = Ok sample_erigon"
  by (simp add: sample_erigon_def erigon_new_def sample_client_defs)

lemma block_param_4: "block_param n = ''0x4'' \<longleftrightarrow> n = 4"
proof -
  have "to_hex 4 = ''4''" by (simp add: to_hex.simps hex_digit_def char_evaluation)
  then have "block_param n = ''0x4'' \<longleftrightarrow> to_hex (unat n) = to_hex 4" by (simp add: block_param_def)
  also have "\<dots> \<longleftrightarrow> n = 4" by (auto simp: word_unat_eq_iff dest: to_hex_inject)
  finally show ?thesis .
qed

text \<open>The decorated client behaves as the client of the builder's example.\<close>

lemma sample_erigon_contracts:
  "erigon_contracts sample_env sample_service_rpc sample_service_host sample_erigon = sample_contracts_client"
proof -
  have inner: "er_inner sample_erigon =
      rpc_contracts_client sample_env sample_service_rpc sample_service_host sample_rpc_client"
    by (simp add: sample_erigon_def erigon_new_def sample_client_defs)
  have out: "erigon_get_l2_output_at_block sample_service_rpc sample_erigon n =
      ac_get_l2_output_at_block sample_contracts_client n" for n
    by (simp add: erigon_get_l2_output_at_block_def sample_service_rpc_def sample_rpc_def sample_chain_json_def
        block_param_4 parse_hash_def sample_contracts_client_def)
  have sketches: "erigon_get_prev_l2_block_sketch sample_env sample_service_host sample_erigon t =
      ac_get_prev_l2_block_sketch sample_contracts_client t"
    "erigon_get_new_l2_block_sketch sample_env sample_service_host sample_erigon t =
      ac_get_new_l2_block_sketch sample_contracts_client t" for t
    by (simp_all add: erigon_get_prev_l2_block_sketch_def erigon_get_new_l2_block_sketch_def sketch_guarded_eq_Ok
        prev_l2_block_sketch_eq_Ok new_l2_block_sketch_eq_Ok erigon_sketch_build_def parse_literal_def
        sample_env_def sample_service_host_def prev_block_calls_def new_block_calls_def sample_contracts_client_def)
  show ?thesis
    using out sketches
    by (simp add: erigon_contracts_def inner rpc_contracts_client_def sample_contracts_client_def fun_eq_iff
        get_l2_local_exit_root_def get_op_succinct_config_def get_trusted_sequencer_address_def
        sample_service_rpc_def sample_rpc_def sample_rpc_client_def sample_client_defs)
qed

definition sample_builder :: "(digest \<times> address, digest, nat, nat) aggchain_proof_builder" where
  "sample_builder =
     (case aggchain_proof_builder_new True sample_layers sample_service_sdk sample_buffer sample_builder_env
        sample_builder_config sample_contracts_client of Ok b \<Rightarrow> b)"

lemmas sample_builder_defs =
  aggchain_proof_builder_new_def sample_builder_config_def sample_builder_env_def executor_defs
  sample_service_sdk_def sample_layers_def sample_network_config_def sample_contracts_client_def
  sample_contracts_config_def validate_op_succinct_config_keys_def

lemma sample_builder_new:
  "aggchain_proof_builder_new True sample_layers sample_service_sdk sample_buffer sample_builder_env
     sample_builder_config sample_contracts_client = Ok sample_builder"
  by (simp add: sample_builder_def sample_builder_defs Let_def)

lemma sample_builder_fields:
  "ab_contracts_client sample_builder = sample_contracts_client" "ab_network_id sample_builder = 3"
  "ab_aggregation_vkey sample_builder = 2" "ab_static_call_caller_address sample_builder = 0"
  "ab_range_vkey_commitment sample_builder = 66"
  "sv_poll_ready (ab_prover sample_builder) 0 = Ready (Ok ())"
  "sv_call (ab_prover sample_builder) \<lparr>rq_stdin = stdin, rq_proof_type = StarkProof\<rparr> =
     Ok \<lparr>rs_proof = sample_proof\<rparr>"
  by (simp_all add: sample_builder_def sample_builder_defs Let_def sample_buffer_def)

lemma sample_builder_answers:
  assumes "\<exists>pi. retrieve_chain_data sample_builder_env sample_prims sample_contracts_client req 3 2 0 66 = Ok pi"
  shows "\<exists>resp. builder_call 1 sample_builder_env sample_prims sample_builder req = Some (Ok resp)"
proof -
  obtain pi where "retrieve_chain_data sample_builder_env sample_prims sample_contracts_client req 3 2 0 66 = Ok pi"
    using assms by blast
  moreover obtain pv where "be_decode_public_values sample_builder_env [] = Ok pv"
    using sample_aggchain_committed [of "\<lambda>_. []"] by (auto simp: sample_builder_env_def)
  moreover have "be_serialize_vkey sample_builder_env k = Ok [7]" "be_serialize_proof sample_builder_env c = Ok [8]"
    for k c by (simp_all add: sample_builder_env_def)
  ultimately show ?thesis
    by (simp add: builder_call_def builder_body_def sample_builder_fields builder_finish_def sample_proof_def
        sp1_async_def)
qed

lemmas sample_builder_call = sample_builder_answers [OF sample_retrieve]

definition sample_service :: "(digest \<times> address, nat) aggchain_proof_service" where
  "sample_service =
     \<lparr>sv_proposer_service = proposer_boxed (\<lambda>bs. Ok sample_apv) sample_proposer_service,
      sv_aggchain_proof_builder = builder_boxed 1 sample_builder_env sample_prims sample_builder\<rparr>"

lemma sample_service_new: "service_new 1 sample_service_env sample_service_config = Ok sample_service"
proof -
  have conf: "\<not> psc_mock sample_proposer_config"
    "cc_l2_execution_layer_rpc_endpoint sample_contracts_config = ''http://l2''"
    "alloy_provider_new (rpc_reqwest_build sample_service_rpc) u b m = Ok
      \<lparr>apr_url = u, apr_max_retries = m, apr_backoff = b, apr_compute_units = 5,
       apr_pool_max_idle = HTTP_CLIENT_MAX_IDLE_CONNECTIONS_PER_HOST,
       apr_pool_idle_timeout = from_secs HTTP_CLIENT_CONNECTION_POOL_IDLE_TIMEOUT\<rparr>" for u b m
    by (simp_all add: sample_proposer_config_def sample_contracts_config_def alloy_provider_new_def
        sample_service_rpc_def sample_rpc_def)
  have parts: "bc_contracts sample_builder_config = sample_contracts_config" "bc_network_id sample_builder_config = 3"
    by (simp_all add: sample_builder_config_def)
  show ?thesis
    by (simp add: service_new_def sample_service_env_def sample_service_config_def Let_def conf parts
        service_proposer_def sample_proposer_new sample_rpc_client_new sample_erigon_new
        sample_erigon_contracts sample_builder_new sample_service_def)
qed

lemma sample_normal_call:
  "\<exists>resp. service_call sample_prims 7 sample_service (NormalRequest sample_inputs) = Some (Ok resp)"
proof -
  have req: "\<lparr>fq_last_proven_block = ai_last_proven_block sample_inputs,
      fq_requested_end_block = ai_requested_end_block sample_inputs,
      fq_l1_block_hash = block_hash (inner (ai_l1_info_tree_leaf sample_inputs))\<rparr> = sample_fep_request"
    by (simp add: sample_inputs_def sample_leaf_def sample_fep_request_def)
  have "\<lparr>br_fep_verification = ProofVerification (pr_aggregation_proof sample_proposer_response)
       (pr_public_values sample_proposer_response),
      br_end_block = pr_end_block sample_proposer_response, br_aggchain_proof_inputs = sample_inputs\<rparr> =
      sample_builder_request"
    by (simp add: sample_proposer_response_def sample_builder_request_def)
  then show ?thesis
    using sample_builder_call
    by (auto simp: handle_normal_request_def Let_def sample_service_def proposer_boxed_def builder_boxed_def
        req sample_proposer_call)
qed

definition sample_optimistic_request :: "(digest \<times> address) optimistic_aggchain_proof_inputs" where
  "sample_optimistic_request =
     \<lparr>oi_aggchain_proof_inputs = sample_inputs, oi_signature_optimistic_mode = (0, 5)\<rparr>"

lemma sample_optimistic_call:
  "\<exists>resp. service_call sample_prims 7 sample_service (OptimisticRequest sample_optimistic_request) = Some (Ok resp)"
proof -
  let ?req = "\<lparr>br_fep_verification = OptimisticVerification (0, 5), br_end_block = 9,
      br_aggchain_proof_inputs = sample_inputs\<rparr>"
  have "(arith_add True (4 :: u64) 1 :: (u64, builder_error) result) = Ok 5"
    by (simp add: arith_add_def checked_add_def)
  then have "\<exists>pi. retrieve_chain_data sample_builder_env sample_prims sample_contracts_client ?req 3 2 0 66 = Ok pi"
    unfolding retrieve_chain_data_def Let_def
    by (simp add: sample_contracts_client_def validate_op_succinct_config_keys_def
        log_aggchain_params_def sample_builder_env_def sample_inputs_def)
  then have "\<exists>resp. builder_call 1 sample_builder_env sample_prims sample_builder ?req = Some (Ok resp)"
    using sample_builder_answers by blast
  moreover have "ai_requested_end_block sample_inputs = 9" by (simp add: sample_inputs_def)
  ultimately show ?thesis
    by (auto simp: handle_optimistic_request_def Let_def sample_service_def builder_boxed_def
        sample_optimistic_request_def)
qed

text \<open>The selector and the custom chain data, byte by byte.\<close>

lemma aggchain_vkey_selector_bytes: "AGGCHAIN_VKEY_SELECTOR version = nat_be_bytes 2 (unat version) @ [0, 1]"
proof -
  have "nat_be_bytes 2 (Suc 0) = [0, 1 :: byte]"
    by (simp only: numeral_2_eq_2 nat_be_bytes.simps) simp
  then show ?thesis
    by (simp add: AGGCHAIN_VKEY_SELECTOR_def vkey_selector_bytes AGGCHAIN_TYPE_def)
qed

lemma custom_chain_data_bytes:
  assumes "abi_conforms P"
  shows "compute_custom_chain_data P version root block =
     AGGCHAIN_VKEY_SELECTOR version @ replicate 28 0 @
     nat_be_bytes 32 (unat (claim_root_bytes root)) @ nat_be_bytes 32 (unat block)"
proof -
  note sel = aggchain_vkey_selector_bytes [of version]
  have "unat (word_of_nat (of_be_bytes (AGGCHAIN_VKEY_SELECTOR version)) :: u32) =
      of_be_bytes (AGGCHAIN_VKEY_SELECTOR version)"
    using of_be_bytes_bound [of "AGGCHAIN_VKEY_SELECTOR version"] by (simp add: unat_of_nat sel)
  then have sel4: "nat_be_bytes 4 (unat (word_of_nat (of_be_bytes (AGGCHAIN_VKEY_SELECTOR version)) :: u32)) =
      AGGCHAIN_VKEY_SELECTOR version"
    using nat_be_bytes_of_be_bytes [of "AGGCHAIN_VKEY_SELECTOR version"] by (simp add: sel)
  have num: "unat (ucast block :: digest) = unat block" by (simp add: unat_ucast_up)
  show ?thesis
    unfolding compute_custom_chain_data_def custom_chain_data_fields_def
    by (simp add: abi_conforms_encode [OF assms] sel4 num)
qed

text \<open>Zeros, and 32 bytes that are read as a digest.\<close>

lemma zero_be_bytes: "nat_be_bytes n 0 = replicate n 0"
  by (induction n) (simp_all add: replicate_append_same)

lemma be_bytes_word:
  assumes "length bs = 32"
  shows "nat_be_bytes 32 (unat (word_of_nat (of_be_bytes bs) :: digest)) = bs"
proof -
  have "unat (word_of_nat (of_be_bytes bs) :: digest) = of_be_bytes bs"
    using of_be_bytes_bound [of bs] unfolding assms by (simp add: unat_of_nat)
  with nat_be_bytes_of_be_bytes [of bs] assms show ?thesis by simp
qed

section \<open>Properties\<close>



text \<open>C8: a normal request is answered only on the strength of a verified aggregation proof that agrees
  with the chain. For a service built by \<open>new\<close> with a network proposer, an \<open>Ok\<close> answer comes from an
  aggregation proof that the network prover accepted under its key of the aggregation program; the end
  block is the one the proposer reported; the public values of that proof are exactly the values the
  builder derived from the chain at the last proven and the end block; and the custom chain data holds
  the new state root of the witness and the end block.\<close>

theorem service_normal_verified:
  assumes "service_new fuel V config = Ok svc" and "\<not> psc_mock (sc_proposer_service config)"
    and "service_call P version svc (NormalRequest inputs) = Some (Ok resp)"
  shows "\<exists>prover pk vk pwpv agg pvs cl er avk pi.
     new_network_prover (ve_environment V) (ve_network_prover V)
       (pcc_sp1_cluster_endpoint (psc_client (sc_proposer_service config))) = Ok prover \<and>
     snp_setup prover (ve_erigon_elf V) = Ok (pk, vk) \<and> snp_verify prover pwpv vk = Ok () \<and>
     sp_proof pwpv = Compressed agg \<and> ve_abi_decode V (sp_public_values pwpv) = Ok pvs \<and>
     service_clients V (sc_aggchain_proof_builder config) cl er \<and>
     retrieve_chain_data (ve_builder_env V) (ve_prims V) (service_contracts V er)
       \<lparr>br_fep_verification = ProofVerification agg pvs, br_end_block = ss_end_block resp,
        br_aggchain_proof_inputs = inputs\<rparr> (bc_network_id (sc_aggchain_proof_builder config)) avk
       (cc_static_call_caller_address (bc_contracts (sc_aggchain_proof_builder config)))
       (be_range_vkey_commitment (ve_builder_env V)) = Ok pi \<and>
     pvs = aggregation_proof_public_values_of (aw_fep (in_witness (pi_stdin pi))) \<and>
     ss_last_proven_block resp = ai_last_proven_block inputs \<and>
     ss_custom_chain_data resp = compute_custom_chain_data P version
       (ClaimRoot (fep_new_state_root (aw_fep (in_witness (pi_stdin pi))))) (ss_end_block resp)"
proof -
  obtain l1 ps ab cl er where ps: "service_proposer V (sc_proposer_service config) l1 = Ok ps"
    and boxes: "sv_proposer_service svc = proposer_boxed (ve_abi_decode V) ps"
      "sv_aggchain_proof_builder svc = builder_boxed fuel (ve_builder_env V) (ve_prims V) ab"
    and clients: "service_clients V (sc_aggchain_proof_builder config) cl er"
    and ab: "aggchain_proof_builder_new (ve_pool_up V) (ve_layers V) (ve_sdk V) (ve_buffer V)
       (ve_builder_env V) (sc_aggchain_proof_builder config) (service_contracts V er) = Ok ab"
    using service_new_Ok [OF assms(1)] by metis
  have "handle_normal_request P version svc inputs = Some (Ok resp)" using assms(3) by simp
  from normal_request_Ok [OF this] obtain presp bresp where
    pcall: "bx_call (sv_proposer_service svc)
       \<lparr>fq_last_proven_block = ai_last_proven_block inputs,
        fq_requested_end_block = ai_requested_end_block inputs,
        fq_l1_block_hash = block_hash (inner (ai_l1_info_tree_leaf inputs))\<rparr> = Some (Ok presp)"
    and build: "bx_call (builder_boxed fuel (ve_builder_env V) (ve_prims V) ab)
       \<lparr>br_fep_verification = ProofVerification (pr_aggregation_proof presp) (pr_public_values presp),
        br_end_block = pr_end_block presp, br_aggchain_proof_inputs = inputs\<rparr> = Some (Ok bresp)"
    and resp: "resp = service_response_of P version (ai_last_proven_block inputs) (pr_end_block presp) bresp"
    unfolding boxes(2) by metis
  have new: "proposer_service_new_network (ve_environment V) (ve_connect V) (ve_network_prover V)
      (ve_erigon_elf V) (sc_proposer_service config) (ve_get_block_number V l1) = Ok ps"
    using ps assms(2) by (simp add: service_proposer_def map_err_eq_Ok)
  have call: "proposer_service_call (ve_abi_decode V) ps
       \<lparr>fq_last_proven_block = ai_last_proven_block inputs,
        fq_requested_end_block = ai_requested_end_block inputs,
        fq_l1_block_hash = block_hash (inner (ai_l1_info_tree_leaf inputs))\<rparr> = Ok presp"
    using pcall by (simp add: boxes(1) proposer_boxed_def)
  from boxed_builder_Ok [OF ab build] obtain avk pi where
    pi: "retrieve_chain_data (ve_builder_env V) (ve_prims V) (service_contracts V er)
       \<lparr>br_fep_verification = ProofVerification (pr_aggregation_proof presp) (pr_public_values presp),
        br_end_block = pr_end_block presp, br_aggchain_proof_inputs = inputs\<rparr>
       (bc_network_id (sc_aggchain_proof_builder config)) avk
       (cc_static_call_caller_address (bc_contracts (sc_aggchain_proof_builder config)))
       (be_range_vkey_commitment (ve_builder_env V)) = Ok pi"
    and root: "bs_output_root bresp = ClaimRoot (fep_new_state_root (aw_fep (in_witness (pi_stdin pi))))"
    by metis
  have "pr_public_values presp = aggregation_proof_public_values_of (aw_fep (in_witness (pi_stdin pi)))"
    using retrieve_chain_data_Ok(19) [OF pi] by simp
  moreover have "ss_end_block resp = pr_end_block presp \<and> ss_last_proven_block resp = ai_last_proven_block inputs \<and>
      ss_custom_chain_data resp = compute_custom_chain_data P version
       (ClaimRoot (fep_new_state_root (aw_fep (in_witness (pi_stdin pi))))) (pr_end_block presp)"
    using resp root by (simp add: service_response_of_def)
  ultimately show ?thesis using new_network_verified [OF new call] clients pi by metis
qed

theorem service_normal_verified_witness:
  "\<exists>prover pk vk pwpv.
     new_network_prover sample_env (\<lambda>u k. Ok sample_sdk_prover) ''http://c'' = Ok prover \<and>
     snp_setup prover [1, 2] = Ok (pk, vk) \<and> snp_verify prover pwpv vk = Ok ()"
proof -
  obtain resp where resp: "service_call sample_prims 7 sample_service (NormalRequest sample_inputs) = Some (Ok resp)"
    using sample_normal_call by blast
  have "\<not> psc_mock (sc_proposer_service sample_service_config)"
    by (simp add: sample_service_config_def sample_proposer_config_def)
  from service_normal_verified [OF sample_service_new this resp] show ?thesis
    by (auto simp: sample_service_env_def sample_service_config_def sample_proposer_config_def)
qed

text \<open>C13: an optimistic request rests on the signature of the trusted sequencer alone. The answer does not
  depend on the proposer; an \<open>Ok\<close> answer is for the end block of the request, no proof is attached to the
  input of the program, and the program accepts the execution part of the witness exactly when the
  signature of the request recovers to the trusted sequencer that the contracts client read from L1 at
  its creation, over the hash of the derived public values, the exit root and the commitment.\<close>

theorem service_optimistic_signature:
  assumes "service_new fuel V config = Ok svc"
    and "service_call P version svc (OptimisticRequest req) = Some (Ok resp)"
  shows "service_call P version (svc\<lparr>sv_proposer_service := ps\<rparr>) (OptimisticRequest req) = Some (Ok resp) \<and>
     (\<exists>cl er avk pi.
       service_clients V (sc_aggchain_proof_builder config) cl er \<and>
       retrieve_chain_data (ve_builder_env V) (ve_prims V) (service_contracts V er)
         \<lparr>br_fep_verification = OptimisticVerification (oi_signature_optimistic_mode req),
          br_end_block = ai_requested_end_block (oi_aggchain_proof_inputs req),
          br_aggchain_proof_inputs = oi_aggchain_proof_inputs req\<rparr>
         (bc_network_id (sc_aggchain_proof_builder config)) avk
         (cc_static_call_caller_address (bc_contracts (sc_aggchain_proof_builder config)))
         (be_range_vkey_commitment (ve_builder_env V)) = Ok pi \<and>
       ss_end_block resp = ai_requested_end_block (oi_aggchain_proof_inputs req) \<and>
       in_proof (pi_stdin pi) = None \<and>
       (fep_verify G (ve_prims V) (aw_fep (in_witness (pi_stdin pi))) root ler ibe = Ok () \<longleftrightarrow>
          recover_address_from_prehash (ve_prims V) (oi_signature_optimistic_mode req)
            (keccak256_combine (ve_prims V)
              [sha256_public_values (ve_prims V) (aw_fep (in_witness (pi_stdin pi))), ler, ibe]) =
          Some (cl_trusted_sequencer_addr cl)))"
proof
  show "service_call P version (svc\<lparr>sv_proposer_service := ps\<rparr>) (OptimisticRequest req) = Some (Ok resp)"
    using assms(2) by (simp add: handle_optimistic_request_def)
next
  obtain ab cl er where box: "sv_aggchain_proof_builder svc = builder_boxed fuel (ve_builder_env V) (ve_prims V) ab"
    and clients: "service_clients V (sc_aggchain_proof_builder config) cl er"
    and ab: "aggchain_proof_builder_new (ve_pool_up V) (ve_layers V) (ve_sdk V) (ve_buffer V)
       (ve_builder_env V) (sc_aggchain_proof_builder config) (service_contracts V er) = Ok ab"
    using service_new_Ok [OF assms(1)] by metis
  let ?req = "\<lparr>br_fep_verification = OptimisticVerification (oi_signature_optimistic_mode req),
          br_end_block = ai_requested_end_block (oi_aggchain_proof_inputs req),
          br_aggchain_proof_inputs = oi_aggchain_proof_inputs req\<rparr>"
  have "handle_optimistic_request P version svc req = Some (Ok resp)" using assms(2) by simp
  from optimistic_request_Ok [OF this] obtain bresp where
    build: "bx_call (builder_boxed fuel (ve_builder_env V) (ve_prims V) ab) ?req = Some (Ok bresp)"
    and resp: "resp = service_response_of P version (ai_last_proven_block (oi_aggchain_proof_inputs req))
       (ai_requested_end_block (oi_aggchain_proof_inputs req)) bresp"
    unfolding box by metis
  from boxed_builder_Ok [OF ab build] obtain avk pi where
    pi: "retrieve_chain_data (ve_builder_env V) (ve_prims V) (service_contracts V er) ?req
       (bc_network_id (sc_aggchain_proof_builder config)) avk
       (cc_static_call_caller_address (bc_contracts (sc_aggchain_proof_builder config)))
       (be_range_vkey_commitment (ve_builder_env V)) = Ok pi" by metis
  let ?fep = "aw_fep (in_witness (pi_stdin pi))"
  have mode: "fep_signature_optimistic_mode ?fep = Some (oi_signature_optimistic_mode req)"
    "in_proof (pi_stdin pi) = None"
    using retrieve_chain_data_Ok(20) [OF pi, of "oi_signature_optimistic_mode req"] by simp_all
  have "fep_trusted_sequencer ?fep = cl_trusted_sequencer_addr cl"
    using retrieve_chain_data_contracts(1) [OF pi] service_sequencer [OF clients] by simp
  then have "fep_verify G (ve_prims V) ?fep root ler ibe = Ok () \<longleftrightarrow>
      recover_address_from_prehash (ve_prims V) (oi_signature_optimistic_mode req)
        (keccak256_combine (ve_prims V) [sha256_public_values (ve_prims V) ?fep, ler, ibe]) =
      Some (cl_trusted_sequencer_addr cl)"
    by (simp add: fep_verify_eq_Ok fep_accepted_def mode(1))
  moreover have "ss_end_block resp = ai_requested_end_block (oi_aggchain_proof_inputs req)"
    using resp by (simp add: service_response_of_def)
  ultimately show "\<exists>cl er avk pi.
       service_clients V (sc_aggchain_proof_builder config) cl er \<and>
       retrieve_chain_data (ve_builder_env V) (ve_prims V) (service_contracts V er) ?req
         (bc_network_id (sc_aggchain_proof_builder config)) avk
         (cc_static_call_caller_address (bc_contracts (sc_aggchain_proof_builder config)))
         (be_range_vkey_commitment (ve_builder_env V)) = Ok pi \<and>
       ss_end_block resp = ai_requested_end_block (oi_aggchain_proof_inputs req) \<and>
       in_proof (pi_stdin pi) = None \<and>
       (fep_verify G (ve_prims V) (aw_fep (in_witness (pi_stdin pi))) root ler ibe = Ok () \<longleftrightarrow>
          recover_address_from_prehash (ve_prims V) (oi_signature_optimistic_mode req)
            (keccak256_combine (ve_prims V)
              [sha256_public_values (ve_prims V) (aw_fep (in_witness (pi_stdin pi))), ler, ibe]) =
          Some (cl_trusted_sequencer_addr cl))"
    using clients pi mode(2) by metis
qed


theorem service_optimistic_signature_witness:
  "\<exists>cl er. service_clients sample_service_env sample_builder_config cl er"
proof -
  obtain resp where resp: "service_call sample_prims 7 sample_service
      (OptimisticRequest sample_optimistic_request) = Some (Ok resp)"
    using sample_optimistic_call by blast
  have "\<exists>cl er. service_clients sample_service_env (sc_aggchain_proof_builder sample_service_config) cl er"
    using service_optimistic_signature [OF sample_service_new resp, where G = sample_guest and root = 0
        and ler = 0 and ibe = 0, THEN conjunct2]
    by (elim exE conjE) (intro exI)
  then show ?thesis by (simp add: sample_service_config_def)
qed

end
