(* ===== verification/Grpc_Status.thy ===== *)
theory Grpc_Status
  imports Proof_Service
begin

text \<open>
  What the gRPC handlers of the two provers share: the status of \<open>tonic\<close> that a failed request returns, and
  the handling of calls that may still wait.

  A status keeps its code, its message and its details: none, the field violations of a bad request
  (\<open>ErrorDetails::add_bad_request_violation\<close>), or bytes. Only the codes that the handlers and the generated
  clients use are there.
\<close>

section \<open>Status\<close>

datatype grpc_code = Internal | InvalidArgument | Unknown

datatype grpc_details = NoDetails | BadRequest "(string \<times> string) list" | Details "byte list"

record status =
  st_code :: grpc_code
  st_message :: string
  st_details :: grpc_details

definition status_internal :: "string \<Rightarrow> status" where
  "status_internal message = \<lparr>st_code = Internal, st_message = message, st_details = NoDetails\<rparr>"

definition status_invalid_argument :: "string \<Rightarrow> status" where
  "status_invalid_argument message =
     \<lparr>st_code = InvalidArgument, st_message = message, st_details = NoDetails\<rparr>"

definition status_unknown :: "string \<Rightarrow> status" where
  "status_unknown message = \<lparr>st_code = Unknown, st_message = message, st_details = NoDetails\<rparr>"

text \<open>\<open>Status::with_error_details(Code::InvalidArgument, ..)\<close> with one field violation.\<close>

definition bad_request :: "string \<Rightarrow> string \<Rightarrow> string \<Rightarrow> status" where
  "bad_request message field description =
     \<lparr>st_code = InvalidArgument, st_message = message, st_details = BadRequest [(field, description)]\<rparr>"

text \<open>The bytes of a byte string literal.\<close>

definition string_bytes :: "string \<Rightarrow> byte list" where
  "string_bytes s = map of_char s"

section \<open>Calls\<close>

text \<open>\<open>Result::unwrap_or_else\<close> with a constant.\<close>

fun unwrap_or :: "'a \<Rightarrow> ('a, 'e) result \<Rightarrow> ('a, 'f) result" where
  "unwrap_or d (Ok x) = Ok x"
| "unwrap_or d (Err _) = Ok d"
| "unwrap_or d (Panic p) = Panic p"

lemma unwrap_or_eq [result_simps]:
  "unwrap_or d r = Ok x \<longleftrightarrow> r = Ok x \<or> (\<exists>e. r = Err e) \<and> x = d"
  "unwrap_or d r \<noteq> Err e"
  "unwrap_or d r = Panic p \<longleftrightarrow> r = Panic p"
  by (cases r; auto)+

lemma await_then_eq_Err:
  "await_then r f = Some (Err e) \<longleftrightarrow> r = Some (Err e) \<or> (\<exists>x. r = Some (Ok x) \<and> f x = Some (Err e))"
  by (cases "(r, f)" rule: await_then.cases) auto

lemma await_then_eq_Panic:
  "await_then r f = Some (Panic p) \<longleftrightarrow> r = Some (Panic p) \<or> (\<exists>x. r = Some (Ok x) \<and> f x = Some (Panic p))"
  by (cases "(r, f)" rule: await_then.cases) auto

lemma map_option_map_err_Panic: "map_option (map_err g) r = Some (Panic p) \<longleftrightarrow> r = Some (Panic p)"
  by (cases r) (auto simp: map_err_eq_Panic)

text \<open>What the handlers rely on of the limits and buffers of tower around a service: a successful answer is
  the answer of the inner service.\<close>

definition call_forwards ::
  "(('req, 'res, 'e) boxed_service \<Rightarrow> ('req, 'res, 'f) boxed_service) \<Rightarrow> bool" where
  "call_forwards f \<longleftrightarrow>
     (\<forall>s req res. bx_call (f s) req = Some (Ok res) \<longrightarrow> bx_call s req = Some (Ok res))"

lemma call_forwardsD: "call_forwards f \<Longrightarrow> bx_call (f s) req = Some (Ok res) \<Longrightarrow> bx_call s req = Some (Ok res)"
  unfolding call_forwards_def by blast

end
