(* ===== verification/Aggkit_Rpc.thy ===== *)
theory Aggkit_Rpc
  imports Request_Conversion Grpc_Status
begin

text \<open>
  \<open>crates/aggkit-prover/src/rpc.rs\<close>: the gRPC service of the aggkit prover. A request is checked and
  converted, handed to the buffered aggchain proof service, and the answer is put together with the
  context of the inputs.

  The \<open>Buffer\<close> of tower is an argument of \<open>grpc_service_new\<close>: it makes a service of its bound and the
  inner service. The conversion of a digest into its message, the bincode serialisation of the public
  values and the circuit version of the SDK are the record \<open>rpc_codec\<close>. A handler returns \<open>None\<close> while it
  still waits.
\<close>

section \<open>Messages\<close>

record sp1_stark_proof =
  sk_version :: string
  sk_proof :: "byte list"
  sk_vkey :: "byte list"

record aggchain_proof_message =
  ag_aggchain_params :: "byte list option"
  ag_signature :: "byte list option"
  ag_context :: proof_context
  ag_proof :: "sp1_stark_proof option"

record generate_aggchain_proof_response =
  gar_aggchain_proof :: "aggchain_proof_message option"
  gar_last_proven_block :: u64
  gar_end_block :: u64
  gar_local_exit_root_hash :: "byte list option"
  gar_custom_chain_data :: "byte list"

record generate_optimistic_aggchain_proof_response =
  gor_aggchain_proof :: "aggchain_proof_message option"
  gor_local_exit_root_hash :: "byte list option"
  gor_custom_chain_data :: "byte list"

record rpc_codec =
  rc_digest_into :: "digest \<Rightarrow> byte list"
  rc_serialize_public_values :: "aggchain_proof_public_values \<Rightarrow> (byte list, report) result"
  rc_circuit_version :: string

section \<open>The service\<close>

fun service_error_display :: "service_error \<Rightarrow> string" where
  "service_error_display (AlloyProviderInitializationFailed _) = ''Unable to create alloy provider''"
| "service_error_display (ProposerServiceInitFailed _) = ''Unable to setup proposer service''"
| "service_error_display (ProposerServiceError _) = ''Proposer service returned an error during operation''"
| "service_error_display (ProposerServiceRequestFailed _) = ''Proposer service request failed''"
| "service_error_display (AggchainProofBuilderInitFailed _) = ''Unable to setup aggchain proof builder''"
| "service_error_display (AggchainProofBuilderPollReadyFailed _) =
     ''Unable to poll for aggchain proof builder readiness''"
| "service_error_display (AggchainProofBuilderRequestFailed _) = ''Aggchain proof builder service request failed''"
| "service_error_display (ContractsClientInitFailed _) = ''Unable to setup aggchain contracts client''"
| "service_error_display (AggchainProofVkeyResolveFailed _) = ''Unable to resolve aggchain proof vkey''"

text \<open>The error of a buffered service: the boxed error of the service, or one of the buffer.\<close>

datatype buffered_error = ServiceFailed service_error | BufferFailed string

fun buffered_error_display :: "buffered_error \<Rightarrow> string" where
  "buffered_error_display (ServiceFailed e) = service_error_display e"
| "buffered_error_display (BufferFailed s) = s"

definition GRPC_MAX_CONCURRENT_REQUESTS :: nat where
  "GRPC_MAX_CONCURRENT_REQUESTS = 100"

type_synonym 'sig buffered_service = "('sig service_request, service_response, buffered_error) boxed_service"

record 'sig grpc_service =
  gs_service :: "'sig buffered_service"

text \<open>The aggchain proof service as the service that the buffer drives.\<close>

definition service_boxed ::
  "'sig prims \<Rightarrow> u16 \<Rightarrow> ('sig, 'c) aggchain_proof_service \<Rightarrow>
   ('sig service_request, service_response, service_error) boxed_service" where
  "service_boxed P program_version svc =
     \<lparr>bx_poll_ready = service_poll_ready svc, bx_call = service_call P program_version svc\<rparr>"

definition grpc_service_new ::
  "nat \<Rightarrow> ('sig, 'sk, 'c, 'pk, 'vk, 'hs) service_env \<Rightarrow> u16 \<Rightarrow>
   (nat \<Rightarrow> ('sig service_request, service_response, service_error) boxed_service \<Rightarrow> 'sig buffered_service) \<Rightarrow>
   aggchain_proof_service_config \<Rightarrow> ('sig grpc_service, service_error) result" where
  "grpc_service_new fuel V program_version buffer config =
     and_then (service_new fuel V config) (\<lambda>svc. Ok
       \<lparr>gs_service = buffer GRPC_MAX_CONCURRENT_REQUESTS (service_boxed (ve_prims V) program_version svc)\<rparr>)"

section \<open>Handlers\<close>

definition invalid_range_description :: string where
  "invalid_range_description = ''requested_end_block must be greater than last_proven_block''"

definition response_context ::
  "byte list \<Rightarrow> service_response \<Rightarrow> proof_context \<Rightarrow> proof_context" where
  "response_context pv_bytes response ctx =
     ctx(''public_values'' \<mapsto> pv_bytes,
         ''local_exit_root_hash'' \<mapsto> to_be_bytes_u256 (ss_local_exit_root_hash response),
         ''end_block'' \<mapsto> to_be_bytes_u64 (ss_end_block response))"

definition aggchain_proof_of ::
  "rpc_codec \<Rightarrow> proof_context \<Rightarrow> service_response \<Rightarrow> aggchain_proof_message" where
  "aggchain_proof_of C ctx response =
     \<lparr>ag_aggchain_params = Some (rc_digest_into C (ss_aggchain_params response)),
      ag_signature = None,
      ag_context = ctx,
      ag_proof = Some
        \<lparr>sk_version = rc_circuit_version C, sk_proof = ss_proof response, sk_vkey = ss_vkey response\<rparr>\<rparr>"

text \<open>\<open>service.ready().await\<close>, then \<open>service.call(..).await\<close>.\<close>

definition buffered_call ::
  "nat \<Rightarrow> 'sig buffered_service \<Rightarrow> 'sig service_request \<Rightarrow> (service_response, status) result option" where
  "buffered_call fuel service proof_request =
     await_then
       (map_option (map_err (\<lambda>_. status_internal ''Unable to use the aggchain proof service''))
         (ready_await fuel (bx_poll_ready service) 0))
       (\<lambda>_. map_option (map_err (\<lambda>error. status_internal (buffered_error_display error)))
         (bx_call service proof_request))"

definition generate_aggchain_proof ::
  "nat \<Rightarrow> ('lm, 'mm, 'sig) interop \<Rightarrow> rpc_codec \<Rightarrow> 'sig grpc_service \<Rightarrow>
   ('lm, 'mm) generate_aggchain_proof_request \<Rightarrow>
   (generate_aggchain_proof_response, status) result option" where
  "generate_aggchain_proof fuel I C self request =
     (if gp_requested_end_block request \<le> gp_last_proven_block request
      then Some (Err (bad_request ''Invalid GenerateAggchainProof request argument(s)''
             ''requested_end_block'' invalid_range_description))
      else
      await_then
        (Some (map_err (\<lambda>error. bad_request ''Invalid GenerateAggchainProof request data''
             (field_path error) (request_error_display error))
          (aggchain_proof_inputs_try_from I request))) (\<lambda>aggchain_proof_inputs.
      let ctx = context_of_inputs aggchain_proof_inputs in
      await_then (buffered_call fuel (gs_service self) (NormalRequest aggchain_proof_inputs)) (\<lambda>response.
      await_then
        (Some (unwrap_or (string_bytes ''bincode serialization failed'')
          (rc_serialize_public_values C (ss_public_values response)))) (\<lambda>pv_bytes.
      Some (Ok
        \<lparr>gar_aggchain_proof = Some (aggchain_proof_of C (response_context pv_bytes response ctx) response),
         gar_last_proven_block = ss_last_proven_block response,
         gar_end_block = ss_end_block response,
         gar_local_exit_root_hash = Some (rc_digest_into C (ss_local_exit_root_hash response)),
         gar_custom_chain_data = ss_custom_chain_data response\<rparr>)))))"

definition generate_optimistic_aggchain_proof ::
  "nat \<Rightarrow> ('lm, 'mm, 'sig) interop \<Rightarrow> rpc_codec \<Rightarrow> 'sig grpc_service \<Rightarrow>
   ('lm, 'mm) generate_optimistic_aggchain_proof_request \<Rightarrow>
   (generate_optimistic_aggchain_proof_response, status) result option" where
  "generate_optimistic_aggchain_proof fuel I C self request =
     await_then
       (Some (map_err (\<lambda>error. bad_request ''Invalid GenerateOptimisticAggchainProof request data''
            (field_path error) (request_error_display error))
         (optimistic_inputs_try_from I request))) (\<lambda>aggchain_proof_inputs.
     if ai_requested_end_block (oi_aggchain_proof_inputs aggchain_proof_inputs)
          \<le> ai_last_proven_block (oi_aggchain_proof_inputs aggchain_proof_inputs)
     then Some (Err (bad_request ''Invalid GenerateOptimisticAggchainProof request argument(s)''
             ''requested_end_block'' invalid_range_description))
     else
     let ctx = optimistic_context aggchain_proof_inputs in
     await_then (buffered_call fuel (gs_service self) (OptimisticRequest aggchain_proof_inputs)) (\<lambda>response.
     await_then
       (Some (and_then
         (unwrap_or (Ok (string_bytes ''bincode serialization failed''))
           (sp1_fast (rc_serialize_public_values C (ss_public_values response))))
         (unwrap_or (string_bytes ''bincode serialization failed'')))) (\<lambda>pv_bytes.
     Some (Ok
       \<lparr>gor_aggchain_proof = Some (aggchain_proof_of C (response_context pv_bytes response ctx) response),
        gor_local_exit_root_hash = Some (rc_digest_into C (ss_local_exit_root_hash response)),
        gor_custom_chain_data = ss_custom_chain_data response\<rparr>))))"

section \<open>Lemmas\<close>

lemma buffered_call_Ok:
  "buffered_call fuel s req = Some (Ok res) \<Longrightarrow> bx_call s req = Some (Ok res)"
  unfolding buffered_call_def await_simps by blast

lemma grpc_service_call:
  assumes "grpc_service_new fuel V ver buffer config = Ok gs" and "\<forall>n. call_forwards (buffer n)"
    and "bx_call (gs_service gs) req = Some (Ok res)"
  obtains svc where "service_new fuel V config = Ok svc"
    and "service_call (ve_prims V) ver svc req = Some (Ok res)"
proof -
  obtain svc where svc: "service_new fuel V config = Ok svc"
    and gs: "gs_service gs = buffer GRPC_MAX_CONCURRENT_REQUESTS (service_boxed (ve_prims V) ver svc)"
    using assms(1) unfolding grpc_service_new_def and_then_eq_Ok by auto
  have "bx_call (service_boxed (ve_prims V) ver svc) req = Some (Ok res)"
    using call_forwardsD assms(2,3) gs by metis
  then show thesis by (intro that [OF svc]) (simp add: service_boxed_def)
qed

lemma inputs_try_from_blocks:
  assumes "aggchain_proof_inputs_try_from I r = Ok x"
  shows "ai_last_proven_block x = gp_last_proven_block r \<and> ai_requested_end_block x = gp_requested_end_block r"
  using assms unfolding aggchain_proof_inputs_try_from_def and_then_eq_Ok result.inject by auto

lemma dom_insert_all: "dom (insert_all es m) = fst ` set es \<union> dom m"
proof (induction es arbitrary: m)
  case (Cons e es)
  have "insert_all (e # es) m = insert_all es (m(fst e \<mapsto> snd e))"
    by (simp add: insert_all_def case_prod_beta)
  then show ?case by (simp only: Cons dom_fun_upd) auto
qed (simp add: insert_all_def)

text \<open>The three entries of the answer are not entries of the inputs.\<close>

lemma response_keys_fresh:
  assumes "k \<in> {''public_values'', ''local_exit_root_hash'', ''end_block''}"
  shows "context_of_inputs x k = None"
proof (rule ccontr)
  assume "context_of_inputs x k \<noteq> None"
  then have "k \<in> fst ` set (context_entries x)"
    using dom_insert_all [of "context_entries x" Map.empty] by (auto simp: context_of_inputs_entries)
  then consider "k \<in> fst ` set (context_fields x)"
    | "k \<in> fst ` set (concat (map ger_context (ai_ger_leaves x)))"
    | "k \<in> fst ` set (concat (map ibe_context (enumerate 0 (ai_imported_bridge_exits x))))"
    unfolding context_entries_def by fastforce
  then show False
  proof cases
    case 1
    then show ?thesis using assms by (auto simp: context_fields_def)
  next
    case 2
    from context_key_prefix(1) [OF this] show ?thesis using assms by auto
  next
    case 3
    from context_key_prefix(2) [OF this] show ?thesis using assms by auto
  qed
qed

lemma response_context_keeps:
  assumes "context_of_inputs x k = Some v"
  shows "response_context b res (context_of_inputs x) k = Some v"
proof -
  have "k \<notin> {''public_values'', ''local_exit_root_hash'', ''end_block''}"
    using assms response_keys_fresh [of k x] by (metis option.distinct(1))
  then show ?thesis
    using assms unfolding response_context_def insert_iff de_Morgan_disj by (metis fun_upd_other)
qed

lemma normal_answer:
  assumes "generate_aggchain_proof fuel I C gs r = Some (Ok resp)"
  obtains inputs sresp b where "gp_last_proven_block r < gp_requested_end_block r"
    and "aggchain_proof_inputs_try_from I r = Ok inputs"
    and "bx_call (gs_service gs) (NormalRequest inputs) = Some (Ok sresp)"
    and "resp =
      \<lparr>gar_aggchain_proof = Some (aggchain_proof_of C (response_context b sresp (context_of_inputs inputs)) sresp),
       gar_last_proven_block = ss_last_proven_block sresp, gar_end_block = ss_end_block sresp,
       gar_local_exit_root_hash = Some (rc_digest_into C (ss_local_exit_root_hash sresp)),
       gar_custom_chain_data = ss_custom_chain_data sresp\<rparr>"
    and "unwrap_or (string_bytes ''bincode serialization failed'')
       (rc_serialize_public_values C (ss_public_values sresp)) = (Ok b :: (byte list, status) result)"
proof -
  have range: "\<not> gp_requested_end_block r \<le> gp_last_proven_block r"
    using assms by (auto simp: generate_aggchain_proof_def)
  then have less: "gp_last_proven_block r < gp_requested_end_block r" by (simp only: not_le)
  show thesis
    using assms
    unfolding generate_aggchain_proof_def Let_def if_not_P [OF range] await_then_eq_Ok option.inject
      map_err_eq_Ok result.inject
    by (elim exE conjE) (rule that, rule less, assumption, erule buffered_call_Ok, erule sym, assumption)
qed

lemma optimistic_answer:
  assumes "generate_optimistic_aggchain_proof fuel I C gs r = Some (Ok resp)"
  obtains inputs sresp b where "optimistic_inputs_try_from I r = Ok inputs"
    and "ai_last_proven_block (oi_aggchain_proof_inputs inputs) <
       ai_requested_end_block (oi_aggchain_proof_inputs inputs)"
    and "bx_call (gs_service gs) (OptimisticRequest inputs) = Some (Ok sresp)"
    and "resp =
      \<lparr>gor_aggchain_proof = Some (aggchain_proof_of C (response_context b sresp (optimistic_context inputs)) sresp),
       gor_local_exit_root_hash = Some (rc_digest_into C (ss_local_exit_root_hash sresp)),
       gor_custom_chain_data = ss_custom_chain_data sresp\<rparr>"
    and "\<And>c. rc_serialize_public_values C (ss_public_values sresp) = Ok c \<Longrightarrow> b = c"
proof -
  obtain inputs where inputs: "optimistic_inputs_try_from I r = Ok inputs"
    using assms unfolding generate_optimistic_aggchain_proof_def await_then_eq_Ok option.inject map_err_eq_Ok by blast
  let ?a = "oi_aggchain_proof_inputs inputs"
  have range: "\<not> ai_requested_end_block ?a \<le> ai_last_proven_block ?a"
    using assms by (auto simp: generate_optimistic_aggchain_proof_def inputs)
  then have less: "ai_last_proven_block ?a < ai_requested_end_block ?a" by (simp only: not_le)
  obtain sresp b where call: "buffered_call fuel (gs_service gs) (OptimisticRequest inputs) = Some (Ok sresp)"
    and b: "and_then
         (unwrap_or (Ok (string_bytes ''bincode serialization failed''))
           (sp1_fast (rc_serialize_public_values C (ss_public_values sresp))))
         (unwrap_or (string_bytes ''bincode serialization failed'')) = (Ok b :: (byte list, status) result)"
    and resp: "resp =
      \<lparr>gor_aggchain_proof = Some (aggchain_proof_of C (response_context b sresp (optimistic_context inputs)) sresp),
       gor_local_exit_root_hash = Some (rc_digest_into C (ss_local_exit_root_hash sresp)),
       gor_custom_chain_data = ss_custom_chain_data sresp\<rparr>"
    using assms
    unfolding generate_optimistic_aggchain_proof_def inputs map_err.simps Let_def await_then_eq_Ok option.inject
      result.inject
    using range by (auto simp: await_then_eq_Ok)
  show thesis
    by (rule that [OF inputs less buffered_call_Ok [OF call] resp]) (use b in simp)
qed

section \<open>A concrete server\<close>

definition sample_rpc_codec :: rpc_codec where
  "sample_rpc_codec =
     \<lparr>rc_digest_into = (\<lambda>d. to_be_bytes_u256 d), rc_serialize_public_values = (\<lambda>pv. Ok [9]),
      rc_circuit_version = ''v4''\<rparr>"

text \<open>A buffer that forwards the calls of the service.\<close>

definition sample_rpc_buffer ::
  "nat \<Rightarrow> ('sig service_request, service_response, service_error) boxed_service \<Rightarrow> 'sig buffered_service" where
  "sample_rpc_buffer bound s =
     \<lparr>bx_poll_ready = (\<lambda>n. Ready (Ok ())), bx_call = (\<lambda>req. map_option (map_err ServiceFailed) (bx_call s req))\<rparr>"

lemma sample_rpc_buffer_forwards: "\<forall>n. call_forwards (sample_rpc_buffer n)"
  by (auto simp: call_forwards_def sample_rpc_buffer_def map_err_eq_Ok)

definition sample_grpc_service :: "(digest \<times> address) grpc_service" where
  "sample_grpc_service =
     \<lparr>gs_service = sample_rpc_buffer GRPC_MAX_CONCURRENT_REQUESTS (service_boxed sample_prims 7 sample_service)\<rparr>"

lemma sample_grpc_service_new:
  "grpc_service_new 1 sample_service_env 7 sample_rpc_buffer sample_service_config = Ok sample_grpc_service"
  unfolding grpc_service_new_def sample_service_new and_then.simps sample_grpc_service_def
  by (simp add: sample_service_env_def)

abbreviation sample_rpc_interop :: "(l1_info_tree_leaf, merkle_proof, digest \<times> address) interop" where
  "sample_rpc_interop \<equiv> sample_interop (\<lambda>bs. Ok (0, 5))"

definition sample_request :: "(l1_info_tree_leaf, merkle_proof) generate_aggchain_proof_request" where
  "sample_request = request_message (\<lambda>d. to_be_bytes_u256 d) (\<lambda>d. to_be_bytes_u256 d) id id sample_inputs"

lemma sample_request_inputs: "aggchain_proof_inputs_try_from sample_rpc_interop sample_request = Ok sample_inputs"
  unfolding sample_request_def by (rule request_message_decoded) (simp_all add: sample_interop_def)

lemma sample_request_answer:
  "\<exists>resp. generate_aggchain_proof 1 sample_rpc_interop sample_rpc_codec sample_grpc_service sample_request =
     Some (Ok resp)"
proof -
  obtain sresp where "service_call sample_prims 7 sample_service (NormalRequest sample_inputs) = Some (Ok sresp)"
    using sample_normal_call by blast
  then have "buffered_call 1 (gs_service sample_grpc_service) (NormalRequest sample_inputs) = Some (Ok sresp)"
    by (simp add: buffered_call_def sample_grpc_service_def sample_rpc_buffer_def service_boxed_def
        del: service_call.simps)
  moreover have "\<not> gp_requested_end_block sample_request \<le> gp_last_proven_block sample_request"
    by (simp add: sample_request_def request_message_def sample_inputs_def)
  ultimately show ?thesis
    by (simp add: generate_aggchain_proof_def sample_request_inputs sample_rpc_codec_def)
qed

definition sample_optimistic_message ::
  "(l1_info_tree_leaf, merkle_proof) generate_optimistic_aggchain_proof_request" where
  "sample_optimistic_message =
     \<lparr>go_aggchain_proof_request = Some sample_request, go_optimistic_mode_signature = Some (replicate 65 7)\<rparr>"

lemma sample_optimistic_inputs:
  "optimistic_inputs_try_from sample_rpc_interop sample_optimistic_message = Ok sample_optimistic_request"
proof -
  have "signature_try_from sample_rpc_interop bs = Ok (0, 5)" for bs by (simp add: sample_interop_def)
  then show ?thesis
    by (simp add: optimistic_inputs_try_from_def sample_optimistic_message_def sample_request_inputs
        sample_optimistic_request_def)
qed

lemma sample_optimistic_answer:
  "\<exists>resp. generate_optimistic_aggchain_proof 1 sample_rpc_interop sample_rpc_codec sample_grpc_service
     sample_optimistic_message = Some (Ok resp)"
proof -
  obtain sresp where
    "service_call sample_prims 7 sample_service (OptimisticRequest sample_optimistic_request) = Some (Ok sresp)"
    using sample_optimistic_call by blast
  then have "buffered_call 1 (gs_service sample_grpc_service) (OptimisticRequest sample_optimistic_request) =
      Some (Ok sresp)"
    by (simp add: buffered_call_def sample_grpc_service_def sample_rpc_buffer_def service_boxed_def
        del: service_call.simps)
  moreover have "\<not> ai_requested_end_block (oi_aggchain_proof_inputs sample_optimistic_request)
      \<le> ai_last_proven_block (oi_aggchain_proof_inputs sample_optimistic_request)"
    by (simp add: sample_optimistic_request_def sample_inputs_def)
  ultimately show ?thesis
    by (simp add: generate_optimistic_aggchain_proof_def sample_optimistic_inputs sample_rpc_codec_def)
qed

section \<open>Properties\<close>

text \<open>C16: A bad request is refused with the field at fault, and without work. If the requested end block does
  not lie after the last proven block, or the conversion fails, the handler answers with the code
  \<open>InvalidArgument\<close> and one field violation: the end block in the first case, and otherwise the first
  field of the message that is missing or invalid. The answer is the same for every state of the
  service behind the handler, which is therefore not called.\<close>

theorem rpc_refuses_bad_request:
  assumes "gp_requested_end_block r \<le> gp_last_proven_block r \<or> aggchain_proof_inputs_try_from I r = Err e"
  shows "\<exists>message field description. \<forall>gs fuel.
     generate_aggchain_proof fuel I C gs r = Some (Err
       \<lparr>st_code = InvalidArgument, st_message = message, st_details = BadRequest [(field, description)]\<rparr>) \<and>
     (if gp_requested_end_block r \<le> gp_last_proven_block r then field = ''requested_end_block''
      else first_invalid_field I r = Some field)"
proof (cases "gp_requested_end_block r \<le> gp_last_proven_block r")
  case True
  then show ?thesis by (simp add: generate_aggchain_proof_def bad_request_def)
next
  case False
  then have "aggchain_proof_inputs_try_from I r = Err e" using assms by blast
  with request_error_matches [of I r] False show ?thesis
    by (simp add: generate_aggchain_proof_def bad_request_def)
qed

theorem rpc_refuses_bad_request_witness:
  "\<exists>message description. generate_aggchain_proof 1 sample_rpc_interop sample_rpc_codec sample_grpc_service
     (sample_request\<lparr>gp_l1_info_tree_leaf := None\<rparr>) = Some (Err
       \<lparr>st_code = InvalidArgument, st_message = message,
        st_details = BadRequest [(''l1_info_tree_leaf'', description)]\<rparr>)"
proof -
  let ?r = "sample_request\<lparr>gp_l1_info_tree_leaf := None\<rparr>"
  have "aggchain_proof_inputs_try_from sample_rpc_interop ?r = Err (MissingL1InfoTreeLeaf ''l1_info_tree_leaf'')"
    by (simp add: aggchain_proof_inputs_try_from_def sample_request_def request_message_def sample_interop_def)
  moreover have "\<not> gp_requested_end_block ?r \<le> gp_last_proven_block ?r"
    by (simp add: sample_request_def request_message_def sample_inputs_def)
  moreover have "first_invalid_field sample_rpc_interop ?r = Some ''l1_info_tree_leaf''"
    by (simp add: first_invalid_field_def request_fields_def field_valid_def sample_request_def
        request_message_def sample_interop_def)
  ultimately show ?thesis
    using rpc_refuses_bad_request [of ?r sample_rpc_interop "MissingL1InfoTreeLeaf ''l1_info_tree_leaf''" sample_rpc_codec]
    by auto
qed

text \<open>C29: An answer of the server is the answer of its aggchain proof service to the converted request. For a
  server built by \<open>new\<close> over a buffer that forwards calls, an \<open>Ok\<close> answer to a normal request means that
  the range of blocks is not empty, that the request was converted to inputs, and that the service
  answered them; the message carries the proof, key and custom chain data of the service, the last proven
  block of the request, and a context that still holds every entry of the inputs next to the exit root
  and the end block.\<close>

theorem rpc_answer_from_service:
  assumes "grpc_service_new fuel V ver buffer config = Ok gs" and "\<forall>n. call_forwards (buffer n)"
    and "generate_aggchain_proof fuel' I C gs r = Some (Ok resp)"
  shows "\<exists>svc inputs sresp msg. service_new fuel V config = Ok svc \<and>
     aggchain_proof_inputs_try_from I r = Ok inputs \<and>
     ai_last_proven_block inputs < ai_requested_end_block inputs \<and>
     service_call (ve_prims V) ver svc (NormalRequest inputs) = Some (Ok sresp) \<and>
     gar_aggchain_proof resp = Some msg \<and>
     ag_proof msg = Some
       \<lparr>sk_version = rc_circuit_version C, sk_proof = ss_proof sresp, sk_vkey = ss_vkey sresp\<rparr> \<and>
     gar_last_proven_block resp = gp_last_proven_block r \<and> gar_end_block resp = ss_end_block sresp \<and>
     gar_custom_chain_data resp = ss_custom_chain_data sresp \<and>
     context_of_inputs inputs \<subseteq>\<^sub>m ag_context msg \<and>
     ag_context msg ''local_exit_root_hash'' = Some (to_be_bytes_u256 (ss_local_exit_root_hash sresp)) \<and>
     ag_context msg ''end_block'' = Some (to_be_bytes_u64 (gar_end_block resp))"
proof -
  obtain inputs sresp b where
    less: "gp_last_proven_block r < gp_requested_end_block r"
    and inputs: "aggchain_proof_inputs_try_from I r = Ok inputs"
    and call: "bx_call (gs_service gs) (NormalRequest inputs) = Some (Ok sresp)"
    and resp: "resp =
      \<lparr>gar_aggchain_proof = Some (aggchain_proof_of C (response_context b sresp (context_of_inputs inputs)) sresp),
       gar_last_proven_block = ss_last_proven_block sresp, gar_end_block = ss_end_block sresp,
       gar_local_exit_root_hash = Some (rc_digest_into C (ss_local_exit_root_hash sresp)),
       gar_custom_chain_data = ss_custom_chain_data sresp\<rparr>"
    by (rule normal_answer [OF assms(3)]) (rule that; assumption)
  from grpc_service_call [OF assms(1,2) call] obtain svc where svc: "service_new fuel V config = Ok svc"
    and answer: "service_call (ve_prims V) ver svc (NormalRequest inputs) = Some (Ok sresp)" by blast
  have "ss_last_proven_block sresp = ai_last_proven_block inputs"
    using answer unfolding service_call.simps
    by (elim normal_request_Ok) (simp add: service_response_of_def)
  moreover have "context_of_inputs inputs \<subseteq>\<^sub>m response_context b sresp (context_of_inputs inputs)"
    unfolding map_le_def using response_context_keeps by fastforce
  moreover have
    "response_context b sresp (context_of_inputs inputs) ''local_exit_root_hash'' =
       Some (to_be_bytes_u256 (ss_local_exit_root_hash sresp))"
    "response_context b sresp (context_of_inputs inputs) ''end_block'' = Some (to_be_bytes_u64 (ss_end_block sresp))"
    by (simp_all add: response_context_def)
  ultimately show ?thesis
    using less inputs svc answer resp inputs_try_from_blocks [OF inputs]
    by (intro exI [of _ svc] exI [of _ inputs] exI [of _ sresp]) (simp add: aggchain_proof_of_def)
qed

theorem rpc_answer_from_service_witness:
  "\<exists>resp sresp. generate_aggchain_proof 1 sample_rpc_interop sample_rpc_codec sample_grpc_service sample_request =
       Some (Ok resp) \<and>
     service_call sample_prims 7 sample_service (NormalRequest sample_inputs) = Some (Ok sresp) \<and>
     gar_custom_chain_data resp = ss_custom_chain_data sresp"
proof -
  obtain resp where resp: "generate_aggchain_proof 1 sample_rpc_interop sample_rpc_codec sample_grpc_service
      sample_request = Some (Ok resp)"
    using sample_request_answer by blast
  have "ve_prims sample_service_env = sample_prims" by (simp add: sample_service_env_def)
  then show ?thesis
    using rpc_answer_from_service [OF sample_grpc_service_new sample_rpc_buffer_forwards resp] resp
    unfolding sample_service_new sample_request_inputs result.inject by metis
qed

end
