(* ===== verification/Pessimistic_Rpc.thy ===== *)
theory Pessimistic_Rpc
  imports Grpc_Status
begin

text \<open>
  \<open>crates/agglayer-prover\<close> and \<open>crates/agglayer-prover-types\<close>: the pessimistic proof service of the agglayer
  prover. A request carries the serialised input of the program, an executor behind a buffer makes a
  Plonk proof, and an error of the executor travels back in the details of a status.

  The codec of bincode, the concurrency limit and the buffer of tower are arguments. The counters of the
  telemetry crate are the numbers of their \<open>add\<close> calls. A handler returns \<open>None\<close> while it still waits.
\<close>

section \<open>Messages\<close>

text \<open>The only variant of \<open>Stdin\<close> is \<open>Sp1Stdin\<close>, and the only variant of \<open>Proof\<close> is \<open>SP1\<close>.\<close>

datatype stdin_message = Sp1Stdin "byte list"

datatype 'proof agglayer_proof = SP1 'proof

record generate_proof_request =
  gq_stdin :: "stdin_message option"

record generate_proof_response =
  gp_proof :: "byte list"

datatype error_kind =
    KindUnspecified
  | KindUnableToExecuteProver
  | KindProverFailed
  | KindProofVerificationFailed
  | KindExecutorFailed

text \<open>The \<open>i32\<close> values of the kinds.\<close>

fun error_kind_value :: "error_kind \<Rightarrow> 32 word" where
  "error_kind_value KindUnspecified = 0"
| "error_kind_value KindUnableToExecuteProver = 1"
| "error_kind_value KindProverFailed = 2"
| "error_kind_value KindProofVerificationFailed = 3"
| "error_kind_value KindExecutorFailed = 4"

record generate_proof_error =
  ge_error :: "byte list"
  ge_error_type :: "32 word"

record ('stdin, 'proof) proof_codec =
  pc_deserialize_stdin :: "byte list \<Rightarrow> ('stdin, report) result"
  pc_serialize_proof :: "'proof agglayer_proof \<Rightarrow> (byte list, report) result"
  pc_serialize_error :: "generate_proof_error \<Rightarrow> (byte list, report) result"
  pc_serialize_verification_error :: "proof_verification_error \<Rightarrow> (byte list, report) result"
  pc_serialize_bytes :: "byte list \<Rightarrow> (byte list, report) result"

section \<open>Errors as statuses\<close>

fun proof_verification_error_display :: "proof_verification_error \<Rightarrow> string" where
  "proof_verification_error_display (VersionMismatch s) = ''Version mismatch: '' @ s"
| "proof_verification_error_display (Core s) = ''Core machine verification error: '' @ s"
| "proof_verification_error_display (Recursion s) = ''Recursion verification error: '' @ s"
| "proof_verification_error_display (Plonk s) = ''Plonk verification error: '' @ s"
| "proof_verification_error_display (Groth16 s) = ''Groth16 verification error: '' @ s"
| "proof_verification_error_display InvalidPublicValues = ''Invalid public values''"
| "proof_verification_error_display (Other s) = ''Other verification error: '' @ s"

fun executor_error_display :: "executor_error \<Rightarrow> string" where
  "executor_error_display UnableToExecuteProver = ''Unable to execute prover''"
| "executor_error_display (ProverFailed s) = ''Prover failed: '' @ s"
| "executor_error_display (ProofVerificationFailed e) =
     ''Prover verification failed: '' @ proof_verification_error_display e"
| "executor_error_display (ExecutorFailed bs) = ''Prover executor failed''"
| "executor_error_display UnableToInitializePrimaryProver = ''Unable to initialize the primary prover''"
| "executor_error_display UnableToInitializeFallbackProver = ''Unable to initialize the fallback prover''"

definition status_with_details :: "grpc_code \<Rightarrow> string \<Rightarrow> byte list \<Rightarrow> status" where
  "status_with_details code message details = \<lparr>st_code = code, st_message = message, st_details = Details details\<rparr>"

fun try_into_status :: "('stdin, 'proof) proof_codec \<Rightarrow> executor_error \<Rightarrow> (status, report) result" where
  "try_into_status K UnableToExecuteProver =
     and_then
       (pc_serialize_error K \<lparr>ge_error = [], ge_error_type = error_kind_value KindUnableToExecuteProver\<rparr>)
       (\<lambda>details. Ok (status_with_details Internal ''Unable to execute prover'' details))"
| "try_into_status K (ProverFailed s) =
     and_then (pc_serialize_error K \<lparr>ge_error = [], ge_error_type = error_kind_value KindProverFailed\<rparr>)
       (\<lambda>details. Ok (status_with_details Internal (executor_error_display (ProverFailed s)) details))"
| "try_into_status K (ProofVerificationFailed e) =
     and_then (pc_serialize_verification_error K e) (\<lambda>error.
     and_then
       (pc_serialize_error K \<lparr>ge_error = error, ge_error_type = error_kind_value KindProofVerificationFailed\<rparr>)
       (\<lambda>details. Ok (status_with_details InvalidArgument
         (executor_error_display (ProofVerificationFailed e)) details)))"
| "try_into_status K (ExecutorFailed bs) =
     and_then (pc_serialize_bytes K bs) (\<lambda>error.
     and_then (pc_serialize_error K \<lparr>ge_error = error, ge_error_type = error_kind_value KindExecutorFailed\<rparr>)
       (\<lambda>details. Ok (status_with_details InvalidArgument (executor_error_display (ExecutorFailed bs)) details)))"
| "try_into_status K UnableToInitializePrimaryProver =
     and_then (pc_serialize_error K \<lparr>ge_error = [], ge_error_type = error_kind_value KindExecutorFailed\<rparr>)
       (\<lambda>details. Ok (status_with_details Internal ''Executor failed to initialize the primary prover'' details))"
| "try_into_status K UnableToInitializeFallbackProver =
     and_then (pc_serialize_error K \<lparr>ge_error = [], ge_error_type = error_kind_value KindExecutorFailed\<rparr>)
       (\<lambda>details. Ok (status_with_details Internal ''Executor failed to initialize the fallback prover'' details))"

section \<open>The server\<close>

type_synonym ('stdin, 'proof) buffered_executor =
  "('stdin request, 'proof response, box_error) boxed_service"

record ('stdin, 'proof) prover_rpc =
  rp_executor :: "('stdin, 'proof) buffered_executor"

text \<open>\<open>PessimisticProofServiceServer\<close>: the handler with the message limits. Requests and responses are
  compressed with Zstd.\<close>

record ('stdin, 'proof) proof_service_server =
  pss_inner :: "('stdin, 'proof) prover_rpc"
  pss_max_decoding_message_size :: u64
  pss_max_encoding_message_size :: u64

text \<open>\<open>tower::timeout::Timeout\<close> and its \<open>into_inner\<close>, which gives the service back without the timeout.\<close>

record 's timeout_service =
  tm_inner :: 's
  tm_timeout :: duration

definition timeout_into_inner :: "'s timeout_service \<Rightarrow> 's" where
  "timeout_into_inner t = tm_inner t"

definition executor_boxed ::
  "nat \<Rightarrow> ('stdin, 'proof, 'vk) executor \<Rightarrow> ('stdin request, 'proof response, executor_error) boxed_service" where
  "executor_boxed fuel ex = \<lparr>bx_poll_ready = executor_poll_ready ex, bx_call = executor_call fuel ex\<rparr>"

record ('stdin, 'proof, 'pk, 'vk) prover_env =
  pe_pool_up :: bool
  pe_layers :: "('stdin request, 'proof response) tower_layers"
  pe_sdk :: "('stdin, 'proof, 'pk, 'vk) sp1_sdk"
  pe_concurrency_limit :: "u64 \<Rightarrow> ('stdin request, 'proof response, executor_error) boxed_service \<Rightarrow>
     ('stdin request, 'proof response, executor_error) boxed_service"
  pe_buffer :: "('stdin request, 'proof response, executor_error) boxed_service \<Rightarrow> u64 \<Rightarrow>
     ('stdin, 'proof) buffered_executor"

definition create_service ::
  "nat \<Rightarrow> ('stdin, 'proof, 'pk, 'vk) prover_env \<Rightarrow> agglayer_prover_config \<Rightarrow> byte list \<Rightarrow>
   (('stdin, 'proof) proof_service_server, report) result" where
  "create_service fuel E config program =
     and_then
       (map_err (\<lambda>_. ''Failed to create executor service for Agglayer Prover'')
         (executor_new (pe_pool_up E) (pe_layers E) (pe_sdk E) (lc_primary_prover config)
           (lc_fallback_prover config) program)) (\<lambda>executor_service.
     let executor = timeout_into_inner
           \<lparr>tm_inner = pe_concurrency_limit E (lc_max_concurrency_limit config) (executor_boxed fuel executor_service),
            tm_timeout = lc_max_request_duration config\<rparr>;
         executor = pe_buffer E executor (lc_max_buffered_queries config) in
     Ok \<lparr>pss_inner = \<lparr>rp_executor = executor\<rparr>,
         pss_max_decoding_message_size = gc_max_decoding_message_size (lc_grpc config),
         pss_max_encoding_message_size = gc_max_encoding_message_size (lc_grpc config)\<rparr>)"

section \<open>The handler\<close>

record prover_metrics =
  mt_recv :: nat
  mt_succeeded :: nat
  mt_failed :: nat

definition request_stdin ::
  "('stdin, 'proof) proof_codec \<Rightarrow> generate_proof_request \<Rightarrow> ('stdin, status) result" where
  "request_stdin K request =
     (case gq_stdin request of
        Some (Sp1Stdin bs) \<Rightarrow>
          and_then
            (map_err (\<lambda>_. status_invalid_argument ''Unable to deserialize stdin'')
              (sp1_fast (pc_deserialize_stdin K bs)))
            (map_err (\<lambda>_. status_invalid_argument ''Unable to deserialize stdin''))
      | None \<Rightarrow> Err (status_invalid_argument ''stdin is required''))"

definition proof_message ::
  "('stdin, 'proof) proof_codec \<Rightarrow> 'proof response \<Rightarrow> (generate_proof_response, status) result" where
  "proof_message K response =
     and_then
       (and_then
         (map_err (\<lambda>_. status_internal ''Unable to serialize generated proof'')
           (sp1_fast (pc_serialize_proof K (SP1 (rs_proof response)))))
         (map_err (\<lambda>_. status_internal ''Unable to serialize generated proof'')))
       (\<lambda>bs. Ok \<lparr>gp_proof = bs\<rparr>)"

fun error_response ::
  "('stdin, 'proof) proof_codec \<Rightarrow> box_error \<Rightarrow> (generate_proof_response, status) result" where
  "error_response K (BoxExecutor error) =
     (case try_into_status K error of
        Ok response \<Rightarrow> Err response
      | Err inner_error \<Rightarrow> Err (status_invalid_argument (executor_error_display error))
      | Panic p \<Rightarrow> Panic p)"
| "error_response K (BoxOther error) = Err (status_internal ''Failed to generate proof'')"

definition generate_proof ::
  "nat \<Rightarrow> ('stdin, 'proof) proof_codec \<Rightarrow> ('stdin, 'proof) prover_rpc \<Rightarrow> prover_metrics \<Rightarrow>
   generate_proof_request \<Rightarrow> prover_metrics \<times> (generate_proof_response, status) result option" where
  "generate_proof fuel K self m request =
     (let m = m\<lparr>mt_recv := mt_recv m + 1\<rparr>; executor = rp_executor self in
      case request_stdin K request of
        Err s \<Rightarrow> (m, Some (Err s))
      | Panic p \<Rightarrow> (m, Some (Panic p))
      | Ok stdin \<Rightarrow>
          (case ready_await fuel (bx_poll_ready executor) 0 of
             None \<Rightarrow> (m, None)
           | Some (Err _) \<Rightarrow> (m, Some (Err (status_internal ''Unable to get proof executor'')))
           | Some (Panic p) \<Rightarrow> (m, Some (Panic p))
           | Some (Ok _) \<Rightarrow>
               (case bx_call executor \<lparr>rq_stdin = stdin, rq_proof_type = PlonkProof\<rparr> of
                  None \<Rightarrow> (m, None)
                | Some (Panic p) \<Rightarrow> (m, Some (Panic p))
                | Some (Ok result) \<Rightarrow>
                    (case proof_message K result of
                       Ok response \<Rightarrow> (m\<lparr>mt_succeeded := mt_succeeded m + 1\<rparr>, Some (Ok response))
                     | Err s \<Rightarrow> (m, Some (Err s))
                     | Panic p \<Rightarrow> (m, Some (Panic p)))
                | Some (Err error) \<Rightarrow>
                    (m\<lparr>mt_failed := mt_failed m + 1\<rparr>, Some (error_response K error)))))"

section \<open>The fake prover\<close>

record ('stdin, 'proof, 'pk, 'vk) fake_prover =
  fk_prover :: "('stdin, 'proof, 'pk, 'vk) cpu_prover"
  fk_proving_key :: 'pk

definition fake_prover_new ::
  "bool \<Rightarrow> ('stdin, 'proof, 'pk, 'vk) sp1_sdk \<Rightarrow> byte list \<Rightarrow> (('stdin, 'proof, 'pk, 'vk) fake_prover, report) result" where
  "fake_prover_new pool_up sdk elf =
     and_then (sp1_blocking pool_up
       (and_then (sdk_cpu_mock sdk) (\<lambda>prover.
        and_then (cpu_setup prover elf) (\<lambda>(proving_key, verifying_key). Ok
          \<lparr>fk_prover = prover, fk_proving_key = proving_key\<rparr>)))) (\<lambda>r. r)"

text \<open>The proof runs in Plonk mode with deferred proofs verified, the default of the SDK.\<close>

definition fake_generate_proof ::
  "('stdin, 'proof) proof_codec \<Rightarrow> ('stdin, 'proof, 'pk, 'vk) fake_prover \<Rightarrow> generate_proof_request \<Rightarrow>
   (generate_proof_response, status) result" where
  "fake_generate_proof K self request =
     and_then (request_stdin K request) (\<lambda>stdin.
     case and_then
         (map_err ProverFailed (sp1_fast (cpu_run (fk_prover self) (fk_proving_key self) stdin PlonkMode True)))
         (map_err ProverFailed) of
       Ok proof \<Rightarrow>
         and_then
           (map_err (\<lambda>error. status_invalid_argument (executor_error_display error))
             (and_then (map_err ProverFailed (sp1_fast (pc_serialize_proof K (SP1 proof)))) (map_err ProverFailed)))
           (\<lambda>bs. Ok \<lparr>gp_proof = bs\<rparr>)
     | Err error \<Rightarrow> Err (status_invalid_argument (executor_error_display error))
     | Panic p \<Rightarrow> Panic p)"

section \<open>Lemmas\<close>

text \<open>The double \<open>map_err(..)?\<close> around a caught call.\<close>

lemma sp1_fast_twice:
  "and_then (map_err f (sp1_fast r)) (map_err g) = Ok x \<longleftrightarrow> r = Ok x"
  "and_then (map_err f (sp1_fast r)) (map_err g) \<noteq> Panic p"
  by (cases r; simp)+

lemma request_stdin_eq_Ok:
  "request_stdin K req = Ok stdin \<longleftrightarrow>
     (\<exists>bs. gq_stdin req = Some (Sp1Stdin bs) \<and> pc_deserialize_stdin K bs = Ok stdin)"
  by (auto simp: request_stdin_def sp1_fast_twice split: option.split stdin_message.split)

lemma request_stdin_no_panic: "request_stdin K req \<noteq> Panic p"
  by (auto simp: request_stdin_def sp1_fast_twice split: option.split stdin_message.split)

lemma proof_message_eq_Ok:
  "proof_message K res = Ok resp \<longleftrightarrow> pc_serialize_proof K (SP1 (rs_proof res)) = Ok (gp_proof resp)"
  by (cases resp) (auto simp: proof_message_def and_then_eq_Ok [where f = "\<lambda>bs. Ok \<lparr>gp_proof = bs\<rparr>"] sp1_fast_twice)

lemma proof_message_no_panic: "proof_message K res \<noteq> Panic p"
  by (auto simp: proof_message_def and_then_eq_Panic [where f = "\<lambda>bs. Ok \<lparr>gp_proof = bs\<rparr>"] sp1_fast_twice)

text \<open>The outcomes of the handler, with the counters they move.\<close>

inductive_set proof_outcomes :: "('stdin, 'proof) proof_codec \<Rightarrow> ('stdin, 'proof) prover_rpc \<Rightarrow>
   generate_proof_request \<Rightarrow> (nat \<times> nat \<times> (generate_proof_response, status) result option) set"
  for K rpc req where
  refused: "(0, 0, Some (Err s)) \<in> proof_outcomes K rpc req"
| waiting: "(0, 0, None) \<in> proof_outcomes K rpc req"
| panicked: "(0, 0, Some (Panic p)) \<in> proof_outcomes K rpc req"
| answered: "request_stdin K req = Ok stdin \<Longrightarrow>
    bx_call (rp_executor rpc) \<lparr>rq_stdin = stdin, rq_proof_type = PlonkProof\<rparr> = Some (Ok res) \<Longrightarrow>
    proof_message K res = Ok resp \<Longrightarrow> (1, 0, Some (Ok resp)) \<in> proof_outcomes K rpc req"
| failed: "(0, 1, Some (error_response K error)) \<in> proof_outcomes K rpc req"

inductive_cases proof_outcome_OkE: "(a, b, Some (Ok resp)) \<in> proof_outcomes K rpc req"

lemma error_response_not_Ok: "error_response K error \<noteq> Ok resp"
  by (cases "(K, error)" rule: error_response.cases) (auto split: result.split)

lemma generate_proof_outcome:
  "\<exists>a b. (a, b, snd (generate_proof fuel K rpc m req)) \<in> proof_outcomes K rpc req \<and>
     fst (generate_proof fuel K rpc m req) =
       \<lparr>mt_recv = mt_recv m + 1, mt_succeeded = mt_succeeded m + a, mt_failed = mt_failed m + b\<rparr>"
  unfolding generate_proof_def Let_def
  by (cases m) (auto intro: proof_outcomes.intros [unfolded One_nat_def] split: option.split result.split)

text \<open>A successful answer.\<close>

lemma generate_proof_Ok:
  assumes "generate_proof fuel K rpc m req = (m', Some (Ok resp))"
  obtains stdin res where "request_stdin K req = Ok stdin"
    and "bx_call (rp_executor rpc) \<lparr>rq_stdin = stdin, rq_proof_type = PlonkProof\<rparr> = Some (Ok res)"
    and "proof_message K res = Ok resp"
proof -
  obtain a b where "(a, b, Some (Ok resp)) \<in> proof_outcomes K rpc req"
    using generate_proof_outcome [of fuel K rpc m req] assms by auto
  then show thesis
    by (rule proof_outcome_OkE) (use that error_response_not_Ok in metis)+
qed

text \<open>The executor behind a created server.\<close>

definition env_forwards :: "('stdin, 'proof, 'pk, 'vk) prover_env \<Rightarrow> bool" where
  "env_forwards E \<longleftrightarrow> (\<forall>n. call_forwards (pe_concurrency_limit E n)) \<and> (\<forall>n. call_forwards (\<lambda>s. pe_buffer E s n))"

lemma create_service_call:
  assumes "create_service fuel E config program = Ok server" and "env_forwards E"
    and "bx_call (rp_executor (pss_inner server)) req = Some (Ok res)"
  obtains ex where "executor_new (pe_pool_up E) (pe_layers E) (pe_sdk E) (lc_primary_prover config)
      (lc_fallback_prover config) program = Ok ex"
    and "executor_call fuel ex req = Some (Ok res)"
proof -
  obtain ex where ex: "executor_new (pe_pool_up E) (pe_layers E) (pe_sdk E) (lc_primary_prover config)
      (lc_fallback_prover config) program = Ok ex"
    and server: "rp_executor (pss_inner server) =
      pe_buffer E (pe_concurrency_limit E (lc_max_concurrency_limit config) (executor_boxed fuel ex))
        (lc_max_buffered_queries config)"
    using assms(1) unfolding create_service_def Let_def timeout_into_inner_def and_then_eq_Ok map_err_eq_Ok
    by auto
  have forwards: "call_forwards (pe_concurrency_limit E n)" "call_forwards (\<lambda>s. pe_buffer E s k)" for n k
    using assms(2) by (simp_all add: env_forwards_def)
  have "bx_call (executor_boxed fuel ex) req = Some (Ok res)"
    using assms(3) unfolding server
    by (rule call_forwardsD [OF forwards(1) call_forwardsD [OF forwards(2)]])
  then show thesis by (intro that [OF ex]) (simp add: executor_boxed_def)
qed

text \<open>The configured duration of a request does not reach the server.\<close>

lemma max_request_duration_unused:
  "create_service fuel E (config\<lparr>lc_max_request_duration := d\<rparr>) program = create_service fuel E config program"
  by (simp add: create_service_def timeout_into_inner_def)

text \<open>The fake prover contains every panic of the SDK.\<close>

lemma fake_generate_proof_no_panic:
  fixes K :: "('stdin, 'a) proof_codec"
  shows "fake_generate_proof K self req \<noteq> Panic p"
proof -
  have "sp1_fast r \<noteq> Panic p" "sp1_fast r \<noteq> Ok (Panic p)" for r :: "('a, report) result"
    by (cases r; simp)+
  moreover have "sp1_fast r \<noteq> Panic p" "sp1_fast r \<noteq> Ok (Panic p)" for r :: "(byte list, report) result"
    by (cases r; simp)+
  ultimately show ?thesis
    by (auto simp: fake_generate_proof_def and_then_eq_Panic map_err_eq_Panic map_err_eq_Ok
        request_stdin_no_panic simp del: and_then.simps split: result.split)
qed

text \<open>The kind under which the error of an executor is reported.\<close>

fun reported_kind :: "executor_error \<Rightarrow> error_kind" where
  "reported_kind UnableToExecuteProver = KindUnableToExecuteProver"
| "reported_kind (ProverFailed _) = KindProverFailed"
| "reported_kind (ProofVerificationFailed _) = KindProofVerificationFailed"
| "reported_kind _ = KindExecutorFailed"

fun blames_request :: "executor_error \<Rightarrow> bool" where
  "blames_request (ProofVerificationFailed _) = True"
| "blames_request (ExecutorFailed _) = True"
| "blames_request _ = False"

text \<open>What the details of its status are made of: the serialised cause, for the two errors that carry one, in
  a message with the kind.\<close>

fun error_payload :: "('stdin, 'proof) proof_codec \<Rightarrow> executor_error \<Rightarrow> (byte list, report) result" where
  "error_payload K (ProofVerificationFailed e) = pc_serialize_verification_error K e"
| "error_payload K (ExecutorFailed bs) = pc_serialize_bytes K bs"
| "error_payload K _ = Ok []"

definition reported_details :: "('stdin, 'proof) proof_codec \<Rightarrow> executor_error \<Rightarrow> (byte list, report) result" where
  "reported_details K e =
     and_then (error_payload K e) (\<lambda>error.
     pc_serialize_error K \<lparr>ge_error = error, ge_error_type = error_kind_value (reported_kind e)\<rparr>)"

lemma try_into_status_report:
  "\<exists>message. try_into_status K e =
     and_then (reported_details K e) (\<lambda>details.
     Ok (status_with_details (if blames_request e then InvalidArgument else Internal) message details))"
proof (cases e)
  case (ProofVerificationFailed v)
  then show ?thesis by (cases "pc_serialize_verification_error K v") (auto simp: reported_details_def)
next
  case (ExecutorFailed bs)
  then show ?thesis by (cases "pc_serialize_bytes K bs") (auto simp: reported_details_def)
qed (auto simp: reported_details_def)

text \<open>The requests of a server one after the other, each with the executor as it is then.\<close>

fun serve :: "nat \<Rightarrow> ('stdin, 'proof) proof_codec \<Rightarrow> (('stdin, 'proof) prover_rpc \<times> generate_proof_request) list \<Rightarrow>
   prover_metrics \<Rightarrow> prover_metrics \<times> (generate_proof_response, status) result option list" where
  "serve fuel K [] m = (m, [])"
| "serve fuel K ((rpc, req) # rs) m =
     (let (m1, out) = generate_proof fuel K rpc m req; (m2, outs) = serve fuel K rs m1 in (m2, out # outs))"

fun is_answer :: "('a, 'e) result option \<Rightarrow> bool" where
  "is_answer (Some (Ok _)) = True"
| "is_answer _ = False"

lemma outcome_counts:
  "(a, b, out) \<in> proof_outcomes K rpc req \<Longrightarrow> a = (if is_answer out then 1 else 0) \<and> a + b \<le> 1"
proof (induction a b out rule: proof_outcomes.induct)
  case (failed error)
  show ?case using error_response_not_Ok [of K error] by (cases "error_response K error") auto
qed auto

section \<open>A concrete server\<close>

text \<open>The provers over numbers of the executor's example, with one byte for an input and for a proof.\<close>

definition sample_proof_codec :: "(nat, nat) proof_codec" where
  "sample_proof_codec =
     \<lparr>pc_deserialize_stdin = (\<lambda>bs. case bs of [b] \<Rightarrow> Ok (unat b) | _ \<Rightarrow> Panic (PanicStr ''length'')),
      pc_serialize_proof = (\<lambda>p. case p of SP1 n \<Rightarrow> Ok [word_of_nat n]),
      pc_serialize_error = (\<lambda>e. Ok (to_be_bytes_u32 (ge_error_type e) @ ge_error e)),
      pc_serialize_verification_error = (\<lambda>e. Ok [1]), pc_serialize_bytes = Ok\<rparr>"

definition sample_prover_env :: "(nat, nat, nat, nat) prover_env" where
  "sample_prover_env =
     \<lparr>pe_pool_up = True, pe_layers = sample_layers, pe_sdk = sample_sdk, pe_concurrency_limit = (\<lambda>n s. s),
      pe_buffer = (\<lambda>s n. \<lparr>bx_poll_ready = (\<lambda>n. Ready (Ok ())),
        bx_call = (\<lambda>req. map_option (map_err BoxExecutor) (bx_call s req))\<rparr>)\<rparr>"

definition sample_agglayer_config :: agglayer_prover_config where
  "sample_agglayer_config =
     \<lparr>lc_grpc_endpoint = agglayer_default_socket_addr, lc_grpc = grpc_config_default, lc_log = log_default,
      lc_telemetry_addr = agglayer_default_metrics_api_addr,
      lc_shutdown_runtime_timeout = agglayer_default_runtime_shutdown_timeout,
      lc_max_concurrency_limit = 2, lc_max_request_duration = default_max_request_duration,
      lc_max_buffered_queries = 10, lc_primary_prover = NetworkProver sample_network_config,
      lc_fallback_prover = Some (CpuProver sample_cpu_config)\<rparr>"

definition sample_prover_rpc :: "(nat, nat) prover_rpc" where
  "sample_prover_rpc =
     \<lparr>rp_executor = pe_buffer sample_prover_env (executor_boxed 1 sample_executor) 10\<rparr>"

lemma sample_create_service:
  "create_service 1 sample_prover_env sample_agglayer_config [1, 2, 3] = Ok
     \<lparr>pss_inner = sample_prover_rpc, pss_max_decoding_message_size = default_max_decoding_message_size,
      pss_max_encoding_message_size = default_max_encoding_message_size\<rparr>"
  by (simp add: create_service_def sample_prover_env_def sample_agglayer_config_def sample_executor_new
      sample_prover_rpc_def timeout_into_inner_def grpc_config_default_def)

lemma sample_env_forwards: "env_forwards sample_prover_env"
  by (auto simp: env_forwards_def call_forwards_def sample_prover_env_def map_err_eq_Ok)

abbreviation sample_metrics :: prover_metrics where
  "sample_metrics \<equiv> \<lparr>mt_recv = 0, mt_succeeded = 0, mt_failed = 0\<rparr>"

lemma sample_generate_proof:
  "generate_proof 1 sample_proof_codec sample_prover_rpc sample_metrics \<lparr>gq_stdin = Some (Sp1Stdin [5])\<rparr> =
     (\<lparr>mt_recv = 1, mt_succeeded = 1, mt_failed = 0\<rparr>, Some (Ok \<lparr>gp_proof = [8]\<rparr>))"
  by (simp add: generate_proof_def request_stdin_def sample_proof_codec_def sample_prover_rpc_def
      sample_prover_env_def executor_boxed_def sample_executor_call [unfolded One_nat_def] proof_message_def Let_def)

section \<open>Properties\<close>

text \<open>C12: The pessimistic proof service returns only verified Plonk proofs of the requested input. For a
  server made by \<open>create_service\<close>, an \<open>Ok\<close> answer is the serialisation of the proof that the executor made
  in Plonk mode for the input the request encodes, and that proof is accepted under the key of the program
  by the primary prover, or by the fallback after an error of the primary.\<close>

theorem pessimistic_proof_verified:
  assumes "create_service fuel E config program = Ok server"
    and "layers_transparent (pe_layers E)" and "env_forwards E"
    and "generate_proof fuel' K (pss_inner server) m req = (m', Some (Ok resp))"
  shows "\<exists>bs stdin ex res. gq_stdin req = Some (Sp1Stdin bs) \<and> pc_deserialize_stdin K bs = Ok stdin \<and>
     executor_new (pe_pool_up E) (pe_layers E) (pe_sdk E) (lc_primary_prover config)
       (lc_fallback_prover config) program = Ok ex \<and>
     executor_call fuel ex \<lparr>rq_stdin = stdin, rq_proof_type = PlonkProof\<rparr> = Some (Ok res) \<and>
     pc_serialize_proof K (SP1 (rs_proof res)) = Ok (gp_proof resp) \<and>
     (sdk_accepts (pe_sdk E) (lc_primary_prover config) (ex_vkey ex) (rs_proof res) \<or>
      (\<exists>c vk svc. lc_fallback_prover config = Some c \<and>
         create_prover (pe_pool_up E) (pe_layers E) (pe_sdk E) c program = Ok (vk, svc) \<and>
         sdk_accepts (pe_sdk E) c vk (rs_proof res)))"
proof -
  from generate_proof_Ok [OF assms(4)] obtain stdin res where
    stdin: "request_stdin K req = Ok stdin"
    and call: "bx_call (rp_executor (pss_inner server)) \<lparr>rq_stdin = stdin, rq_proof_type = PlonkProof\<rparr> = Some (Ok res)"
    and resp: "proof_message K res = Ok resp" .
  from create_service_call [OF assms(1,3) call] obtain ex where
    ex: "executor_new (pe_pool_up E) (pe_layers E) (pe_sdk E) (lc_primary_prover config)
       (lc_fallback_prover config) program = Ok ex"
    and answer: "executor_call fuel ex \<lparr>rq_stdin = stdin, rq_proof_type = PlonkProof\<rparr> = Some (Ok res)" .
  show ?thesis
    using stdin resp ex answer executor_call_accepted [OF ex assms(2) answer]
    unfolding request_stdin_eq_Ok proof_message_eq_Ok by blast
qed

theorem pessimistic_proof_verified_witness:
  "\<exists>ex. executor_new True sample_layers sample_sdk (NetworkProver sample_network_config)
       (Some (CpuProver sample_cpu_config)) [1, 2, 3] = Ok ex \<and>
     executor_call 1 ex \<lparr>rq_stdin = 5, rq_proof_type = PlonkProof\<rparr> = Some (Ok \<lparr>rs_proof = 8\<rparr>)"
proof -
  let ?server = "\<lparr>pss_inner = sample_prover_rpc, pss_max_decoding_message_size = default_max_decoding_message_size,
      pss_max_encoding_message_size = default_max_encoding_message_size\<rparr>"
  have layers: "layers_transparent (pe_layers sample_prover_env)"
    by (simp add: sample_prover_env_def sample_layers_transparent)
  have call: "generate_proof 1 sample_proof_codec (pss_inner ?server) sample_metrics \<lparr>gq_stdin = Some (Sp1Stdin [5])\<rparr> =
     (\<lparr>mt_recv = 1, mt_succeeded = 1, mt_failed = 0\<rparr>, Some (Ok \<lparr>gp_proof = [8]\<rparr>))"
    using sample_generate_proof by simp
  from pessimistic_proof_verified [OF sample_create_service layers sample_env_forwards call]
  obtain ex where ex: "executor_new True sample_layers sample_sdk (NetworkProver sample_network_config)
       (Some (CpuProver sample_cpu_config)) [1, 2, 3] = Ok ex"
    by (auto simp: sample_prover_env_def sample_agglayer_config_def)
  then have "ex = sample_executor" using sample_executor_new by simp
  with ex sample_executor_call show ?thesis by blast
qed


text \<open>An executor whose proofs do not verify.\<close>

definition sample_failing_rpc :: "(nat, nat) prover_rpc" where
  "sample_failing_rpc =
     \<lparr>rp_executor = \<lparr>bx_poll_ready = (\<lambda>n. Ready (Ok ())),
        bx_call = (\<lambda>req. Some (Err (BoxExecutor (ProofVerificationFailed InvalidPublicValues))))\<rparr>\<rparr>"


text \<open>C27: The counters of the service agree with its answers. Starting from counters where successes and
  failures are at most the received requests, after any sequence of requests this still holds, the
  received requests have grown by the length of the sequence, and the successes by the number of \<open>Ok\<close>
  answers, whatever the executor does at each request.\<close>

theorem metrics_invariant:
  assumes "mt_succeeded m + mt_failed m \<le> mt_recv m" and "serve fuel K rs m = (m', outs)"
  shows "mt_succeeded m' + mt_failed m' \<le> mt_recv m' \<and> mt_recv m' = mt_recv m + length rs \<and>
     mt_succeeded m' = mt_succeeded m + length (filter is_answer outs) \<and> length outs = length rs"
  using assms
proof (induction rs arbitrary: m m' outs)
  case (Cons r rs)
  obtain rpc req where r: "r = (rpc, req)" by (cases r)
  obtain m1 out where one: "generate_proof fuel K rpc m req = (m1, out)" by force
  obtain outs' where rest: "serve fuel K rs m1 = (m', outs')" and outs: "outs = out # outs'"
    using Cons.prems(2) by (auto simp: r one split: prod.splits)
  from generate_proof_outcome [of fuel K rpc m req] obtain a b where
    "(a, b, out) \<in> proof_outcomes K rpc req"
    and m1: "m1 = \<lparr>mt_recv = mt_recv m + 1, mt_succeeded = mt_succeeded m + a, mt_failed = mt_failed m + b\<rparr>"
    by (auto simp: one)
  then have ab: "a = (if is_answer out then 1 else 0)" "a + b \<le> 1" using outcome_counts by blast+
  have "mt_succeeded m1 + mt_failed m1 \<le> mt_recv m1" using Cons.prems(1) ab(2) by (simp add: m1)
  from Cons.IH [OF this rest] show ?case using ab by (simp add: m1 outs)
qed simp

theorem metrics_invariant_witness:
  "serve 1 sample_proof_codec
     [(sample_prover_rpc, \<lparr>gq_stdin = Some (Sp1Stdin [5])\<rparr>), (sample_prover_rpc, \<lparr>gq_stdin = None\<rparr>)] sample_metrics =
     (\<lparr>mt_recv = 2, mt_succeeded = 1, mt_failed = 0\<rparr>,
      [Some (Ok \<lparr>gp_proof = [8]\<rparr>), Some (Err (status_invalid_argument ''stdin is required''))]) \<and>
   mt_recv \<lparr>mt_recv = 2, mt_succeeded = 1, mt_failed = 0\<rparr> = 2"
proof -
  let ?rs = "[(sample_prover_rpc, \<lparr>gq_stdin = Some (Sp1Stdin [5])\<rparr>), (sample_prover_rpc, \<lparr>gq_stdin = None\<rparr>)]"
  have run: "serve 1 sample_proof_codec ?rs sample_metrics =
     (\<lparr>mt_recv = 2, mt_succeeded = 1, mt_failed = 0\<rparr>,
      [Some (Ok \<lparr>gp_proof = [8]\<rparr>), Some (Err (status_invalid_argument ''stdin is required''))])"
    by (simp add: sample_generate_proof [unfolded One_nat_def]) (simp add: generate_proof_def request_stdin_def)
  have "mt_succeeded sample_metrics + mt_failed sample_metrics \<le> mt_recv sample_metrics" by simp
  from metrics_invariant [OF this run] run show ?thesis by simp
qed

end
