(* ===== verification/Prover_Engine.thy ===== *)
theory Prover_Engine
  imports Aggkit_Rpc Pessimistic_Rpc
begin

text \<open>
  \<open>crates/prover-engine\<close>: the builder of a prover's servers and its \<open>start\<close>, and the two entry points
  \<open>aggkit_prover::runtime\<close> and \<open>agglayer_prover::main\<close> that use it.

  \<open>start\<close> sets the servers up and then waits. The set-up is a function with the errors of its steps; the
  life of the engine after it is a relation of labelled steps over the phase of the main thread, the
  cancellation token, the two spawned server tasks with their open connections, and the two runtimes. A
  server shuts down gracefully: once the token is cancelled it stops accepting and ends when its last
  connection is closed, which may never happen. A panic of the main thread unwinds in steps, in the order in
  which Rust drops the locals of \<open>start\<close>.

  Tokio runtimes, the axum router, the listeners, the reflection and health services are arguments
  (\<open>engine_env\<close>). A service is the pair of its name and its value. \<open>en_rust_log\<close> is the filter of \<open>RUST_LOG\<close>, and
  \<open>en_init_tracing\<close> installs a layer as the global subscriber, which panics when there already is one.
\<close>

section \<open>The engine\<close>

type_synonym descriptor = "byte list"
type_synonym 'svc named_service = "string \<times> 'svc"

record ('r, 'rt, 'svc) engine_env =
  en_router_new :: 'r
  en_route_service :: "'r \<Rightarrow> string \<Rightarrow> 'svc \<Rightarrow> ('r, report) result"
  en_build_runtime :: "string \<Rightarrow> nat option \<Rightarrow> ('rt, report) result"
  en_metrics_server :: "socket_addr \<Rightarrow> (unit, report) result"
  en_tcp_bind :: "socket_addr \<Rightarrow> (unit, report) result"
  en_reflection_v1 :: "descriptor list \<Rightarrow> ('svc named_service, report) result"
  en_reflection_v1alpha :: "descriptor list \<Rightarrow> ('svc named_service, report) result"
  en_health_service :: "'svc named_service"
  en_health_descriptor :: descriptor
  en_signal_runtime :: "(unit, report) result"
  en_rust_log :: "string option"
  en_init_tracing :: "tracing_layer \<Rightarrow> (unit, report) result"

text \<open>A cancellation token is known by whether the caller handed one in; its state is part of the running
  engine.\<close>

datatype cancellation_token = Token

record ('r, 'rt) prover_engine =
  eg_rpc_server :: 'r
  eg_rpc_runtime :: "'rt option"
  eg_metrics_runtime :: "'rt option"
  eg_reflection :: "descriptor list"
  eg_healthy_service :: "string list"
  eg_cancellation_token :: "cancellation_token option"
  eg_metric_socket_addr :: socket_addr
  eg_rpc_socket_addr :: socket_addr
  eg_runtime_shutdown_timeout :: duration

definition engine_new ::
  "('r, 'rt, 'svc) engine_env \<Rightarrow> socket_addr \<Rightarrow> socket_addr \<Rightarrow> duration \<Rightarrow> ('r, 'rt) prover_engine" where
  "engine_new E rpc_socket_addr metric_socket_addr runtime_shutdown_timeout =
     \<lparr>eg_rpc_server = en_router_new E, eg_rpc_runtime = None, eg_metrics_runtime = None,
      eg_reflection = [en_health_descriptor E], eg_healthy_service = [], eg_cancellation_token = None,
      eg_metric_socket_addr = metric_socket_addr, eg_rpc_socket_addr = rpc_socket_addr,
      eg_runtime_shutdown_timeout = runtime_shutdown_timeout\<rparr>"

definition set_rpc_runtime :: "'rt \<Rightarrow> ('r, 'rt) prover_engine \<Rightarrow> ('r, 'rt) prover_engine" where
  "set_rpc_runtime rpc_runtime self = self\<lparr>eg_rpc_runtime := Some rpc_runtime\<rparr>"

definition set_metrics_runtime :: "'rt \<Rightarrow> ('r, 'rt) prover_engine \<Rightarrow> ('r, 'rt) prover_engine" where
  "set_metrics_runtime metrics_runtime self = self\<lparr>eg_metrics_runtime := Some metrics_runtime\<rparr>"

definition set_cancellation_token :: "cancellation_token \<Rightarrow> ('r, 'rt) prover_engine \<Rightarrow> ('r, 'rt) prover_engine" where
  "set_cancellation_token token self = self\<lparr>eg_cancellation_token := Some token\<rparr>"

definition add_rpc_reflection :: "descriptor \<Rightarrow> ('r, 'rt) prover_engine \<Rightarrow> ('r, 'rt) prover_engine" where
  "add_rpc_reflection reflection self = self\<lparr>eg_reflection := eg_reflection self @ [reflection]\<rparr>"

definition add_reflection_service :: "descriptor \<Rightarrow> ('r, 'rt) prover_engine \<Rightarrow> ('r, 'rt) prover_engine" where
  "add_reflection_service descriptor self = self\<lparr>eg_reflection := eg_reflection self @ [descriptor]\<rparr>"

text \<open>The free function \<open>add_rpc_service\<close> routes the paths below the name of the service; axum panics when the
  route is taken.\<close>

definition route_path :: "string \<Rightarrow> string" where
  "route_path name = ''/'' @ name @ ''/{*rest}''"

definition router_add_rpc_service ::
  "('r, 'rt, 'svc) engine_env \<Rightarrow> 'r \<Rightarrow> 'svc named_service \<Rightarrow> ('r, report) result" where
  "router_add_rpc_service E rpc_server svc = en_route_service E rpc_server (route_path (fst svc)) (snd svc)"

definition engine_add_rpc_service ::
  "('r, 'rt, 'svc) engine_env \<Rightarrow> 'svc named_service \<Rightarrow> ('r, 'rt) prover_engine \<Rightarrow>
   (('r, 'rt) prover_engine, report) result" where
  "engine_add_rpc_service E svc self =
     and_then (router_add_rpc_service E (eg_rpc_server self) svc) (\<lambda>rpc_server. Ok
       (self\<lparr>eg_rpc_server := rpc_server, eg_healthy_service := eg_healthy_service self @ [fst svc]\<rparr>))"

section \<open>Setting up\<close>

record ('r, 'rt) running_engine =
  rn_router :: 'r
  rn_serving :: "string list"
  rn_prover_runtime :: 'rt
  rn_metrics_runtime :: 'rt
  rn_metrics_addr :: socket_addr
  rn_rpc_addr :: socket_addr
  rn_shutdown_timeout :: duration

text \<open>\<open>self.x.take().map(Result::Ok).unwrap_or_else(build)\<close>\<close>

definition runtime_or_build :: "'rt option \<Rightarrow> ('rt, report) result \<Rightarrow> ('rt, report) result" where
  "runtime_or_build rt build = (case rt of Some r \<Rightarrow> Ok r | None \<Rightarrow> build)"

definition engine_setup ::
  "('r, 'rt, 'svc) engine_env \<Rightarrow> ('r, 'rt) prover_engine \<Rightarrow> (('r, 'rt) running_engine, report) result" where
  "engine_setup E self =
     and_then
       (runtime_or_build (eg_metrics_runtime self) (en_build_runtime E ''metrics-runtime'' (Some 2)))
       (\<lambda>metrics_runtime.
     and_then
       (runtime_or_build (eg_rpc_runtime self) (en_build_runtime E ''prover-runtime'' None))
       (\<lambda>prover_runtime.
     and_then (en_metrics_server E (eg_metric_socket_addr self)) (\<lambda>_.
     and_then (en_tcp_bind E (eg_rpc_socket_addr self)) (\<lambda>_.
     and_then
       (map_err (\<lambda>_. ''Unable to build the reflection_v1'') (en_reflection_v1 E (eg_reflection self)))
       (\<lambda>reflection_v1.
     and_then
       (map_err (\<lambda>_. ''Unable to build the reflection_v1alpha'') (en_reflection_v1alpha E (eg_reflection self)))
       (\<lambda>reflection_v1alpha.
     and_then (router_add_rpc_service E (eg_rpc_server self) reflection_v1) (\<lambda>rpc_server.
     and_then (router_add_rpc_service E rpc_server reflection_v1alpha) (\<lambda>rpc_server.
     and_then (router_add_rpc_service E rpc_server (en_health_service E)) (\<lambda>rpc_server.
     and_then (en_signal_runtime E) (\<lambda>_. Ok
       \<lparr>rn_router = rpc_server, rn_serving = eg_healthy_service self,
        rn_prover_runtime = prover_runtime, rn_metrics_runtime = metrics_runtime,
        rn_metrics_addr = eg_metric_socket_addr self, rn_rpc_addr = eg_rpc_socket_addr self,
        rn_shutdown_timeout = eg_runtime_shutdown_timeout self\<rparr>))))))))))"

section \<open>Running and shutting down\<close>

text \<open>The main thread: it selects on SIGTERM and SIGINT, then awaits the prover and the metrics server, shuts
  the two runtimes down, and returns. It panics when the handler of SIGTERM cannot be set up; the locals of
  \<open>start\<close> are then dropped in the reverse order of their declaration: the prover runtime, the metrics runtime,
  and last the drop guard of the token.\<close>

datatype phase =
    SelectSignal | AwaitProver | AwaitMetrics | ShutdownProver | ShutdownMetrics | Returned
  | UnwindProver | UnwindMetrics | UnwindGuard | Panicked

text \<open>A server with its number of open connections: serving, or draining after it has seen the cancelled token,
  or ended. Between the cancellation and the moment it is seen, connections may still be accepted.\<close>

datatype task = Serving nat | Draining nat | Ended

datatype server_event = Accept | Close | Drain | Finish

inductive server_step :: "bool \<Rightarrow> server_event \<Rightarrow> task \<Rightarrow> task \<Rightarrow> bool" for cancelled where
  accept: "server_step cancelled Accept (Serving n) (Serving (Suc n))"
| close_serving: "server_step cancelled Close (Serving (Suc n)) (Serving n)"
| close_draining: "server_step cancelled Close (Draining (Suc n)) (Draining n)"
| drain: "cancelled \<Longrightarrow> server_step cancelled Drain (Serving n) (Draining n)"
| finish: "server_step cancelled Finish (Draining 0) Ended"

record engine_state =
  es_phase :: phase
  es_cancelled :: bool
  es_prover :: task
  es_metrics :: task
  es_prover_runtime :: bool
  es_metrics_runtime :: bool

definition engine_started :: engine_state where
  "engine_started =
     \<lparr>es_phase = SelectSignal, es_cancelled = False, es_prover = Serving 0, es_metrics = Serving 0,
      es_prover_runtime = True, es_metrics_runtime = True\<rparr>"

datatype engine_event =
    Signal | SignalSetupFails | TokenCancelled
  | ProverEvent server_event | MetricsEvent server_event
  | ProverAwaited | MetricsAwaited | ProverShutdown | MetricsShutdown
  | ProverDropped | MetricsDropped | GuardDropped

text \<open>The token may also be cancelled by another holder of it. A runtime that is shut down or dropped takes its
  server task with it.\<close>

inductive engine_step :: "engine_event \<Rightarrow> engine_state \<Rightarrow> engine_state \<Rightarrow> bool" where
  signal: "es_phase s = SelectSignal \<Longrightarrow>
    engine_step Signal s (s\<lparr>es_phase := AwaitProver, es_cancelled := True\<rparr>)"
| signal_setup_fails: "es_phase s = SelectSignal \<Longrightarrow>
    engine_step SignalSetupFails s (s\<lparr>es_phase := UnwindProver\<rparr>)"
| token_cancelled: "\<not> es_cancelled s \<Longrightarrow> engine_step TokenCancelled s (s\<lparr>es_cancelled := True\<rparr>)"
| prover_event: "server_step (es_cancelled s) e (es_prover s) p \<Longrightarrow>
    engine_step (ProverEvent e) s (s\<lparr>es_prover := p\<rparr>)"
| metrics_event: "server_step (es_cancelled s) e (es_metrics s) p \<Longrightarrow>
    engine_step (MetricsEvent e) s (s\<lparr>es_metrics := p\<rparr>)"
| prover_awaited: "es_phase s = AwaitProver \<Longrightarrow> es_prover s = Ended \<Longrightarrow>
    engine_step ProverAwaited s (s\<lparr>es_phase := AwaitMetrics\<rparr>)"
| metrics_awaited: "es_phase s = AwaitMetrics \<Longrightarrow> es_metrics s = Ended \<Longrightarrow>
    engine_step MetricsAwaited s (s\<lparr>es_phase := ShutdownProver\<rparr>)"
| prover_shutdown: "es_phase s = ShutdownProver \<Longrightarrow>
    engine_step ProverShutdown s (s\<lparr>es_phase := ShutdownMetrics, es_prover := Ended, es_prover_runtime := False\<rparr>)"
| metrics_shutdown: "es_phase s = ShutdownMetrics \<Longrightarrow>
    engine_step MetricsShutdown s (s\<lparr>es_phase := Returned, es_metrics := Ended, es_metrics_runtime := False\<rparr>)"
| prover_dropped: "es_phase s = UnwindProver \<Longrightarrow>
    engine_step ProverDropped s (s\<lparr>es_phase := UnwindMetrics, es_prover := Ended, es_prover_runtime := False\<rparr>)"
| metrics_dropped: "es_phase s = UnwindMetrics \<Longrightarrow>
    engine_step MetricsDropped s (s\<lparr>es_phase := UnwindGuard, es_metrics := Ended, es_metrics_runtime := False\<rparr>)"
| guard_dropped: "es_phase s = UnwindGuard \<Longrightarrow>
    engine_step GuardDropped s (s\<lparr>es_phase := Panicked, es_cancelled := True\<rparr>)"

inductive engine_run :: "engine_state \<Rightarrow> engine_event list \<Rightarrow> engine_state \<Rightarrow> bool" for s where
  run_start: "engine_run s [] s"
| run_step: "engine_run s evs t \<Longrightarrow> engine_step e t u \<Longrightarrow> engine_run s (evs @ [e]) u"

text \<open>How \<open>start\<close> ends, with the state of the token: the drop guard cancels it whenever \<open>start\<close> is left.\<close>

inductive engine_start ::
  "('r, 'rt, 'svc) engine_env \<Rightarrow> ('r, 'rt) prover_engine \<Rightarrow> bool \<Rightarrow> (unit, report) result \<Rightarrow> bool"
  for E eng where
  setup_failed: "engine_setup E eng = Err e \<Longrightarrow> engine_start E eng True (Err e)"
| setup_panicked: "engine_setup E eng = Panic p \<Longrightarrow> engine_start E eng True (Panic p)"
| returned: "engine_setup E eng = Ok run \<Longrightarrow> engine_run engine_started evs s \<Longrightarrow> es_phase s = Returned \<Longrightarrow>
    engine_start E eng (es_cancelled s) (Ok ())"
| panicked: "engine_setup E eng = Ok run \<Longrightarrow> engine_run engine_started evs s \<Longrightarrow> es_phase s = Panicked \<Longrightarrow>
    engine_start E eng (es_cancelled s) (Panic (PanicString ''Fail to setup SIGTERM signal''))"

section \<open>Entry points\<close>

text \<open>\<open>aggkit_prover::runtime\<close> up to \<open>start\<close>: the configuration is loaded, the logger is installed, the runtimes are
  built, and the service is created on the prover runtime.\<close>

definition aggkit_engine ::
  "('r, 'rt, 'svc) engine_env \<Rightarrow> (string \<Rightarrow> (aggkit_prover_config, configuration_error) result) \<Rightarrow>
   (configuration_error \<Rightarrow> report) \<Rightarrow> nat \<Rightarrow> ('sig, 'sk, 'c, 'pk, 'vk, 'hs) service_env \<Rightarrow> u16 \<Rightarrow>
   (nat \<Rightarrow> ('sig service_request, service_response, service_error) boxed_service \<Rightarrow> 'sig buffered_service) \<Rightarrow>
   ('sig grpc_service \<Rightarrow> 'svc named_service) \<Rightarrow> descriptor \<Rightarrow> string \<Rightarrow>
   (('r, 'rt) prover_engine, report) result" where
  "aggkit_engine E try_load display fuel V program_version buffer server_new file_descriptor_set cfg =
     and_then (map_err display (try_load cfg)) (\<lambda>config.
     and_then (en_init_tracing E (tracing (en_rust_log E) (kc_log config))) (\<lambda>_.
     and_then (en_build_runtime E ''aggkit-prover-runtime'' None) (\<lambda>prover_runtime.
     and_then (en_build_runtime E ''metrics-runtime'' (Some 2)) (\<lambda>metrics_runtime.
     and_then
       (map_err service_error_display
         (grpc_service_new fuel V program_version buffer (kc_aggchain_proof_service config))) (\<lambda>grpc_service.
     and_then
       (engine_add_rpc_service E (server_new grpc_service)
         (engine_new E (kc_grpc_endpoint config) (kc_telemetry_addr config) (kc_shutdown_runtime_timeout config)))
       (\<lambda>engine. Ok
         (set_cancellation_token Token
           (set_metrics_runtime metrics_runtime
             (set_rpc_runtime prover_runtime
               (add_reflection_service file_descriptor_set engine))))))))))"

definition agglayer_engine ::
  "('r, 'rt, 'svc) engine_env \<Rightarrow> (string \<Rightarrow> (agglayer_prover_config, configuration_error) result) \<Rightarrow>
   (configuration_error \<Rightarrow> report) \<Rightarrow> nat \<Rightarrow> ('stdin, 'proof, 'pk, 'vk) prover_env \<Rightarrow>
   (('stdin, 'proof) proof_service_server \<Rightarrow> 'svc named_service) \<Rightarrow> string \<Rightarrow> byte list \<Rightarrow>
   (('r, 'rt) prover_engine, report) result" where
  "agglayer_engine E try_load display fuel PE server_new cfg program =
     and_then (map_err display (try_load cfg)) (\<lambda>config.
     and_then (en_init_tracing E (tracing (en_rust_log E) (lc_log config))) (\<lambda>_.
     and_then (en_build_runtime E ''agglayer-prover-runtime'' None) (\<lambda>prover_runtime.
     and_then (en_build_runtime E ''metrics-runtime'' (Some 2)) (\<lambda>metrics_runtime.
     and_then (map_err (\<lambda>_. ''Failed to create PP service'') (create_service fuel PE config program)) (\<lambda>pp_service.
     and_then
       (engine_add_rpc_service E (server_new pp_service)
         (engine_new E (lc_grpc_endpoint config) (lc_telemetry_addr config) (lc_shutdown_runtime_timeout config)))
       (\<lambda>engine. Ok
         (set_cancellation_token Token
           (set_metrics_runtime metrics_runtime (set_rpc_runtime prover_runtime engine)))))))))"

section \<open>Steps\<close>

inductive_simps server_step_simps:
  "server_step c Accept p q" "server_step c Close p q" "server_step c Drain p q" "server_step c Finish p q"

inductive_simps engine_step_simps:
  "engine_step Signal s t" "engine_step SignalSetupFails s t" "engine_step TokenCancelled s t"
  "engine_step (ProverEvent e) s t" "engine_step (MetricsEvent e) s t"
  "engine_step ProverAwaited s t" "engine_step MetricsAwaited s t"
  "engine_step ProverShutdown s t" "engine_step MetricsShutdown s t"
  "engine_step ProverDropped s t" "engine_step MetricsDropped s t" "engine_step GuardDropped s t"

inductive_simps engine_run_Nil: "engine_run s [] t"

lemma engine_run_Cons: "engine_run s (e # evs) u \<longleftrightarrow> (\<exists>t. engine_step e s t \<and> engine_run t evs u)"
proof
  have "\<exists>t. engine_step e s t \<and> engine_run t evs' u" if "engine_run s evs u" "evs = e # evs'" for evs evs'
    using that
  proof (induction arbitrary: evs' rule: engine_run.induct)
    case (run_step evs0 t e' u)
    show ?case
    proof (cases evs0)
      case Nil
      with run_step show ?thesis by (auto simp: engine_run_Nil intro: run_start)
    next
      case (Cons a rest)
      with run_step.prems have "evs0 = e # rest" "evs' = rest @ [e']" by simp_all
      with run_step.IH [of rest] run_step.hyps(2) show ?thesis by (blast intro: engine_run.run_step)
    qed
  qed simp
  then show "engine_run s (e # evs) u \<Longrightarrow> \<exists>t. engine_step e s t \<and> engine_run t evs u" by blast
  have "engine_run s (e # evs) u" if "engine_run t evs u" "engine_step e s t" for t
    using that
  proof (induction rule: engine_run.induct)
    case run_start
    then show ?case using engine_run.run_step [OF engine_run.run_start] by fastforce
  next
    case (run_step evs t' e' u)
    then show ?case using engine_run.run_step by fastforce
  qed
  then show "\<exists>t. engine_step e s t \<and> engine_run t evs u \<Longrightarrow> engine_run s (e # evs) u" by blast
qed

lemmas run_simps = engine_run_Nil engine_run_Cons engine_step_simps server_step_simps

text \<open>What holds of every state a started engine can be in.\<close>

definition engine_inv :: "engine_state \<Rightarrow> bool" where
  "engine_inv s \<longleftrightarrow>
     (es_phase s \<notin> {SelectSignal, UnwindProver, UnwindMetrics, UnwindGuard} \<longrightarrow> es_cancelled s) \<and>
     (\<forall>n. es_prover s = Draining n \<or> es_metrics s = Draining n \<longrightarrow> es_cancelled s) \<and>
     (es_prover s = Ended \<longrightarrow> es_cancelled s \<or> \<not> es_prover_runtime s) \<and>
     (es_metrics s = Ended \<longrightarrow> es_cancelled s \<or> \<not> es_metrics_runtime s) \<and>
     (es_phase s \<in> {AwaitMetrics, ShutdownProver, ShutdownMetrics, Returned} \<longrightarrow> es_prover s = Ended) \<and>
     (es_phase s \<in> {ShutdownProver, ShutdownMetrics, Returned} \<longrightarrow> es_metrics s = Ended) \<and>
     (es_prover_runtime s \<longleftrightarrow> es_phase s \<notin> {ShutdownMetrics, Returned, UnwindMetrics, UnwindGuard, Panicked}) \<and>
     (es_metrics_runtime s \<longleftrightarrow> es_phase s \<notin> {Returned, UnwindGuard, Panicked}) \<and>
     (\<not> es_prover_runtime s \<longrightarrow> es_prover s = Ended) \<and> (\<not> es_metrics_runtime s \<longrightarrow> es_metrics s = Ended)"

text \<open>Only a server that drains, for which the token was cancelled, ends by itself.\<close>

lemma server_step_keeps:
  assumes "server_step c e p q" and "\<forall>n. p = Draining n \<longrightarrow> c"
  shows "p \<noteq> Ended" and "q = Draining n \<Longrightarrow> c" and "q = Ended \<Longrightarrow> c"
  using assms by (auto elim: server_step.cases)

lemma engine_inv_server:
  assumes "engine_inv s"
  shows "server_step (es_cancelled s) e (es_prover s) p \<Longrightarrow> engine_inv (s\<lparr>es_prover := p\<rparr>)"
    and "server_step (es_cancelled s) e (es_metrics s) q \<Longrightarrow> engine_inv (s\<lparr>es_metrics := q\<rparr>)"
  using assms server_step_keeps [of "es_cancelled s" e "es_prover s" p] server_step_keeps [of "es_cancelled s" e "es_metrics s" q]
  by (auto simp: engine_inv_def)

lemma engine_inv_step: "engine_step e s t \<Longrightarrow> engine_inv s \<Longrightarrow> engine_inv t"
proof (induction rule: engine_step.induct)
  case (prover_event s e p)
  then show ?case using engine_inv_server(1) by blast
next
  case (metrics_event s e p)
  then show ?case using engine_inv_server(2) by blast
qed (auto simp: engine_inv_def)

lemma engine_inv_run: "engine_run engine_started evs s \<Longrightarrow> engine_inv s"
proof (induction rule: engine_run.induct)
  case run_start
  show ?case by (simp add: engine_inv_def engine_started_def)
next
  case (run_step evs t e u)
  then show ?case using engine_inv_step by blast
qed

text \<open>The phase tells which of the two ways out of the wait for a signal was taken.\<close>

lemma engine_run_phase:
  assumes "engine_run engine_started evs s"
  shows "(es_phase s = SelectSignal \<longleftrightarrow> Signal \<notin> set evs \<and> SignalSetupFails \<notin> set evs) \<and>
     (es_phase s \<in> {UnwindProver, UnwindMetrics, UnwindGuard, Panicked} \<longleftrightarrow> SignalSetupFails \<in> set evs) \<and>
     (es_phase s \<in> {AwaitProver, AwaitMetrics, ShutdownProver, ShutdownMetrics, Returned} \<longleftrightarrow> Signal \<in> set evs)"
  using assms
proof (induction rule: engine_run.induct)
  case run_start
  show ?case by (simp add: engine_started_def)
next
  case (run_step evs t e u)
  from run_step.hyps(2) run_step.IH show ?case by (cases rule: engine_step.cases) auto
qed

lemma engine_run_cancelled:
  assumes "engine_run engine_started evs s"
  shows "es_cancelled s \<Longrightarrow> TokenCancelled \<in> set evs \<or> Signal \<in> set evs \<or> es_phase s = Panicked"
  using assms
proof (induction rule: engine_run.induct)
  case run_start
  then show ?case by (simp add: engine_started_def)
next
  case (run_step evs t e u)
  from run_step.hyps(2) run_step.IH run_step.prems show ?case by (cases rule: engine_step.cases) auto
qed

text \<open>Every step but the accepting of a connection uses up a part of what is left to do.\<close>

fun is_accept :: "engine_event \<Rightarrow> bool" where
  "is_accept (ProverEvent Accept) = True"
| "is_accept (MetricsEvent Accept) = True"
| "is_accept _ = False"

definition accepted :: "engine_event list \<Rightarrow> nat" where
  "accepted evs = length (filter is_accept evs)"

fun task_left :: "task \<Rightarrow> nat" where
  "task_left (Serving n) = n + 2"
| "task_left (Draining n) = n + 1"
| "task_left Ended = 0"

fun phase_left :: "phase \<Rightarrow> nat" where
  "phase_left SelectSignal = 5"
| "phase_left AwaitProver = 4"
| "phase_left AwaitMetrics = 3"
| "phase_left ShutdownProver = 2"
| "phase_left ShutdownMetrics = 1"
| "phase_left UnwindProver = 3"
| "phase_left UnwindMetrics = 2"
| "phase_left UnwindGuard = 1"
| "phase_left _ = 0"

definition steps_left :: "engine_state \<Rightarrow> nat" where
  "steps_left s =
     phase_left (es_phase s) + (if es_cancelled s then 0 else 1) + task_left (es_prover s) + task_left (es_metrics s)"

lemma server_step_left:
  "server_step c e p q \<Longrightarrow> task_left q + 1 \<le> task_left p + (if e = Accept then 2 else 0)"
  by (induction rule: server_step.induct) auto

lemma is_accept_server: "is_accept (ProverEvent e) \<longleftrightarrow> e = Accept" "is_accept (MetricsEvent e) \<longleftrightarrow> e = Accept"
  by (cases e; simp)+

lemma engine_step_left: "engine_step e s t \<Longrightarrow> steps_left t + 1 \<le> steps_left s + (if is_accept e then 2 else 0)"
  by (induction rule: engine_step.induct) (auto simp: steps_left_def is_accept_server dest: server_step_left)

lemma engine_run_bounded: "engine_run s evs t \<Longrightarrow> length evs + steps_left t \<le> steps_left s + 2 * accepted evs"
proof (induction rule: engine_run.induct)
  case (run_step evs t e u)
  with engine_step_left [OF run_step.hyps(2)] show ?case by (auto simp: accepted_def split: if_splits)
qed (simp add: accepted_def)

text \<open>A server that has not ended has something else to do than to accept, once the token is cancelled.\<close>

lemma server_progress:
  assumes "p \<noteq> Ended"
  obtains e q where "e \<noteq> Accept" and "server_step True e p q"
proof (cases p)
  case (Serving n)
  then show thesis using that [of Drain "Draining n"] by (simp add: server_step_simps)
next
  case (Draining n)
  then show thesis
    using that [of Finish Ended] that [of Close "Draining (n - 1)"] by (cases n) (simp_all add: server_step_simps)
qed (use assms in simp)

text \<open>So a server that is awaited is not stuck, and no other phase waits.\<close>

lemma engine_progress:
  assumes "engine_inv s" and "es_phase s \<notin> {SelectSignal, Returned, Panicked}"
  shows "\<exists>e t. \<not> is_accept e \<and> engine_step e s t"
proof (cases "es_phase s")
  case AwaitProver
  show ?thesis
  proof (cases "es_prover s = Ended")
    case True
    from prover_awaited [OF AwaitProver this] show ?thesis by (intro exI [of _ ProverAwaited]) auto
  next
    case False
    then obtain e q where "e \<noteq> Accept" "server_step True e (es_prover s) q" by (rule server_progress)
    moreover have "es_cancelled s" using assms(1) AwaitProver by (simp add: engine_inv_def)
    ultimately have "\<not> is_accept (ProverEvent e)" "engine_step (ProverEvent e) s (s\<lparr>es_prover := q\<rparr>)"
      by (simp_all add: is_accept_server prover_event)
    then show ?thesis by blast
  qed
next
  case AwaitMetrics
  show ?thesis
  proof (cases "es_metrics s = Ended")
    case True
    from metrics_awaited [OF AwaitMetrics this] show ?thesis by (intro exI [of _ MetricsAwaited]) auto
  next
    case False
    then obtain e q where "e \<noteq> Accept" "server_step True e (es_metrics s) q" by (rule server_progress)
    moreover have "es_cancelled s" using assms(1) AwaitMetrics by (simp add: engine_inv_def)
    ultimately have "\<not> is_accept (MetricsEvent e)" "engine_step (MetricsEvent e) s (s\<lparr>es_metrics := q\<rparr>)"
      by (simp_all add: is_accept_server metrics_event)
    then show ?thesis by blast
  qed
next
  case ShutdownProver
  then show ?thesis by (intro exI [of _ ProverShutdown]) (simp add: engine_step_simps)
next
  case ShutdownMetrics
  then show ?thesis by (intro exI [of _ MetricsShutdown]) (simp add: engine_step_simps)
next
  case UnwindProver
  then show ?thesis by (intro exI [of _ ProverDropped]) (simp add: engine_step_simps)
next
  case UnwindMetrics
  then show ?thesis by (intro exI [of _ MetricsDropped]) (simp add: engine_step_simps)
next
  case UnwindGuard
  then show ?thesis by (intro exI [of _ GuardDropped]) (simp add: engine_step_simps)
qed (use assms(2) in simp_all)

section \<open>Properties\<close>

text \<open>C14: The engine shuts down in order. In every state that a started engine reaches: after a signal the token
  is cancelled; a server drains only when the token is cancelled, and ends only then or with its runtime. On
  the way out after a signal a runtime is shut down only when both servers have ended; the metrics server
  is awaited after the prover, and the metrics runtime goes down last, so that metrics are served while the
  prover is shutting down. When the main thread panics the order is another: the runtimes are dropped, with
  their servers and the open connections, before the guard cancels the token.\<close>

theorem engine_shutdown_order:
  assumes "engine_run engine_started evs s"
  shows "(Signal \<in> set evs \<longrightarrow> es_cancelled s) \<and>
     (\<forall>n. es_prover s = Draining n \<or> es_metrics s = Draining n \<longrightarrow> es_cancelled s) \<and>
     (es_prover s = Ended \<longrightarrow> es_cancelled s \<or> \<not> es_prover_runtime s) \<and>
     (es_metrics s = Ended \<longrightarrow> es_cancelled s \<or> \<not> es_metrics_runtime s) \<and>
     (Signal \<in> set evs \<and> \<not> es_prover_runtime s \<longrightarrow> es_prover s = Ended \<and> es_metrics s = Ended) \<and>
     (\<not> es_metrics_runtime s \<longrightarrow> \<not> es_prover_runtime s) \<and>
     (es_phase s \<in> {AwaitMetrics, ShutdownProver} \<longrightarrow> es_prover s = Ended \<and> es_metrics_runtime s) \<and>
     (es_phase s = Returned \<longrightarrow> Signal \<in> set evs \<and> \<not> es_prover_runtime s \<and> \<not> es_metrics_runtime s) \<and>
     (es_cancelled s \<and> SignalSetupFails \<in> set evs \<and> TokenCancelled \<notin> set evs \<longrightarrow>
        es_phase s = Panicked \<and> \<not> es_prover_runtime s \<and> \<not> es_metrics_runtime s \<and>
        es_prover s = Ended \<and> es_metrics s = Ended)"
proof -
  have inv: "engine_inv s" by (rule engine_inv_run [OF assms])
  have phase: "es_phase s = SelectSignal \<longleftrightarrow> Signal \<notin> set evs \<and> SignalSetupFails \<notin> set evs"
    "es_phase s \<in> {UnwindProver, UnwindMetrics, UnwindGuard, Panicked} \<longleftrightarrow> SignalSetupFails \<in> set evs"
    "es_phase s \<in> {AwaitProver, AwaitMetrics, ShutdownProver, ShutdownMetrics, Returned} \<longleftrightarrow> Signal \<in> set evs"
    using engine_run_phase [OF assms] by blast+
  have "es_phase s = Panicked" if "es_cancelled s" "SignalSetupFails \<in> set evs" "TokenCancelled \<notin> set evs"
    using engine_run_cancelled [OF assms that(1)] that(2,3) phase(2,3) by auto
  moreover have "Signal \<in> set evs \<Longrightarrow> es_phase s \<noteq> Panicked" using phase(3) by auto
  ultimately show ?thesis
    using inv phase by (cases "es_phase s") (simp_all add: engine_inv_def, blast+)
qed

text \<open>Two runs: a connection is served to its end after a signal, and the handler of SIGTERM cannot be set up.\<close>

definition sample_shutdown :: "engine_event list" where
  "sample_shutdown =
     [ProverEvent Accept, Signal, ProverEvent Drain, ProverEvent Close, ProverEvent Finish, ProverAwaited,
      MetricsEvent Drain, MetricsEvent Finish, MetricsAwaited, ProverShutdown, MetricsShutdown]"

definition sample_unwinding :: "engine_event list" where
  "sample_unwinding = [ProverEvent Accept, SignalSetupFails, ProverDropped, MetricsDropped, GuardDropped]"

lemma sample_shutdown_run:
  "engine_run engine_started sample_shutdown
     \<lparr>es_phase = Returned, es_cancelled = True, es_prover = Ended, es_metrics = Ended,
      es_prover_runtime = False, es_metrics_runtime = False\<rparr>"
  by (simp add: sample_shutdown_def engine_started_def run_simps)

lemma sample_unwinding_run:
  "engine_run engine_started sample_unwinding
     \<lparr>es_phase = Panicked, es_cancelled = True, es_prover = Ended, es_metrics = Ended,
      es_prover_runtime = False, es_metrics_runtime = False\<rparr>"
  by (simp add: sample_unwinding_def engine_started_def run_simps)

theorem engine_shutdown_order_witness:
  "\<exists>s. engine_run engine_started sample_unwinding s \<and> es_phase s = Panicked \<and> \<not> es_prover_runtime s"
  using engine_shutdown_order [OF sample_unwinding_run] sample_unwinding_run by (fastforce simp: sample_unwinding_def)



text \<open>However \<open>start\<close> is left, the token is cancelled, so that no server outlives it unnoticed; and an \<open>Ok\<close> means
  that the servers were set up and have ended.\<close>

lemma engine_start_cancels: "engine_start E eng c r \<Longrightarrow> c"
  by (induction rule: engine_start.induct) (auto dest!: engine_inv_run simp: engine_inv_def)

text \<open>The servers that the entry points set up.\<close>

lemma aggkit_engine_Ok:
  assumes "aggkit_engine E try_load display fuel V ver buffer server_new fds cfg = Ok eng"
  shows "\<exists>config gs. try_load cfg = Ok config \<and>
     grpc_service_new fuel V ver buffer (kc_aggchain_proof_service config) = Ok gs \<and>
     eg_healthy_service eng = [fst (server_new gs)] \<and> eg_reflection eng = [en_health_descriptor E, fds] \<and>
     eg_rpc_socket_addr eng = kc_grpc_endpoint config \<and> eg_metric_socket_addr eng = kc_telemetry_addr config"
proof -
  obtain config gs eng' m p where "try_load cfg = Ok config"
    and "grpc_service_new fuel V ver buffer (kc_aggchain_proof_service config) = Ok gs"
    and add: "engine_add_rpc_service E (server_new gs)
         (engine_new E (kc_grpc_endpoint config) (kc_telemetry_addr config) (kc_shutdown_runtime_timeout config)) =
       Ok eng'"
    and "eng = set_cancellation_token Token (set_metrics_runtime m (set_rpc_runtime p (add_reflection_service fds eng')))"
    using assms unfolding aggkit_engine_def and_then_eq_Ok map_err_eq_Ok result.inject by blast
  moreover have "\<exists>r. eng' = (engine_new E (kc_grpc_endpoint config) (kc_telemetry_addr config)
      (kc_shutdown_runtime_timeout config))\<lparr>eg_rpc_server := r, eg_healthy_service := [fst (server_new gs)]\<rparr>"
    using add unfolding engine_add_rpc_service_def and_then_eq_Ok result.inject
    by (auto simp: engine_new_def)
  ultimately show ?thesis
    by (auto simp: set_cancellation_token_def set_metrics_runtime_def set_rpc_runtime_def
        add_reflection_service_def engine_new_def)
qed

end
