(* ===== verification/Toml_Value.thy ===== *)
theory Toml_Value
  imports Prover_Prelude "HOL-Library.Multiset"
begin

text \<open>
  TOML values, and what the code that \<open>serde\<close> derives does with the attributes of a field: the names under
  which a field is read, its default or the error when it is absent, the entries it is written as. The
  definitions of the configuration crates are stated with these in \<open>Config_Toml\<close>.

  The text of a document is an argument. A printer may move the entries of a table, as TOML wants values
  before tables, so a document is read back up to the order of entries (\<open>toml_perm\<close>), and the readers are
  shown not to depend on it (\<open>order_free\<close>). The locale \<open>toml_codec\<close> is the contract of a type that is written
  and read.

  Left out are other forms that a reader also accepts and no writer produces: an array in place of a table,
  read by position, and a table in place of the name of a variant.
\<close>

section \<open>Values\<close>

datatype toml_value =
    TomlString string
  | TomlInteger int
  | TomlBoolean bool
  | TomlArray "toml_value list"
  | TomlTable "(string \<times> toml_value) list"
  | TomlOther

type_synonym toml_entry = "string \<times> toml_value"

fun toml_get :: "string \<Rightarrow> toml_value \<Rightarrow> toml_value option" where
  "toml_get key (TomlTable entries) = map_of entries key"
| "toml_get key _ = None"

fun toml_as_str :: "toml_value \<Rightarrow> string option" where
  "toml_as_str (TomlString s) = Some s"
| "toml_as_str _ = None"

datatype toml_error =
    TomlInvalidType string
  | TomlInvalidValue string
  | TomlMissingField string
  | TomlDuplicateField string
  | TomlUnknownVariant string
  | TomlOutOfRange
  | TomlDefault report

type_synonym 'a toml_writer = "'a \<Rightarrow> (toml_value, toml_error) result"
type_synonym 'a toml_reader = "toml_value \<Rightarrow> ('a, toml_error) result"

section \<open>Reading a table\<close>

text \<open>The value of a field under its name or an alias. Names that are not asked for are ignored.\<close>

definition toml_lookup :: "string list \<Rightarrow> toml_entry list \<Rightarrow> (toml_value option, toml_error) result" where
  "toml_lookup names es =
     (case filter (\<lambda>e. fst e \<in> set names) es of
        [] \<Rightarrow> Ok None
      | [e] \<Rightarrow> Ok (Some (snd e))
      | _ \<Rightarrow> Err (TomlDuplicateField (hd names)))"

definition toml_field ::
  "string list \<Rightarrow> ('a, toml_error) result \<Rightarrow> 'a toml_reader \<Rightarrow> toml_entry list \<Rightarrow> ('a, toml_error) result" where
  "toml_field names absent de es =
     and_then (toml_lookup names es) (\<lambda>v. case v of None \<Rightarrow> absent | Some v \<Rightarrow> de v)"

text \<open>A field without a default, a field with the default \<open>d\<close>, and an optional field.\<close>

definition required_field :: "string \<Rightarrow> 'a toml_reader \<Rightarrow> toml_entry list \<Rightarrow> ('a, toml_error) result" where
  "required_field name = toml_field [name] (Err (TomlMissingField name))"

definition default_field :: "string list \<Rightarrow> 'a \<Rightarrow> 'a toml_reader \<Rightarrow> toml_entry list \<Rightarrow> ('a, toml_error) result" where
  "default_field names d = toml_field names (Ok d)"

definition computed_field ::
  "string \<Rightarrow> ('a, report) result \<Rightarrow> 'a toml_reader \<Rightarrow> toml_entry list \<Rightarrow> ('a, toml_error) result" where
  "computed_field name d = toml_field [name] (map_err TomlDefault d)"

definition option_field_reader :: "'a toml_reader \<Rightarrow> 'a option toml_reader" where
  "option_field_reader de v = map_ok Some (de v)"

definition optional_field :: "string \<Rightarrow> 'a toml_reader \<Rightarrow> toml_entry list \<Rightarrow> ('a option, toml_error) result" where
  "optional_field name de = default_field [name] None (option_field_reader de)"

definition read_table :: "(toml_entry list \<Rightarrow> ('a, toml_error) result) \<Rightarrow> 'a toml_reader" where
  "read_table f v = (case v of TomlTable es \<Rightarrow> f es | _ \<Rightarrow> Err (TomlInvalidType ''table''))"

definition read_array :: "'a toml_reader \<Rightarrow> 'a list toml_reader" where
  "read_array de v = (case v of TomlArray vs \<Rightarrow> collect_results de vs | _ \<Rightarrow> Err (TomlInvalidType ''array''))"

section \<open>Writing a table\<close>

type_synonym toml_fields = "(toml_entry list, toml_error) result"

definition write_field :: "string \<Rightarrow> 'a toml_writer \<Rightarrow> 'a \<Rightarrow> toml_fields" where
  "write_field name ser x = map_ok (\<lambda>v. [(name, v)]) (ser x)"

text \<open>\<open>skip_serializing_if\<close>, and an optional field, which TOML leaves out when it is \<open>None\<close>.\<close>

definition write_field_unless :: "('a \<Rightarrow> bool) \<Rightarrow> string \<Rightarrow> 'a toml_writer \<Rightarrow> 'a \<Rightarrow> toml_fields" where
  "write_field_unless skip name ser x = (if skip x then Ok [] else write_field name ser x)"

definition write_option :: "string \<Rightarrow> 'a toml_writer \<Rightarrow> 'a option \<Rightarrow> toml_fields" where
  "write_option name ser x = (case x of None \<Rightarrow> Ok [] | Some y \<Rightarrow> write_field name ser y)"

fun write_fields :: "toml_fields list \<Rightarrow> toml_fields" where
  "write_fields [] = Ok []"
| "write_fields (f # fs) = and_then f (\<lambda>es. map_ok ((@) es) (write_fields fs))"

definition write_table :: "toml_fields list \<Rightarrow> (toml_value, toml_error) result" where
  "write_table fs = map_ok TomlTable (write_fields fs)"

definition write_array :: "'a toml_writer \<Rightarrow> 'a list toml_writer" where
  "write_array ser xs = map_ok TomlArray (collect_results ser xs)"

section \<open>Scalars\<close>

text \<open>A TOML integer has 64 bits and a sign, so a larger \<open>u64\<close> cannot be written.\<close>

definition write_u64 :: "u64 toml_writer" where
  "write_u64 n = (if unat n < 2 ^ 63 then Ok (TomlInteger (uint n)) else Err TomlOutOfRange)"

definition read_u64 :: "u64 toml_reader" where
  "read_u64 v =
     (case v of
        TomlInteger i \<Rightarrow> if 0 \<le> i \<and> i < 2 ^ 64 then Ok (word_of_int i) else Err (TomlInvalidValue ''u64'')
      | _ \<Rightarrow> Err (TomlInvalidType ''u64''))"

definition write_u32 :: "u32 toml_writer" where
  "write_u32 n = Ok (TomlInteger (uint n))"

definition read_u32 :: "u32 toml_reader" where
  "read_u32 v =
     (case v of
        TomlInteger i \<Rightarrow> if 0 \<le> i \<and> i < 2 ^ 32 then Ok (word_of_int i) else Err (TomlInvalidValue ''u32'')
      | _ \<Rightarrow> Err (TomlInvalidType ''u32''))"

definition write_bool :: "bool toml_writer" where
  "write_bool b = Ok (TomlBoolean b)"

definition read_bool :: "bool toml_reader" where
  "read_bool v = (case v of TomlBoolean b \<Rightarrow> Ok b | _ \<Rightarrow> Err (TomlInvalidType ''bool''))"

definition write_string :: "string toml_writer" where
  "write_string s = Ok (TomlString s)"

definition read_string :: "string toml_reader" where
  "read_string v = (case v of TomlString s \<Rightarrow> Ok s | _ \<Rightarrow> Err (TomlInvalidType ''string''))"

text \<open>A type that is written by \<open>Display\<close> and read by \<open>FromStr\<close>.\<close>

definition write_display :: "('a \<Rightarrow> string) \<Rightarrow> 'a toml_writer" where
  "write_display display x = write_string (display x)"

definition read_parsed :: "(string \<Rightarrow> 'a option) \<Rightarrow> 'a toml_reader" where
  "read_parsed parse v = and_then (read_string v) (\<lambda>s. ok_or (TomlInvalidValue s) (parse s))"

text \<open>An enum of names, and one whose variants carry a value: a table with the name of the variant as its only key.\<close>

definition read_variant :: "(string \<times> 'a) list \<Rightarrow> 'a toml_reader" where
  "read_variant variants v =
     and_then (read_string v) (\<lambda>s. ok_or (TomlUnknownVariant s) (map_of variants s))"

definition write_newtype :: "string \<Rightarrow> (toml_value, toml_error) result \<Rightarrow> (toml_value, toml_error) result" where
  "write_newtype name r = map_ok (\<lambda>v. TomlTable [(name, v)]) r"

definition read_newtype :: "(string \<times> 'a toml_reader) list \<Rightarrow> 'a toml_reader" where
  "read_newtype variants v =
     (case v of
        TomlTable [(name, w)] \<Rightarrow>
          (case map_of variants name of None \<Rightarrow> Err (TomlUnknownVariant name) | Some de \<Rightarrow> de w)
      | _ \<Rightarrow> Err (TomlInvalidType ''map with a single key''))"

section \<open>The order of entries\<close>

inductive toml_perm :: "toml_value \<Rightarrow> toml_value \<Rightarrow> bool" where
  perm_refl: "toml_perm v v"
| perm_array: "list_all2 toml_perm vs ws \<Longrightarrow> toml_perm (TomlArray vs) (TomlArray ws)"
| perm_table: "list_all2 (\<lambda>e f. fst e = fst f \<and> toml_perm (snd e) (snd f)) es fs \<Longrightarrow> mset fs = mset gs \<Longrightarrow>
    toml_perm (TomlTable es) (TomlTable gs)"

definition entries_perm :: "toml_entry list \<Rightarrow> toml_entry list \<Rightarrow> bool" where
  "entries_perm es gs \<longleftrightarrow>
     (\<exists>fs. list_all2 (\<lambda>e f. fst e = fst f \<and> toml_perm (snd e) (snd f)) es fs \<and> mset fs = mset gs)"

definition order_free :: "'a toml_reader \<Rightarrow> bool" where
  "order_free de \<longleftrightarrow> (\<forall>v w. toml_perm v w \<longrightarrow> de v = de w)"

section \<open>Lemmas\<close>

lemma write_field_eq_Ok [result_simps]: "write_field name ser x = Ok es \<longleftrightarrow> (\<exists>v. ser x = Ok v \<and> es = [(name, v)])"
  by (auto simp: write_field_def map_ok_eq_Ok)

lemma write_field_unless_eq_Ok [result_simps]:
  "write_field_unless skip name ser x = Ok es \<longleftrightarrow>
     (if skip x then es = [] else (\<exists>v. ser x = Ok v \<and> es = [(name, v)]))"
  by (auto simp: write_field_unless_def write_field_eq_Ok)

lemma write_option_eq_Ok [result_simps]:
  "write_option name ser x = Ok es \<longleftrightarrow>
     (case x of None \<Rightarrow> es = [] | Some y \<Rightarrow> (\<exists>v. ser y = Ok v \<and> es = [(name, v)]))"
  by (auto simp: write_option_def write_field_eq_Ok split: option.splits)

lemma write_table_eq_Ok: "write_table fs = Ok v \<longleftrightarrow> (\<exists>es. write_fields fs = Ok es \<and> v = TomlTable es)"
  by (simp add: write_table_def map_ok_eq_Ok)

lemmas write_struct_simps = write_table_eq_Ok write_fields.simps and_then_eq_Ok map_ok_eq_Ok result.inject
  write_field_eq_Ok write_field_unless_eq_Ok write_option_eq_Ok

lemma read_table_eq_Ok: "read_table f v = Ok x \<longleftrightarrow> (\<exists>es. v = TomlTable es \<and> f es = Ok x)"
  by (cases v) (simp_all add: read_table_def)

lemma toml_field_Ok:
  assumes "toml_field names absent de es = Ok x"
  obtains "absent = Ok x" | v where "de v = Ok x"
  using assms by (auto simp: toml_field_def and_then_eq_Ok split: option.splits)

lemma required_field_Ok:
  assumes "required_field name de es = Ok x" obtains v where "de v = Ok x"
  by (rule toml_field_Ok [OF assms [unfolded required_field_def]]) (use that in blast)+

lemma default_field_Ok:
  assumes "default_field names d de es = Ok x" obtains "d = x" | v where "de v = Ok x"
  by (rule toml_field_Ok [OF assms [unfolded default_field_def]]) (use that in blast)+

lemma computed_field_Ok:
  assumes "computed_field name d de es = Ok x" obtains "d = Ok x" | v where "de v = Ok x"
  by (rule toml_field_Ok [OF assms [unfolded computed_field_def], unfolded map_err_eq_Ok]) (use that in blast)+

lemma optional_field_Ok:
  assumes "optional_field name de es = Ok x" and "x = Some y" obtains v where "de v = Ok y"
  using assms(1) unfolding optional_field_def
  by (rule default_field_Ok) (use assms(2) in \<open>auto simp: option_field_reader_def map_ok_eq_Ok\<close>)

text \<open>A property of all values that are read, or that are the default, is a property of a field.\<close>

lemma required_field_inv: "required_field name de es = Ok x \<Longrightarrow> (\<And>v y. de v = Ok y \<Longrightarrow> Q y) \<Longrightarrow> Q x"
  by (erule required_field_Ok) blast

lemma default_field_inv: "default_field names d de es = Ok x \<Longrightarrow> (\<And>v y. de v = Ok y \<Longrightarrow> Q y) \<Longrightarrow> Q d \<Longrightarrow> Q x"
  by (erule default_field_Ok) blast+

lemma computed_field_inv:
  "computed_field name c de es = Ok x \<Longrightarrow> (\<And>v y. de v = Ok y \<Longrightarrow> Q y) \<Longrightarrow> (\<And>y. c = Ok y \<Longrightarrow> Q y) \<Longrightarrow> Q x"
  by (erule computed_field_Ok) blast+

lemma optional_field_inv:
  "optional_field name de es = Ok x \<Longrightarrow> (\<And>v y. de v = Ok y \<Longrightarrow> Q y) \<Longrightarrow> \<forall>y. x = Some y \<longrightarrow> Q y"
  by (auto elim!: optional_field_Ok)

subsection \<open>Reading does not depend on the order\<close>

lemma order_freeI: "(\<And>v w. toml_perm v w \<Longrightarrow> de v = de w) \<Longrightarrow> order_free de"
  by (simp add: order_free_def)

lemma order_freeD: "order_free de \<Longrightarrow> toml_perm v w \<Longrightarrow> de v = de w"
  by (simp add: order_free_def)

lemma entries_perm_filter:
  assumes "entries_perm es gs"
  shows "entries_perm (filter (\<lambda>e. P (fst e)) es) (filter (\<lambda>e. P (fst e)) gs)"
proof -
  let ?R = "\<lambda>e f. fst e = fst f \<and> toml_perm (snd e) (snd f)"
  obtain fs where rel: "list_all2 ?R es fs" and fs: "mset fs = mset gs"
    using assms unfolding entries_perm_def by blast
  from rel have "list_all2 ?R (filter (\<lambda>e. P (fst e)) es) (filter (\<lambda>e. P (fst e)) fs)"
    by (induction rule: list_all2_induct) auto
  moreover have "mset (filter (\<lambda>e. P (fst e)) fs) = mset (filter (\<lambda>e. P (fst e)) gs)"
    using fs by (metis mset_filter)
  ultimately show ?thesis unfolding entries_perm_def by blast
qed

lemma entries_perm_length: "entries_perm es gs \<Longrightarrow> length es = length gs"
  unfolding entries_perm_def by (auto dest!: list_all2_lengthD mset_eq_length)

lemma entries_perm_single: "entries_perm [e] gs \<Longrightarrow> \<exists>f. gs = [f] \<and> fst e = fst f \<and> toml_perm (snd e) (snd f)"
  unfolding entries_perm_def by (auto simp: list_all2_Cons1)

lemma toml_lookup_perm:
  assumes "entries_perm es gs"
  shows "(toml_lookup names es = Ok None \<and> toml_lookup names gs = Ok None) \<or>
     (\<exists>v w. toml_lookup names es = Ok (Some v) \<and> toml_lookup names gs = Ok (Some w) \<and> toml_perm v w) \<or>
     (\<exists>e. toml_lookup names es = Err e \<and> toml_lookup names gs = Err e)"
proof -
  define fs where "fs = filter (\<lambda>e. fst e \<in> set names) es"
  define hs where "hs = filter (\<lambda>e. fst e \<in> set names) gs"
  have perm: "entries_perm fs hs"
    unfolding fs_def hs_def using entries_perm_filter [OF assms, of "\<lambda>k. k \<in> set names"] .
  note len = entries_perm_length [OF perm]
  consider "fs = []" | e where "fs = [e]" | e e' r where "fs = e # e' # r"
    by (metis list.exhaust)
  then show ?thesis
  proof cases
    case 1
    then show ?thesis using len by (simp add: toml_lookup_def fs_def [symmetric] hs_def [symmetric])
  next
    case (2 e)
    then obtain f where "hs = [f]" and "toml_perm (snd e) (snd f)"
      using entries_perm_single perm by blast
    then show ?thesis using 2 by (simp add: toml_lookup_def fs_def [symmetric] hs_def [symmetric])
  next
    case (3 e e' r)
    then have "length hs = Suc (Suc (length r))" using len by simp
    then obtain f f' r' where "hs = f # f' # r'" by (metis length_Suc_conv)
    then show ?thesis using 3 by (simp add: toml_lookup_def fs_def [symmetric] hs_def [symmetric])
  qed
qed

lemma toml_field_perm:
  assumes "entries_perm es gs" and "order_free de"
  shows "toml_field names absent de es = toml_field names absent de gs"
  using toml_lookup_perm [OF assms(1), of names] assms(2) by (auto simp: toml_field_def order_free_def)

lemma order_free_option: "order_free de \<Longrightarrow> order_free (option_field_reader de)"
  by (simp add: order_free_def option_field_reader_def)

lemma fields_perm:
  assumes "entries_perm es gs" and "order_free de"
  shows "required_field name de es = required_field name de gs"
    and "default_field names d de es = default_field names d de gs"
    and "computed_field name c de es = computed_field name c de gs"
    and "optional_field name de es = optional_field name de gs"
  using toml_field_perm [OF assms] toml_field_perm [OF assms(1) order_free_option [OF assms(2)]]
  by (simp_all add: required_field_def default_field_def computed_field_def optional_field_def)

lemma order_free_table:
  assumes "\<And>es gs. entries_perm es gs \<Longrightarrow> f es = f gs"
  shows "order_free (read_table f)"
  unfolding order_free_def
proof (intro allI impI)
  fix v w
  assume "toml_perm v w"
  then show "read_table f v = read_table f w"
  proof cases
    case (perm_table es fs gs)
    then have "entries_perm es gs" unfolding entries_perm_def by blast
    then show ?thesis using perm_table assms by (simp add: read_table_def)
  qed (simp_all add: read_table_def)
qed

lemma order_free_array:
  assumes "order_free de"
  shows "order_free (read_array de)"
proof -
  have "collect_results de vs = collect_results de ws" if "list_all2 toml_perm vs ws" for vs ws
    using that assms by (induction rule: list_all2_induct) (auto simp: order_free_def)
  then show ?thesis
    unfolding order_free_def by (auto simp: read_array_def elim!: toml_perm.cases)
qed

lemma order_free_scalars [simp]:
  "order_free read_u64" "order_free read_u32" "order_free read_bool" "order_free read_string"
  "order_free (read_parsed parse)"
  by (auto simp: order_free_def read_u64_def read_u32_def read_bool_def read_string_def read_parsed_def
      elim!: toml_perm.cases)

lemma order_free_variant [simp]: "order_free (read_variant variants)"
  by (auto simp: order_free_def read_variant_def read_string_def elim!: toml_perm.cases)

lemma order_free_newtype:
  assumes "\<And>name de. (name, de) \<in> set variants \<Longrightarrow> order_free de"
  shows "order_free (read_newtype variants)"
  unfolding order_free_def
proof (intro allI impI)
  fix v w
  assume "toml_perm v w"
  then show "read_newtype variants v = read_newtype variants w"
  proof cases
    case (perm_table es fs gs)
    then have perm: "entries_perm es gs" unfolding entries_perm_def by blast
    show ?thesis
    proof (cases "\<exists>e. es = [e]")
      case True
      then obtain k x where es: "es = [(k, x)]" by auto
      then obtain y where "gs = [(k, y)]" and "toml_perm x y" using entries_perm_single perm by fastforce
      moreover have "order_free de" if "map_of variants k = Some de" for de
        using assms that by (blast dest: map_of_SomeD)
      ultimately show ?thesis
        using perm_table es by (auto simp: read_newtype_def order_free_def split: option.splits)
    next
      case False
      then have "\<nexists>f. gs = [f]" using entries_perm_length [OF perm] by (auto simp: length_Suc_conv)
      with False show ?thesis using perm_table by (auto simp: read_newtype_def split: list.splits)
    qed
  qed (simp_all add: read_newtype_def)
qed

section \<open>Types that are written and read\<close>

text \<open>The contract: what a writer produced for a well-formed value is read back, in any order of entries.\<close>

locale toml_codec =
  fixes ser :: "'a toml_writer" and de :: "'a toml_reader" and wf :: "'a \<Rightarrow> bool"
  assumes reads_back: "ser x = Ok v \<Longrightarrow> wf x \<Longrightarrow> de v = Ok x"
    and order_free_de: "order_free de"
begin

lemma reads_perm: "ser x = Ok v \<Longrightarrow> wf x \<Longrightarrow> toml_perm v w \<Longrightarrow> de w = Ok x"
  using reads_back order_free_de unfolding order_free_def by metis

lemma field_reads:
  assumes "ser x = Ok v" and "wf x" and "filter (\<lambda>e. fst e \<in> set names) es = [(k, v)]"
  shows "toml_field names absent de es = Ok x"
  using assms(3) reads_back [OF assms(1,2)] by (simp add: toml_field_def toml_lookup_def)

lemma array_reads: "collect_results ser xs = Ok vs \<Longrightarrow> \<forall>x\<in>set xs. wf x \<Longrightarrow> collect_results de vs = Ok xs"
proof (induction xs arbitrary: vs)
  case (Cons x xs)
  then show ?case by (auto simp: and_then_eq_Ok map_ok_eq_Ok reads_back)
qed simp

end

lemma u64_reads_back: "write_u64 n = Ok v \<Longrightarrow> read_u64 v = Ok n"
  using unsigned_less [of n] by (auto simp: write_u64_def read_u64_def split: if_splits)

lemma u32_reads_back: "write_u32 n = Ok v \<Longrightarrow> read_u32 v = Ok n"
  using unsigned_less [of n] by (auto simp: write_u32_def read_u32_def)

interpretation u64_toml: toml_codec write_u64 read_u64 "\<lambda>_. True"
  by unfold_locales (simp_all add: u64_reads_back)

interpretation u32_toml: toml_codec write_u32 read_u32 "\<lambda>_. True"
  by unfold_locales (simp_all add: u32_reads_back)

interpretation bool_toml: toml_codec write_bool read_bool "\<lambda>_. True"
  by unfold_locales (auto simp: write_bool_def read_bool_def)

interpretation string_toml: toml_codec write_string read_string "\<lambda>_. True"
  by unfold_locales (auto simp: write_string_def read_string_def)

interpretation parsed_toml: toml_codec "write_display display" "read_parsed parse" "\<lambda>x. parse (display x) = Some x"
  for display parse
  by unfold_locales (auto simp: write_display_def read_parsed_def write_string_def read_string_def)

end
