(* ===== verification/Entry_Points.thy ===== *)
theory Entry_Points
  imports Prover_Engine Toml_Value
begin

text \<open>
  The binaries around the services: the command line of \<open>crates/aggkit-prover\<close> (\<open>cli/mod.rs\<close>, \<open>main.rs\<close>,
  \<open>version\<close>), the library entry points of \<open>crates/agglayer-prover\<close> (\<open>compute_program_vkey\<close>, \<open>Prover::start\<close>,
  \<open>await_shutdown\<close>, \<open>start_prover\<close>, \<open>FakeProver::spawn_at\<close>) and the build script of
  \<open>crates/aggchain-proof-core\<close> that fixes the version of the program.

  A command is known by what it prints and by its result, which is the exit status of the process. The
  TOML serialiser, the functions of the SDK on keys and the tonic server are arguments. Commands other
  than \<open>Run\<close> are functions; \<open>Run\<close> ends when the engine ends and is a relation. The server task of
  \<open>Prover::start\<close> is observed through \<open>server\<close>, which is \<open>None\<close> as long as the server is running.
\<close>

section \<open>The command line of the aggkit prover\<close>

datatype commands =
    Run string
  | Config
  | ValidateConfig string
  | Vkey
  | VkeySelector

text \<open>The attributes of the \<open>config_path\<close> of \<open>Run\<close>: the argument, else the variable \<open>CONFIG_PATH\<close>, else the default.\<close>

definition run_config_path :: "string option \<Rightarrow> environment \<Rightarrow> string" where
  "run_config_path arg env =
     (case arg of
        Some path \<Rightarrow> path
      | None \<Rightarrow> (case env_var env ''CONFIG_PATH'' of Some path \<Rightarrow> path | None \<Rightarrow> ''aggkit-prover.toml''))"

definition aggkit_version :: "string \<Rightarrow> string \<Rightarrow> string \<Rightarrow> string" where
  "aggkit_version pkg_name git_describe commit_timestamp =
     pkg_name @ '' ('' @ git_describe @ '') [git commit timestamp: '' @ commit_timestamp @ '']''"

record console =
  out_stdout :: "string list"
  out_stderr :: "string list"
  out_result :: "(unit, report) result"

definition println_ok :: "(string, report) result \<Rightarrow> console" where
  "println_ok r =
     (case r of
        Ok line \<Rightarrow> \<lparr>out_stdout = [line], out_stderr = [], out_result = Ok ()\<rparr>
      | Err e \<Rightarrow> \<lparr>out_stdout = [], out_stderr = [], out_result = Err e\<rparr>
      | Panic p \<Rightarrow> \<lparr>out_stdout = [], out_stderr = [], out_result = Panic p\<rparr>)"

definition config_text ::
  "(aggkit_prover_config \<Rightarrow> (string, report) result) \<Rightarrow> aggkit_prover_config \<Rightarrow> (string, report) result" where
  "config_text to_string_pretty config =
     map_err (\<lambda>_. ''Failed to serialize ProverConfig to TOML'') (to_string_pretty config)"

definition config_command ::
  "(aggkit_prover_config \<Rightarrow> (string, report) result) \<Rightarrow> environment \<Rightarrow> console" where
  "config_command to_string_pretty env =
     println_ok (and_then (aggkit_prover_config_default env) (config_text to_string_pretty))"

definition validate_config_command ::
  "(aggkit_prover_config \<Rightarrow> (string, report) result) \<Rightarrow> (configuration_error \<Rightarrow> report) \<Rightarrow>
   (string \<Rightarrow> (aggkit_prover_config, configuration_error) result) \<Rightarrow> string \<Rightarrow> console" where
  "validate_config_command to_string_pretty display try_load config_path =
     (case try_load config_path of
        Ok config \<Rightarrow> println_ok (config_text to_string_pretty config)
      | Err error \<Rightarrow> \<lparr>out_stdout = [], out_stderr = [display error], out_result = Ok ()\<rparr>
      | Panic p \<Rightarrow> \<lparr>out_stdout = [], out_stderr = [], out_result = Panic p\<rparr>)"

text \<open>\<open>Executor::new\<close> for the CPU prover runs on a runtime of its own.\<close>

definition vkey_command ::
  "(unit, report) result \<Rightarrow> bool \<Rightarrow> ('stdin request, 'proof response) tower_layers \<Rightarrow>
   ('stdin, 'proof, 'pk, 'vk) sp1_sdk \<Rightarrow> ('vk \<Rightarrow> byte list) \<Rightarrow> byte list \<Rightarrow> console" where
  "vkey_command runtime pool_up L sdk hash_bytes elf =
     println_ok
       (and_then runtime (\<lambda>_.
        and_then (executor_new pool_up L sdk (CpuProver cpu_prover_config_default) None elf) (\<lambda>executor.
        let vkey = ex_vkey executor; vkey_hex = hex_encode (hash_bytes vkey) in
        Ok (''0x'' @ vkey_hex))))"

definition vkey_selector_command :: "u16 \<Rightarrow> console" where
  "vkey_selector_command program_version =
     println_ok (Ok (''0x'' @ hex_encode (AGGCHAIN_VKEY_SELECTOR program_version)))"

text \<open>\<open>runtime\<close>: the engine is set up and started; the result is that of the failed step, or of \<open>start\<close>.\<close>

inductive aggkit_runtime ::
  "('r, 'rt, 'svc) engine_env \<Rightarrow> (('r, 'rt) prover_engine, report) result \<Rightarrow> (unit, report) result \<Rightarrow> bool"
  for E where
  engine_error: "aggkit_runtime E (Err e) (Err e)"
| engine_panic: "aggkit_runtime E (Panic p) (Panic p)"
| engine_runs: "engine_start E eng c r \<Longrightarrow> aggkit_runtime E (Ok eng) r"

text \<open>What \<open>main\<close> needs: the engine for a configuration file, and the arguments of the commands.\<close>

record ('r, 'rt, 'svc, 'stdin, 'proof, 'pk, 'vk) main_env =
  mn_engine_env :: "('r, 'rt, 'svc) engine_env"
  mn_engine :: "string \<Rightarrow> (('r, 'rt) prover_engine, report) result"
  mn_environment :: environment
  mn_try_load :: "string \<Rightarrow> (aggkit_prover_config, configuration_error) result"
  mn_display :: "configuration_error \<Rightarrow> report"
  mn_to_string_pretty :: "aggkit_prover_config \<Rightarrow> (string, report) result"
  mn_runtime :: "(unit, report) result"
  mn_pool_up :: bool
  mn_layers :: "('stdin request, 'proof response) tower_layers"
  mn_sdk :: "('stdin, 'proof, 'pk, 'vk) sp1_sdk"
  mn_hash_bytes :: "'vk \<Rightarrow> byte list"
  mn_elf :: "byte list"
  mn_program_version :: u16

inductive aggkit_main ::
  "('r, 'rt, 'svc, 'stdin, 'proof, 'pk, 'vk) main_env \<Rightarrow> commands \<Rightarrow> console \<Rightarrow> bool" for M where
  run: "aggkit_runtime (mn_engine_env M) (mn_engine M config_path) r \<Longrightarrow>
    aggkit_main M (Run config_path) \<lparr>out_stdout = [], out_stderr = [], out_result = r\<rparr>"
| config: "aggkit_main M Config (config_command (mn_to_string_pretty M) (mn_environment M))"
| validate_config: "aggkit_main M (ValidateConfig config_path)
    (validate_config_command (mn_to_string_pretty M) (mn_display M) (mn_try_load M) config_path)"
| vkey: "aggkit_main M Vkey
    (vkey_command (mn_runtime M) (mn_pool_up M) (mn_layers M) (mn_sdk M) (mn_hash_bytes M) (mn_elf M))"
| vkey_selector: "aggkit_main M VkeySelector (vkey_selector_command (mn_program_version M))"

inductive_cases aggkit_main_RunE: "aggkit_main M (Run path) out"
inductive_cases aggkit_main_ConfigE: "aggkit_main M Config out"
inductive_cases aggkit_main_ValidateE: "aggkit_main M (ValidateConfig path) out"
inductive_cases aggkit_main_VkeyE: "aggkit_main M Vkey out"
inductive_cases aggkit_main_SelectorE: "aggkit_main M VkeySelector out"

section \<open>The agglayer prover as a library\<close>

definition agglayer_compute_program_vkey ::
  "bool \<Rightarrow> ('stdin request, 'proof response) tower_layers \<Rightarrow> ('stdin, 'proof, 'pk, 'vk) sp1_sdk \<Rightarrow>
   ('vk \<Rightarrow> string) \<Rightarrow> byte list \<Rightarrow> (string, report) result" where
  "agglayer_compute_program_vkey pool_up L sdk bytes32 program =
     and_then
       (map_err (\<lambda>_. ''Failed to compute program vkey'') (compute_program_vkey pool_up L sdk program))
       (\<lambda>vkey. Ok (bytes32 vkey))"

text \<open>The server task: the services in the order they are added, at an endpoint. \<open>server\<close> is the outcome of
  \<open>serve_with_shutdown\<close> for the state of the token, and \<open>None\<close> while the server is running.\<close>

record 'svc server_task =
  st_endpoint :: socket_addr
  st_services :: "'svc named_service list"

type_synonym 'svc server = "socket_addr \<Rightarrow> 'svc named_service list \<Rightarrow> bool \<Rightarrow> (unit, report) result option"

definition task_outcome :: "'svc server \<Rightarrow> bool \<Rightarrow> 'svc server_task \<Rightarrow> (string list \<times> (unit, report) result) option" where
  "task_outcome server cancelled task =
     (case server (st_endpoint task) (st_services task) cancelled of
        None \<Rightarrow> None
      | Some (Err error) \<Rightarrow> Some ([''Failed to start Agglayer Prover: '' @ error], Err error)
      | Some r \<Rightarrow> Some ([], r))"

definition reflection_expect :: "('svc named_service, report) result \<Rightarrow> ('svc named_service, report) result" where
  "reflection_expect = unwrap (\<lambda>e. ''Cannot build gRPC because of FILE_DESCRIPTOR_SET error: '' @ e)"

definition prover_start ::
  "nat \<Rightarrow> ('stdin, 'proof, 'pk, 'vk) prover_env \<Rightarrow> (('stdin, 'proof) proof_service_server \<Rightarrow> 'svc named_service) \<Rightarrow>
   'svc named_service \<Rightarrow> ('svc named_service, report) result \<Rightarrow> agglayer_prover_config \<Rightarrow> byte list \<Rightarrow>
   ('svc server_task, report) result" where
  "prover_start fuel PE server_new health_service reflection_v1alpha config program =
     and_then
       (map_err (\<lambda>_. ''Failed creating PessimisticProofServiceServer'') (create_service fuel PE config program))
       (\<lambda>svc.
     and_then (reflection_expect reflection_v1alpha) (\<lambda>reflection. Ok
       \<lparr>st_endpoint = lc_grpc_endpoint config, st_services = [reflection, health_service, server_new svc]\<rparr>))"

text \<open>\<open>await_shutdown\<close> joins the task and drops what it returned.\<close>

definition await_shutdown :: "'svc server \<Rightarrow> bool \<Rightarrow> 'svc server_task \<Rightarrow> string list option" where
  "await_shutdown server cancelled handle =
     (case task_outcome server cancelled handle of
        None \<Rightarrow> None
      | Some (logs, _) \<Rightarrow> Some ([''Node shutdown started.''] @ logs @ [''Node shutdown completed.'']))"

definition start_prover ::
  "nat \<Rightarrow> ('stdin, 'proof, 'pk, 'vk) prover_env \<Rightarrow> (('stdin, 'proof) proof_service_server \<Rightarrow> 'svc named_service) \<Rightarrow>
   'svc named_service \<Rightarrow> ('svc named_service, report) result \<Rightarrow> 'svc server \<Rightarrow> bool \<Rightarrow> agglayer_prover_config \<Rightarrow>
   byte list \<Rightarrow> (string list, report) result option" where
  "start_prover fuel PE server_new health_service reflection_v1alpha server cancelled config program =
     (case unwrap (\<lambda>e. e) (prover_start fuel PE server_new health_service reflection_v1alpha config program) of
        Ok prover \<Rightarrow> map_option Ok (await_shutdown server cancelled prover)
      | Err e \<Rightarrow> Some (Err e)
      | Panic p \<Rightarrow> Some (Panic p))"

definition spawn_at ::
  "(('stdin, 'proof, 'pk, 'vk) fake_prover \<Rightarrow> 'svc named_service) \<Rightarrow> 'svc named_service \<Rightarrow>
   ('svc named_service, report) result \<Rightarrow> ('stdin, 'proof, 'pk, 'vk) fake_prover \<Rightarrow> socket_addr \<Rightarrow>
   ('svc server_task, report) result" where
  "spawn_at server_new health_service reflection_v1alpha fake_prover endpoint =
     and_then (reflection_expect reflection_v1alpha) (\<lambda>reflection. Ok
       \<lparr>st_endpoint = endpoint, st_services = [reflection, health_service, server_new fake_prover]\<rparr>)"

section \<open>The version of the program\<close>

record semver =
  sem_major :: u64
  sem_minor :: u64
  sem_patch :: u64

definition package_version ::
  "(string \<Rightarrow> (semver, report) result) \<Rightarrow> toml_value \<Rightarrow> (semver, report) result" where
  "package_version version_parse parsed_toml =
     (case Option.bind (toml_get ''package'' parsed_toml) (toml_get ''version'') of
        None \<Rightarrow> Panic (PanicString ''Unable to extract version'')
      | Some v \<Rightarrow>
          (case toml_as_str v of
             None \<Rightarrow> Panic (PanicString ''Unable to extract version'')
           | Some s \<Rightarrow> unwrap (\<lambda>e. ''Unable to extract version: '' @ e) (version_parse s)))"

definition version_rs :: "semver \<Rightarrow> string" where
  "version_rs ver =
     (let major_version = nat_to_string (unat (sem_major ver)) in
      ''pub const AGGCHAIN_PROOF_PROGRAM_VERSION: u16 = '' @ major_version @ '';'' @ [CHR 0x0A])"

text \<open>\<open>build.rs\<close>: the path and the text of the file that it writes.\<close>

definition core_build ::
  "(string \<Rightarrow> (string, report) result) \<Rightarrow> (string \<Rightarrow> (toml_value, report) result) \<Rightarrow>
   (string \<Rightarrow> (semver, report) result) \<Rightarrow> string option \<Rightarrow> (string \<Rightarrow> string \<Rightarrow> (unit, report) result) \<Rightarrow>
   (string \<times> string, report) result" where
  "core_build read_to_string parse_toml version_parse out_dir write =
     and_then (unwrap (\<lambda>e. ''Failed to read Cargo.toml: '' @ e)
       (read_to_string ''../aggchain-proof-program/Cargo.toml'')) (\<lambda>cargo_toml.
     and_then (unwrap (\<lambda>e. ''Failed to parse Cargo.toml: '' @ e) (parse_toml cargo_toml)) (\<lambda>parsed_toml.
     and_then (package_version version_parse parsed_toml) (\<lambda>ver.
     and_then (unwrap (\<lambda>e. e) (ok_or ''OUT_DIR not set'' out_dir)) (\<lambda>dir.
     and_then
       (unwrap (\<lambda>e. ''Failed to write aggchain-proof-core version.rs: '' @ e)
         (write (dir @ ''/version.rs'') (version_rs ver)))
       (\<lambda>_. Ok (dir @ ''/version.rs'', version_rs ver))))))"

section \<open>Lemmas\<close>

text \<open>The verifying key is a function of the program: \<open>setup\<close> of every client of the SDK gives the same key.\<close>

definition sdk_key_of :: "('stdin, 'proof, 'pk, 'vk) sp1_sdk \<Rightarrow> (byte list \<Rightarrow> 'vk) \<Rightarrow> bool" where
  "sdk_key_of sdk key \<longleftrightarrow>
     (\<forall>url np prog pk vk. sdk_network_client sdk url = Ok np \<and> network_setup np prog = Ok (pk, vk) \<longrightarrow> vk = key prog) \<and>
     (\<forall>cp prog pk vk. (sdk_cpu_new sdk = Ok cp \<or> sdk_cpu_mock sdk = Ok cp) \<and> cpu_setup cp prog = Ok (pk, vk) \<longrightarrow>
        vk = key prog)"

lemma create_prover_key:
  assumes "create_prover up L sdk pt program = Ok (vk, svc)" and "sdk_key_of sdk key"
  shows "vk = key program"
proof -
  have net: "vk = key program" if "sdk_network_client sdk url = Ok np" "network_setup np program = Ok (pk, vk)" for url np pk
    using assms(2) that unfolding sdk_key_of_def by blast
  have cpu: "vk = key program" if "sdk_cpu_new sdk = Ok cp \<or> sdk_cpu_mock sdk = Ok cp" "cpu_setup cp program = Ok (pk, vk)"
    for cp pk
    using assms(2) that unfolding sdk_key_of_def by blast
  show ?thesis
    using assms(1) unfolding create_prover_def sp1_blocking_flatten_Ok
    by (cases pt) (auto simp: result_simps intro: net cpu)
qed

lemma executor_new_key:
  assumes "executor_new up L sdk p f program = Ok ex" and "sdk_key_of sdk key"
  shows "ex_vkey ex = key program"
  using assms(1) create_prover_key [OF _ assms(2)] unfolding executor_new_def
  by (auto simp: result_simps)

lemma println_ok_result: "out_result (println_ok r) = Ok () \<longleftrightarrow> (\<exists>line. r = Ok line \<and> out_stdout (println_ok r) = [line])"
  by (cases r) (simp_all add: println_ok_def)

text \<open>The library call of the agglayer prover gives the same key as any executor of the program.\<close>

lemma agglayer_vkey_of_program:
  assumes "agglayer_compute_program_vkey up L sdk bytes32 program = Ok text" and "sdk_key_of sdk key"
  shows "text = bytes32 (key program)"
  using assms(1) executor_new_key [OF _ assms(2)]
  unfolding agglayer_compute_program_vkey_def compute_program_vkey_def by (auto simp: result_simps)

lemma task_outcome_defined: "server ep svcs c \<noteq> None \<Longrightarrow>
   task_outcome server c \<lparr>st_endpoint = ep, st_services = svcs\<rparr> \<noteq> None"
  by (auto simp: task_outcome_def split: result.splits)

text \<open>Once the token is cancelled, \<open>start_prover\<close> ends as soon as the server does.\<close>

lemma start_prover_returns:
  assumes "\<And>ep svcs. server ep svcs True \<noteq> None"
  shows "\<exists>r. start_prover fuel PE sn h rf server True config program = Some r"
proof -
  have "task_outcome server True t \<noteq> None" for t
    by (cases t) (simp add: task_outcome_defined [of server _ _ True, OF assms])
  then have "await_shutdown server True t \<noteq> None" for t
    by (auto simp: await_shutdown_def split: option.splits)
  then show ?thesis
    by (auto simp: start_prover_def split: result.splits)
qed

text \<open>The version that the program is built with is the one of its own package.\<close>

lemma package_version_Ok:
  "package_version vp doc = Ok v \<longleftrightarrow>
     (\<exists>pkg s. toml_get ''package'' doc = Some pkg \<and> toml_get ''version'' pkg = Some (TomlString s) \<and> vp s = Ok v)"
proof -
  have str: "toml_as_str t = Some s \<longleftrightarrow> t = TomlString s" for t s by (cases t) simp_all
  show ?thesis
    unfolding package_version_def
    by (auto simp: unwrap_eq_Ok bind_eq_Some_conv str split: option.splits)
qed

lemma core_build_Ok:
  assumes "core_build rd pt vp out_dir wr = Ok (path, file)"
  shows "\<exists>toml doc v. rd ''../aggchain-proof-program/Cargo.toml'' = Ok toml \<and> pt toml = Ok doc \<and>
     package_version vp doc = Ok v \<and> file = version_rs v \<and> wr path file = Ok ()"
  using assms unfolding core_build_def by (auto simp: and_then_eq_Ok unwrap_eq_Ok ok_or_eq_Ok)

section \<open>A concrete installation\<close>

definition sample_engine_env :: "(unit, unit, unit) engine_env" where
  "sample_engine_env =
     \<lparr>en_router_new = (), en_route_service = (\<lambda>_ _ _. Ok ()), en_build_runtime = (\<lambda>_ _. Ok ()),
      en_metrics_server = (\<lambda>_. Ok ()), en_tcp_bind = (\<lambda>_. Ok ()),
      en_reflection_v1 = (\<lambda>_. Ok (''reflection'', ())), en_reflection_v1alpha = (\<lambda>_. Ok (''reflection'', ())),
      en_health_service = (''health'', ()), en_health_descriptor = [], en_signal_runtime = Ok (),
      en_rust_log = None, en_init_tracing = (\<lambda>_. Ok ())\<rparr>"

definition sample_try_load :: "string \<Rightarrow> (aggkit_prover_config, configuration_error) result" where
  "sample_try_load = aggkit_try_load (\<lambda>_. Err ''no such file'') (\<lambda>_. Err ''not TOML'')"

fun sample_config_display :: "configuration_error \<Rightarrow> report" where
  "sample_config_display (UnableToReadConfigFile path source) = ''Unable to read the configuration file: '' @ source"
| "sample_config_display (DeserializationError e) = ''Failed to deserialize the configuration: '' @ e"

definition sample_main_env :: "(unit, unit, unit, nat, nat, nat, nat) main_env" where
  "sample_main_env =
     \<lparr>mn_engine_env = sample_engine_env,
      mn_engine = aggkit_engine sample_engine_env sample_try_load sample_config_display 1 sample_service_env 7
        sample_rpc_buffer (\<lambda>_. (''aggkit.prover.v1.AggchainProofService'', ())) [],
      mn_environment = \<lparr>env_var = (\<lambda>_. None), url_parse = Some, grpc_uri_parse = Some\<rparr>,
      mn_try_load = sample_try_load, mn_display = sample_config_display,
      mn_to_string_pretty = (\<lambda>_. Ok ''config''), mn_runtime = Ok (), mn_pool_up = True,
      mn_layers = sample_layers, mn_sdk = sample_sdk, mn_hash_bytes = (\<lambda>vk. [word_of_nat vk]),
      mn_elf = [1, 2, 3], mn_program_version = 7\<rparr>"

lemma sample_sdk_keys: "sdk_key_of sample_sdk length" "sdk_key_of sample_service_sdk length"
  by (auto simp: sdk_key_of_def sample_sdk_def sample_network_def sample_cpu_def sample_service_sdk_def)

lemma sample_vkey_hex: "hex_encode [3] = ''03''"
  by (simp add: hex_encode_def hex_digit_def char_evaluation)

lemma sample_vkey_command:
  "aggkit_main sample_main_env Vkey \<lparr>out_stdout = [''0x03''], out_stderr = [], out_result = Ok ()\<rparr>"
proof -
  have "\<exists>t. cpu_get_proving_request_timeout cpu_prover_config_default = Ok t"
    by (simp add: cpu_get_proving_request_timeout_def cpu_prover_config_default_def duration_add_def from_secs_def
        DURATION_MAX_def DEFAULT_PROVING_TIMEOUT_PADDING_def default_local_proving_timeout_def)
  then have "\<exists>ex. executor_new True sample_layers sample_sdk (CpuProver cpu_prover_config_default) None [1, 2, 3] = Ok ex"
    by (auto simp: executor_new_def create_prover_def sp1_blocking_def executor_sample_defs)
  then obtain ex where ex:
    "executor_new True sample_layers sample_sdk (CpuProver cpu_prover_config_default) None [1, 2, 3] = Ok ex" by blast
  with ex sample_vkey_hex have "vkey_command (Ok ()) True sample_layers sample_sdk (\<lambda>vk. [word_of_nat vk]) [1, 2, 3] =
      \<lparr>out_stdout = [''0x03''], out_stderr = [], out_result = Ok ()\<rparr>"
    using executor_new_key [OF ex sample_sdk_keys(1)] by (simp add: vkey_command_def println_ok_def)
  then show ?thesis
    using aggkit_main.vkey [of sample_main_env] by (simp add: sample_main_env_def)
qed

section \<open>Properties\<close>

text \<open>C33: The commands describe the service. When the SDK derives a verifying key from the program alone, the
  \<open>vkey\<close> command prints \<open>0x\<close> and the hexadecimal hash of the key that every builder over the same program
  sends with its proofs, whatever provers it is configured with; and the \<open>vkey-selector\<close> command prints the
  first four bytes of the custom chain data of every answer. The two lines determine the hash and the
  selector.\<close>

theorem commands_describe_service:
  assumes "sdk_key_of (mn_sdk M) key" and "sdk_key_of sdk key" and "mn_elf M = be_aggchain_proof_elf B"
    and "aggchain_proof_builder_new up L sdk buffer B config cc = Ok ab"
    and "aggkit_main M Vkey out" and "out_result out = Ok ()" and "abi_conforms P"
  shows "out_stdout out = [''0x'' @ hex_encode (mn_hash_bytes M (ab_aggchain_vkey ab))] \<and>
     (\<forall>sel. aggkit_main M VkeySelector sel \<longrightarrow>
        out_stdout sel =
          [''0x'' @ hex_encode (take 4 (compute_custom_chain_data P (mn_program_version M) root block))]) \<and>
     (\<forall>bs. out_stdout out = [''0x'' @ hex_encode bs] \<longrightarrow> bs = mn_hash_bytes M (ab_aggchain_vkey ab))"
proof -
  obtain ex where "executor_new up L sdk (bc_primary_prover config) (bc_fallback_prover config)
      (be_aggchain_proof_elf B) = Ok ex" and "ab_aggchain_vkey ab = ex_vkey ex"
    using builder_new_Ok [OF assms(4)] by blast
  then have served: "ab_aggchain_vkey ab = key (mn_elf M)"
    using executor_new_key assms(2,3) by metis
  have out: "out = vkey_command (mn_runtime M) (mn_pool_up M) (mn_layers M) (mn_sdk M) (mn_hash_bytes M) (mn_elf M)"
    using assms(5) by (rule aggkit_main_VkeyE)
  from assms(6) obtain ex' where
    "executor_new (mn_pool_up M) (mn_layers M) (mn_sdk M) (CpuProver cpu_prover_config_default) None (mn_elf M) = Ok ex'"
    and printed: "out_stdout out = [''0x'' @ hex_encode (mn_hash_bytes M (ex_vkey ex'))]"
    unfolding out vkey_command_def println_ok_result by (auto simp: and_then_eq_Ok Let_def)
  then have line: "out_stdout out = [''0x'' @ hex_encode (mn_hash_bytes M (ab_aggchain_vkey ab))]"
    using executor_new_key [OF _ assms(1)] served by metis
  moreover have "take 4 (compute_custom_chain_data P (mn_program_version M) root block) =
      AGGCHAIN_VKEY_SELECTOR (mn_program_version M)"
    by (simp add: custom_chain_data_bytes [OF assms(7)] aggchain_vkey_selector_bytes)
  ultimately show ?thesis
    by (auto elim!: aggkit_main_SelectorE simp: vkey_selector_command_def println_ok_def hex_encode_inject)
qed

theorem commands_describe_service_witness:
  "aggkit_main sample_main_env Vkey \<lparr>out_stdout = [''0x03''], out_stderr = [], out_result = Ok ()\<rparr> \<and>
   mn_hash_bytes sample_main_env (ab_aggchain_vkey sample_builder) = [3]"
proof -
  have elf: "mn_elf sample_main_env = be_aggchain_proof_elf sample_builder_env"
    and sdk: "mn_sdk sample_main_env = sample_sdk"
    by (simp_all add: sample_main_env_def sample_builder_env_def)
  have out: "out_result \<lparr>out_stdout = [''0x03''], out_stderr = [], out_result = Ok ()\<rparr> = Ok ()" by simp
  have "out_stdout \<lparr>out_stdout = [''0x03''], out_stderr = [], out_result = Ok ()\<rparr> = [''0x'' @ hex_encode [3]]"
    by (simp add: sample_vkey_hex)
  then show ?thesis
    using commands_describe_service [OF sample_sdk_keys(1) [folded sdk] sample_sdk_keys(2) elf sample_builder_new
        sample_vkey_command out sample_prims_abi] sample_vkey_command by metis
qed

text \<open>A configuration that cannot be loaded. The \<open>run\<close> command fails on it with the error of the loader,
  before anything is started; the \<open>validate-config\<close> command prints the same error, but ends with \<open>Ok\<close>, so
  that its exit status does not tell a bad file from a good one.\<close>

lemma bad_config_reported:
  assumes "mn_try_load M path = Err error"
    and "\<And>cfg. mn_engine M cfg = aggkit_engine E (mn_try_load M) (mn_display M) fuel V ver buffer server_new fds cfg"
    and "aggkit_main M (Run path) r" and "aggkit_main M (ValidateConfig path) v"
  shows "out_result r = Err (mn_display M error) \<and> out_result v = Ok () \<and>
     out_stdout v = [] \<and> out_stderr v = [mn_display M error]"
proof -
  have "mn_engine M path = Err (mn_display M error)" by (simp add: assms(1,2) aggkit_engine_def)
  with assms(3) have "out_result r = Err (mn_display M error)"
    by (auto elim!: aggkit_main_RunE aggkit_runtime.cases)
  moreover have "v = validate_config_command (mn_to_string_pretty M) (mn_display M) (mn_try_load M) path"
    using assms(4) by (rule aggkit_main_ValidateE)
  ultimately show ?thesis by (simp add: validate_config_command_def assms(1))
qed

lemma bad_config_reported_witness:
  "\<exists>r. aggkit_main sample_main_env (Run ''aggkit-prover.toml'') r \<and>
     out_result r = Err ''Unable to read the configuration file: no such file'' \<and>
     aggkit_main sample_main_env (ValidateConfig ''aggkit-prover.toml'')
       \<lparr>out_stdout = [], out_stderr = [''Unable to read the configuration file: no such file''], out_result = Ok ()\<rparr>"
proof -
  let ?M = sample_main_env and ?p = "''aggkit-prover.toml''"
  have load: "mn_try_load ?M ?p = Err (UnableToReadConfigFile ?p ''no such file'')"
    by (simp add: sample_main_env_def sample_try_load_def aggkit_try_load_def)
  have engine: "mn_engine ?M cfg = aggkit_engine sample_engine_env (mn_try_load ?M) (mn_display ?M) 1 sample_service_env 7
      sample_rpc_buffer (\<lambda>_. (''aggkit.prover.v1.AggchainProofService'', ())) [] cfg" for cfg
    by (simp add: sample_main_env_def)
  have "mn_engine ?M ?p = Err (mn_display ?M (UnableToReadConfigFile ?p ''no such file''))"
    unfolding engine by (simp add: aggkit_engine_def load)
  then have "aggkit_runtime (mn_engine_env ?M) (mn_engine ?M ?p)
      (Err (mn_display ?M (UnableToReadConfigFile ?p ''no such file'')))"
    by (simp only: engine_error)
  then obtain r where run: "aggkit_main ?M (Run ?p) r" using aggkit_main.run by blast
  obtain v where val: "aggkit_main ?M (ValidateConfig ?p) v" using aggkit_main.validate_config by blast
  from bad_config_reported [OF load engine run val] run val show ?thesis
    by (cases v) (auto simp: sample_main_env_def)
qed

end
