(* ===== verification/Grpc_Transport.thy ===== *)
theory Grpc_Transport
  imports Entry_Points
begin

text \<open>
  The generated clients and servers of the two gRPC services (\<open>generated/*.tonic.rs\<close> of
  \<open>crates/agglayer-prover-types\<close> and \<open>crates/aggkit-prover-types\<close>): the options of a server and of a client, the
  dispatch of a request on its path, and the call of a client.

  \<open>tonic\<close> itself is an argument: \<open>unary\<close> decodes a request under the options, runs the handler and encodes
  the response, and the transport of a client answers a request at a path. Both generated servers have the
  same options, and so do both clients; they are shared here.
\<close>

section \<open>Servers\<close>

datatype compression_encoding = Gzip | Zstd

record 't service_server =
  sr_inner :: 't
  sr_accept_compression_encodings :: "compression_encoding list"
  sr_send_compression_encodings :: "compression_encoding list"
  sr_max_decoding_message_size :: "u64 option"
  sr_max_encoding_message_size :: "u64 option"

definition server_from_arc :: "'t \<Rightarrow> 't service_server" where
  "server_from_arc inner_service =
     \<lparr>sr_inner = inner_service, sr_accept_compression_encodings = [], sr_send_compression_encodings = [],
      sr_max_decoding_message_size = None, sr_max_encoding_message_size = None\<rparr>"

definition server_new :: "'t \<Rightarrow> 't service_server" where
  "server_new inner_service = server_from_arc inner_service"

definition server_with_interceptor :: "('t service_server \<Rightarrow> 'f \<Rightarrow> 's) \<Rightarrow> 't \<Rightarrow> 'f \<Rightarrow> 's" where
  "server_with_interceptor intercepted_service inner_service interceptor =
     intercepted_service (server_new inner_service) interceptor"

definition server_accept_compressed :: "compression_encoding \<Rightarrow> 't service_server \<Rightarrow> 't service_server" where
  "server_accept_compressed encoding self =
     self\<lparr>sr_accept_compression_encodings := List.insert encoding (sr_accept_compression_encodings self)\<rparr>"

definition server_send_compressed :: "compression_encoding \<Rightarrow> 't service_server \<Rightarrow> 't service_server" where
  "server_send_compressed encoding self =
     self\<lparr>sr_send_compression_encodings := List.insert encoding (sr_send_compression_encodings self)\<rparr>"

definition server_max_decoding_message_size :: "u64 \<Rightarrow> 't service_server \<Rightarrow> 't service_server" where
  "server_max_decoding_message_size limit self = self\<lparr>sr_max_decoding_message_size := Some limit\<rparr>"

definition server_max_encoding_message_size :: "u64 \<Rightarrow> 't service_server \<Rightarrow> 't service_server" where
  "server_max_encoding_message_size limit self = self\<lparr>sr_max_encoding_message_size := Some limit\<rparr>"

definition server_clone :: "'t service_server \<Rightarrow> 't service_server" where
  "server_clone self =
     (let inner_service = sr_inner self in
      \<lparr>sr_inner = inner_service,
       sr_accept_compression_encodings = sr_accept_compression_encodings self,
       sr_send_compression_encodings = sr_send_compression_encodings self,
       sr_max_decoding_message_size = sr_max_decoding_message_size self,
       sr_max_encoding_message_size = sr_max_encoding_message_size self\<rparr>)"

definition server_poll_ready :: "'t service_server \<Rightarrow> (unit, 'e) result poll" where
  "server_poll_ready self = Ready (Ok ())"

section \<open>Dispatch\<close>

record 'b http_request =
  hq_path :: string
  hq_body :: 'b

record 'b http_response =
  hp_headers :: "(string \<times> string) list"
  hp_body :: 'b

text \<open>\<open>Grpc::unary\<close> under the options of a server, for one method.\<close>

type_synonym ('q, 'r, 'b) unary =
  "compression_encoding list \<times> compression_encoding list \<Rightarrow> u64 option \<times> u64 option \<Rightarrow>
   ('q \<Rightarrow> ('r, status) result option) \<Rightarrow> 'b http_request \<Rightarrow> 'b http_response option"

definition server_unary ::
  "('q, 'r, 'b) unary \<Rightarrow> ('t \<Rightarrow> 'q \<Rightarrow> ('r, status) result option) \<Rightarrow> 't service_server \<Rightarrow> 'b http_request \<Rightarrow>
   'b http_response option" where
  "server_unary unary handler self req =
     unary (sr_accept_compression_encodings self, sr_send_compression_encodings self)
       (sr_max_decoding_message_size self, sr_max_encoding_message_size self) (handler (sr_inner self)) req"

text \<open>The number of \<open>Code::Unimplemented\<close> is 12.\<close>

definition unimplemented_response :: "'b \<Rightarrow> 'b http_response" where
  "unimplemented_response empty_body =
     \<lparr>hp_headers = [(''grpc-status'', nat_to_string 12), (''content-type'', ''application/grpc'')],
      hp_body = empty_body\<rparr>"

definition PESSIMISTIC_SERVICE_NAME :: string where
  "PESSIMISTIC_SERVICE_NAME = ''agglayer.prover.v1.PessimisticProofService''"

definition pessimistic_server_call ::
  "'b \<Rightarrow> (generate_proof_request, generate_proof_response, 'b) unary \<Rightarrow>
   ('t \<Rightarrow> generate_proof_request \<Rightarrow> (generate_proof_response, status) result option) \<Rightarrow>
   't service_server \<Rightarrow> 'b http_request \<Rightarrow> 'b http_response option" where
  "pessimistic_server_call empty_body unary generate_proof_handler self req =
     (if hq_path req = ''/agglayer.prover.v1.PessimisticProofService/GenerateProof''
      then server_unary unary generate_proof_handler self req
      else Some (unimplemented_response empty_body))"

definition AGGCHAIN_SERVICE_NAME :: string where
  "AGGCHAIN_SERVICE_NAME = ''aggkit.prover.v1.AggchainProofService''"

definition aggchain_server_call ::
  "'b \<Rightarrow> (('lm, 'mm) generate_aggchain_proof_request, generate_aggchain_proof_response, 'b) unary \<Rightarrow>
   (('lm, 'mm) generate_optimistic_aggchain_proof_request, generate_optimistic_aggchain_proof_response, 'b) unary \<Rightarrow>
   ('t \<Rightarrow> ('lm, 'mm) generate_aggchain_proof_request \<Rightarrow> (generate_aggchain_proof_response, status) result option) \<Rightarrow>
   ('t \<Rightarrow> ('lm, 'mm) generate_optimistic_aggchain_proof_request \<Rightarrow>
     (generate_optimistic_aggchain_proof_response, status) result option) \<Rightarrow>
   't service_server \<Rightarrow> 'b http_request \<Rightarrow> 'b http_response option" where
  "aggchain_server_call empty_body unary unary' proof_handler optimistic_handler self req =
     (if hq_path req = ''/aggkit.prover.v1.AggchainProofService/GenerateAggchainProof''
      then server_unary unary proof_handler self req
      else if hq_path req = ''/aggkit.prover.v1.AggchainProofService/GenerateOptimisticAggchainProof''
      then server_unary unary' optimistic_handler self req
      else Some (unimplemented_response empty_body))"

section \<open>The servers of the program\<close>

text \<open>The options that \<open>create_service\<close> sets, those of the test server of \<open>FakeProver\<close>, and those of \<open>runtime\<close>.\<close>

definition pessimistic_server ::
  "('stdin, 'proof) proof_service_server \<Rightarrow> ('stdin, 'proof) prover_rpc service_server" where
  "pessimistic_server s =
     server_accept_compressed Zstd (server_send_compressed Zstd
       (server_max_encoding_message_size (pss_max_encoding_message_size s)
         (server_max_decoding_message_size (pss_max_decoding_message_size s) (server_new (pss_inner s)))))"

definition fake_server :: "('stdin, 'proof, 'pk, 'vk) fake_prover \<Rightarrow> ('stdin, 'proof, 'pk, 'vk) fake_prover service_server" where
  "fake_server fake_prover = server_accept_compressed Zstd (server_send_compressed Zstd (server_new fake_prover))"

definition aggchain_server :: "'sig grpc_service \<Rightarrow> 'sig grpc_service service_server" where
  "aggchain_server grpc_service = server_new grpc_service"

section \<open>Clients\<close>

record 'c service_client =
  cl_transport :: 'c
  cl_origin :: "string option"
  cl_send_compressed :: "compression_encoding option"
  cl_accept_compressed :: "compression_encoding list"
  cl_max_decoding_message_size :: "u64 option"
  cl_max_encoding_message_size :: "u64 option"

definition client_new :: "'c \<Rightarrow> 'c service_client" where
  "client_new transport =
     \<lparr>cl_transport = transport, cl_origin = None, cl_send_compressed = None, cl_accept_compressed = [],
      cl_max_decoding_message_size = None, cl_max_encoding_message_size = None\<rparr>"

definition client_connect ::
  "('d \<Rightarrow> ('ep, report) result) \<Rightarrow> ('ep \<Rightarrow> ('c, report) result) \<Rightarrow> 'd \<Rightarrow> ('c service_client, report) result" where
  "client_connect endpoint_new connect dst =
     and_then (endpoint_new dst) (\<lambda>endpoint. and_then (connect endpoint) (\<lambda>conn. Ok (client_new conn)))"

definition client_with_origin :: "'c \<Rightarrow> string \<Rightarrow> 'c service_client" where
  "client_with_origin transport origin = (client_new transport)\<lparr>cl_origin := Some origin\<rparr>"

definition client_with_interceptor :: "('c \<Rightarrow> 'f \<Rightarrow> 'd) \<Rightarrow> 'c \<Rightarrow> 'f \<Rightarrow> 'd service_client" where
  "client_with_interceptor intercepted_service transport interceptor =
     client_new (intercepted_service transport interceptor)"

definition client_send_compressed :: "compression_encoding \<Rightarrow> 'c service_client \<Rightarrow> 'c service_client" where
  "client_send_compressed encoding self = self\<lparr>cl_send_compressed := Some encoding\<rparr>"

definition client_accept_compressed :: "compression_encoding \<Rightarrow> 'c service_client \<Rightarrow> 'c service_client" where
  "client_accept_compressed encoding self =
     self\<lparr>cl_accept_compressed := List.insert encoding (cl_accept_compressed self)\<rparr>"

definition client_max_decoding_message_size :: "u64 \<Rightarrow> 'c service_client \<Rightarrow> 'c service_client" where
  "client_max_decoding_message_size limit self = self\<lparr>cl_max_decoding_message_size := Some limit\<rparr>"

definition client_max_encoding_message_size :: "u64 \<Rightarrow> 'c service_client \<Rightarrow> 'c service_client" where
  "client_max_encoding_message_size limit self = self\<lparr>cl_max_encoding_message_size := Some limit\<rparr>"

text \<open>\<open>ready\<close>, then \<open>Grpc::unary\<close> of the client at a path.\<close>

type_synonym ('c, 'q, 'r) client_unary = "'c service_client \<Rightarrow> string \<Rightarrow> 'q \<Rightarrow> ('r, status) result"

definition client_call ::
  "('c \<Rightarrow> (unit, report) result) \<Rightarrow> ('c, 'q, 'r) client_unary \<Rightarrow> string \<Rightarrow> 'c service_client \<Rightarrow> 'q \<Rightarrow>
   ('r, status) result" where
  "client_call ready unary path self request =
     and_then (map_err (\<lambda>e. status_unknown (''Service was not ready: '' @ e)) (ready (cl_transport self)))
       (\<lambda>_. unary self path request)"

definition client_generate_proof ::
  "('c \<Rightarrow> (unit, report) result) \<Rightarrow> ('c, generate_proof_request, generate_proof_response) client_unary \<Rightarrow>
   'c service_client \<Rightarrow> generate_proof_request \<Rightarrow> (generate_proof_response, status) result" where
  "client_generate_proof ready unary =
     client_call ready unary ''/agglayer.prover.v1.PessimisticProofService/GenerateProof''"

definition client_generate_aggchain_proof ::
  "('c \<Rightarrow> (unit, report) result) \<Rightarrow>
   ('c, ('lm, 'mm) generate_aggchain_proof_request, generate_aggchain_proof_response) client_unary \<Rightarrow>
   'c service_client \<Rightarrow> ('lm, 'mm) generate_aggchain_proof_request \<Rightarrow>
   (generate_aggchain_proof_response, status) result" where
  "client_generate_aggchain_proof ready unary =
     client_call ready unary ''/aggkit.prover.v1.AggchainProofService/GenerateAggchainProof''"

definition client_generate_optimistic_aggchain_proof ::
  "('c \<Rightarrow> (unit, report) result) \<Rightarrow>
   ('c, ('lm, 'mm) generate_optimistic_aggchain_proof_request, generate_optimistic_aggchain_proof_response) client_unary \<Rightarrow>
   'c service_client \<Rightarrow> ('lm, 'mm) generate_optimistic_aggchain_proof_request \<Rightarrow>
   (generate_optimistic_aggchain_proof_response, status) result" where
  "client_generate_optimistic_aggchain_proof ready unary =
     client_call ready unary ''/aggkit.prover.v1.AggchainProofService/GenerateOptimisticAggchainProof''"

section \<open>A client in front of a server\<close>

text \<open>The limit on the size of a message, with the defaults that the generated code documents: four megabytes
  for a message that is decoded, the largest \<open>usize\<close> for one that is encoded.\<close>

definition decoding_limit :: "u64 option \<Rightarrow> nat" where
  "decoding_limit max_size = (case max_size of None \<Rightarrow> 4 * 1024 * 1024 | Some limit \<Rightarrow> unat limit)"

definition encoding_limit :: "u64 option \<Rightarrow> nat" where
  "encoding_limit max_size = (case max_size of None \<Rightarrow> 2 ^ 64 - 1 | Some limit \<Rightarrow> unat limit)"

text \<open>The codec of a method: the bodies of its messages, their sizes, and the response to a message over a limit.\<close>

record ('q, 'r, 'b) wire =
  wr_encode :: "'q \<Rightarrow> 'b"
  wr_request_size :: "'b \<Rightarrow> nat"
  wr_respond :: "('r, status) result \<Rightarrow> 'b http_response"
  wr_response_size :: "('r, status) result \<Rightarrow> nat"
  wr_decode :: "'b http_response \<Rightarrow> ('r, status) result"
  wr_over_limit :: "'b http_response"

fun panics :: "('a, 'e) result \<Rightarrow> bool" where
  "panics (Panic p) = True"
| "panics _ = False"

text \<open>What tonic promises of \<open>unary\<close>, by its documentation: a request over the limit is refused and the handler
  is not called; otherwise the outcome of the handler is sent, if it is within the limit, and the client
  reads it back.\<close>

definition tonic_unary :: "('q, 'r, 'b) wire \<Rightarrow> ('q, 'r, 'b) unary \<Rightarrow> bool" where
  "tonic_unary w unary \<longleftrightarrow>
     (\<forall>encodings limits handler path q.
        (wr_request_size w (wr_encode w q) > decoding_limit (fst limits) \<longrightarrow>
           unary encodings limits handler \<lparr>hq_path = path, hq_body = wr_encode w q\<rparr> = Some (wr_over_limit w)) \<and>
        (\<forall>r. wr_request_size w (wr_encode w q) \<le> decoding_limit (fst limits) \<and> handler q = Some r \<and>
           \<not> panics r \<and> wr_response_size w r \<le> encoding_limit (snd limits) \<longrightarrow>
           unary encodings limits handler \<lparr>hq_path = path, hq_body = wr_encode w q\<rparr> = Some (wr_respond w r))) \<and>
     (\<forall>r. \<not> panics r \<longrightarrow> wr_decode w (wr_respond w r) = r)"

text \<open>A router that hands the paths below the name of a service to it, as the routes of the engine do, and a
  client that decodes what the router answers to its requests.\<close>

definition routes :: "('b http_request \<Rightarrow> 'b http_response option) \<Rightarrow> string \<Rightarrow> ('b http_request \<Rightarrow> 'b http_response option) \<Rightarrow> bool" where
  "routes router name call \<longleftrightarrow>
     (\<forall>req rest. hq_path req = ''/'' @ name @ ''/'' @ rest \<and> rest \<noteq> [] \<longrightarrow> router req = call req)"

definition client_of :: "('b http_request \<Rightarrow> 'b http_response option) \<Rightarrow> ('q, 'r, 'b) wire \<Rightarrow> ('c, 'q, 'r) client_unary \<Rightarrow> bool" where
  "client_of router w unary \<longleftrightarrow>
     (\<forall>c path q resp. router \<lparr>hq_path = path, hq_body = wr_encode w q\<rparr> = Some resp \<longrightarrow>
        unary c path q = wr_decode w resp)"

lemma server_unary_served:
  assumes "tonic_unary w unary" and "handler (sr_inner self) q = Some r" and "\<not> panics r"
    and "wr_request_size w (wr_encode w q) \<le> decoding_limit (sr_max_decoding_message_size self)"
    and "wr_response_size w r \<le> encoding_limit (sr_max_encoding_message_size self)"
  shows "server_unary unary handler self \<lparr>hq_path = path, hq_body = wr_encode w q\<rparr> = Some (wr_respond w r)"
  using assms by (simp add: tonic_unary_def server_unary_def)

lemma server_unary_over_limit:
  assumes "tonic_unary w unary"
    and "decoding_limit (sr_max_decoding_message_size self) < wr_request_size w (wr_encode w q)"
  shows "server_unary unary handler self \<lparr>hq_path = path, hq_body = wr_encode w q\<rparr> = Some (wr_over_limit w)"
  using assms by (simp add: tonic_unary_def server_unary_def)

lemma wire_read_back: "tonic_unary w unary \<Longrightarrow> \<not> panics r \<Longrightarrow> wr_decode w (wr_respond w r) = r"
  by (simp add: tonic_unary_def)

lemma unimplemented_status:
  "\<exists>resp. Some (unimplemented_response empty_body) = Some resp \<and>
     map_of (hp_headers resp) ''grpc-status'' = Some ''12''"
proof -
  have "nat_to_string 12 = ''12''" by (simp add: nat_to_string.simps char_evaluation)
  then show ?thesis by (simp add: unimplemented_response_def)
qed

text \<open>A client that is ready gets what the server below the name of its service answers at its path.\<close>

lemma client_call_answer:
  assumes "routes router name call" and "client_of router w unary" and "ready (cl_transport c) = Ok ()"
    and "path = ''/'' @ name @ ''/'' @ method" and "method \<noteq> []"
    and "call \<lparr>hq_path = path, hq_body = wr_encode w q\<rparr> = Some resp"
  shows "client_call ready unary path c q = wr_decode w resp"
proof -
  have "router \<lparr>hq_path = path, hq_body = wr_encode w q\<rparr> = Some resp"
    using assms(1,4,5,6) unfolding routes_def by simp
  with assms(2,3) show ?thesis by (simp add: client_of_def client_call_def)
qed

lemma client_served:
  assumes "tonic_unary w unary" and "routes router name call" and "client_of router w cunary"
    and "ready (cl_transport c) = Ok ()" and "path = ''/'' @ name @ ''/'' @ method" and "method \<noteq> []"
    and "\<And>b. call \<lparr>hq_path = path, hq_body = b\<rparr> = server_unary unary handler self \<lparr>hq_path = path, hq_body = b\<rparr>"
  shows client_within_limit: "handler (sr_inner self) q = Some r \<Longrightarrow> \<not> panics r \<Longrightarrow>
      wr_request_size w (wr_encode w q) \<le> decoding_limit (sr_max_decoding_message_size self) \<Longrightarrow>
      wr_response_size w r \<le> encoding_limit (sr_max_encoding_message_size self) \<Longrightarrow>
      client_call ready cunary path c q = r"
    and client_over_limit:
      "decoding_limit (sr_max_decoding_message_size self) < wr_request_size w (wr_encode w q) \<Longrightarrow>
      client_call ready cunary path c q = wr_decode w (wr_over_limit w)"
proof -
  have answer: "client_call ready cunary path c q = wr_decode w resp"
    if "server_unary unary handler self \<lparr>hq_path = path, hq_body = wr_encode w q\<rparr> = Some resp" for resp
    by (rule client_call_answer [where ready = ready, OF assms(2-6)]) (simp add: assms(7) that)
  show "client_call ready cunary path c q = r"
    if "handler (sr_inner self) q = Some r" "\<not> panics r"
      "wr_request_size w (wr_encode w q) \<le> decoding_limit (sr_max_decoding_message_size self)"
      "wr_response_size w r \<le> encoding_limit (sr_max_encoding_message_size self)"
    using answer [OF server_unary_served [where handler = handler and self = self, OF assms(1) that]] wire_read_back [OF assms(1) that(2)] by simp
  show "client_call ready cunary path c q = wr_decode w (wr_over_limit w)"
    if "decoding_limit (sr_max_decoding_message_size self) < wr_request_size w (wr_encode w q)"
    by (rule answer [OF server_unary_over_limit [OF assms(1) that]])
qed

lemma client_not_ready:
  "ready (cl_transport c) = Err e \<Longrightarrow>
   client_call ready unary path c q = Err (status_unknown (''Service was not ready: '' @ e))"
  by (simp add: client_call_def)

lemma service_paths:
  "''/agglayer.prover.v1.PessimisticProofService/GenerateProof'' =
     ''/'' @ PESSIMISTIC_SERVICE_NAME @ ''/'' @ ''GenerateProof''"
  "''/aggkit.prover.v1.AggchainProofService/GenerateAggchainProof'' =
     ''/'' @ AGGCHAIN_SERVICE_NAME @ ''/'' @ ''GenerateAggchainProof''"
  "''/aggkit.prover.v1.AggchainProofService/GenerateOptimisticAggchainProof'' =
     ''/'' @ AGGCHAIN_SERVICE_NAME @ ''/'' @ ''GenerateOptimisticAggchainProof''"
  by (simp_all add: PESSIMISTIC_SERVICE_NAME_def AGGCHAIN_SERVICE_NAME_def)

lemma server_defaults [simp]:
  "sr_inner (aggchain_server gs) = gs" "sr_max_decoding_message_size (aggchain_server gs) = None"
  "sr_max_encoding_message_size (aggchain_server gs) = None"
  "sr_inner (pessimistic_server s) = pss_inner s"
  "sr_max_decoding_message_size (pessimistic_server s) = Some (pss_max_decoding_message_size s)"
  "sr_max_encoding_message_size (pessimistic_server s) = Some (pss_max_encoding_message_size s)"
  by (simp_all add: aggchain_server_def pessimistic_server_def server_new_def server_from_arc_def
      server_accept_compressed_def server_send_compressed_def server_max_encoding_message_size_def
      server_max_decoding_message_size_def)

section \<open>A concrete transport\<close>

text \<open>Bodies that carry a request or an outcome of one method, among those of other methods.\<close>

definition sample_wire :: "('q + ('r, status) result \<Rightarrow> 'b) \<Rightarrow> ('b \<Rightarrow> ('q + ('r, status) result) option) \<Rightarrow> ('q, 'r, 'b) wire" where
  "sample_wire put get =
     \<lparr>wr_encode = (\<lambda>q. put (Inl q)), wr_request_size = (\<lambda>_. 100),
      wr_respond = (\<lambda>r. \<lparr>hp_headers = [], hp_body = put (Inr r)\<rparr>), wr_response_size = (\<lambda>_. 100),
      wr_decode = (\<lambda>resp. case get (hp_body resp) of Some (Inr r) \<Rightarrow> r | _ \<Rightarrow> Err (status_unknown [])),
      wr_over_limit = \<lparr>hp_headers = [(''grpc-status'', ''11'')], hp_body = put (Inr (Err (status_unknown [])))\<rparr>\<rparr>"

definition sample_unary :: "('q + ('r, status) result \<Rightarrow> 'b) \<Rightarrow> ('b \<Rightarrow> ('q + ('r, status) result) option) \<Rightarrow> ('q, 'r, 'b) unary" where
  "sample_unary put get encodings limits handler req =
     (if 100 > decoding_limit (fst limits) then Some (wr_over_limit (sample_wire put get))
      else case get (hq_body req) of
        Some (Inl q) \<Rightarrow> map_option (wr_respond (sample_wire put get)) (handler q)
      | _ \<Rightarrow> None)"

lemma sample_tonic_unary: "(\<And>x. get (put x) = Some x) \<Longrightarrow> tonic_unary (sample_wire put get) (sample_unary put get)"
  by (auto simp: tonic_unary_def sample_unary_def sample_wire_def)

definition sample_client_unary ::
  "('b http_request \<Rightarrow> 'b http_response option) \<Rightarrow> ('q, 'r, 'b) wire \<Rightarrow> (unit, 'q, 'r) client_unary" where
  "sample_client_unary router w c path q =
     (case router \<lparr>hq_path = path, hq_body = wr_encode w q\<rparr> of
        Some resp \<Rightarrow> wr_decode w resp
      | None \<Rightarrow> Err (status_unknown []))"

lemma sample_client_of: "client_of router w (sample_client_unary router w)"
  by (simp add: client_of_def sample_client_unary_def)

lemma routes_self: "routes call name call"
  by (simp add: routes_def)

section \<open>Properties\<close>






end
