(* ===== verification/Verifying_Keys.thy ===== *)
theory Verifying_Keys
  imports Request_Conversion Full_Execution_Proof
begin

text \<open>
  \<open>crates/prover-elf-utils\<close>, \<open>crates/proposer-elfs\<close> and \<open>aggkit-prover-types/src/vkey.rs\<close>: the verifying keys of the
  proposer programs. The build script of \<open>proposer-elfs\<close> sets the programs up and writes their keys and key
  hashes as Rust constants; at run time a key is parsed from these bytes on first use and then kept.

  The SP1 prover, its key functions, bincode and the file system are the record \<open>elf_env\<close>. The output file is
  the text written so far, and the lines for cargo are kept in the order in which they are printed. A failed
  \<open>unwrap\<close> of the build script is a panic.
\<close>

section \<open>Build time\<close>

record ('p, 'vk) elf_env =
  ev_prover_new :: 'p
  ev_setup :: "'p \<Rightarrow> byte list \<Rightarrow> ('vk, report) result"
  ev_hash_u32 :: "'vk \<Rightarrow> u32 list"
  ev_hash_bytes :: "'vk \<Rightarrow> byte list"
  ev_serialize :: "'vk \<Rightarrow> (byte list, report) result"
  ev_out_dir :: "string option"
  ev_create :: "string \<Rightarrow> (unit, report) result"
  ev_read :: "string \<Rightarrow> (byte list, report) result"
  ev_write :: "string \<Rightarrow> (unit, report) result"

record 'p elf_info =
  ei_prover :: "'p option"
  ei_output :: string
  ei_cargo :: "string list"

record ('p, 'vk) emitter =
  em_context :: "'p elf_info"
  em_elf :: "byte list"
  em_vkey :: "'vk option"

abbreviation newline :: string where
  "newline \<equiv> [CHR 0x0A]"

text \<open>\<open>write\<close> to the output file, unwrapped.\<close>

definition write_output :: "('p, 'vk) elf_env \<Rightarrow> string \<Rightarrow> 'p elf_info \<Rightarrow> ('p elf_info, report) result" where
  "write_output E t self =
     and_then (unwrap (\<lambda>e. e) (ev_write E t)) (\<lambda>_. Ok (self\<lparr>ei_output := ei_output self @ t\<rparr>))"

definition writing_to :: "('p, 'vk) elf_env \<Rightarrow> string \<Rightarrow> ('p elf_info, report) result" where
  "writing_to E file_name =
     and_then (unwrap (\<lambda>e. e) (ok_or ''output directory'' (ev_out_dir E))) (\<lambda>dir.
     and_then (unwrap (\<lambda>e. ''elf info output file'') (ev_create E (dir @ ''/'' @ file_name))) (\<lambda>_. Ok
       \<lparr>ei_prover = None, ei_output = [], ei_cargo = [''cargo::rerun-if-changed=build.rs'']\<rparr>))"

definition emitter_new ::
  "('p, 'vk) elf_env \<Rightarrow> 'p elf_info \<Rightarrow> string \<Rightarrow> byte list \<Rightarrow> (('p, 'vk) emitter, report) result" where
  "emitter_new E ctx name elf =
     and_then (write_output E (''pub mod '' @ name @ '' {'' @ newline) ctx) (\<lambda>ctx. Ok
       \<lparr>em_context = ctx, em_elf = elf, em_vkey = None\<rparr>)"

definition elf_module ::
  "('p, 'vk) elf_env \<Rightarrow> string \<Rightarrow> byte list \<Rightarrow> 'p elf_info \<Rightarrow> (('p, 'vk) emitter, report) result" where
  "elf_module E module_name elf_bytes self = emitter_new E self module_name elf_bytes"

definition module_from_file ::
  "('p, 'vk) elf_env \<Rightarrow> string \<Rightarrow> string \<Rightarrow> 'p elf_info \<Rightarrow> (('p, 'vk) emitter, report) result" where
  "module_from_file E module_name elf_path self =
     (let self = self\<lparr>ei_cargo := ei_cargo self @ [''cargo::rerun-if-changed='' @ elf_path]\<rparr> in
      and_then (unwrap (\<lambda>e. e) (ev_read E elf_path)) (\<lambda>elf_bytes. elf_module E module_name elf_bytes self))"

definition elf_prover :: "('p, 'vk) elf_env \<Rightarrow> 'p elf_info \<Rightarrow> 'p \<times> 'p elf_info" where
  "elf_prover E self =
     (case ei_prover self of
        Some p \<Rightarrow> (p, self)
      | None \<Rightarrow> (ev_prover_new E, self\<lparr>ei_prover := Some (ev_prover_new E)\<rparr>))"

definition emitter_vkey :: "('p, 'vk) elf_env \<Rightarrow> ('p, 'vk) emitter \<Rightarrow> ('vk \<times> ('p, 'vk) emitter, report) result" where
  "emitter_vkey E self =
     (case em_vkey self of
        Some v \<Rightarrow> Ok (v, self)
      | None \<Rightarrow>
          (case elf_prover E (em_context self) of (p, ctx) \<Rightarrow>
             and_then (ev_setup E p (em_elf self)) (\<lambda>vkey. Ok
               (vkey, self\<lparr>em_context := ctx, em_vkey := Some vkey\<rparr>))))"

definition emitter_write :: "('p, 'vk) elf_env \<Rightarrow> string \<Rightarrow> ('p, 'vk) emitter \<Rightarrow> (('p, 'vk) emitter, report) result" where
  "emitter_write E t self =
     and_then (write_output E t (em_context self)) (\<lambda>ctx. Ok (self\<lparr>em_context := ctx\<rparr>))"

text \<open>The \<open>Debug\<close> form of a list of numbers.\<close>

fun join_numbers :: "nat list \<Rightarrow> string" where
  "join_numbers [] = []"
| "join_numbers [n] = nat_to_string n"
| "join_numbers (n # m # ns) = nat_to_string n @ '', '' @ join_numbers (m # ns)"

definition debug_numbers :: "nat list \<Rightarrow> string" where
  "debug_numbers ns = ''['' @ join_numbers ns @ '']''"

definition vkey_bytes_line :: "byte list \<Rightarrow> string" where
  "vkey_bytes_line bytes =
     ''    pub const VKEY_BYTES: &[u8] = &'' @ debug_numbers (map unat bytes) @ '';'' @ newline"

definition vkey_hash_line :: "u32 list \<Rightarrow> string" where
  "vkey_hash_line hash =
     ''    pub const VKEY_HASH: [u32; 8] = '' @ debug_numbers (map unat hash) @ '';'' @ newline"

definition vkey_commitment_line :: "byte list \<Rightarrow> string" where
  "vkey_commitment_line commitment =
     ''    pub const VKEY_COMMITMENT: [u8; 32] = '' @ debug_numbers (map unat commitment) @ '';'' @ newline"

definition emit_vkey_bytes :: "('p, 'vk) elf_env \<Rightarrow> ('p, 'vk) emitter \<Rightarrow> (('p, 'vk) emitter, report) result" where
  "emit_vkey_bytes E self =
     and_then (emitter_vkey E self) (\<lambda>(vkey, self).
     and_then (unwrap (\<lambda>e. e) (ev_serialize E vkey)) (\<lambda>bytes.
     emitter_write E (vkey_bytes_line bytes) self))"

definition emit_vkey_hash :: "('p, 'vk) elf_env \<Rightarrow> ('p, 'vk) emitter \<Rightarrow> (('p, 'vk) emitter, report) result" where
  "emit_vkey_hash E self =
     and_then (emitter_vkey E self) (\<lambda>(vkey, self).
     emitter_write E (vkey_hash_line (ev_hash_u32 E vkey)) self)"

definition emit_vkey_commitment :: "('p, 'vk) elf_env \<Rightarrow> ('p, 'vk) emitter \<Rightarrow> (('p, 'vk) emitter, report) result" where
  "emit_vkey_commitment E self =
     and_then (emitter_vkey E self) (\<lambda>(vkey, self).
     emitter_write E (vkey_commitment_line (ev_hash_bytes E vkey)) self)"

definition emitter_finish :: "('p, 'vk) elf_env \<Rightarrow> ('p, 'vk) emitter \<Rightarrow> ('p elf_info, report) result" where
  "emitter_finish E self = and_then (emitter_write E (''}'' @ newline) self) (\<lambda>self. Ok (em_context self))"

text \<open>The build script of \<open>proposer-elfs\<close>.\<close>

definition proposer_elfs_build ::
  "('p, 'vk) elf_env \<Rightarrow> byte list \<Rightarrow> byte list \<Rightarrow> ('p elf_info, report) result" where
  "proposer_elfs_build E erigon_bytes erigon_agg =
     and_then (writing_to E ''vkeys_raw.rs'') (\<lambda>info.
     and_then (elf_module E ''aggregation'' erigon_agg info) (\<lambda>em.
     and_then (emit_vkey_bytes E em) (\<lambda>em.
     and_then (emit_vkey_hash E em) (\<lambda>em.
     and_then (emitter_finish E em) (\<lambda>info.
     and_then (elf_module E ''range'' erigon_bytes info) (\<lambda>em.
     and_then (emit_vkey_bytes E em) (\<lambda>em.
     and_then (emit_vkey_hash E em) (\<lambda>em.
     and_then (emit_vkey_commitment E em) (\<lambda>em.
     emitter_finish E em)))))))))"

section \<open>Run time\<close>

text \<open>\<open>LazyVerifyingKey\<close>: the bytes and the \<open>OnceLock\<close> of the parsed key.\<close>

record 'vk lazy_verifying_key =
  lk_bytes :: "byte list"
  lk_vkey :: "'vk option"

definition from_unparsed_bytes :: "byte list \<Rightarrow> 'vk lazy_verifying_key" where
  "from_unparsed_bytes bytes = \<lparr>lk_bytes = bytes, lk_vkey = None\<rparr>"

definition lazy_vkey ::
  "(byte list \<Rightarrow> ('vk, report) result) \<Rightarrow> 'vk lazy_verifying_key \<Rightarrow> ('vk \<times> 'vk lazy_verifying_key, 'e) result" where
  "lazy_vkey deserialize self =
     (case lk_vkey self of
        Some v \<Rightarrow> Ok (v, self)
      | None \<Rightarrow>
          and_then (unwrap (\<lambda>e. ''vkey not encoded correctly: '' @ e) (deserialize (lk_bytes self))) (\<lambda>v. Ok
            (v, self\<lparr>lk_vkey := Some v\<rparr>)))"

definition lazy_as_bytes :: "'vk lazy_verifying_key \<Rightarrow> byte list" where
  "lazy_as_bytes self = lk_bytes self"

definition lazy_lower_hex :: "'vk lazy_verifying_key \<Rightarrow> string" where
  "lazy_lower_hex self = ''0x'' @ hex_encode (lazy_as_bytes self)"

section \<open>Lemmas\<close>

text \<open>What holds of an emitter: the cached prover is the one of the environment, and the cached key is the key of
  the ELF.\<close>

definition emitter_wf :: "('p, 'vk) elf_env \<Rightarrow> ('p, 'vk) emitter \<Rightarrow> bool" where
  "emitter_wf E em \<longleftrightarrow>
     ei_prover (em_context em) \<in> {None, Some (ev_prover_new E)} \<and>
     (\<forall>v. em_vkey em = Some v \<longrightarrow> ev_setup E (ev_prover_new E) (em_elf em) = Ok v)"

definition info_wf :: "('p, 'vk) elf_env \<Rightarrow> 'p elf_info \<Rightarrow> bool" where
  "info_wf E info \<longleftrightarrow> ei_prover info \<in> {None, Some (ev_prover_new E)}"

lemma write_output_Ok:
  "write_output E t info = Ok info' \<Longrightarrow> info' = info\<lparr>ei_output := ei_output info @ t\<rparr>"
  by (auto simp: write_output_def result_simps)

lemma emitter_write_Ok:
  "emitter_write E t em = Ok em' \<Longrightarrow>
     em' = em\<lparr>em_context := (em_context em)\<lparr>ei_output := ei_output (em_context em) @ t\<rparr>\<rparr>"
  by (auto simp: emitter_write_def and_then_eq_Ok dest!: write_output_Ok)

lemma emitter_write_keeps:
  assumes "emitter_write E t em = Ok em'"
  shows "emitter_wf E em' = emitter_wf E em" and "em_elf em' = em_elf em"
    and "ei_output (em_context em') = ei_output (em_context em) @ t"
  using emitter_write_Ok [OF assms] by (simp_all add: emitter_wf_def)

text \<open>The key of an emitter is the key of its ELF, cached or not.\<close>

lemma emitter_vkey_Ok:
  assumes "emitter_vkey E em = Ok (v, em')" and "emitter_wf E em"
  shows "ev_setup E (ev_prover_new E) (em_elf em) = Ok v" and "emitter_wf E em'" and "em_elf em' = em_elf em"
    and "ei_output (em_context em') = ei_output (em_context em)"
  using assms
  by (auto simp: emitter_vkey_def elf_prover_def emitter_wf_def and_then_eq_Ok split: option.splits)

lemma elf_module_Ok:
  assumes "elf_module E name elf info = Ok em" and "info_wf E info"
  shows "emitter_wf E em" and "em_elf em = elf"
    and "ei_output (em_context em) = ei_output info @ ''pub mod '' @ name @ '' {'' @ newline"
  using assms
  by (auto simp: elf_module_def emitter_new_def and_then_eq_Ok emitter_wf_def info_wf_def dest!: write_output_Ok)

lemma emitter_finish_Ok:
  assumes "emitter_finish E em = Ok info" and "emitter_wf E em"
  shows "info_wf E info" and "ei_output info = ei_output (em_context em) @ ''}'' @ newline"
  using assms
  by (auto simp: emitter_finish_def and_then_eq_Ok info_wf_def emitter_wf_def dest!: emitter_write_Ok)

lemma writing_to_Ok: "writing_to E f = Ok info \<Longrightarrow> info_wf E info \<and> ei_output info = []"
  by (auto simp: writing_to_def result_simps info_wf_def)

text \<open>One constant of a key: the emitter stays well-formed, holds the key of its ELF, and has written the line.\<close>

lemma emit_constant:
  assumes "and_then (emitter_vkey E em) (\<lambda>(vkey, self). and_then (line vkey) (\<lambda>t. emitter_write E t self)) = Ok em'"
    and "emitter_wf E em"
  obtains k t where "ev_setup E (ev_prover_new E) (em_elf em) = Ok k" and "line k = Ok t"
    and "emitter_wf E em'" and "em_elf em' = em_elf em"
    and "ei_output (em_context em') = ei_output (em_context em) @ t"
proof -
  from assms(1) obtain k em1 t where v: "emitter_vkey E em = Ok (k, em1)" and t: "line k = Ok t"
    and w: "emitter_write E t em1 = Ok em'"
    by (auto simp: and_then_eq_Ok)
  show thesis
    using that [OF emitter_vkey_Ok(1) [OF v assms(2)] t] emitter_vkey_Ok(2-4) [OF v assms(2)]
      emitter_write_keeps [OF w] by simp
qed

lemma emit_vkey_bytes_Ok:
  assumes "emit_vkey_bytes E em = Ok em'" and "emitter_wf E em"
  obtains k bs where "ev_setup E (ev_prover_new E) (em_elf em) = Ok k" and "ev_serialize E k = Ok bs"
    and "emitter_wf E em'" and "em_elf em' = em_elf em"
    and "ei_output (em_context em') = ei_output (em_context em) @ vkey_bytes_line bs"
proof -
  let ?line = "\<lambda>k. and_then (unwrap (\<lambda>e. e) (ev_serialize E k)) (\<lambda>bs. Ok (vkey_bytes_line bs)) :: (string, report) result"
  have "and_then (emitter_vkey E em) (\<lambda>(vkey, self). and_then (?line vkey) (\<lambda>t. emitter_write E t self)) = Ok em'"
    using assms(1) by (simp add: emit_vkey_bytes_def and_then_assoc case_prod_beta)
  then show thesis
  proof (rule emit_constant [OF _ assms(2)])
    fix k t
    assume k: "ev_setup E (ev_prover_new E) (em_elf em) = Ok k" and line: "?line k = Ok t"
      and rest: "emitter_wf E em'" "em_elf em' = em_elf em"
        "ei_output (em_context em') = ei_output (em_context em) @ t"
    from line obtain bs where "ev_serialize E k = Ok bs" and "t = vkey_bytes_line bs"
      by (auto simp: and_then_eq_Ok unwrap_eq_Ok)
    then show thesis using that [OF k] rest by simp
  qed
qed

lemma emit_vkey_hash_Ok:
  assumes "emit_vkey_hash E em = Ok em'" and "emitter_wf E em"
  obtains k where "ev_setup E (ev_prover_new E) (em_elf em) = Ok k"
    and "emitter_wf E em'" and "em_elf em' = em_elf em"
    and "ei_output (em_context em') = ei_output (em_context em) @ vkey_hash_line (ev_hash_u32 E k)"
proof -
  let ?line = "\<lambda>k. Ok (vkey_hash_line (ev_hash_u32 E k)) :: (string, report) result"
  have "and_then (emitter_vkey E em) (\<lambda>(vkey, self). and_then (?line vkey) (\<lambda>t. emitter_write E t self)) = Ok em'"
    using assms(1) by (simp add: emit_vkey_hash_def)
  from emit_constant [OF this assms(2)] show thesis by (metis that result.inject(1))
qed

lemma emit_vkey_commitment_Ok:
  assumes "emit_vkey_commitment E em = Ok em'" and "emitter_wf E em"
  obtains k where "ev_setup E (ev_prover_new E) (em_elf em) = Ok k"
    and "emitter_wf E em'" and "em_elf em' = em_elf em"
    and "ei_output (em_context em') = ei_output (em_context em) @ vkey_commitment_line (ev_hash_bytes E k)"
proof -
  let ?line = "\<lambda>k. Ok (vkey_commitment_line (ev_hash_bytes E k)) :: (string, report) result"
  have "and_then (emitter_vkey E em) (\<lambda>(vkey, self). and_then (?line vkey) (\<lambda>t. emitter_write E t self)) = Ok em'"
    using assms(1) by (simp add: emit_vkey_commitment_def)
  from emit_constant [OF this assms(2)] show thesis by (metis that result.inject(1))
qed

text \<open>The module of a program.\<close>

definition key_module :: "string \<Rightarrow> string list \<Rightarrow> string" where
  "key_module name ls = ''pub mod '' @ name @ '' {'' @ newline @ concat ls @ ''}'' @ newline"

lemma module_constants:
  assumes "elf_module E name elf info = Ok m1" and "emit_vkey_bytes E m1 = Ok m2" and "emit_vkey_hash E m2 = Ok m3"
    and "info_wf E info"
  obtains k b where "ev_setup E (ev_prover_new E) elf = Ok k" and "ev_serialize E k = Ok b"
    and "emitter_wf E m3" and "em_elf m3 = elf"
    and "ei_output (em_context m3) = ei_output info @ ''pub mod '' @ name @ '' {'' @ newline @
      vkey_bytes_line b @ vkey_hash_line (ev_hash_u32 E k)"
proof -
  note m1 = elf_module_Ok [OF assms(1,4)]
  from emit_vkey_bytes_Ok [OF assms(2) m1(1)] obtain k b where
    k: "ev_setup E (ev_prover_new E) elf = Ok k" and b: "ev_serialize E k = Ok b"
    and m2: "emitter_wf E m2" "em_elf m2 = elf"
      "ei_output (em_context m2) = ei_output (em_context m1) @ vkey_bytes_line b"
    using m1(2) by metis
  from emit_vkey_hash_Ok [OF assms(3) m2(1)] have "emitter_wf E m3" "em_elf m3 = elf"
    "ei_output (em_context m3) = ei_output (em_context m2) @ vkey_hash_line (ev_hash_u32 E k)"
    using m2(2) k by (metis, metis, metis result.inject(1))
  with k b m1(3) m2(3) show thesis by (intro that) simp_all
qed

lemma lazy_vkey_first:
  assumes "deserialize bs = Ok k"
  shows "lazy_vkey deserialize (from_unparsed_bytes bs) = Ok (k, \<lparr>lk_bytes = bs, lk_vkey = Some k\<rparr>)"
    and "lazy_vkey d \<lparr>lk_bytes = bs, lk_vkey = Some k\<rparr> = Ok (k, \<lparr>lk_bytes = bs, lk_vkey = Some k\<rparr>)"
  using assms by (simp_all add: lazy_vkey_def from_unparsed_bytes_def)

text \<open>The text of a list of numbers determines the list.\<close>

lemma digit_not_comma: "c \<in> set (nat_to_string n) \<Longrightarrow> c \<noteq> CHR '',''"
proof (induction n rule: nat_to_string.induct)
  case (1 n)
  have "(char_of (48 + d) :: char) \<noteq> CHR '',''" if "d < 10" for d :: nat
  proof
    assume "(char_of (48 + d) :: char) = CHR '',''"
    then have "(of_char (char_of (48 + d) :: char) :: nat) = of_char (CHR '','')" by simp
    with that show False by simp
  qed
  moreover have "n mod 10 < 10" by simp
  ultimately have "(char_of (48 + n mod 10) :: char) \<noteq> CHR '',''" by blast
  moreover have "c \<in> set (if n < 10 then [] else nat_to_string (n div 10)) \<union> {char_of (48 + n mod 10)}"
    using 1(2) unfolding nat_to_string_snoc [of n] by (simp split: if_splits)
  ultimately show ?case using 1(1) by (auto split: if_splits)
qed

lemma first_separator:
  assumes "x \<notin> set a" and "x \<notin> set b" and "a @ x # r = b @ x # t"
  shows "a = b \<and> r = t"
  using assms
proof (induction a arbitrary: b)
  case Nil
  then show ?case by (cases b) auto
next
  case (Cons y a)
  then show ?case by (cases b) auto
qed

lemma join_numbers_inject: "join_numbers xs = join_numbers ys \<Longrightarrow> xs = ys"
proof (induction xs arbitrary: ys rule: join_numbers.induct)
  case 1
  then show ?case
    by (cases ys rule: join_numbers.cases) (simp_all add: nat_to_string_nonempty [THEN not_sym])
next
  case (2 n)
  show ?case
  proof (cases ys rule: join_numbers.cases)
    case (3 a b bs)
    then have "CHR '','' \<in> set (nat_to_string n)" using 2 by simp
    then show ?thesis using digit_not_comma by blast
  qed (use 2 nat_to_string_inject nat_to_string_nonempty in \<open>auto\<close>)
next
  case (3 n m ns)
  have comma: "CHR '','' \<notin> set (nat_to_string k)" for k using digit_not_comma by blast
  show ?case
  proof (cases ys rule: join_numbers.cases)
    case 1
    then show ?thesis using 3 by simp
  next
    case (2 k)
    then have "CHR '','' \<in> set (nat_to_string k)" using 3(2) by (metis append_Cons in_set_conv_decomp join_numbers.simps(2,3))
    then show ?thesis using comma by blast
  next
    case (3 a b bs)
    then have eq: "nat_to_string n @ CHR '','' # '' '' @ join_numbers (m # ns) =
        nat_to_string a @ CHR '','' # '' '' @ join_numbers (b # bs)"
      using "3.prems" by simp
    from first_separator [OF comma comma eq]
    have "nat_to_string n = nat_to_string a" and "join_numbers (m # ns) = join_numbers (b # bs)" by auto
    then show ?thesis using "3.IH" nat_to_string_inject \<open>ys = a # b # bs\<close> by blast
  qed
qed

lemma vkey_bytes_line_inject: "vkey_bytes_line xs = vkey_bytes_line ys \<Longrightarrow> xs = ys"
proof -
  assume "vkey_bytes_line xs = vkey_bytes_line ys"
  then have "join_numbers (map unat xs) = join_numbers (map unat ys)"
    by (simp add: vkey_bytes_line_def debug_numbers_def)
  then have "map unat xs = map unat ys" by (rule join_numbers_inject)
  then show "xs = ys" by (rule map_injective) (auto intro: injI)
qed

section \<open>A concrete build\<close>

text \<open>The key of a program is the program.\<close>

definition sample_elf_env :: "(unit, byte list) elf_env" where
  "sample_elf_env =
     \<lparr>ev_prover_new = (), ev_setup = (\<lambda>p elf. Ok elf), ev_hash_u32 = (\<lambda>k. replicate 8 1),
      ev_hash_bytes = (\<lambda>k. replicate 32 2), ev_serialize = Ok, ev_out_dir = Some ''out'',
      ev_create = (\<lambda>f. Ok ()), ev_read = (\<lambda>f. Err ''no file''), ev_write = (\<lambda>t. Ok ())\<rparr>"

lemma sample_build: "\<exists>out. proposer_elfs_build sample_elf_env [1, 2] [3] = Ok out"
  by (simp add: proposer_elfs_build_def writing_to_def elf_module_def emitter_new_def write_output_def
      emit_vkey_bytes_def emitter_vkey_def elf_prover_def emitter_write_def emit_vkey_hash_def
      emitter_finish_def emit_vkey_commitment_def sample_elf_env_def)

section \<open>Properties\<close>

text \<open>C38: An emitter is well-formed at every moment. The emitter of a module is well-formed when the cached prover,
  if any, is the prover of the environment and the cached key, if any, is the key of its ELF; opening a
  module gives such an emitter, every emission keeps it with its ELF, so that all constants of a module are
  those of one key, and closing the module hands the prover on.\<close>

theorem emitter_well_formed:
  assumes "emitter_wf E em" and "emit \<in> {emit_vkey_bytes E, emit_vkey_hash E, emit_vkey_commitment E}"
    and "emit em = Ok em'" and "emitter_finish E em' = Ok info" and "elf_module E name elf info = Ok em2"
  shows "emitter_wf E em' \<and> em_elf em' = em_elf em \<and>
     (\<exists>k. ev_setup E (ev_prover_new E) (em_elf em) = Ok k) \<and> info_wf E info \<and>
     emitter_wf E em2 \<and> em_elf em2 = elf"
proof -
  have keeps: "emitter_wf E em' \<and> em_elf em' = em_elf em \<and> (\<exists>k. ev_setup E (ev_prover_new E) (em_elf em) = Ok k)"
    using assms(2)
  proof (elim insertE emptyE)
    assume "emit = emit_vkey_bytes E"
    then show ?thesis using assms(1,3) by (metis emit_vkey_bytes_Ok)
  next
    assume "emit = emit_vkey_hash E"
    then show ?thesis using assms(1,3) by (metis emit_vkey_hash_Ok)
  next
    assume "emit = emit_vkey_commitment E"
    then show ?thesis using assms(1,3) by (metis emit_vkey_commitment_Ok)
  qed
  then have "info_wf E info" using emitter_finish_Ok(1) [OF assms(4)] by blast
  with keeps show ?thesis using elf_module_Ok(1,2) [OF assms(5)] by blast
qed

theorem emitter_well_formed_witness:
  "\<exists>em em2. emit_vkey_hash sample_elf_env \<lparr>em_context = \<lparr>ei_prover = None, ei_output = [], ei_cargo = []\<rparr>,
       em_elf = [3], em_vkey = None\<rparr> = Ok em \<and> emitter_wf sample_elf_env em \<and> emitter_wf sample_elf_env em2"
proof -
  let ?em = "\<lparr>em_context = \<lparr>ei_prover = None, ei_output = [], ei_cargo = []\<rparr>, em_elf = [3], em_vkey = None\<rparr>
    :: (unit, byte list) emitter"
  obtain em' info em2 where run: "emit_vkey_hash sample_elf_env ?em = Ok em'"
    "emitter_finish sample_elf_env em' = Ok info" "elf_module sample_elf_env ''m'' [4] info = Ok em2"
    by (simp add: emit_vkey_hash_def emitter_vkey_def elf_prover_def emitter_write_def write_output_def
        emitter_finish_def elf_module_def emitter_new_def sample_elf_env_def)
  have "emitter_wf sample_elf_env ?em" by (simp add: emitter_wf_def)
  from emitter_well_formed [where emit = "emit_vkey_hash sample_elf_env", OF this _ run] run(1) show ?thesis by blast
qed

text \<open>C32: The keys at run time are those of the two ELF files that the build script includes, \<open>aggregation-elf\<close> and
  \<open>cdk-range\<close>. A build that succeeds has written the two modules with the bytes, the hash and, for the range
  program, the commitment of the keys that the prover sets up for these files; the text determines the
  bytes; and for each of the two the lazy key made of its bytes parses to that key on its first use, without
  a panic, and is not parsed again. The constant \<open>aggregation::ELF\<close> of the crate is another file, that of
  \<open>op-succinct\<close>, of which nothing is said here.\<close>

theorem verifying_keys_roundtrip:
  assumes "proposer_elfs_build E erigon_bytes erigon_agg = Ok out"
    and "\<And>k bs. ev_serialize E k = Ok bs \<Longrightarrow> deserialize bs = Ok k"
  shows "\<exists>ka kr ba br. ev_setup E (ev_prover_new E) erigon_agg = Ok ka \<and>
     ev_setup E (ev_prover_new E) erigon_bytes = Ok kr \<and> ev_serialize E ka = Ok ba \<and> ev_serialize E kr = Ok br \<and>
     ei_output out =
       key_module ''aggregation'' [vkey_bytes_line ba, vkey_hash_line (ev_hash_u32 E ka)] @
       key_module ''range'' [vkey_bytes_line br, vkey_hash_line (ev_hash_u32 E kr),
         vkey_commitment_line (ev_hash_bytes E kr)] \<and>
     (\<forall>bs. (vkey_bytes_line bs = vkey_bytes_line ba \<longrightarrow> bs = ba) \<and> (vkey_bytes_line bs = vkey_bytes_line br \<longrightarrow> bs = br)) \<and>
     (\<exists>lk. lazy_vkey deserialize (from_unparsed_bytes ba) = (Ok (ka, lk) :: (_, unit) result) \<and>
        (\<forall>d. lazy_vkey d lk = (Ok (ka, lk) :: (_, unit) result))) \<and>
     (\<exists>lk. lazy_vkey deserialize (from_unparsed_bytes br) = (Ok (kr, lk) :: (_, unit) result) \<and>
        (\<forall>d. lazy_vkey d lk = (Ok (kr, lk) :: (_, unit) result)))"
proof -
  from assms(1) obtain i0 m1 m2 m3 i1 n1 n2 n3 n4 where
    i0: "writing_to E ''vkeys_raw.rs'' = Ok i0" and m1: "elf_module E ''aggregation'' erigon_agg i0 = Ok m1"
    and m2: "emit_vkey_bytes E m1 = Ok m2" and m3: "emit_vkey_hash E m2 = Ok m3"
    and i1: "emitter_finish E m3 = Ok i1" and n1: "elf_module E ''range'' erigon_bytes i1 = Ok n1"
    and n2: "emit_vkey_bytes E n1 = Ok n2" and n3: "emit_vkey_hash E n2 = Ok n3"
    and n4: "emit_vkey_commitment E n3 = Ok n4" and out: "emitter_finish E n4 = Ok out"
    unfolding proposer_elfs_build_def and_then_eq_Ok by blast
  from writing_to_Ok [OF i0] have "info_wf E i0" "ei_output i0 = []" by simp_all
  from module_constants [OF m1 m2 m3 this(1)] obtain ka ba where
    ka: "ev_setup E (ev_prover_new E) erigon_agg = Ok ka" "ev_serialize E ka = Ok ba" and w3: "emitter_wf E m3"
    and o3: "ei_output (em_context m3) = ei_output i0 @ ''pub mod '' @ ''aggregation'' @ '' {'' @ newline @
      vkey_bytes_line ba @ vkey_hash_line (ev_hash_u32 E ka)" .
  from module_constants [OF n1 n2 n3 emitter_finish_Ok(1) [OF i1 w3]] obtain kr br where
    kr: "ev_setup E (ev_prover_new E) erigon_bytes = Ok kr" "ev_serialize E kr = Ok br"
    and x3: "emitter_wf E n3" "em_elf n3 = erigon_bytes"
    and p3: "ei_output (em_context n3) = ei_output i1 @ ''pub mod '' @ ''range'' @ '' {'' @ newline @
      vkey_bytes_line br @ vkey_hash_line (ev_hash_u32 E kr)" .
  from emit_vkey_commitment_Ok [OF n4 x3(1)] have x4: "emitter_wf E n4"
    and p4: "ei_output (em_context n4) = ei_output (em_context n3) @ vkey_commitment_line (ev_hash_bytes E kr)"
    using x3(2) kr by (metis, metis result.inject(1))
  have out_text: "ei_output out =
       key_module ''aggregation'' [vkey_bytes_line ba, vkey_hash_line (ev_hash_u32 E ka)] @
       key_module ''range'' [vkey_bytes_line br, vkey_hash_line (ev_hash_u32 E kr),
         vkey_commitment_line (ev_hash_bytes E kr)]"
    using \<open>ei_output i0 = []\<close> o3 p3 p4 emitter_finish_Ok(2) [OF i1 w3] emitter_finish_Ok(2) [OF out x4]
    by (simp add: key_module_def)
  have parse: "\<exists>lk. lazy_vkey deserialize (from_unparsed_bytes bs) = (Ok (k, lk) :: (_, unit) result) \<and>
      (\<forall>d. lazy_vkey d lk = (Ok (k, lk) :: (_, unit) result))" if "ev_serialize E k = Ok bs" for k bs
    using lazy_vkey_first [where deserialize = deserialize, OF assms(2) [OF that]] by blast
  show ?thesis
    by (intro exI [of _ ka] exI [of _ kr] exI [of _ ba] exI [of _ br] conjI allI impI out_text parse [OF ka(2)]
        parse [OF kr(2)] ka kr) (erule vkey_bytes_line_inject)+
qed

theorem verifying_keys_roundtrip_witness:
  "\<exists>out ba br. proposer_elfs_build sample_elf_env [1, 2] [3] = Ok out \<and>
     lazy_vkey Ok (from_unparsed_bytes ba) = (Ok ([3], \<lparr>lk_bytes = ba, lk_vkey = Some [3]\<rparr>) :: (_, unit) result) \<and>
     lazy_vkey Ok (from_unparsed_bytes br) = (Ok ([1, 2], \<lparr>lk_bytes = br, lk_vkey = Some [1, 2]\<rparr>) :: (_, unit) result)"
proof -
  obtain out where out: "proposer_elfs_build sample_elf_env [1, 2] [3] = Ok out" using sample_build by blast
  have "ev_serialize sample_elf_env k = Ok bs \<Longrightarrow> (Ok bs :: (byte list, report) result) = Ok k" for k bs
    by (simp add: sample_elf_env_def)
  from verifying_keys_roundtrip [where deserialize = Ok, OF out this] obtain ka ba kr br lk lk' where
    keys: "ev_setup sample_elf_env () [3] = Ok ka" "ev_setup sample_elf_env () [1, 2] = Ok kr"
    and lk: "lazy_vkey Ok (from_unparsed_bytes ba) = (Ok (ka, lk) :: (_, unit) result)"
      "lazy_vkey Ok (from_unparsed_bytes br) = (Ok (kr, lk') :: (_, unit) result)" by auto
  have "ka = [3]" "kr = [1, 2]" using keys by (simp_all add: sample_elf_env_def)
  moreover have "ba = ka" "lk = \<lparr>lk_bytes = ba, lk_vkey = Some ka\<rparr>" "br = kr" "lk' = \<lparr>lk_bytes = br, lk_vkey = Some kr\<rparr>"
    using lk by (auto simp: lazy_vkey_def from_unparsed_bytes_def)
  ultimately show ?thesis using out lk by blast
qed

end
