(* ===== verification/Certificate_Chain.thy ===== *)
theory Certificate_Chain
  imports Aggchain_Proof
begin

text \<open>
  Sequences of certificates. Each execution of \<open>BridgeConstraintsInput::verify\<close>
  (\<open>crates/aggchain-proof-core/src/bridge/mod.rs\<close>) speaks of two L2 blocks; the agglayer settles one
  certificate after the other, each starting at the block at which the one before ended. This theory
  composes accepted inputs over such a sequence: the hash chains of the contracts grow from the first to
  the last block by the concatenation of the lists of the certificates, and what they contain does not
  depend on how the range of blocks was cut into certificates.

  The locale \<open>extending_chain\<close> holds the argument for any value that a certificate extends; it is
  interpreted on the static calls of the program.
\<close>

section \<open>Values extended by a sequence of steps\<close>

locale extending_chain =
  fixes start_value :: "'i \<Rightarrow> 'v \<Rightarrow> bool"
    and end_value :: "'i \<Rightarrow> 'v \<Rightarrow> bool"
    and linked :: "'i \<Rightarrow> 'i \<Rightarrow> bool"
    and extend :: "'v \<Rightarrow> 'e list \<Rightarrow> 'v"
  assumes extend_append: "extend v (xs @ ys) = extend (extend v xs) ys"
    and linked_value: "linked i j \<Longrightarrow> end_value i v \<Longrightarrow> start_value j w \<Longrightarrow> v = w"
begin

lemma extends_run:
  assumes "successively linked (i # rest)"
    and "\<forall>j\<in>set (i # rest). \<exists>v. start_value j v \<and> end_value j (extend v (elems j))"
  shows "\<exists>v. start_value i v \<and> end_value (last (i # rest)) (extend v (concat (map elems (i # rest))))"
  using assms
proof (induction rest arbitrary: i)
  case (Cons j js)
  then obtain w where w: "start_value j w" "end_value (last (j # js)) (extend w (concat (map elems (j # js))))"
    by auto
  from Cons.prems obtain v where "start_value i v" "end_value i (extend v (elems i))" and "linked i j" by auto
  with w linked_value have "extend v (elems i) = w" by blast
  with w \<open>start_value i v\<close> show ?case by (auto simp: extend_append)
qed simp

end

section \<open>Certificates\<close>

text \<open>A certificate follows another one: it starts at the block at which the other ended, for the same GER
  contract and the same caller.\<close>

definition follows :: "'sk bridge_constraints_input \<Rightarrow> 'sk bridge_constraints_input \<Rightarrow> bool" where
  "follows i j \<longleftrightarrow>
     bci_new_l2_block_hash i = bci_prev_l2_block_hash j \<and> bci_ger_addr i = bci_ger_addr j \<and>
     bw_caller_address (bci_bridge_witness i) = bw_caller_address (bci_bridge_witness j)"

definition certificate_run ::
  "'w::len itself \<Rightarrow> 'sig prims \<Rightarrow> 'sk evm \<Rightarrow> address \<Rightarrow> 'sk bridge_constraints_input list \<Rightarrow> bool" where
  "certificate_run t P E bridge_address certs \<longleftrightarrow>
     certs \<noteq> [] \<and> successively follows certs \<and>
     (\<forall>i\<in>set certs. bridge_verify t P E i = Ok () \<and>
        new_call E i (decode_address E) (bci_ger_addr i) BridgeAddressCall bridge_address)"

text \<open>The four hash chains, with the contract and the elements of a certificate.\<close>

datatype tracked = Inserted | Removed | Claimed | Unset

fun tracked_call :: "tracked \<Rightarrow> sol_call" where
  "tracked_call Inserted = InsertedGERHashChainCall"
| "tracked_call Removed = RemovedGERHashChainCall"
| "tracked_call Claimed = ClaimedGlobalIndexHashChainCall"
| "tracked_call Unset = UnsetGlobalIndexHashChainCall"

fun tracked_address :: "tracked \<Rightarrow> address \<Rightarrow> 'sk bridge_constraints_input \<Rightarrow> address" where
  "tracked_address Inserted b i = bci_ger_addr i"
| "tracked_address Removed b i = bci_ger_addr i"
| "tracked_address Claimed b i = b"
| "tracked_address Unset b i = b"

fun tracked_elements :: "'sig prims \<Rightarrow> tracked \<Rightarrow> 'sk bridge_constraints_input \<Rightarrow> digest list" where
  "tracked_elements P Inserted i = bw_raw_inserted_gers (bci_bridge_witness i)"
| "tracked_elements P Removed i = bw_removed_gers (bci_bridge_witness i)"
| "tracked_elements P Claimed i = map (claim_commitment P) (bw_bridge_exits_claimed (bci_bridge_witness i))"
| "tracked_elements P Unset i = bw_global_indices_unset (bci_bridge_witness i)"

definition run_elements :: "'sig prims \<Rightarrow> tracked \<Rightarrow> 'sk bridge_constraints_input list \<Rightarrow> digest list" where
  "run_elements P t certs = concat (map (tracked_elements P t) certs)"

definition run_extends ::
  "'sig prims \<Rightarrow> 'sk evm \<Rightarrow> address \<Rightarrow> 'sk bridge_constraints_input list \<Rightarrow> tracked \<Rightarrow> bool" where
  "run_extends P E b certs t \<longleftrightarrow>
     (\<exists>v. prev_call E (hd certs) (decode_bytes32 E) (tracked_address t b (hd certs)) (tracked_call t) v \<and>
        new_call E (last certs) (decode_bytes32 E) (tracked_address t b (hd certs)) (tracked_call t)
          (rebuild_hash_chain P v (run_elements P t certs)))"

interpretation certs: extending_chain
  "\<lambda>i. prev_call E i (decode_bytes32 E) a c" "\<lambda>i. new_call E i (decode_bytes32 E) a c"
  "\<lambda>i j. evm_anchored E \<and> follows i j" "rebuild_hash_chain P"
  for P E a c
proof
  show "rebuild_hash_chain P v (xs @ ys) = rebuild_hash_chain P (rebuild_hash_chain P v xs) ys" for v xs ys
    by (rule rebuild_hash_chain_append)
  show "v = w" if "evm_anchored E \<and> follows i j" and "new_call E i (decode_bytes32 E) a c v"
    and "prev_call E j (decode_bytes32 E) a c w" for i j v w
    using that unfolding follows_def new_call_def prev_call_def by (metis static_call_value_anchored)
qed

section \<open>Runs\<close>

lemma certificate_extends:
  assumes "bridge_verify t P E i = Ok ()"
    and "new_call E i (decode_address E) (bci_ger_addr i) BridgeAddressCall b"
  shows "chain_extended P E i (tracked_address u b i) (tracked_call u) (tracked_elements P u i)"
proof -
  from bridge_verify_sound [OF assms(1)] obtain b' where
    ger: "chain_extended P E i (bci_ger_addr i) InsertedGERHashChainCall (bw_raw_inserted_gers (bci_bridge_witness i))"
      "chain_extended P E i (bci_ger_addr i) RemovedGERHashChainCall (bw_removed_gers (bci_bridge_witness i))"
    and b': "new_call E i (decode_address E) (bci_ger_addr i) BridgeAddressCall b'"
    and claims: "chain_extended P E i b' ClaimedGlobalIndexHashChainCall
        (map (claim_commitment P) (bw_bridge_exits_claimed (bci_bridge_witness i)))"
      "chain_extended P E i b' UnsetGlobalIndexHashChainCall (bw_global_indices_unset (bci_bridge_witness i))"
    unfolding bridge_constraints_hold_def Let_def by blast
  have "b' = b" using b' assms(2) unfolding new_call_def by (rule static_call_value_unique)
  with ger claims show ?thesis by (cases u) simp_all
qed

lemma run_same_contract:
  assumes "successively follows (i # rest)" and "j \<in> set (i # rest)"
  shows "bci_ger_addr j = bci_ger_addr i"
    and "bw_caller_address (bci_bridge_witness j) = bw_caller_address (bci_bridge_witness i)"
proof -
  have "bci_ger_addr j = bci_ger_addr i \<and>
      bw_caller_address (bci_bridge_witness j) = bw_caller_address (bci_bridge_witness i)"
    using assms
  proof (induction rest arbitrary: i)
    case (Cons k ks)
    then have "j = i \<or> j \<in> set (k # ks)" and "follows i k" and "successively follows (k # ks)" by auto
    with Cons.IH [of k] show ?case unfolding follows_def by metis
  qed simp
  then show "bci_ger_addr j = bci_ger_addr i"
    and "bw_caller_address (bci_bridge_witness j) = bw_caller_address (bci_bridge_witness i)" by blast+
qed

lemma tracked_address_cong: "bci_ger_addr j = bci_ger_addr i \<Longrightarrow> tracked_address u b j = tracked_address u b i"
  by (cases u) simp_all

lemma certificate_run_extended:
  assumes "evm_anchored E" and "certificate_run t P E b certs"
  shows "run_extends P E b certs u"
proof -
  from assms(2) obtain i rest where certs: "certs = i # rest" by (cases certs) (auto simp: certificate_run_def)
  have follows: "successively follows (i # rest)" using assms(2) by (simp add: certificate_run_def certs)
  have "\<exists>v. prev_call E j (decode_bytes32 E) (tracked_address u b i) (tracked_call u) v \<and>
      new_call E j (decode_bytes32 E) (tracked_address u b i) (tracked_call u)
        (rebuild_hash_chain P v (tracked_elements P u j))" if j: "j \<in> set (i # rest)" for j
    using assms(2) certificate_extends [of t P E j b u] j
    unfolding certificate_run_def certs chain_extended_def tracked_address_cong [OF run_same_contract(1) [OF follows j]]
    by blast
  then show ?thesis
    using certs.extends_run [where E = E and P = P and i = i and rest = rest and elems = "tracked_elements P u"]
      follows assms(1)
    unfolding run_extends_def run_elements_def certs list.sel by auto
qed

text \<open>Two sequences over the same range of blocks, however it is cut.\<close>

definition same_range :: "'sk bridge_constraints_input list \<Rightarrow> 'sk bridge_constraints_input list \<Rightarrow> bool" where
  "same_range cs js \<longleftrightarrow>
     bci_prev_l2_block_hash (hd cs) = bci_prev_l2_block_hash (hd js) \<and>
     bci_new_l2_block_hash (last cs) = bci_new_l2_block_hash (last js) \<and>
     bci_ger_addr (hd cs) = bci_ger_addr (hd js) \<and>
     bw_caller_address (bci_bridge_witness (hd cs)) = bw_caller_address (bci_bridge_witness (hd js))"

lemma run_last:
  assumes "certificate_run t P E b certs"
  shows run_last_caller: "bw_caller_address (bci_bridge_witness (last certs)) = bw_caller_address (bci_bridge_witness (hd certs))"
    and run_last_ger: "bci_ger_addr (last certs) = bci_ger_addr (hd certs)"
    and run_last_bridge: "new_call E (last certs) (decode_address E) (bci_ger_addr (hd certs)) BridgeAddressCall b"
proof -
  from assms obtain i rest where certs: "certs = i # rest" and follows: "successively follows (i # rest)"
    by (cases certs) (auto simp: certificate_run_def)
  have mem: "last certs \<in> set (i # rest)" by (simp add: certs)
  from run_same_contract [OF follows mem]
  show "bw_caller_address (bci_bridge_witness (last certs)) = bw_caller_address (bci_bridge_witness (hd certs))"
    and ger: "bci_ger_addr (last certs) = bci_ger_addr (hd certs)" by (simp_all add: certs)
  show "new_call E (last certs) (decode_address E) (bci_ger_addr (hd certs)) BridgeAddressCall b"
    using assms mem unfolding certificate_run_def certs ger [symmetric, unfolded certs] by blast
qed

lemma same_range_last_caller:
  assumes "certificate_run t P E b cs" and "certificate_run t' P E b' js" and "same_range cs js"
  shows "bw_caller_address (bci_bridge_witness (last cs)) = bw_caller_address (bci_bridge_witness (last js))"
  using assms(3) unfolding run_last_caller [OF assms(1)] run_last_caller [OF assms(2)] same_range_def by simp

lemma runs_bound:
  assumes "evm_anchored E" and "certificate_run t P E b cs" and "certificate_run t' P E b js" and "same_range cs js"
  shows "\<exists>v. prev_call E (hd cs) (decode_bytes32 E) (tracked_address u b (hd cs)) (tracked_call u) v \<and>
     chain_bound P v (run_elements P u cs) (run_elements P u js)"
proof -
  let ?a = "tracked_address u b (hd cs)" and ?c = "tracked_call u"
  have addr: "tracked_address u b (hd js) = ?a"
    using assms(4) by (intro tracked_address_cong) (simp add: same_range_def)
  obtain v where v: "prev_call E (hd cs) (decode_bytes32 E) ?a ?c v"
      "new_call E (last cs) (decode_bytes32 E) ?a ?c (rebuild_hash_chain P v (run_elements P u cs))"
    using certificate_run_extended [OF assms(1,2), of u] unfolding run_extends_def by blast
  obtain w where w: "prev_call E (hd js) (decode_bytes32 E) ?a ?c w"
      "new_call E (last js) (decode_bytes32 E) ?a ?c (rebuild_hash_chain P w (run_elements P u js))"
    using certificate_run_extended [OF assms(1,3), of u] unfolding run_extends_def addr by blast
  note anchored = static_call_value_anchored [OF assms(1)]
  have "v = w" using v(1) w(1) assms(4) unfolding prev_call_def same_range_def by (metis anchored)
  moreover have "rebuild_hash_chain P v (run_elements P u cs) = rebuild_hash_chain P w (run_elements P u js)"
    using v(2) w(2) assms(4) same_range_last_caller [OF assms(2-4)]
    unfolding new_call_def same_range_def by (metis anchored)
  ultimately show ?thesis using v(1) rebuild_hash_chain_bound by metis
qed

lemma run_exit_root:
  assumes "certificate_run t P E b certs" and "i \<in> set certs"
  shows "new_call E i (decode_bytes32 E) b GetRootCall (bci_new_local_exit_root i)"
proof -
  have i: "bridge_verify t P E i = Ok ()"
    "new_call E i (decode_address E) (bci_ger_addr i) BridgeAddressCall b"
    using assms unfolding certificate_run_def by blast+
  from bridge_verify_sound [OF i(1)] obtain b' where
    "new_call E i (decode_address E) (bci_ger_addr i) BridgeAddressCall b'"
    and root: "new_call E i (decode_bytes32 E) b' GetRootCall (bci_new_local_exit_root i)"
    unfolding bridge_constraints_hold_def Let_def by blast
  with i(2) have "b' = b" unfolding new_call_def by (metis static_call_value_unique)
  with root show ?thesis by simp
qed

lemma same_range_bridge:
  assumes "evm_anchored E" and "certificate_run t P E b cs" and "certificate_run t' P E b' js" and "same_range cs js"
  shows "b' = b"
proof -
  note js = run_last_bridge [OF assms(3)]
  have "bci_ger_addr (hd js) = bci_ger_addr (hd cs)" using assms(4) by (simp add: same_range_def)
  from run_last_bridge [OF assms(2)] js [unfolded this] show ?thesis
    using static_call_value_anchored [OF assms(1)] assms(4) same_range_last_caller [OF assms(2-4)]
    unfolding new_call_def same_range_def by metis
qed

lemma same_range_exit_root:
  assumes "evm_anchored E" and "certificate_run t P E b cs" and "certificate_run t' P E b js" and "same_range cs js"
  shows "bci_new_local_exit_root (last cs) = bci_new_local_exit_root (last js)"
proof -
  have "last cs \<in> set cs" "last js \<in> set js" using assms(2,3) by (simp_all add: certificate_run_def)
  from run_exit_root [OF assms(2) this(1)] run_exit_root [OF assms(3) this(2)] show ?thesis
    using static_call_value_anchored [OF assms(1)] assms(4) same_range_last_caller [OF assms(2-4)]
    unfolding new_call_def same_range_def by metis
qed

section \<open>A concrete sequence\<close>

text \<open>The input of \<open>Bridge_Constraints\<close>, one that follows it, and one over both ranges.\<close>

definition sample_run_table :: call_table where
  "sample_run_table = sample_table @
     [(300, 10, InsertedGERHashChainCall, 451), (300, 10, RemovedGERHashChainCall, 11),
      (300, 10, BridgeAddressCall, 20), (300, 20, ClaimedGlobalIndexHashChainCall, 539),
      (300, 20, UnsetGlobalIndexHashChainCall, 5), (300, 20, GetRootCall, 77)]"

definition sample_next_input :: "digest bridge_constraints_input" where
  "sample_next_input = sample_input\<lparr>
     bci_prev_l2_block_hash := 200, bci_new_l2_block_hash := 300, bci_new_local_exit_root := 77,
     bci_commit_imported_bridge_exits := 19,
     bci_bridge_witness := sample_witness\<lparr>
       bw_inserted_gers := [sample_leaf 9 1], bw_raw_inserted_gers := [9], bw_removed_gers := [],
       bw_bridge_exits_claimed := [\<lparr>global_index = 3, bridge_exit_hash = 4\<rparr>], bw_global_indices_unset := [],
       bw_prev_l2_block_sketch := 200, bw_new_l2_block_sketch := 300\<rparr>\<rparr>"

definition sample_joint_input :: "digest bridge_constraints_input" where
  "sample_joint_input = sample_input\<lparr>
     bci_new_l2_block_hash := 300, bci_new_local_exit_root := 77, bci_commit_imported_bridge_exits := 35,
     bci_bridge_witness := sample_witness\<lparr>
       bw_inserted_gers := [sample_leaf 8 2, sample_leaf 7 3, sample_leaf 9 1],
       bw_raw_inserted_gers := [7, 8, 7, 9],
       bw_bridge_exits_claimed := bw_bridge_exits_claimed sample_witness @ [\<lparr>global_index = 3, bridge_exit_hash = 4\<rparr>],
       bw_new_l2_block_sketch := 300\<rparr>\<rparr>"

lemmas run_sample_defs = sample_run_table_def sample_next_input_def sample_joint_input_def

lemma sample_run_verified:
  "bridge_verify TYPE(32) sample_prims (sample_evm sample_run_table) sample_input = Ok ()"
  "bridge_verify TYPE(32) sample_prims (sample_evm sample_run_table) sample_next_input = Ok ()"
  "bridge_verify TYPE(32) sample_prims (sample_evm sample_run_table) sample_joint_input = Ok ()"
  by (simp_all add: run_sample_defs bridge_sample_defs bridge_verify_defs)

lemma sample_runs:
  "certificate_run TYPE(32) sample_prims (sample_evm sample_run_table) 20 [sample_input, sample_next_input]"
  "certificate_run TYPE(32) sample_prims (sample_evm sample_run_table) 20 [sample_joint_input]"
proof -
  have "new_call (sample_evm sample_run_table) i (decode_address (sample_evm sample_run_table)) (bci_ger_addr i)
      BridgeAddressCall 20" if "i \<in> {sample_input, sample_next_input, sample_joint_input}" for i
    using that by (auto simp: new_call_def static_call_value_def run_sample_defs bridge_sample_defs)
  moreover have "follows sample_input sample_next_input"
    by (simp add: follows_def sample_next_input_def sample_input_def sample_witness_def)
  ultimately show "certificate_run TYPE(32) sample_prims (sample_evm sample_run_table) 20 [sample_input, sample_next_input]"
    "certificate_run TYPE(32) sample_prims (sample_evm sample_run_table) 20 [sample_joint_input]"
    using sample_run_verified by (simp_all add: certificate_run_def)
qed

section \<open>Properties\<close>

text \<open>C6: Consecutive certificates compose. For a sequence of accepted inputs, each starting at the block at which
  the one before ended, over an executor that answers from the state of the anchor block and a bridge
  contract that keeps its address, each of the four hash chains of the contracts grows from the first
  block of the sequence to its last block by exactly the concatenation of the lists of the certificates:
  no GER, claim or unset index of the contracts lies between two certificates. And the local exit root
  of every certificate is the root of the bridge contract at its last block.\<close>

theorem certificates_compose:
  assumes "evm_anchored E" and "certificate_run t P E b certs"
  shows "run_extends P E b certs u \<and>
     (\<forall>i\<in>set certs. new_call E i (decode_bytes32 E) b GetRootCall (bci_new_local_exit_root i))"
  using certificate_run_extended [OF assms] run_exit_root [OF assms(2)] by blast

theorem certificates_compose_witness:
  "run_extends sample_prims (sample_evm sample_run_table) 20 [sample_input, sample_next_input] Inserted \<and>
   run_elements sample_prims Inserted [sample_input, sample_next_input] = [7, 8, 7, 9]"
  using certificates_compose [OF sample_evm_anchored sample_runs(1), of Inserted]
  by (simp add: run_elements_def sample_next_input_def sample_input_def sample_witness_def)

text \<open>C5: How a range of blocks is cut into certificates does not matter. Two sequences of accepted inputs from
  the same first to the same last block list the same inserted GERs, removed GERs, claims and unset
  indices, in the same order, or give an explicit Keccak collision or a cycle of the hash chain; they
  end with the same local exit root and the same bridge contract.\<close>

theorem certificates_cut_independent:
  assumes "evm_anchored E" and "certificate_run t P E b cs" and "certificate_run t' P E b' js" and "same_range cs js"
  shows "b' = b \<and> bci_new_local_exit_root (last cs) = bci_new_local_exit_root (last js) \<and>
     (\<exists>v. prev_call E (hd cs) (decode_bytes32 E) (tracked_address u b (hd cs)) (tracked_call u) v \<and>
        chain_bound P v (run_elements P u cs) (run_elements P u js))"
proof -
  have b: "b' = b" by (rule same_range_bridge [OF assms])
  note js = assms(3) [unfolded b]
  show ?thesis
    using b same_range_exit_root [OF assms(1,2) js assms(4)] runs_bound [OF assms(1,2) js assms(4)] by blast
qed

theorem certificates_cut_independent_witness:
  "\<exists>v. chain_bound sample_prims v (run_elements sample_prims Claimed [sample_input, sample_next_input])
     (run_elements sample_prims Claimed [sample_joint_input])"
proof -
  have "same_range [sample_input, sample_next_input] [sample_joint_input]"
    by (simp add: same_range_def sample_next_input_def sample_joint_input_def sample_input_def sample_witness_def)
  from certificates_cut_independent [OF sample_evm_anchored sample_runs this, of Claimed] show ?thesis by blast
qed

end
