(* ===== verification/Json_Message.thy ===== *)
theory Json_Message
  imports Contracts Request_Conversion "HOL-Library.AList" "HOL-Library.Sublist"
begin

text \<open>
  What the generated \<open>serde\<close> code of both message crates (\<open>generated/*.serde.rs\<close>) shares: the loop
  over the entries of an object, and the serialisation of fields. The JSON values are those of \<open>Contracts\<close>.

  Every generated \<open>Deserialize\<close> has the same shape: the visitor of the field names, a loop that reads an
  entry, refuses a field that was already set and stores the value, and the construction of the message.
  The loop is \<open>visit_map\<close>; field names, match arms and construction are definitions of the message. The
  locale \<open>json_fields\<close> states what the match arms of a message promise, and proves for all messages that
  the order of the entries does not matter, that no field is set twice, and that unknown names are
  refused.

  The helpers of \<open>pbjson\<close> (base64, numbers given as strings) and the messages of agglayer-interop are
  arguments. A number that is not an integer is no case of \<open>json\<close>; no field of the messages reads one.
\<close>

section \<open>Errors and helpers\<close>

datatype json_error =
    UnknownField string "string list"
  | DuplicateField string
  | UnknownVariant string "string list"
  | InvalidValue int
  | InvalidType string
  | CustomError string
  | ValueError report

record json_codec =
  js_base64_encode :: "byte list \<Rightarrow> string"
  js_bytes_deserialize :: "json \<Rightarrow> (byte list, json_error) result"
  js_number_deserialize :: "json \<Rightarrow> (u64, json_error) result"

text \<open>What the code relies on: \<open>BytesDeserialize\<close> reads what \<open>base64::encode\<close> wrote, and \<open>NumberDeserialize\<close> reads the
  decimal digits of a number.\<close>

definition json_codec_ok :: "json_codec \<Rightarrow> bool" where
  "json_codec_ok K \<longleftrightarrow>
     (\<forall>b. js_bytes_deserialize K (JString (js_base64_encode K b)) = Ok b) \<and>
     (\<forall>n. js_number_deserialize K (JString (nat_to_string (unat n))) = Ok n)"

text \<open>The serialiser and the deserialiser of a message.\<close>

type_synonym 'a json_serialize = "'a \<Rightarrow> (json, json_error) result"
type_synonym 'a json_deserialize = "json \<Rightarrow> ('a, json_error) result"

definition value_codec :: "'a json_serialize \<Rightarrow> 'a json_deserialize \<Rightarrow> bool" where
  "value_codec ser de \<longleftrightarrow> (\<forall>x j. ser x = Ok j \<longrightarrow> de j = Ok x \<and> j \<noteq> JNull)"

lemma value_codecD: "value_codec ser de \<Longrightarrow> ser x = Ok j \<Longrightarrow> de j = Ok x \<and> j \<noteq> JNull"
  by (simp add: value_codec_def)

section \<open>Reading\<close>

text \<open>\<open>while let Some(k) = map_.next_key()? { match k { .. } }\<close>\<close>

fun visit_map ::
  "(string \<Rightarrow> ('f, json_error) result) \<Rightarrow> ('f \<Rightarrow> json \<Rightarrow> 's \<Rightarrow> ('s, json_error) result) \<Rightarrow> 's \<Rightarrow>
   (string \<times> json) list \<Rightarrow> ('s, json_error) result" where
  "visit_map field arm s [] = Ok s"
| "visit_map field arm s ((k, v) # entries) =
     and_then (field k) (\<lambda>f. and_then (arm f v s) (\<lambda>s. visit_map field arm s entries))"

text \<open>A match arm: a field that is set is refused; otherwise the value is read and stored.\<close>

definition match_arm ::
  "('f \<Rightarrow> string) \<Rightarrow> ('f \<Rightarrow> 's \<Rightarrow> bool) \<Rightarrow> ('f \<Rightarrow> json \<Rightarrow> ('s \<Rightarrow> 's, json_error) result) \<Rightarrow>
   'f \<Rightarrow> json \<Rightarrow> 's \<Rightarrow> ('s, json_error) result" where
  "match_arm name is_set store f v s =
     (if is_set f s then Err (DuplicateField (name f)) else map_ok (\<lambda>set_slot. set_slot s) (store f v))"

text \<open>\<open>deserialize_struct\<close>: only an object is read.\<close>

definition deserialize_struct ::
  "string \<Rightarrow> (string \<Rightarrow> ('f, json_error) result) \<Rightarrow> ('f \<Rightarrow> json \<Rightarrow> 's \<Rightarrow> ('s, json_error) result) \<Rightarrow> 's \<Rightarrow>
   ('s \<Rightarrow> 'a) \<Rightarrow> 'a json_deserialize" where
  "deserialize_struct name field arm init build v =
     (case v of
        JObject entries \<Rightarrow> map_ok build (visit_map field arm init entries)
      | _ \<Rightarrow> Err (InvalidType name))"

text \<open>\<open>next_value::<Option<_>>\<close>\<close>

definition option_deserialize :: "'a json_deserialize \<Rightarrow> 'a option json_deserialize" where
  "option_deserialize de v = (if v = JNull then Ok None else map_ok Some (de v))"

fun vec_deserialize :: "'a json_deserialize \<Rightarrow> 'a list json_deserialize" where
  "vec_deserialize de (JArray vs) = collect_results de vs"
| "vec_deserialize de _ = Err (InvalidType ''a sequence'')"

text \<open>A hash map keeps the last value of a key.\<close>

fun insert_entries :: "'a json_deserialize \<Rightarrow> (string \<times> 'a) list \<Rightarrow> (string \<times> json) list \<Rightarrow>
   ((string \<times> 'a) list, json_error) result" where
  "insert_entries de m [] = Ok m"
| "insert_entries de m ((k, v) # entries) = and_then (de v) (\<lambda>x. insert_entries de (AList.update k x m) entries)"

fun map_deserialize :: "'a json_deserialize \<Rightarrow> (string \<times> 'a) list json_deserialize" where
  "map_deserialize de (JObject entries) = insert_entries de [] entries"
| "map_deserialize de _ = Err (InvalidType ''a map'')"

section \<open>Writing\<close>

text \<open>The entries that a field adds: none for a default value.\<close>

type_synonym json_entries = "((string \<times> json) list, json_error) result"

definition number_field :: "string \<Rightarrow> u64 \<Rightarrow> json_entries" where
  "number_field name n = Ok (if n \<noteq> 0 then [(name, JString (nat_to_string (unat n)))] else [])"

definition bytes_field :: "json_codec \<Rightarrow> string \<Rightarrow> byte list \<Rightarrow> json_entries" where
  "bytes_field K name bs = Ok (if bs \<noteq> [] then [(name, JString (js_base64_encode K bs))] else [])"

definition option_field :: "'a json_serialize \<Rightarrow> string \<Rightarrow> 'a option \<Rightarrow> json_entries" where
  "option_field ser name x = (case x of None \<Rightarrow> Ok [] | Some v \<Rightarrow> map_ok (\<lambda>j. [(name, j)]) (ser v))"

definition vec_field :: "'a json_serialize \<Rightarrow> string \<Rightarrow> 'a list \<Rightarrow> json_entries" where
  "vec_field ser name xs =
     (if xs \<noteq> [] then map_ok (\<lambda>js. [(name, JArray js)]) (collect_results ser xs) else Ok [])"

definition map_field :: "'a json_serialize \<Rightarrow> string \<Rightarrow> (string \<times> 'a) list \<Rightarrow> json_entries" where
  "map_field ser name m =
     (if m \<noteq> []
      then map_ok (\<lambda>js. [(name, JObject js)]) (collect_results (\<lambda>(k, v). map_ok (Pair k) (ser v)) m)
      else Ok [])"

fun serialize_fields :: "json_entries list \<Rightarrow> json_entries" where
  "serialize_fields [] = Ok []"
| "serialize_fields (f # fs) = and_then f (\<lambda>es. map_ok ((@) es) (serialize_fields fs))"

definition serialize_struct :: "json_entries list \<Rightarrow> (json, json_error) result" where
  "serialize_struct fs = map_ok JObject (serialize_fields fs)"

section \<open>The loop\<close>

lemma visit_map_append:
  "visit_map field arm s (es @ es') = and_then (visit_map field arm s es) (\<lambda>s. visit_map field arm s es')"
proof (induction es arbitrary: s)
  case (Cons e es)
  obtain k v where "e = (k, v)" by (cases e)
  with Cons show ?case by (cases "field k") (auto simp: and_then_assoc)
qed simp

lemma visit_map_eq_Ok_Cons:
  "visit_map field arm s ((k, v) # es) = Ok t \<longleftrightarrow>
     (\<exists>f s'. field k = Ok f \<and> arm f v s = Ok s' \<and> visit_map field arm s' es = Ok t)"
  by (auto simp: and_then_eq_Ok)

lemma serialize_fields_eq_Ok:
  "serialize_fields (f # fs) = Ok es \<longleftrightarrow> (\<exists>xs ys. f = Ok xs \<and> serialize_fields fs = Ok ys \<and> es = xs @ ys)"
  by (auto simp: and_then_eq_Ok map_ok_eq_Ok)

text \<open>The contract of the match arms of a message: which fields a state has set, that an arm sets its field
  unless the value is null, refuses a field that is set, keeps the others, and that two arms commute.\<close>

locale json_fields =
  fixes field :: "string \<Rightarrow> ('f, json_error) result"
    and arm :: "'f \<Rightarrow> json \<Rightarrow> 's \<Rightarrow> ('s, json_error) result"
    and filled :: "'f \<Rightarrow> 's \<Rightarrow> bool"
  assumes arm_fills: "arm f v s = Ok s' \<Longrightarrow> v \<noteq> JNull \<Longrightarrow> filled f s'"
    and arm_once: "filled f s \<Longrightarrow> arm f v s \<noteq> Ok s'"
    and arm_keeps: "arm f v s = Ok s' \<Longrightarrow> filled g s \<Longrightarrow> filled g s'"
    and arm_commute: "f \<noteq> g \<Longrightarrow> arm f v s = Ok s' \<Longrightarrow> arm g w s' = Ok t \<Longrightarrow>
      \<exists>s''. arm g w s = Ok s'' \<and> arm f v s'' = Ok t"
begin

lemma visit_filled:
  assumes "visit_map field arm s es = Ok t" and "filled f s" and "(k, v) \<in> set es"
  shows "field k \<noteq> Ok f"
  using assms
proof (induction es arbitrary: s)
  case (Cons e es)
  obtain k' v' where e: "e = (k', v')" by (cases e)
  with Cons.prems obtain g s' where "field k' = Ok g" "arm g v' s = Ok s'" and tail: "visit_map field arm s' es = Ok t"
    by (auto simp: and_then_eq_Ok)
  moreover from calculation have "f \<noteq> g" using arm_once [OF Cons.prems(2)] by auto
  moreover have "filled f s'" using calculation Cons.prems(2) arm_keeps by blast
  ultimately show ?case using Cons.IH [OF tail] Cons.prems(3) e by auto
qed simp

text \<open>A field has at most one value that is not null, and every name is known.\<close>

lemma visit_strict:
  assumes "visit_map field arm s es = Ok t"
  shows "(\<forall>(k, v)\<in>set es. \<exists>f. field k = Ok f) \<and> length (filter (\<lambda>(k, v). field k = Ok f \<and> v \<noteq> JNull) es) \<le> 1"
  using assms
proof (induction es arbitrary: s)
  case (Cons e es)
  obtain k v where e: "e = (k, v)" by (cases e)
  with Cons.prems obtain g s' where g: "field k = Ok g" "arm g v s = Ok s'" and tail: "visit_map field arm s' es = Ok t"
    by (auto simp: and_then_eq_Ok)
  note IH = Cons.IH [OF tail]
  show ?case
  proof (cases "g = f \<and> v \<noteq> JNull")
    case True
    then have "filled f s'" using g(2) arm_fills by blast
    from visit_filled [OF tail this] have "filter (\<lambda>(k, v). field k = Ok f \<and> v \<noteq> JNull) es = []"
      by (auto simp: filter_empty_conv)
    then show ?thesis using IH g(1) e by simp
  next
    case False
    then show ?thesis using IH g(1) e by auto
  qed
qed simp

text \<open>An entry may be moved to the front of entries for other fields.\<close>

lemma visit_front:
  assumes "visit_map field arm s (es @ (k, v) # es') = Ok t" and "\<forall>(k', v')\<in>set es. field k' \<noteq> field k"
  shows "visit_map field arm s ((k, v) # es @ es') = Ok t"
  using assms
proof (induction es arbitrary: s)
  case (Cons e es)
  obtain k' v' where e: "e = (k', v')" by (cases e)
  with Cons.prems(1) obtain g s' where g: "field k' = Ok g" "arm g v' s = Ok s'"
    and "visit_map field arm s' (es @ (k, v) # es') = Ok t"
    by (auto simp: and_then_eq_Ok)
  with Cons.IH Cons.prems(2) have "visit_map field arm s' ((k, v) # es @ es') = Ok t" by auto
  then obtain f s2 where f: "field k = Ok f" "arm f v s' = Ok s2" and tail: "visit_map field arm s2 (es @ es') = Ok t"
    unfolding visit_map_eq_Ok_Cons by auto
  have "g \<noteq> f" using Cons.prems(2) g(1) f(1) e by auto
  from arm_commute [OF this g(2) f(2)] obtain s3 where "arm f v s = Ok s3" "arm g v' s3 = Ok s2" by blast
  with f g tail e show ?case unfolding append_Cons visit_map_eq_Ok_Cons by auto
qed simp

text \<open>The order of the entries of an object does not matter, if they are for different fields.\<close>

lemma visit_permute:
  assumes "mset es = mset es'" and "distinct (map (\<lambda>e. field (fst e)) es)" and "visit_map field arm s es = Ok t"
  shows "visit_map field arm s es' = Ok t"
  using assms
proof (induction es' arbitrary: es s)
  case (Cons e es')
  obtain k v where e: "e = (k, v)" by (cases e)
  from Cons.prems(1) have "e \<in> set es" by (metis list.set_intros(1) set_mset_mset)
  then obtain xs ys where es: "es = xs @ (k, v) # ys" unfolding e by (meson split_list)
  have "\<forall>(k', v')\<in>set xs. field k' \<noteq> field k" using Cons.prems(2) unfolding es by force
  from visit_front [OF Cons.prems(3) [unfolded es] this] obtain f s' where
    "field k = Ok f" "arm f v s = Ok s'" and tail: "visit_map field arm s' (xs @ ys) = Ok t"
    unfolding visit_map_eq_Ok_Cons by auto
  moreover have "visit_map field arm s' es' = Ok t"
    using Cons.IH [OF _ _ tail] Cons.prems(1,2) by (simp add: es e)
  ultimately show ?case unfolding e visit_map_eq_Ok_Cons by blast
qed simp

end

text \<open>The same for match arms over slots: reading a value gives an update of the slot of the field, which leaves
  the other slots alone.\<close>

locale json_slots =
  fixes field :: "string \<Rightarrow> ('f, json_error) result"
    and name :: "'f \<Rightarrow> string"
    and is_set :: "'f \<Rightarrow> 's \<Rightarrow> bool"
    and store :: "'f \<Rightarrow> json \<Rightarrow> ('s \<Rightarrow> 's, json_error) result"
  assumes store_self: "store f v = Ok u \<Longrightarrow> v \<noteq> JNull \<Longrightarrow> is_set f (u s)"
    and store_other: "store f v = Ok u \<Longrightarrow> g \<noteq> f \<Longrightarrow> is_set g (u s) \<longleftrightarrow> is_set g s"
    and store_commute: "f \<noteq> g \<Longrightarrow> store f v = Ok u \<Longrightarrow> store g w = Ok u' \<Longrightarrow> u' (u s) = u (u' s)"

sublocale json_slots \<subseteq> json_fields field "match_arm name is_set store" is_set
proof
  fix f g v w s s' t
  show "is_set f s'" if "match_arm name is_set store f v s = Ok s'" and "v \<noteq> JNull"
    using that store_self by (auto simp: match_arm_def map_ok_eq_Ok split: if_splits)
  show "match_arm name is_set store f v s \<noteq> Ok s'" if "is_set f s"
    using that by (simp add: match_arm_def)
  show "is_set g s'" if "match_arm name is_set store f v s = Ok s'" and "is_set g s"
    using that store_other by (cases "g = f") (auto simp: match_arm_def map_ok_eq_Ok split: if_splits)
  show "\<exists>s''. match_arm name is_set store g w s = Ok s'' \<and> match_arm name is_set store f v s'' = Ok t"
    if fg: "f \<noteq> g" and one: "match_arm name is_set store f v s = Ok s'" and two: "match_arm name is_set store g w s' = Ok t"
  proof -
    from one obtain u where u: "store f v = Ok u" "\<not> is_set f s" "s' = u s"
      by (auto simp: match_arm_def map_ok_eq_Ok split: if_splits)
    from two obtain u' where u': "store g w = Ok u'" "\<not> is_set g s'" "t = u' s'"
      by (auto simp: match_arm_def map_ok_eq_Ok split: if_splits)
    have "\<not> is_set g s" "\<not> is_set f (u' s)" "t = u (u' s)"
      using fg u u' store_other store_commute by auto
    with u u' show ?thesis by (auto simp: match_arm_def)
  qed
qed

section \<open>Fields that were written\<close>

lemma collect_results_inverse:
  "collect_results f xs = Ok ys \<Longrightarrow> (\<And>x y. x \<in> set xs \<Longrightarrow> f x = Ok y \<Longrightarrow> g y = Ok x) \<Longrightarrow> collect_results g ys = Ok xs"
  by (induction xs arbitrary: ys) (auto simp: and_then_eq_Ok)

lemma update_new: "k \<notin> fst ` set m \<Longrightarrow> AList.update k v m = m @ [(k, v)]"
  by (induction m) auto

lemma insert_entries_written:
  assumes "collect_results (\<lambda>(k, v). map_ok (Pair k) (ser v)) m = Ok js" and "value_codec ser de"
    and "distinct (map fst (m' @ m))"
  shows "insert_entries de m' js = Ok (m' @ m)"
  using assms
proof (induction m arbitrary: m' js)
  case (Cons e m)
  obtain k v where e: "e = (k, v)" by (cases e)
  with Cons.prems(1) obtain j js' where j: "ser v = Ok j"
    and js': "collect_results (\<lambda>(k, v). map_ok (Pair k) (ser v)) m = Ok js'" and js: "js = (k, j) # js'"
    by (auto simp: and_then_eq_Ok map_ok_eq_Ok)
  have "AList.update k v m' = m' @ [(k, v)]"
    using Cons.prems(3) e by (intro update_new) auto
  moreover have "insert_entries de (m' @ [(k, v)]) js' = Ok ((m' @ [(k, v)]) @ m)"
    using Cons.prems(2,3) e by (intro Cons.IH [OF js']) auto
  ultimately show ?case using value_codecD [OF assms(2) j] by (simp add: js e)
qed simp

context json_slots
begin

text \<open>Reading the entries of one field: the slot gets the value that was written.\<close>

lemma visit_number_field:
  assumes "number_field key n = Ok es" and "json_codec_ok K" and "field key = Ok f"
    and "\<And>v. store f v = map_ok (\<lambda>x. put (Some x)) (js_number_deserialize K v)"
    and "\<not> is_set f s" and "put None s = s"
  shows "visit_map field (match_arm name is_set store) s es = Ok (put (if n = 0 then None else Some n) s)"
  using assms unfolding number_field_def by (auto simp: json_codec_ok_def match_arm_def)

lemma visit_bytes_field:
  assumes "bytes_field K key bs = Ok es" and "json_codec_ok K" and "field key = Ok f"
    and "\<And>v. store f v = map_ok (\<lambda>x. put (Some x)) (js_bytes_deserialize K v)"
    and "\<not> is_set f s" and "put None s = s"
  shows "visit_map field (match_arm name is_set store) s es = Ok (put (if bs = [] then None else Some bs) s)"
  using assms unfolding bytes_field_def by (auto simp: json_codec_ok_def match_arm_def)

lemma visit_option_field:
  assumes "option_field ser key x = Ok es" and "\<And>y j. x = Some y \<Longrightarrow> ser y = Ok j \<Longrightarrow> de j = Ok y \<and> j \<noteq> JNull"
    and "field key = Ok f"
    and "\<And>v. store f v = map_ok put (option_deserialize de v)"
    and "\<not> is_set f s" and "put None s = s"
  shows "visit_map field (match_arm name is_set store) s es = Ok (put x s)"
proof (cases x)
  case None
  then show ?thesis using assms(1,6) by (simp add: option_field_def)
next
  case (Some y)
  then obtain j where j: "ser y = Ok j" and es: "es = [(key, j)]"
    using assms(1) by (auto simp: option_field_def map_ok_eq_Ok)
  from assms(2) [OF Some j] have "option_deserialize de j = Ok (Some y)"
    by (simp add: option_deserialize_def)
  then show ?thesis by (simp add: es assms(3-5) match_arm_def Some)
qed

lemma visit_vec_field:
  assumes "vec_field ser key xs = Ok es" and "value_codec ser de" and "field key = Ok f"
    and "\<And>v. store f v = map_ok (\<lambda>x. put (Some x)) (vec_deserialize de v)"
    and "\<not> is_set f s" and "put None s = s"
  shows "visit_map field (match_arm name is_set store) s es = Ok (put (if xs = [] then None else Some xs) s)"
proof (cases "xs = []")
  case True
  then show ?thesis using assms(1,6) by (simp add: vec_field_def)
next
  case False
  then obtain js where js: "collect_results ser xs = Ok js" and es: "es = [(key, JArray js)]"
    using assms(1) by (auto simp: vec_field_def map_ok_eq_Ok)
  from js have "collect_results de js = Ok xs"
    using assms(2) by (auto simp: value_codec_def intro: collect_results_inverse)
  then show ?thesis by (simp add: es assms(3-5) match_arm_def False)
qed

lemma visit_map_field:
  assumes "map_field ser key m = Ok es" and "value_codec ser de" and "distinct (map fst m)" and "field key = Ok f"
    and "\<And>v. store f v = map_ok (\<lambda>x. put (Some x)) (map_deserialize de v)"
    and "\<not> is_set f s" and "put None s = s"
  shows "visit_map field (match_arm name is_set store) s es = Ok (put (if m = [] then None else Some m) s)"
proof (cases "m = []")
  case True
  then show ?thesis using assms(1,7) by (simp add: map_field_def)
next
  case False
  then obtain js where js: "collect_results (\<lambda>(k, v). map_ok (Pair k) (ser v)) m = Ok js"
    and es: "es = [(key, JObject js)]"
    using assms(1) by (auto simp: map_field_def map_ok_eq_Ok)
  from insert_entries_written [OF js assms(2), of "[]"] assms(3) have "insert_entries de [] js = Ok m" by simp
  then show ?thesis by (simp add: es assms(4-6) match_arm_def False)
qed

end

text \<open>The names of the written entries are names of the fields, each at most once and in their order.\<close>

definition writes :: "string \<Rightarrow> json_entries \<Rightarrow> bool" where
  "writes name f \<longleftrightarrow> (\<forall>es. f = Ok es \<longrightarrow> map fst es = [] \<or> map fst es = [name])"

lemma writes_fields [simp]:
  "writes name (number_field name n)" "writes name (bytes_field K name bs)" "writes name (option_field ser name x)"
  "writes name (vec_field ser name xs)" "writes name (map_field ser name m)"
  by (auto simp: writes_def number_field_def bytes_field_def option_field_def vec_field_def map_field_def
      map_ok_eq_Ok split: option.splits)

lemma serialize_fields_names:
  "list_all2 writes names fs \<Longrightarrow> serialize_fields fs = Ok es \<Longrightarrow> subseq (map fst es) names"
proof (induction names fs arbitrary: es rule: list_all2_induct)
  case (Cons name names f fs)
  from Cons.prems obtain xs ys where f: "f = Ok xs" and ys: "serialize_fields fs = Ok ys" and es: "es = xs @ ys"
    unfolding serialize_fields_eq_Ok by blast
  from Cons.hyps(1) f have "map fst xs = [] \<or> map fst xs = [name]" by (simp add: writes_def)
  with Cons.IH [OF ys] show ?case by (auto simp: es)
qed simp

lemma distinct_subseq: "subseq xs ys \<Longrightarrow> distinct ys \<Longrightarrow> distinct xs"
  by (induction rule: list_emb.induct) (auto dest: list_emb_set)

lemma serialize_fields_distinct:
  assumes "list_all2 writes names fs" and "serialize_fields fs = Ok es" and "distinct (map field names)"
  shows "distinct (map (\<lambda>e. field (fst e)) es)"
proof -
  have "subseq (map field (map fst es)) (map field names)"
    by (rule subseq_map [OF serialize_fields_names [OF assms(1,2)]])
  then show ?thesis
    using assms(3) by (auto simp: comp_def dest: distinct_subseq)
qed

section \<open>Round trips\<close>

text \<open>A message is read back from its JSON form, in whatever order the entries of the object come.\<close>

definition reads_back :: "'a json_serialize \<Rightarrow> 'a json_deserialize \<Rightarrow> 'a \<Rightarrow> bool" where
  "reads_back ser de x \<longleftrightarrow>
     (\<exists>es. ser x = Ok (JObject es) \<and> (\<forall>es'. mset es' = mset es \<longrightarrow> de (JObject es') = Ok x))"

lemma reads_back_Ok:
  assumes "reads_back ser de x" and "ser x = Ok j"
  shows "de j = Ok x \<and> j \<noteq> JNull"
  using assms unfolding reads_back_def by force

lemma reads_back_codec:
  "(\<And>x j. ser x = Ok j \<Longrightarrow> reads_back ser de x) \<Longrightarrow> value_codec ser de"
  unfolding value_codec_def using reads_back_Ok by metis

context json_fields
begin

lemma struct_reads_back:
  assumes "ser x = serialize_struct fs" and "serialize_fields fs = Ok es"
    and "list_all2 writes names fs" and "distinct (map field names)"
    and "visit_map field arm init es = Ok t" and "build t = x"
  shows "reads_back ser (deserialize_struct nm field arm init build) x"
proof -
  have "visit_map field arm init es' = Ok t" if "mset es' = mset es" for es'
    using visit_permute [OF that [symmetric] serialize_fields_distinct [OF assms(3,2,4)] assms(5)] .
  then show ?thesis
    using assms(1,2,6) by (auto simp: reads_back_def serialize_struct_def deserialize_struct_def)
qed

end

section \<open>A concrete codec\<close>

text \<open>Bytes as the characters with their codes, and numbers as their digits.\<close>

definition parse_digits :: "string \<Rightarrow> nat" where
  "parse_digits s = foldl (\<lambda>n c. n * 10 + (of_char c - 48)) 0 s"

fun sample_bytes_deserialize :: "byte list json_deserialize" where
  "sample_bytes_deserialize (JString s) = Ok (map (\<lambda>c. word_of_nat (of_char c)) s)"
| "sample_bytes_deserialize _ = Err (InvalidType ''bytes'')"

fun sample_number_deserialize :: "u64 json_deserialize" where
  "sample_number_deserialize (JString s) = Ok (word_of_nat (parse_digits s))"
| "sample_number_deserialize _ = Err (InvalidType ''number'')"

definition sample_json_codec :: json_codec where
  "sample_json_codec =
     \<lparr>js_base64_encode = map (\<lambda>b. char_of (unat b)),
      js_bytes_deserialize = sample_bytes_deserialize,
      js_number_deserialize = sample_number_deserialize\<rparr>"

lemma parse_digits_nat_to_string: "parse_digits (nat_to_string n) = n"
proof (induction n rule: nat_to_string.induct)
  case (1 n)
  have snoc: "parse_digits (s @ [c]) = parse_digits s * 10 + (of_char c - 48)" for s c
    by (simp add: parse_digits_def)
  have digit: "(of_char (char_of (48 + n mod 10) :: char) :: nat) = 48 + n mod 10"
    using mod_less_divisor [of 10 n] by (simp add: less_trans [of _ 10 208])
  show ?case
  proof (cases "n < 10")
    case True
    then show ?thesis using digit by (simp add: nat_to_string_snoc [of n] parse_digits_def)
  next
    case False
    then show ?thesis using 1 digit by (simp add: nat_to_string_snoc [of n] snoc)
  qed
qed

lemma sample_bytes_roundtrip: "sample_bytes_deserialize (JString (map (\<lambda>b. char_of (unat b)) bs)) = Ok bs"
proof -
  have "word_of_nat (of_char (char_of (unat b) :: char)) = b" for b :: byte
    using unat_bound [of b] by simp
  then show ?thesis by (induction bs) (simp_all add: comp_def)
qed

lemma sample_json_codec_ok: "json_codec_ok sample_json_codec"
  by (simp add: json_codec_ok_def sample_json_codec_def sample_bytes_roundtrip parse_digits_nat_to_string
      del: sample_bytes_deserialize.simps)

end
