(* ===== verification/Agglayer_Json.thy ===== *)
theory Agglayer_Json
  imports Pessimistic_Rpc Json_Message
begin

text \<open>
  The generated code of \<open>crates/agglayer-prover-types/src/generated\<close> that is not transport: the names of the
  error kinds (\<open>agglayer.prover.v1.rs\<close>) and the JSON form of the messages (\<open>agglayer.prover.v1.serde.rs\<close>).
  Each message has its field names, the match arms of its visitor over the slots that the visitor fills,
  \<open>deserialize\<close> and \<open>serialize\<close>.
\<close>

section \<open>Error kinds\<close>

fun as_str_name :: "error_kind \<Rightarrow> string" where
  "as_str_name KindUnspecified = ''ERROR_KIND_UNSPECIFIED''"
| "as_str_name KindUnableToExecuteProver = ''ERROR_KIND_UNABLE_TO_EXECUTE_PROVER''"
| "as_str_name KindProverFailed = ''ERROR_KIND_PROVER_FAILED''"
| "as_str_name KindProofVerificationFailed = ''ERROR_KIND_PROOF_VERIFICATION_FAILED''"
| "as_str_name KindExecutorFailed = ''ERROR_KIND_EXECUTOR_FAILED''"

definition from_str_name :: "string \<Rightarrow> error_kind option" where
  "from_str_name value =
     (if value = ''ERROR_KIND_UNSPECIFIED'' then Some KindUnspecified
      else if value = ''ERROR_KIND_UNABLE_TO_EXECUTE_PROVER'' then Some KindUnableToExecuteProver
      else if value = ''ERROR_KIND_PROVER_FAILED'' then Some KindProverFailed
      else if value = ''ERROR_KIND_PROOF_VERIFICATION_FAILED'' then Some KindProofVerificationFailed
      else if value = ''ERROR_KIND_EXECUTOR_FAILED'' then Some KindExecutorFailed
      else None)"

text \<open>\<open>ErrorKind::try_from\<close> of the value of an \<open>i32\<close>, derived by \<open>prost::Enumeration\<close>.\<close>

definition error_kind_try_from :: "32 word \<Rightarrow> error_kind option" where
  "error_kind_try_from v =
     (if v = 0 then Some KindUnspecified
      else if v = 1 then Some KindUnableToExecuteProver
      else if v = 2 then Some KindProverFailed
      else if v = 3 then Some KindProofVerificationFailed
      else if v = 4 then Some KindExecutorFailed
      else None)"

definition error_kind_serialize :: "error_kind json_serialize" where
  "error_kind_serialize self =
     Ok (JString
       (case self of
          KindUnspecified \<Rightarrow> ''ERROR_KIND_UNSPECIFIED''
        | KindUnableToExecuteProver \<Rightarrow> ''ERROR_KIND_UNABLE_TO_EXECUTE_PROVER''
        | KindProverFailed \<Rightarrow> ''ERROR_KIND_PROVER_FAILED''
        | KindProofVerificationFailed \<Rightarrow> ''ERROR_KIND_PROOF_VERIFICATION_FAILED''
        | KindExecutorFailed \<Rightarrow> ''ERROR_KIND_EXECUTOR_FAILED''))"

definition error_kind_names :: "string list" where
  "error_kind_names =
     [''ERROR_KIND_UNSPECIFIED'', ''ERROR_KIND_UNABLE_TO_EXECUTE_PROVER'', ''ERROR_KIND_PROVER_FAILED'',
      ''ERROR_KIND_PROOF_VERIFICATION_FAILED'', ''ERROR_KIND_EXECUTOR_FAILED'']"

text \<open>\<open>visit_i64\<close> and \<open>visit_u64\<close>: \<open>i32::try_from\<close>, then \<open>try_into\<close>.\<close>

definition error_kind_visit_number :: "int \<Rightarrow> (error_kind, json_error) result" where
  "error_kind_visit_number v =
     ok_or (InvalidValue v)
       (Option.bind (if - (2 ^ 31) \<le> v \<and> v < 2 ^ 31 then Some (word_of_int v) else None) error_kind_try_from)"

definition error_kind_visit_str :: "string \<Rightarrow> (error_kind, json_error) result" where
  "error_kind_visit_str value =
     (if value = ''ERROR_KIND_UNSPECIFIED'' then Ok KindUnspecified
      else if value = ''ERROR_KIND_UNABLE_TO_EXECUTE_PROVER'' then Ok KindUnableToExecuteProver
      else if value = ''ERROR_KIND_PROVER_FAILED'' then Ok KindProverFailed
      else if value = ''ERROR_KIND_PROOF_VERIFICATION_FAILED'' then Ok KindProofVerificationFailed
      else if value = ''ERROR_KIND_EXECUTOR_FAILED'' then Ok KindExecutorFailed
      else Err (UnknownVariant value error_kind_names))"

text \<open>An integer outside \<open>i64\<close> and \<open>u64\<close> reaches none of the visitor's methods.\<close>

fun error_kind_deserialize :: "error_kind json_deserialize" where
  "error_kind_deserialize (JNumber v) =
     (if - (2 ^ 63) \<le> v \<and> v < 2 ^ 64 then error_kind_visit_number v else Err (InvalidType ''ErrorKind''))"
| "error_kind_deserialize (JString value) = error_kind_visit_str value"
| "error_kind_deserialize _ = Err (InvalidType ''ErrorKind'')"

section \<open>GenerateProofError\<close>

datatype proof_error_key = ErrorField | ErrorTypeField

definition proof_error_field :: "string \<Rightarrow> (proof_error_key, json_error) result" where
  "proof_error_field value =
     (if value = ''error'' then Ok ErrorField
      else if value = ''errorType'' \<or> value = ''error_type'' then Ok ErrorTypeField
      else Err (UnknownField value [''error'', ''error_type'', ''errorType'']))"

record proof_error_slots =
  sl_error :: "byte list option"
  sl_error_type :: "32 word option"

fun proof_error_name :: "proof_error_key \<Rightarrow> string" where
  "proof_error_name ErrorField = ''error''"
| "proof_error_name ErrorTypeField = ''errorType''"

fun proof_error_is_set :: "proof_error_key \<Rightarrow> proof_error_slots \<Rightarrow> bool" where
  "proof_error_is_set ErrorField s \<longleftrightarrow> sl_error s \<noteq> None"
| "proof_error_is_set ErrorTypeField s \<longleftrightarrow> sl_error_type s \<noteq> None"

fun proof_error_store ::
  "json_codec \<Rightarrow> proof_error_key \<Rightarrow> json \<Rightarrow> (proof_error_slots \<Rightarrow> proof_error_slots, json_error) result" where
  "proof_error_store K ErrorField v = map_ok (\<lambda>x. sl_error_update (\<lambda>_. Some x)) (js_bytes_deserialize K v)"
| "proof_error_store K ErrorTypeField v =
     map_ok (\<lambda>x. sl_error_type_update (\<lambda>_. Some (error_kind_value x))) (error_kind_deserialize v)"

definition proof_error_build :: "proof_error_slots \<Rightarrow> generate_proof_error" where
  "proof_error_build s =
     \<lparr>ge_error = (case sl_error s of None \<Rightarrow> [] | Some x \<Rightarrow> x),
      ge_error_type = (case sl_error_type s of None \<Rightarrow> 0 | Some x \<Rightarrow> x)\<rparr>"

definition proof_error_deserialize :: "json_codec \<Rightarrow> generate_proof_error json_deserialize" where
  "proof_error_deserialize K =
     deserialize_struct ''agglayer.prover.v1.GenerateProofError'' proof_error_field
       (match_arm proof_error_name proof_error_is_set (proof_error_store K))
       \<lparr>sl_error = None, sl_error_type = None\<rparr> proof_error_build"

definition i32_display :: "32 word \<Rightarrow> string" where
  "i32_display v =
     (if sint v < 0 then ''-'' @ nat_to_string (nat (- sint v)) else nat_to_string (nat (sint v)))"

definition error_type_entries :: "32 word \<Rightarrow> json_entries" where
  "error_type_entries error_type =
     (if error_type \<noteq> 0
      then and_then (ok_or (CustomError (''Invalid variant '' @ i32_display error_type)) (error_kind_try_from error_type)) (\<lambda>v.
           map_ok (\<lambda>j. [(''errorType'', j)]) (error_kind_serialize v))
      else Ok [])"

definition proof_error_serialize :: "json_codec \<Rightarrow> generate_proof_error json_serialize" where
  "proof_error_serialize K self =
     serialize_struct [bytes_field K ''error'' (ge_error self), error_type_entries (ge_error_type self)]"

section \<open>GenerateProofRequest\<close>

datatype proof_request_key = Sp1StdinField

definition proof_request_field :: "string \<Rightarrow> (proof_request_key, json_error) result" where
  "proof_request_field value =
     (if value = ''sp1Stdin'' \<or> value = ''sp1_stdin'' then Ok Sp1StdinField
      else Err (UnknownField value [''sp1_stdin'', ''sp1Stdin'']))"

text \<open>The only slot is the message itself.\<close>

fun proof_request_name :: "proof_request_key \<Rightarrow> string" where
  "proof_request_name Sp1StdinField = ''sp1Stdin''"

fun proof_request_is_set :: "proof_request_key \<Rightarrow> stdin_message option \<Rightarrow> bool" where
  "proof_request_is_set Sp1StdinField s \<longleftrightarrow> s \<noteq> None"

fun proof_request_store ::
  "json_codec \<Rightarrow> proof_request_key \<Rightarrow> json \<Rightarrow> (stdin_message option \<Rightarrow> stdin_message option, json_error) result" where
  "proof_request_store K Sp1StdinField v =
     map_ok (\<lambda>x _. map_option Sp1Stdin x) (option_deserialize (js_bytes_deserialize K) v)"

definition proof_request_deserialize :: "json_codec \<Rightarrow> generate_proof_request json_deserialize" where
  "proof_request_deserialize K =
     deserialize_struct ''agglayer.prover.v1.GenerateProofRequest'' proof_request_field
       (match_arm proof_request_name proof_request_is_set (proof_request_store K))
       None (\<lambda>stdin. \<lparr>gq_stdin = stdin\<rparr>)"

definition proof_request_serialize :: "json_codec \<Rightarrow> generate_proof_request json_serialize" where
  "proof_request_serialize K self =
     serialize_struct
       [case gq_stdin self of
          None \<Rightarrow> Ok []
        | Some (Sp1Stdin v) \<Rightarrow> Ok [(''sp1Stdin'', JString (js_base64_encode K v))]]"

section \<open>GenerateProofResponse\<close>

datatype proof_response_key = ProofField

definition proof_response_field :: "string \<Rightarrow> (proof_response_key, json_error) result" where
  "proof_response_field value =
     (if value = ''proof'' then Ok ProofField else Err (UnknownField value [''proof'']))"

fun proof_response_name :: "proof_response_key \<Rightarrow> string" where
  "proof_response_name ProofField = ''proof''"

fun proof_response_is_set :: "proof_response_key \<Rightarrow> byte list option \<Rightarrow> bool" where
  "proof_response_is_set ProofField s \<longleftrightarrow> s \<noteq> None"

fun proof_response_store ::
  "json_codec \<Rightarrow> proof_response_key \<Rightarrow> json \<Rightarrow> (byte list option \<Rightarrow> byte list option, json_error) result" where
  "proof_response_store K ProofField v = map_ok (\<lambda>x _. Some x) (js_bytes_deserialize K v)"

definition proof_response_deserialize :: "json_codec \<Rightarrow> generate_proof_response json_deserialize" where
  "proof_response_deserialize K =
     deserialize_struct ''agglayer.prover.v1.GenerateProofResponse'' proof_response_field
       (match_arm proof_response_name proof_response_is_set (proof_response_store K))
       None (\<lambda>s. \<lparr>gp_proof = (case s of None \<Rightarrow> [] | Some x \<Rightarrow> x)\<rparr>)"

definition proof_response_serialize :: "json_codec \<Rightarrow> generate_proof_response json_serialize" where
  "proof_response_serialize K self = serialize_struct [bytes_field K ''proof'' (gp_proof self)]"

section \<open>Lemmas\<close>

lemma error_kind_try_from_value: "error_kind_try_from (error_kind_value k) = Some k"
  by (cases k) (simp_all add: error_kind_try_from_def)

lemma error_kind_try_from_Some: "error_kind_try_from v = Some k \<Longrightarrow> v = error_kind_value k"
  by (auto simp: error_kind_try_from_def split: if_splits)

lemma from_str_name_as_str_name: "from_str_name (as_str_name k) = Some k"
  by (cases k) (simp_all add: from_str_name_def)

lemma from_str_name_Some: "from_str_name value = Some k \<Longrightarrow> value = as_str_name k"
  by (auto simp: from_str_name_def split: if_splits)

text \<open>The JSON form of a kind is its name.\<close>

lemma error_kind_serialize_name: "error_kind_serialize k = Ok (JString (as_str_name k))"
  by (cases k) (simp_all add: error_kind_serialize_def)

lemma error_kind_visit_str_name:
  "error_kind_visit_str value = ok_or (UnknownVariant value error_kind_names) (from_str_name value)"
  by (simp add: error_kind_visit_str_def from_str_name_def)

lemma error_kind_codec: "value_codec error_kind_serialize error_kind_deserialize"
  by (auto simp: value_codec_def error_kind_serialize_name error_kind_visit_str_name from_str_name_as_str_name)

interpretation proof_error_json: json_slots proof_error_field proof_error_name proof_error_is_set "proof_error_store K" for K
proof
  fix f g v w u u' s
  show "proof_error_is_set f (u s)" if "proof_error_store K f v = Ok u" and "v \<noteq> JNull"
    using that by (cases f) (auto simp: map_ok_eq_Ok)
  show "proof_error_is_set g (u s) \<longleftrightarrow> proof_error_is_set g s" if "proof_error_store K f v = Ok u" and "g \<noteq> f"
    using that by (cases f; cases g) (auto simp: map_ok_eq_Ok)
  show "u' (u s) = u (u' s)"
    if "f \<noteq> g" and "proof_error_store K f v = Ok u" and "proof_error_store K g w = Ok u'"
    using that by (cases f; cases g) (auto simp: map_ok_eq_Ok)
qed

interpretation proof_request_json: json_slots proof_request_field proof_request_name proof_request_is_set "proof_request_store K" for K
proof
  show "proof_request_is_set f (u s)" if "proof_request_store K f v = Ok u" and "v \<noteq> JNull" for f v u s
    using that by (cases f) (auto simp: map_ok_eq_Ok option_deserialize_def)
qed (metis proof_request_key.exhaust)+

interpretation proof_response_json: json_slots proof_response_field proof_response_name proof_response_is_set "proof_response_store K" for K
proof
  show "proof_response_is_set f (u s)" if "proof_response_store K f v = Ok u" and "v \<noteq> JNull" for f v u s
    using that by (cases f) (auto simp: map_ok_eq_Ok)
qed (metis proof_response_key.exhaust)+

text \<open>The field names that \<open>serialize\<close> writes.\<close>

lemma agglayer_field_names:
  "proof_error_field ''error'' = Ok ErrorField" "proof_error_field ''errorType'' = Ok ErrorTypeField"
  "proof_request_field ''sp1Stdin'' = Ok Sp1StdinField" "proof_response_field ''proof'' = Ok ProofField"
  by (simp_all add: proof_error_field_def proof_request_field_def proof_response_field_def)

lemma proof_response_reads_back:
  assumes "json_codec_ok K"
  shows "reads_back (proof_response_serialize K) (proof_response_deserialize K) m"
proof -
  let ?fs = "[bytes_field K ''proof'' (gp_proof m)]"
  obtain es where es: "bytes_field K ''proof'' (gp_proof m) = Ok es" by (simp add: bytes_field_def)
  have "visit_map proof_response_field (match_arm proof_response_name proof_response_is_set (proof_response_store K))
      None es = Ok (if gp_proof m = [] then None else Some (gp_proof m))"
    by (rule proof_response_json.visit_bytes_field [where put = "\<lambda>x _. x", OF es assms agglayer_field_names(4)]) simp_all
  then show ?thesis
    unfolding proof_response_deserialize_def
  proof (rule proof_response_json.struct_reads_back [rotated 4])
    show "proof_response_serialize K m = serialize_struct ?fs" by (simp add: proof_response_serialize_def)
    show "serialize_fields ?fs = Ok es" by (simp add: es)
    show "list_all2 writes [''proof''] ?fs" by simp
    show "distinct (map proof_response_field [''proof''])" by simp
    show "\<lparr>gp_proof = (case if gp_proof m = [] then None else Some (gp_proof m) of None \<Rightarrow> [] | Some x \<Rightarrow> x)\<rparr> = m"
      by (cases m) simp
  qed
qed

lemma proof_request_reads_back:
  assumes "json_codec_ok K"
  shows "reads_back (proof_request_serialize K) (proof_request_deserialize K) m"
proof -
  define f where "f = (case gq_stdin m of None \<Rightarrow> Ok []
    | Some (Sp1Stdin v) \<Rightarrow> (Ok [(''sp1Stdin'', JString (js_base64_encode K v))] :: json_entries))"
  define es where "es = (case gq_stdin m of None \<Rightarrow> []
    | Some (Sp1Stdin v) \<Rightarrow> [(''sp1Stdin'', JString (js_base64_encode K v))])"
  have f: "f = Ok es" by (simp add: f_def es_def split: option.split stdin_message.split)
  have w: "writes ''sp1Stdin'' f" by (simp add: writes_def f es_def split: option.split stdin_message.split)
  have "visit_map proof_request_field (match_arm proof_request_name proof_request_is_set (proof_request_store K))
      None es = Ok (gq_stdin m)"
    using assms
    by (simp add: es_def agglayer_field_names match_arm_def option_deserialize_def json_codec_ok_def
        split: option.split stdin_message.split)
  then show ?thesis
    unfolding proof_request_deserialize_def
  proof (rule proof_request_json.struct_reads_back [rotated 4])
    show "proof_request_serialize K m = serialize_struct [f]" by (simp add: proof_request_serialize_def f_def)
    show "serialize_fields [f] = Ok es" by (simp add: f)
    show "list_all2 writes [''sp1Stdin''] [f]" using w by simp
    show "distinct (map proof_request_field [''sp1Stdin''])" by simp
  qed simp
qed

lemma proof_error_reads_back:
  assumes "json_codec_ok K" and "ge_error_type m = error_kind_value k"
  shows "reads_back (proof_error_serialize K) (proof_error_deserialize K) m"
proof -
  let ?fs = "[bytes_field K ''error'' (ge_error m), error_type_entries (ge_error_type m)]"
  let ?arm = "match_arm proof_error_name proof_error_is_set (proof_error_store K)"
  let ?t = "if ge_error_type m = 0 then None else Some (ge_error_type m)"
  obtain e1 where e1: "bytes_field K ''error'' (ge_error m) = Ok e1" by (simp add: bytes_field_def)
  have e2: "error_type_entries (ge_error_type m) =
      Ok (if ge_error_type m = 0 then [] else [(''errorType'', JString (as_str_name k))])"
    by (simp add: error_type_entries_def assms(2) error_kind_try_from_value error_kind_serialize_name)
  have w: "writes ''errorType'' (error_type_entries (ge_error_type m))" by (simp add: writes_def e2)
  have "visit_map proof_error_field ?arm \<lparr>sl_error = None, sl_error_type = None\<rparr> e1 =
      Ok \<lparr>sl_error = (if ge_error m = [] then None else Some (ge_error m)), sl_error_type = None\<rparr>"
    by (rule trans [OF proof_error_json.visit_bytes_field [where put = "\<lambda>x. sl_error_update (\<lambda>_. x)",
          OF e1 assms(1) agglayer_field_names(1)]]) simp_all
  moreover have "visit_map proof_error_field ?arm \<lparr>sl_error = a, sl_error_type = None\<rparr>
      (if ge_error_type m = 0 then [] else [(''errorType'', JString (as_str_name k))]) =
      Ok \<lparr>sl_error = a, sl_error_type = ?t\<rparr>" for a
    by (simp add: agglayer_field_names match_arm_def error_kind_visit_str_name from_str_name_as_str_name assms(2))
  ultimately have "visit_map proof_error_field ?arm \<lparr>sl_error = None, sl_error_type = None\<rparr>
      (e1 @ (if ge_error_type m = 0 then [] else [(''errorType'', JString (as_str_name k))])) =
      Ok \<lparr>sl_error = (if ge_error m = [] then None else Some (ge_error m)), sl_error_type = ?t\<rparr>"
    by (simp only: visit_map_append and_then.simps)
  then show ?thesis
    unfolding proof_error_deserialize_def
  proof (rule proof_error_json.struct_reads_back [rotated 4])
    show "proof_error_serialize K m = serialize_struct ?fs" by (simp add: proof_error_serialize_def)
    show "serialize_fields ?fs =
        Ok (e1 @ (if ge_error_type m = 0 then [] else [(''errorType'', JString (as_str_name k))]))"
      by (simp add: e1 e2)
    show "list_all2 writes [''error'', ''errorType''] ?fs" using w by simp
    show "distinct (map proof_error_field [''error'', ''errorType''])" by (simp add: agglayer_field_names)
    show "proof_error_build \<lparr>sl_error = (if ge_error m = [] then None else Some (ge_error m)), sl_error_type = ?t\<rparr> = m"
      by (cases m) (simp add: proof_error_build_def)
  qed
qed

section \<open>Properties\<close>

text \<open>C22: The JSON form of the messages of the pessimistic proof service loses nothing. A request and a response
  are always written, and are read back from the entries of the object in any order. An error is written
  exactly when its kind is one of the five of \<open>ErrorKind\<close>, and then read back too; its kind is written as its
  name, from which \<open>from_str_name\<close> gives it back.\<close>

theorem agglayer_json_roundtrip:
  assumes "json_codec_ok K"
  shows "reads_back (proof_request_serialize K) (proof_request_deserialize K) q \<and>
     reads_back (proof_response_serialize K) (proof_response_deserialize K) r \<and>
     (if \<exists>k. ge_error_type e = error_kind_value k
      then reads_back (proof_error_serialize K) (proof_error_deserialize K) e
      else proof_error_serialize K e = Err (CustomError (''Invalid variant '' @ i32_display (ge_error_type e)))) \<and>
     error_kind_serialize k = Ok (JString (as_str_name k)) \<and> from_str_name (as_str_name k) = Some k"
proof -
  have "proof_error_serialize K e = Err (CustomError (''Invalid variant '' @ i32_display (ge_error_type e)))"
    if "\<nexists>k. ge_error_type e = error_kind_value k"
  proof -
    have "error_kind_try_from (ge_error_type e) = None"
      using that error_kind_try_from_Some by (cases "error_kind_try_from (ge_error_type e)") auto
    moreover have "ge_error_type e \<noteq> 0" using that by (metis error_kind_value.simps(1))
    ultimately show ?thesis
      by (simp add: proof_error_serialize_def error_type_entries_def serialize_struct_def bytes_field_def)
  qed
  then show ?thesis
    using proof_request_reads_back proof_response_reads_back proof_error_reads_back assms
      error_kind_serialize_name from_str_name_as_str_name by metis
qed

theorem agglayer_json_roundtrip_witness:
  "proof_error_deserialize sample_json_codec
     (JObject [(''errorType'', JString ''ERROR_KIND_PROVER_FAILED''), (''error'', JString ''no'')]) =
   Ok \<lparr>ge_error = [110, 111], ge_error_type = 2\<rparr>"
proof -
  let ?e = "\<lparr>ge_error = [110, 111], ge_error_type = 2\<rparr>"
  have "\<exists>k. ge_error_type ?e = error_kind_value k" by (simp add: exI [of _ KindProverFailed])
  then have "reads_back (proof_error_serialize sample_json_codec) (proof_error_deserialize sample_json_codec) ?e"
    using agglayer_json_roundtrip [OF sample_json_codec_ok, where e = ?e] by metis
  moreover have "proof_error_serialize sample_json_codec ?e =
      Ok (JObject [(''error'', JString ''no''), (''errorType'', JString ''ERROR_KIND_PROVER_FAILED'')])"
    by code_simp
  ultimately show ?thesis by (simp add: reads_back_def)
qed

end
