(* ===== verification/Aggkit_Json.thy ===== *)
theory Aggkit_Json
  imports Aggkit_Rpc Json_Message
begin

text \<open>
  The JSON form of the messages of \<open>crates/aggkit-prover-types\<close>, as the generated
  \<open>aggkit.prover.v1.serde.rs\<close> reads and writes it. For each message: the keys of its fields with the
  visitor of the field names, which takes the JSON and the protobuf spelling; the slots of the visitor,
  and for a key its name in errors, whether its slot is set and how its value is read; the message built
  from the slots; \<open>deserialize\<close> and \<open>serialize\<close>. The map of GER leaves is a list of distinct keys in the
  order of iteration.

  The messages of agglayer-interop inside them (\<open>interop_json\<close>) are arguments.
\<close>

section \<open>Messages of agglayer-interop\<close>

record ('lm, 'mm) interop_json =
  ij_fixed_bytes32_serialize :: "byte list json_serialize"
  ij_fixed_bytes32_deserialize :: "byte list json_deserialize"
  ij_fixed_bytes65_serialize :: "byte list json_serialize"
  ij_fixed_bytes65_deserialize :: "byte list json_deserialize"
  ij_leaf_serialize :: "'lm json_serialize"
  ij_leaf_deserialize :: "'lm json_deserialize"
  ij_merkle_proof_serialize :: "'mm json_serialize"
  ij_merkle_proof_deserialize :: "'mm json_deserialize"
  ij_aggchain_proof_serialize :: "aggchain_proof_message json_serialize"
  ij_aggchain_proof_deserialize :: "aggchain_proof_message json_deserialize"

text \<open>What the code relies on: these messages are read back from what was written, which is not null.\<close>

definition interop_json_ok :: "('lm, 'mm) interop_json \<Rightarrow> bool" where
  "interop_json_ok J \<longleftrightarrow>
     value_codec (ij_fixed_bytes32_serialize J) (ij_fixed_bytes32_deserialize J) \<and>
     value_codec (ij_fixed_bytes65_serialize J) (ij_fixed_bytes65_deserialize J) \<and>
     value_codec (ij_leaf_serialize J) (ij_leaf_deserialize J) \<and>
     value_codec (ij_merkle_proof_serialize J) (ij_merkle_proof_deserialize J) \<and>
     value_codec (ij_aggchain_proof_serialize J) (ij_aggchain_proof_deserialize J)"

lemma interop_json_okD:
  assumes "interop_json_ok J"
  shows "value_codec (ij_fixed_bytes32_serialize J) (ij_fixed_bytes32_deserialize J)"
    and "value_codec (ij_fixed_bytes65_serialize J) (ij_fixed_bytes65_deserialize J)"
    and "value_codec (ij_leaf_serialize J) (ij_leaf_deserialize J)"
    and "value_codec (ij_merkle_proof_serialize J) (ij_merkle_proof_deserialize J)"
    and "value_codec (ij_aggchain_proof_serialize J) (ij_aggchain_proof_deserialize J)"
  using assms by (simp_all add: interop_json_ok_def)

section \<open>ProvenInsertedGER\<close>

datatype proven_ger_key = ProofGerL1root | L1Leaf

definition proven_ger_field :: "string \<Rightarrow> (proven_ger_key, json_error) result" where
  "proven_ger_field value =
     (if value = ''proofGerL1root'' \<or> value = ''proof_ger_l1root'' then Ok ProofGerL1root
      else if value = ''l1Leaf'' \<or> value = ''l1_leaf'' then Ok L1Leaf
      else Err (UnknownField value [''proof_ger_l1root'', ''proofGerL1root'', ''l1_leaf'', ''l1Leaf'']))"

record ('lm, 'mm) proven_ger_slots =
  proven_ger_sl_proof_ger_l1root :: "'mm option"
  proven_ger_sl_l1_leaf :: "'lm option"

fun proven_ger_name :: "proven_ger_key \<Rightarrow> string" where
  "proven_ger_name ProofGerL1root = ''proofGerL1root''"
| "proven_ger_name L1Leaf = ''l1Leaf''"

fun proven_ger_is_set :: "proven_ger_key \<Rightarrow> ('lm, 'mm) proven_ger_slots \<Rightarrow> bool" where
  "proven_ger_is_set ProofGerL1root s \<longleftrightarrow> proven_ger_sl_proof_ger_l1root s \<noteq> None"
| "proven_ger_is_set L1Leaf s \<longleftrightarrow> proven_ger_sl_l1_leaf s \<noteq> None"

fun proven_ger_store ::
  "json_codec \<Rightarrow> ('lm, 'mm) interop_json \<Rightarrow> proven_ger_key \<Rightarrow> json \<Rightarrow>
   (('lm, 'mm) proven_ger_slots \<Rightarrow> ('lm, 'mm) proven_ger_slots, json_error) result" where
  "proven_ger_store K J ProofGerL1root v =
     map_ok (\<lambda>x. proven_ger_sl_proof_ger_l1root_update (\<lambda>_. x)) (option_deserialize (ij_merkle_proof_deserialize J) v)"
| "proven_ger_store K J L1Leaf v =
     map_ok (\<lambda>x. proven_ger_sl_l1_leaf_update (\<lambda>_. x)) (option_deserialize (ij_leaf_deserialize J) v)"

definition proven_ger_build :: "('lm, 'mm) proven_ger_slots \<Rightarrow> ('lm, 'mm) proven_inserted_ger" where
  "proven_ger_build s =
     \<lparr>pg_proof_ger_l1root = proven_ger_sl_proof_ger_l1root s,
      pg_l1_leaf = proven_ger_sl_l1_leaf s\<rparr>"

definition proven_ger_init :: "('lm, 'mm) proven_ger_slots" where
  "proven_ger_init =
     \<lparr>proven_ger_sl_proof_ger_l1root = None, proven_ger_sl_l1_leaf = None\<rparr>"

definition proven_ger_deserialize ::
  "json_codec \<Rightarrow> ('lm, 'mm) interop_json \<Rightarrow> ('lm, 'mm) proven_inserted_ger json_deserialize" where
  "proven_ger_deserialize K J =
     deserialize_struct ''aggkit.prover.v1.ProvenInsertedGER'' proven_ger_field
       (match_arm proven_ger_name proven_ger_is_set (proven_ger_store K J)) proven_ger_init proven_ger_build"

definition proven_ger_serialize ::
  "json_codec \<Rightarrow> ('lm, 'mm) interop_json \<Rightarrow> ('lm, 'mm) proven_inserted_ger json_serialize" where
  "proven_ger_serialize K J self =
     serialize_struct
       [option_field (ij_merkle_proof_serialize J) ''proofGerL1root'' (pg_proof_ger_l1root self),
        option_field (ij_leaf_serialize J) ''l1Leaf'' (pg_l1_leaf self)]"

section \<open>ProvenInsertedGERWithBlockNumber\<close>

datatype ger_block_key = GerBlockNumber | ProvenInsertedGer | BlockIndex

definition ger_block_field :: "string \<Rightarrow> (ger_block_key, json_error) result" where
  "ger_block_field value =
     (if value = ''blockNumber'' \<or> value = ''block_number'' then Ok GerBlockNumber
      else if value = ''provenInsertedGer'' \<or> value = ''proven_inserted_ger'' then Ok ProvenInsertedGer
      else if value = ''blockIndex'' \<or> value = ''block_index'' then Ok BlockIndex
      else Err (UnknownField value [''block_number'', ''blockNumber'', ''proven_inserted_ger'',
        ''provenInsertedGer'', ''block_index'', ''blockIndex'']))"

record ('lm, 'mm) ger_block_slots =
  ger_block_sl_block_number :: "u64 option"
  ger_block_sl_proven_inserted_ger :: "('lm, 'mm) proven_inserted_ger option"
  ger_block_sl_block_index :: "u64 option"

fun ger_block_name :: "ger_block_key \<Rightarrow> string" where
  "ger_block_name GerBlockNumber = ''blockNumber''"
| "ger_block_name ProvenInsertedGer = ''provenInsertedGer''"
| "ger_block_name BlockIndex = ''blockIndex''"

fun ger_block_is_set :: "ger_block_key \<Rightarrow> ('lm, 'mm) ger_block_slots \<Rightarrow> bool" where
  "ger_block_is_set GerBlockNumber s \<longleftrightarrow> ger_block_sl_block_number s \<noteq> None"
| "ger_block_is_set ProvenInsertedGer s \<longleftrightarrow> ger_block_sl_proven_inserted_ger s \<noteq> None"
| "ger_block_is_set BlockIndex s \<longleftrightarrow> ger_block_sl_block_index s \<noteq> None"

fun ger_block_store ::
  "json_codec \<Rightarrow> ('lm, 'mm) interop_json \<Rightarrow> ger_block_key \<Rightarrow> json \<Rightarrow>
   (('lm, 'mm) ger_block_slots \<Rightarrow> ('lm, 'mm) ger_block_slots, json_error) result" where
  "ger_block_store K J GerBlockNumber v =
     map_ok (\<lambda>x. ger_block_sl_block_number_update (\<lambda>_. Some x)) (js_number_deserialize K v)"
| "ger_block_store K J ProvenInsertedGer v =
     map_ok (\<lambda>x. ger_block_sl_proven_inserted_ger_update (\<lambda>_. x)) (option_deserialize (proven_ger_deserialize K J) v)"
| "ger_block_store K J BlockIndex v =
     map_ok (\<lambda>x. ger_block_sl_block_index_update (\<lambda>_. Some x)) (js_number_deserialize K v)"

definition ger_block_build :: "('lm, 'mm) ger_block_slots \<Rightarrow> ('lm, 'mm) proven_inserted_ger_with_block_number" where
  "ger_block_build s =
     \<lparr>pgb_block_number = (case ger_block_sl_block_number s of None \<Rightarrow> 0 | Some x \<Rightarrow> x),
      pgb_proven_inserted_ger = ger_block_sl_proven_inserted_ger s,
      pgb_block_index = (case ger_block_sl_block_index s of None \<Rightarrow> 0 | Some x \<Rightarrow> x)\<rparr>"

definition ger_block_init :: "('lm, 'mm) ger_block_slots" where
  "ger_block_init =
     \<lparr>ger_block_sl_block_number = None, ger_block_sl_proven_inserted_ger = None,
      ger_block_sl_block_index = None\<rparr>"

definition ger_block_deserialize ::
  "json_codec \<Rightarrow> ('lm, 'mm) interop_json \<Rightarrow> ('lm, 'mm) proven_inserted_ger_with_block_number json_deserialize" where
  "ger_block_deserialize K J =
     deserialize_struct ''aggkit.prover.v1.ProvenInsertedGERWithBlockNumber'' ger_block_field
       (match_arm ger_block_name ger_block_is_set (ger_block_store K J)) ger_block_init ger_block_build"

definition ger_block_serialize ::
  "json_codec \<Rightarrow> ('lm, 'mm) interop_json \<Rightarrow> ('lm, 'mm) proven_inserted_ger_with_block_number json_serialize" where
  "ger_block_serialize K J self =
     serialize_struct
       [number_field ''blockNumber'' (pgb_block_number self),
        option_field (proven_ger_serialize K J) ''provenInsertedGer'' (pgb_proven_inserted_ger self),
        number_field ''blockIndex'' (pgb_block_index self)]"

section \<open>ImportedBridgeExitWithBlockNumber\<close>

datatype bridge_exit_key = ExitBlockNumber | GlobalIndexKey | BridgeExitHashKey

definition bridge_exit_field :: "string \<Rightarrow> (bridge_exit_key, json_error) result" where
  "bridge_exit_field value =
     (if value = ''blockNumber'' \<or> value = ''block_number'' then Ok ExitBlockNumber
      else if value = ''globalIndex'' \<or> value = ''global_index'' then Ok GlobalIndexKey
      else if value = ''bridgeExitHash'' \<or> value = ''bridge_exit_hash'' then Ok BridgeExitHashKey
      else Err (UnknownField value [''block_number'', ''blockNumber'', ''global_index'', ''globalIndex'',
        ''bridge_exit_hash'', ''bridgeExitHash'']))"

record bridge_exit_slots =
  bridge_exit_sl_block_number :: "u64 option"
  bridge_exit_sl_global_index :: "byte list option"
  bridge_exit_sl_bridge_exit_hash :: "byte list option"

fun bridge_exit_name :: "bridge_exit_key \<Rightarrow> string" where
  "bridge_exit_name ExitBlockNumber = ''blockNumber''"
| "bridge_exit_name GlobalIndexKey = ''globalIndex''"
| "bridge_exit_name BridgeExitHashKey = ''bridgeExitHash''"

fun bridge_exit_is_set :: "bridge_exit_key \<Rightarrow> bridge_exit_slots \<Rightarrow> bool" where
  "bridge_exit_is_set ExitBlockNumber s \<longleftrightarrow> bridge_exit_sl_block_number s \<noteq> None"
| "bridge_exit_is_set GlobalIndexKey s \<longleftrightarrow> bridge_exit_sl_global_index s \<noteq> None"
| "bridge_exit_is_set BridgeExitHashKey s \<longleftrightarrow> bridge_exit_sl_bridge_exit_hash s \<noteq> None"

fun bridge_exit_store ::
  "json_codec \<Rightarrow> ('lm, 'mm) interop_json \<Rightarrow> bridge_exit_key \<Rightarrow> json \<Rightarrow>
   (bridge_exit_slots \<Rightarrow> bridge_exit_slots, json_error) result" where
  "bridge_exit_store K J ExitBlockNumber v =
     map_ok (\<lambda>x. bridge_exit_sl_block_number_update (\<lambda>_. Some x)) (js_number_deserialize K v)"
| "bridge_exit_store K J GlobalIndexKey v =
     map_ok (\<lambda>x. bridge_exit_sl_global_index_update (\<lambda>_. x)) (option_deserialize (ij_fixed_bytes32_deserialize J) v)"
| "bridge_exit_store K J BridgeExitHashKey v =
     map_ok (\<lambda>x. bridge_exit_sl_bridge_exit_hash_update (\<lambda>_. x)) (option_deserialize (ij_fixed_bytes32_deserialize J) v)"

definition bridge_exit_build :: "bridge_exit_slots \<Rightarrow> imported_bridge_exit_message" where
  "bridge_exit_build s =
     \<lparr>im_block_number = (case bridge_exit_sl_block_number s of None \<Rightarrow> 0 | Some x \<Rightarrow> x),
      im_global_index = bridge_exit_sl_global_index s,
      im_bridge_exit_hash = bridge_exit_sl_bridge_exit_hash s\<rparr>"

definition bridge_exit_init :: "bridge_exit_slots" where
  "bridge_exit_init =
     \<lparr>bridge_exit_sl_block_number = None, bridge_exit_sl_global_index = None,
      bridge_exit_sl_bridge_exit_hash = None\<rparr>"

definition bridge_exit_deserialize ::
  "json_codec \<Rightarrow> ('lm, 'mm) interop_json \<Rightarrow> imported_bridge_exit_message json_deserialize" where
  "bridge_exit_deserialize K J =
     deserialize_struct ''aggkit.prover.v1.ImportedBridgeExitWithBlockNumber'' bridge_exit_field
       (match_arm bridge_exit_name bridge_exit_is_set (bridge_exit_store K J)) bridge_exit_init bridge_exit_build"

definition bridge_exit_serialize ::
  "json_codec \<Rightarrow> ('lm, 'mm) interop_json \<Rightarrow> imported_bridge_exit_message json_serialize" where
  "bridge_exit_serialize K J self =
     serialize_struct
       [number_field ''blockNumber'' (im_block_number self),
        option_field (ij_fixed_bytes32_serialize J) ''globalIndex'' (im_global_index self),
        option_field (ij_fixed_bytes32_serialize J) ''bridgeExitHash'' (im_bridge_exit_hash self)]"

section \<open>GenerateAggchainProofRequest\<close>

datatype proof_req_key = LastProvenBlock | RequestedEndBlock | L1InfoTreeRootHash | L1InfoTreeLeafKey | L1InfoTreeMerkleProofKey | GerLeaves | ImportedBridgeExits

definition proof_req_field :: "string \<Rightarrow> (proof_req_key, json_error) result" where
  "proof_req_field value =
     (if value = ''lastProvenBlock'' \<or> value = ''last_proven_block'' then Ok LastProvenBlock
      else if value = ''requestedEndBlock'' \<or> value = ''requested_end_block'' then Ok RequestedEndBlock
      else if value = ''l1InfoTreeRootHash'' \<or> value = ''l1_info_tree_root_hash'' then Ok L1InfoTreeRootHash
      else if value = ''l1InfoTreeLeaf'' \<or> value = ''l1_info_tree_leaf'' then Ok L1InfoTreeLeafKey
      else if value = ''l1InfoTreeMerkleProof'' \<or> value = ''l1_info_tree_merkle_proof'' then Ok L1InfoTreeMerkleProofKey
      else if value = ''gerLeaves'' \<or> value = ''ger_leaves'' then Ok GerLeaves
      else if value = ''importedBridgeExits'' \<or> value = ''imported_bridge_exits'' then Ok ImportedBridgeExits
      else Err (UnknownField value [''last_proven_block'', ''lastProvenBlock'', ''requested_end_block'',
        ''requestedEndBlock'', ''l1_info_tree_root_hash'', ''l1InfoTreeRootHash'', ''l1_info_tree_leaf'',
        ''l1InfoTreeLeaf'', ''l1_info_tree_merkle_proof'', ''l1InfoTreeMerkleProof'', ''ger_leaves'',
        ''gerLeaves'', ''imported_bridge_exits'', ''importedBridgeExits'']))"

record ('lm, 'mm) proof_req_slots =
  proof_req_sl_last_proven_block :: "u64 option"
  proof_req_sl_requested_end_block :: "u64 option"
  proof_req_sl_l1_info_tree_root_hash :: "byte list option"
  proof_req_sl_l1_info_tree_leaf :: "'lm option"
  proof_req_sl_l1_info_tree_merkle_proof :: "'mm option"
  proof_req_sl_ger_leaves :: "(string \<times> ('lm, 'mm) proven_inserted_ger_with_block_number) list option"
  proof_req_sl_imported_bridge_exits :: "imported_bridge_exit_message list option"

fun proof_req_name :: "proof_req_key \<Rightarrow> string" where
  "proof_req_name LastProvenBlock = ''lastProvenBlock''"
| "proof_req_name RequestedEndBlock = ''requestedEndBlock''"
| "proof_req_name L1InfoTreeRootHash = ''l1InfoTreeRootHash''"
| "proof_req_name L1InfoTreeLeafKey = ''l1InfoTreeLeaf''"
| "proof_req_name L1InfoTreeMerkleProofKey = ''l1InfoTreeMerkleProof''"
| "proof_req_name GerLeaves = ''gerLeaves''"
| "proof_req_name ImportedBridgeExits = ''importedBridgeExits''"

fun proof_req_is_set :: "proof_req_key \<Rightarrow> ('lm, 'mm) proof_req_slots \<Rightarrow> bool" where
  "proof_req_is_set LastProvenBlock s \<longleftrightarrow> proof_req_sl_last_proven_block s \<noteq> None"
| "proof_req_is_set RequestedEndBlock s \<longleftrightarrow> proof_req_sl_requested_end_block s \<noteq> None"
| "proof_req_is_set L1InfoTreeRootHash s \<longleftrightarrow> proof_req_sl_l1_info_tree_root_hash s \<noteq> None"
| "proof_req_is_set L1InfoTreeLeafKey s \<longleftrightarrow> proof_req_sl_l1_info_tree_leaf s \<noteq> None"
| "proof_req_is_set L1InfoTreeMerkleProofKey s \<longleftrightarrow> proof_req_sl_l1_info_tree_merkle_proof s \<noteq> None"
| "proof_req_is_set GerLeaves s \<longleftrightarrow> proof_req_sl_ger_leaves s \<noteq> None"
| "proof_req_is_set ImportedBridgeExits s \<longleftrightarrow> proof_req_sl_imported_bridge_exits s \<noteq> None"

fun proof_req_store ::
  "json_codec \<Rightarrow> ('lm, 'mm) interop_json \<Rightarrow> proof_req_key \<Rightarrow> json \<Rightarrow>
   (('lm, 'mm) proof_req_slots \<Rightarrow> ('lm, 'mm) proof_req_slots, json_error) result" where
  "proof_req_store K J LastProvenBlock v =
     map_ok (\<lambda>x. proof_req_sl_last_proven_block_update (\<lambda>_. Some x)) (js_number_deserialize K v)"
| "proof_req_store K J RequestedEndBlock v =
     map_ok (\<lambda>x. proof_req_sl_requested_end_block_update (\<lambda>_. Some x)) (js_number_deserialize K v)"
| "proof_req_store K J L1InfoTreeRootHash v =
     map_ok (\<lambda>x. proof_req_sl_l1_info_tree_root_hash_update (\<lambda>_. x)) (option_deserialize (ij_fixed_bytes32_deserialize J) v)"
| "proof_req_store K J L1InfoTreeLeafKey v =
     map_ok (\<lambda>x. proof_req_sl_l1_info_tree_leaf_update (\<lambda>_. x)) (option_deserialize (ij_leaf_deserialize J) v)"
| "proof_req_store K J L1InfoTreeMerkleProofKey v =
     map_ok (\<lambda>x. proof_req_sl_l1_info_tree_merkle_proof_update (\<lambda>_. x)) (option_deserialize (ij_merkle_proof_deserialize J) v)"
| "proof_req_store K J GerLeaves v =
     map_ok (\<lambda>x. proof_req_sl_ger_leaves_update (\<lambda>_. Some x)) (map_deserialize (ger_block_deserialize K J) v)"
| "proof_req_store K J ImportedBridgeExits v =
     map_ok (\<lambda>x. proof_req_sl_imported_bridge_exits_update (\<lambda>_. Some x)) (vec_deserialize (bridge_exit_deserialize K J) v)"

definition proof_req_build :: "('lm, 'mm) proof_req_slots \<Rightarrow> ('lm, 'mm) generate_aggchain_proof_request" where
  "proof_req_build s =
     \<lparr>gp_last_proven_block = (case proof_req_sl_last_proven_block s of None \<Rightarrow> 0 | Some x \<Rightarrow> x),
      gp_requested_end_block = (case proof_req_sl_requested_end_block s of None \<Rightarrow> 0 | Some x \<Rightarrow> x),
      gp_l1_info_tree_root_hash = proof_req_sl_l1_info_tree_root_hash s,
      gp_l1_info_tree_leaf = proof_req_sl_l1_info_tree_leaf s,
      gp_l1_info_tree_merkle_proof = proof_req_sl_l1_info_tree_merkle_proof s,
      gp_ger_leaves = (case proof_req_sl_ger_leaves s of None \<Rightarrow> [] | Some x \<Rightarrow> x),
      gp_imported_bridge_exits = (case proof_req_sl_imported_bridge_exits s of None \<Rightarrow> [] | Some x \<Rightarrow> x)\<rparr>"

definition proof_req_init :: "('lm, 'mm) proof_req_slots" where
  "proof_req_init =
     \<lparr>proof_req_sl_last_proven_block = None, proof_req_sl_requested_end_block = None,
      proof_req_sl_l1_info_tree_root_hash = None, proof_req_sl_l1_info_tree_leaf = None,
      proof_req_sl_l1_info_tree_merkle_proof = None, proof_req_sl_ger_leaves = None,
      proof_req_sl_imported_bridge_exits = None\<rparr>"

definition proof_req_deserialize ::
  "json_codec \<Rightarrow> ('lm, 'mm) interop_json \<Rightarrow> ('lm, 'mm) generate_aggchain_proof_request json_deserialize" where
  "proof_req_deserialize K J =
     deserialize_struct ''aggkit.prover.v1.GenerateAggchainProofRequest'' proof_req_field
       (match_arm proof_req_name proof_req_is_set (proof_req_store K J)) proof_req_init proof_req_build"

definition proof_req_serialize ::
  "json_codec \<Rightarrow> ('lm, 'mm) interop_json \<Rightarrow> ('lm, 'mm) generate_aggchain_proof_request json_serialize" where
  "proof_req_serialize K J self =
     serialize_struct
       [number_field ''lastProvenBlock'' (gp_last_proven_block self),
        number_field ''requestedEndBlock'' (gp_requested_end_block self),
        option_field (ij_fixed_bytes32_serialize J) ''l1InfoTreeRootHash'' (gp_l1_info_tree_root_hash self),
        option_field (ij_leaf_serialize J) ''l1InfoTreeLeaf'' (gp_l1_info_tree_leaf self),
        option_field (ij_merkle_proof_serialize J) ''l1InfoTreeMerkleProof'' (gp_l1_info_tree_merkle_proof self),
        map_field (ger_block_serialize K J) ''gerLeaves'' (gp_ger_leaves self),
        vec_field (bridge_exit_serialize K J) ''importedBridgeExits'' (gp_imported_bridge_exits self)]"

section \<open>GenerateAggchainProofResponse\<close>

datatype proof_resp_key = AggchainProofKey | ResponseLastProvenBlock | EndBlock | LocalExitRootHash | CustomChainData

definition proof_resp_field :: "string \<Rightarrow> (proof_resp_key, json_error) result" where
  "proof_resp_field value =
     (if value = ''aggchainProof'' \<or> value = ''aggchain_proof'' then Ok AggchainProofKey
      else if value = ''lastProvenBlock'' \<or> value = ''last_proven_block'' then Ok ResponseLastProvenBlock
      else if value = ''endBlock'' \<or> value = ''end_block'' then Ok EndBlock
      else if value = ''localExitRootHash'' \<or> value = ''local_exit_root_hash'' then Ok LocalExitRootHash
      else if value = ''customChainData'' \<or> value = ''custom_chain_data'' then Ok CustomChainData
      else Err (UnknownField value [''aggchain_proof'', ''aggchainProof'', ''last_proven_block'',
        ''lastProvenBlock'', ''end_block'', ''endBlock'', ''local_exit_root_hash'', ''localExitRootHash'',
        ''custom_chain_data'', ''customChainData'']))"

record proof_resp_slots =
  proof_resp_sl_aggchain_proof :: "aggchain_proof_message option"
  proof_resp_sl_last_proven_block :: "u64 option"
  proof_resp_sl_end_block :: "u64 option"
  proof_resp_sl_local_exit_root_hash :: "byte list option"
  proof_resp_sl_custom_chain_data :: "byte list option"

fun proof_resp_name :: "proof_resp_key \<Rightarrow> string" where
  "proof_resp_name AggchainProofKey = ''aggchainProof''"
| "proof_resp_name ResponseLastProvenBlock = ''lastProvenBlock''"
| "proof_resp_name EndBlock = ''endBlock''"
| "proof_resp_name LocalExitRootHash = ''localExitRootHash''"
| "proof_resp_name CustomChainData = ''customChainData''"

fun proof_resp_is_set :: "proof_resp_key \<Rightarrow> proof_resp_slots \<Rightarrow> bool" where
  "proof_resp_is_set AggchainProofKey s \<longleftrightarrow> proof_resp_sl_aggchain_proof s \<noteq> None"
| "proof_resp_is_set ResponseLastProvenBlock s \<longleftrightarrow> proof_resp_sl_last_proven_block s \<noteq> None"
| "proof_resp_is_set EndBlock s \<longleftrightarrow> proof_resp_sl_end_block s \<noteq> None"
| "proof_resp_is_set LocalExitRootHash s \<longleftrightarrow> proof_resp_sl_local_exit_root_hash s \<noteq> None"
| "proof_resp_is_set CustomChainData s \<longleftrightarrow> proof_resp_sl_custom_chain_data s \<noteq> None"

fun proof_resp_store ::
  "json_codec \<Rightarrow> ('lm, 'mm) interop_json \<Rightarrow> proof_resp_key \<Rightarrow> json \<Rightarrow>
   (proof_resp_slots \<Rightarrow> proof_resp_slots, json_error) result" where
  "proof_resp_store K J AggchainProofKey v =
     map_ok (\<lambda>x. proof_resp_sl_aggchain_proof_update (\<lambda>_. x)) (option_deserialize (ij_aggchain_proof_deserialize J) v)"
| "proof_resp_store K J ResponseLastProvenBlock v =
     map_ok (\<lambda>x. proof_resp_sl_last_proven_block_update (\<lambda>_. Some x)) (js_number_deserialize K v)"
| "proof_resp_store K J EndBlock v =
     map_ok (\<lambda>x. proof_resp_sl_end_block_update (\<lambda>_. Some x)) (js_number_deserialize K v)"
| "proof_resp_store K J LocalExitRootHash v =
     map_ok (\<lambda>x. proof_resp_sl_local_exit_root_hash_update (\<lambda>_. x)) (option_deserialize (ij_fixed_bytes32_deserialize J) v)"
| "proof_resp_store K J CustomChainData v =
     map_ok (\<lambda>x. proof_resp_sl_custom_chain_data_update (\<lambda>_. Some x)) (js_bytes_deserialize K v)"

definition proof_resp_build :: "proof_resp_slots \<Rightarrow> generate_aggchain_proof_response" where
  "proof_resp_build s =
     \<lparr>gar_aggchain_proof = proof_resp_sl_aggchain_proof s,
      gar_last_proven_block = (case proof_resp_sl_last_proven_block s of None \<Rightarrow> 0 | Some x \<Rightarrow> x),
      gar_end_block = (case proof_resp_sl_end_block s of None \<Rightarrow> 0 | Some x \<Rightarrow> x),
      gar_local_exit_root_hash = proof_resp_sl_local_exit_root_hash s,
      gar_custom_chain_data = (case proof_resp_sl_custom_chain_data s of None \<Rightarrow> [] | Some x \<Rightarrow> x)\<rparr>"

definition proof_resp_init :: "proof_resp_slots" where
  "proof_resp_init =
     \<lparr>proof_resp_sl_aggchain_proof = None, proof_resp_sl_last_proven_block = None,
      proof_resp_sl_end_block = None, proof_resp_sl_local_exit_root_hash = None,
      proof_resp_sl_custom_chain_data = None\<rparr>"

definition proof_resp_deserialize ::
  "json_codec \<Rightarrow> ('lm, 'mm) interop_json \<Rightarrow> generate_aggchain_proof_response json_deserialize" where
  "proof_resp_deserialize K J =
     deserialize_struct ''aggkit.prover.v1.GenerateAggchainProofResponse'' proof_resp_field
       (match_arm proof_resp_name proof_resp_is_set (proof_resp_store K J)) proof_resp_init proof_resp_build"

definition proof_resp_serialize ::
  "json_codec \<Rightarrow> ('lm, 'mm) interop_json \<Rightarrow> generate_aggchain_proof_response json_serialize" where
  "proof_resp_serialize K J self =
     serialize_struct
       [option_field (ij_aggchain_proof_serialize J) ''aggchainProof'' (gar_aggchain_proof self),
        number_field ''lastProvenBlock'' (gar_last_proven_block self),
        number_field ''endBlock'' (gar_end_block self),
        option_field (ij_fixed_bytes32_serialize J) ''localExitRootHash'' (gar_local_exit_root_hash self),
        bytes_field K ''customChainData'' (gar_custom_chain_data self)]"

section \<open>GenerateOptimisticAggchainProofRequest\<close>

datatype optimistic_req_key = AggchainProofRequestKey | OptimisticModeSignature

definition optimistic_req_field :: "string \<Rightarrow> (optimistic_req_key, json_error) result" where
  "optimistic_req_field value =
     (if value = ''aggchainProofRequest'' \<or> value = ''aggchain_proof_request'' then Ok AggchainProofRequestKey
      else if value = ''optimisticModeSignature'' \<or> value = ''optimistic_mode_signature'' then Ok OptimisticModeSignature
      else Err (UnknownField value [''aggchain_proof_request'', ''aggchainProofRequest'',
        ''optimistic_mode_signature'', ''optimisticModeSignature'']))"

record ('lm, 'mm) optimistic_req_slots =
  optimistic_req_sl_aggchain_proof_request :: "('lm, 'mm) generate_aggchain_proof_request option"
  optimistic_req_sl_optimistic_mode_signature :: "byte list option"

fun optimistic_req_name :: "optimistic_req_key \<Rightarrow> string" where
  "optimistic_req_name AggchainProofRequestKey = ''aggchainProofRequest''"
| "optimistic_req_name OptimisticModeSignature = ''optimisticModeSignature''"

fun optimistic_req_is_set :: "optimistic_req_key \<Rightarrow> ('lm, 'mm) optimistic_req_slots \<Rightarrow> bool" where
  "optimistic_req_is_set AggchainProofRequestKey s \<longleftrightarrow> optimistic_req_sl_aggchain_proof_request s \<noteq> None"
| "optimistic_req_is_set OptimisticModeSignature s \<longleftrightarrow> optimistic_req_sl_optimistic_mode_signature s \<noteq> None"

fun optimistic_req_store ::
  "json_codec \<Rightarrow> ('lm, 'mm) interop_json \<Rightarrow> optimistic_req_key \<Rightarrow> json \<Rightarrow>
   (('lm, 'mm) optimistic_req_slots \<Rightarrow> ('lm, 'mm) optimistic_req_slots, json_error) result" where
  "optimistic_req_store K J AggchainProofRequestKey v =
     map_ok (\<lambda>x. optimistic_req_sl_aggchain_proof_request_update (\<lambda>_. x)) (option_deserialize (proof_req_deserialize K J) v)"
| "optimistic_req_store K J OptimisticModeSignature v =
     map_ok (\<lambda>x. optimistic_req_sl_optimistic_mode_signature_update (\<lambda>_. x)) (option_deserialize (ij_fixed_bytes65_deserialize J) v)"

definition optimistic_req_build :: "('lm, 'mm) optimistic_req_slots \<Rightarrow> ('lm, 'mm) generate_optimistic_aggchain_proof_request" where
  "optimistic_req_build s =
     \<lparr>go_aggchain_proof_request = optimistic_req_sl_aggchain_proof_request s,
      go_optimistic_mode_signature = optimistic_req_sl_optimistic_mode_signature s\<rparr>"

definition optimistic_req_init :: "('lm, 'mm) optimistic_req_slots" where
  "optimistic_req_init =
     \<lparr>optimistic_req_sl_aggchain_proof_request = None,
      optimistic_req_sl_optimistic_mode_signature = None\<rparr>"

definition optimistic_req_deserialize ::
  "json_codec \<Rightarrow> ('lm, 'mm) interop_json \<Rightarrow> ('lm, 'mm) generate_optimistic_aggchain_proof_request json_deserialize" where
  "optimistic_req_deserialize K J =
     deserialize_struct ''aggkit.prover.v1.GenerateOptimisticAggchainProofRequest'' optimistic_req_field
       (match_arm optimistic_req_name optimistic_req_is_set (optimistic_req_store K J)) optimistic_req_init optimistic_req_build"

definition optimistic_req_serialize ::
  "json_codec \<Rightarrow> ('lm, 'mm) interop_json \<Rightarrow> ('lm, 'mm) generate_optimistic_aggchain_proof_request json_serialize" where
  "optimistic_req_serialize K J self =
     serialize_struct
       [option_field (proof_req_serialize K J) ''aggchainProofRequest'' (go_aggchain_proof_request self),
        option_field (ij_fixed_bytes65_serialize J) ''optimisticModeSignature'' (go_optimistic_mode_signature self)]"

section \<open>GenerateOptimisticAggchainProofResponse\<close>

datatype optimistic_resp_key = OptimisticAggchainProof | OptimisticLocalExitRootHash | OptimisticCustomChainData

definition optimistic_resp_field :: "string \<Rightarrow> (optimistic_resp_key, json_error) result" where
  "optimistic_resp_field value =
     (if value = ''aggchainProof'' \<or> value = ''aggchain_proof'' then Ok OptimisticAggchainProof
      else if value = ''localExitRootHash'' \<or> value = ''local_exit_root_hash'' then Ok OptimisticLocalExitRootHash
      else if value = ''customChainData'' \<or> value = ''custom_chain_data'' then Ok OptimisticCustomChainData
      else Err (UnknownField value [''aggchain_proof'', ''aggchainProof'', ''local_exit_root_hash'',
        ''localExitRootHash'', ''custom_chain_data'', ''customChainData'']))"

record optimistic_resp_slots =
  optimistic_resp_sl_aggchain_proof :: "aggchain_proof_message option"
  optimistic_resp_sl_local_exit_root_hash :: "byte list option"
  optimistic_resp_sl_custom_chain_data :: "byte list option"

fun optimistic_resp_name :: "optimistic_resp_key \<Rightarrow> string" where
  "optimistic_resp_name OptimisticAggchainProof = ''aggchainProof''"
| "optimistic_resp_name OptimisticLocalExitRootHash = ''localExitRootHash''"
| "optimistic_resp_name OptimisticCustomChainData = ''customChainData''"

fun optimistic_resp_is_set :: "optimistic_resp_key \<Rightarrow> optimistic_resp_slots \<Rightarrow> bool" where
  "optimistic_resp_is_set OptimisticAggchainProof s \<longleftrightarrow> optimistic_resp_sl_aggchain_proof s \<noteq> None"
| "optimistic_resp_is_set OptimisticLocalExitRootHash s \<longleftrightarrow> optimistic_resp_sl_local_exit_root_hash s \<noteq> None"
| "optimistic_resp_is_set OptimisticCustomChainData s \<longleftrightarrow> optimistic_resp_sl_custom_chain_data s \<noteq> None"

fun optimistic_resp_store ::
  "json_codec \<Rightarrow> ('lm, 'mm) interop_json \<Rightarrow> optimistic_resp_key \<Rightarrow> json \<Rightarrow>
   (optimistic_resp_slots \<Rightarrow> optimistic_resp_slots, json_error) result" where
  "optimistic_resp_store K J OptimisticAggchainProof v =
     map_ok (\<lambda>x. optimistic_resp_sl_aggchain_proof_update (\<lambda>_. x)) (option_deserialize (ij_aggchain_proof_deserialize J) v)"
| "optimistic_resp_store K J OptimisticLocalExitRootHash v =
     map_ok (\<lambda>x. optimistic_resp_sl_local_exit_root_hash_update (\<lambda>_. x)) (option_deserialize (ij_fixed_bytes32_deserialize J) v)"
| "optimistic_resp_store K J OptimisticCustomChainData v =
     map_ok (\<lambda>x. optimistic_resp_sl_custom_chain_data_update (\<lambda>_. Some x)) (js_bytes_deserialize K v)"

definition optimistic_resp_build :: "optimistic_resp_slots \<Rightarrow> generate_optimistic_aggchain_proof_response" where
  "optimistic_resp_build s =
     \<lparr>gor_aggchain_proof = optimistic_resp_sl_aggchain_proof s,
      gor_local_exit_root_hash = optimistic_resp_sl_local_exit_root_hash s,
      gor_custom_chain_data = (case optimistic_resp_sl_custom_chain_data s of None \<Rightarrow> [] | Some x \<Rightarrow> x)\<rparr>"

definition optimistic_resp_init :: "optimistic_resp_slots" where
  "optimistic_resp_init =
     \<lparr>optimistic_resp_sl_aggchain_proof = None, optimistic_resp_sl_local_exit_root_hash = None,
      optimistic_resp_sl_custom_chain_data = None\<rparr>"

definition optimistic_resp_deserialize ::
  "json_codec \<Rightarrow> ('lm, 'mm) interop_json \<Rightarrow> generate_optimistic_aggchain_proof_response json_deserialize" where
  "optimistic_resp_deserialize K J =
     deserialize_struct ''aggkit.prover.v1.GenerateOptimisticAggchainProofResponse'' optimistic_resp_field
       (match_arm optimistic_resp_name optimistic_resp_is_set (optimistic_resp_store K J)) optimistic_resp_init optimistic_resp_build"

definition optimistic_resp_serialize ::
  "json_codec \<Rightarrow> ('lm, 'mm) interop_json \<Rightarrow> generate_optimistic_aggchain_proof_response json_serialize" where
  "optimistic_resp_serialize K J self =
     serialize_struct
       [option_field (ij_aggchain_proof_serialize J) ''aggchainProof'' (gor_aggchain_proof self),
        option_field (ij_fixed_bytes32_serialize J) ''localExitRootHash'' (gor_local_exit_root_hash self),
        bytes_field K ''customChainData'' (gor_custom_chain_data self)]"

section \<open>Lemmas\<close>

lemma proven_ger_names:
  "proven_ger_field ''proofGerL1root'' = Ok ProofGerL1root"
  "proven_ger_field ''l1Leaf'' = Ok L1Leaf"
  by (simp_all add: proven_ger_field_def)

interpretation proven_ger_json: json_slots proven_ger_field proven_ger_name proven_ger_is_set "proven_ger_store K J" for K J
proof
  fix f g v w u u' s
  show "proven_ger_is_set f (u s)" if "proven_ger_store K J f v = Ok u" and "v \<noteq> JNull"
    using that by (cases f) (auto simp: map_ok_eq_Ok option_deserialize_def)
  show "proven_ger_is_set g (u s) \<longleftrightarrow> proven_ger_is_set g s" if "proven_ger_store K J f v = Ok u" and "g \<noteq> f"
    using that by (cases f; cases g) (auto simp: map_ok_eq_Ok)
  show "u' (u s) = u (u' s)"
    if "f \<noteq> g" and "proven_ger_store K J f v = Ok u" and "proven_ger_store K J g w = Ok u'"
    using that by (cases f; cases g) (auto simp: map_ok_eq_Ok)
qed

definition proven_ger_held :: "('lm, 'mm) proven_inserted_ger \<Rightarrow> ('lm, 'mm) proven_ger_slots" where
  "proven_ger_held m =
     \<lparr>proven_ger_sl_proof_ger_l1root = pg_proof_ger_l1root m,
      proven_ger_sl_l1_leaf = pg_l1_leaf m\<rparr>"

lemma proven_ger_build_held: "proven_ger_build (proven_ger_held m) = m"
  by (cases m) (simp add: proven_ger_build_def proven_ger_held_def)

lemma proven_ger_reads_back:
  assumes "json_codec_ok K" and "interop_json_ok J" and "proven_ger_serialize K J m = Ok j"
  shows "reads_back (proven_ger_serialize K J) (proven_ger_deserialize K J) m"
proof -
  let ?arm = "match_arm proven_ger_name proven_ger_is_set (proven_ger_store K J)"
  let ?names = "[''proofGerL1root'', ''l1Leaf'']"
  let ?fs = "[option_field (ij_merkle_proof_serialize J) ''proofGerL1root'' (pg_proof_ger_l1root m),
      option_field (ij_leaf_serialize J) ''l1Leaf'' (pg_l1_leaf m)]"
  from assms(3) obtain e1 e2 where
    w1: "option_field (ij_merkle_proof_serialize J) ''proofGerL1root'' (pg_proof_ger_l1root m) = Ok e1"
    and w2: "option_field (ij_leaf_serialize J) ''l1Leaf'' (pg_l1_leaf m) = Ok e2"
    unfolding proven_ger_serialize_def serialize_struct_def map_ok_eq_Ok serialize_fields_eq_Ok by blast
  have "visit_map proven_ger_field ?arm proven_ger_init (e1 @ e2 @ []) = Ok (proven_ger_held m)"
    by (simp add: proven_ger_init_def proven_ger_held_def visit_map_append
        proven_ger_json.visit_option_field [where put = "\<lambda>x. proven_ger_sl_proof_ger_l1root_update (\<lambda>_. x)",
          OF w1 value_codecD [OF interop_json_okD(4) [OF assms(2)]] proven_ger_names(1)]
        proven_ger_json.visit_option_field [where put = "\<lambda>x. proven_ger_sl_l1_leaf_update (\<lambda>_. x)",
          OF w2 value_codecD [OF interop_json_okD(3) [OF assms(2)]] proven_ger_names(2)])
  then show ?thesis
    unfolding proven_ger_deserialize_def
  proof (rule proven_ger_json.struct_reads_back [rotated 4])
    show "proven_ger_serialize K J m = serialize_struct ?fs" by (simp only: proven_ger_serialize_def)
    show "serialize_fields ?fs = Ok (e1 @ e2 @ [])"
      by (simp only: serialize_fields.simps map_ok.simps and_then.simps w1 w2)
    show "list_all2 writes ?names ?fs" by simp
    show "distinct (map proven_ger_field ?names)" by (simp add: proven_ger_names)
    show "proven_ger_build (proven_ger_held m) = m" by (rule proven_ger_build_held)
  qed
qed

lemma proven_ger_codec:
  assumes "json_codec_ok K" and "interop_json_ok J"
  shows "value_codec (proven_ger_serialize K J) (proven_ger_deserialize K J)"
  by (rule reads_back_codec) (rule proven_ger_reads_back [OF assms])

lemma ger_block_names:
  "ger_block_field ''blockNumber'' = Ok GerBlockNumber"
  "ger_block_field ''provenInsertedGer'' = Ok ProvenInsertedGer"
  "ger_block_field ''blockIndex'' = Ok BlockIndex"
  by (simp_all add: ger_block_field_def)

interpretation ger_block_json: json_slots ger_block_field ger_block_name ger_block_is_set "ger_block_store K J" for K J
proof
  fix f g v w u u' s
  show "ger_block_is_set f (u s)" if "ger_block_store K J f v = Ok u" and "v \<noteq> JNull"
    using that by (cases f) (auto simp: map_ok_eq_Ok option_deserialize_def)
  show "ger_block_is_set g (u s) \<longleftrightarrow> ger_block_is_set g s" if "ger_block_store K J f v = Ok u" and "g \<noteq> f"
    using that by (cases f; cases g) (auto simp: map_ok_eq_Ok)
  show "u' (u s) = u (u' s)"
    if "f \<noteq> g" and "ger_block_store K J f v = Ok u" and "ger_block_store K J g w = Ok u'"
    using that by (cases f; cases g) (auto simp: map_ok_eq_Ok)
qed

definition ger_block_held :: "('lm, 'mm) proven_inserted_ger_with_block_number \<Rightarrow> ('lm, 'mm) ger_block_slots" where
  "ger_block_held m =
     \<lparr>ger_block_sl_block_number = (if pgb_block_number m = 0 then None else Some (pgb_block_number m)),
      ger_block_sl_proven_inserted_ger = pgb_proven_inserted_ger m,
      ger_block_sl_block_index = (if pgb_block_index m = 0 then None else Some (pgb_block_index m))\<rparr>"

lemma ger_block_build_held: "ger_block_build (ger_block_held m) = m"
  by (cases m) (simp add: ger_block_build_def ger_block_held_def)

lemma ger_block_reads_back:
  assumes "json_codec_ok K" and "interop_json_ok J" and "ger_block_serialize K J m = Ok j"
  shows "reads_back (ger_block_serialize K J) (ger_block_deserialize K J) m"
proof -
  let ?arm = "match_arm ger_block_name ger_block_is_set (ger_block_store K J)"
  let ?names = "[''blockNumber'', ''provenInsertedGer'', ''blockIndex'']"
  let ?fs = "[number_field ''blockNumber'' (pgb_block_number m),
      option_field (proven_ger_serialize K J) ''provenInsertedGer'' (pgb_proven_inserted_ger m),
      number_field ''blockIndex'' (pgb_block_index m)]"
  from assms(3) obtain e1 e2 e3 where
    w1: "number_field ''blockNumber'' (pgb_block_number m) = Ok e1"
    and w2: "option_field (proven_ger_serialize K J) ''provenInsertedGer'' (pgb_proven_inserted_ger m) = Ok e2"
    and w3: "number_field ''blockIndex'' (pgb_block_index m) = Ok e3"
    unfolding ger_block_serialize_def serialize_struct_def map_ok_eq_Ok serialize_fields_eq_Ok by blast
  have "visit_map ger_block_field ?arm ger_block_init (e1 @ e2 @ e3 @ []) = Ok (ger_block_held m)"
    by (simp add: ger_block_init_def ger_block_held_def visit_map_append
        ger_block_json.visit_number_field [where put = "\<lambda>x. ger_block_sl_block_number_update (\<lambda>_. x)",
          OF w1 assms(1) ger_block_names(1)]
        ger_block_json.visit_option_field [where put = "\<lambda>x. ger_block_sl_proven_inserted_ger_update (\<lambda>_. x)",
          OF w2 value_codecD [OF proven_ger_codec [OF assms(1,2)]] ger_block_names(2)]
        ger_block_json.visit_number_field [where put = "\<lambda>x. ger_block_sl_block_index_update (\<lambda>_. x)",
          OF w3 assms(1) ger_block_names(3)])
  then show ?thesis
    unfolding ger_block_deserialize_def
  proof (rule ger_block_json.struct_reads_back [rotated 4])
    show "ger_block_serialize K J m = serialize_struct ?fs" by (simp only: ger_block_serialize_def)
    show "serialize_fields ?fs = Ok (e1 @ e2 @ e3 @ [])"
      by (simp only: serialize_fields.simps map_ok.simps and_then.simps w1 w2 w3)
    show "list_all2 writes ?names ?fs" by simp
    show "distinct (map ger_block_field ?names)" by (simp add: ger_block_names)
    show "ger_block_build (ger_block_held m) = m" by (rule ger_block_build_held)
  qed
qed

lemma ger_block_codec:
  assumes "json_codec_ok K" and "interop_json_ok J"
  shows "value_codec (ger_block_serialize K J) (ger_block_deserialize K J)"
  by (rule reads_back_codec) (rule ger_block_reads_back [OF assms])

lemma bridge_exit_names:
  "bridge_exit_field ''blockNumber'' = Ok ExitBlockNumber"
  "bridge_exit_field ''globalIndex'' = Ok GlobalIndexKey"
  "bridge_exit_field ''bridgeExitHash'' = Ok BridgeExitHashKey"
  by (simp_all add: bridge_exit_field_def)

interpretation bridge_exit_json: json_slots bridge_exit_field bridge_exit_name bridge_exit_is_set "bridge_exit_store K J" for K J
proof
  fix f g v w u u' s
  show "bridge_exit_is_set f (u s)" if "bridge_exit_store K J f v = Ok u" and "v \<noteq> JNull"
    using that by (cases f) (auto simp: map_ok_eq_Ok option_deserialize_def)
  show "bridge_exit_is_set g (u s) \<longleftrightarrow> bridge_exit_is_set g s" if "bridge_exit_store K J f v = Ok u" and "g \<noteq> f"
    using that by (cases f; cases g) (auto simp: map_ok_eq_Ok)
  show "u' (u s) = u (u' s)"
    if "f \<noteq> g" and "bridge_exit_store K J f v = Ok u" and "bridge_exit_store K J g w = Ok u'"
    using that by (cases f; cases g) (auto simp: map_ok_eq_Ok)
qed

definition bridge_exit_held :: "imported_bridge_exit_message \<Rightarrow> bridge_exit_slots" where
  "bridge_exit_held m =
     \<lparr>bridge_exit_sl_block_number = (if im_block_number m = 0 then None else Some (im_block_number m)),
      bridge_exit_sl_global_index = im_global_index m,
      bridge_exit_sl_bridge_exit_hash = im_bridge_exit_hash m\<rparr>"

lemma bridge_exit_build_held: "bridge_exit_build (bridge_exit_held m) = m"
  by (cases m) (simp add: bridge_exit_build_def bridge_exit_held_def)

lemma bridge_exit_reads_back:
  assumes "json_codec_ok K" and "interop_json_ok J" and "bridge_exit_serialize K J m = Ok j"
  shows "reads_back (bridge_exit_serialize K J) (bridge_exit_deserialize K J) m"
proof -
  let ?arm = "match_arm bridge_exit_name bridge_exit_is_set (bridge_exit_store K J)"
  let ?names = "[''blockNumber'', ''globalIndex'', ''bridgeExitHash'']"
  let ?fs = "[number_field ''blockNumber'' (im_block_number m),
      option_field (ij_fixed_bytes32_serialize J) ''globalIndex'' (im_global_index m),
      option_field (ij_fixed_bytes32_serialize J) ''bridgeExitHash'' (im_bridge_exit_hash m)]"
  from assms(3) obtain e1 e2 e3 where
    w1: "number_field ''blockNumber'' (im_block_number m) = Ok e1"
    and w2: "option_field (ij_fixed_bytes32_serialize J) ''globalIndex'' (im_global_index m) = Ok e2"
    and w3: "option_field (ij_fixed_bytes32_serialize J) ''bridgeExitHash'' (im_bridge_exit_hash m) = Ok e3"
    unfolding bridge_exit_serialize_def serialize_struct_def map_ok_eq_Ok serialize_fields_eq_Ok by blast
  have "visit_map bridge_exit_field ?arm bridge_exit_init (e1 @ e2 @ e3 @ []) = Ok (bridge_exit_held m)"
    by (simp add: bridge_exit_init_def bridge_exit_held_def visit_map_append
        bridge_exit_json.visit_number_field [where put = "\<lambda>x. bridge_exit_sl_block_number_update (\<lambda>_. x)",
          OF w1 assms(1) bridge_exit_names(1)]
        bridge_exit_json.visit_option_field [where put = "\<lambda>x. bridge_exit_sl_global_index_update (\<lambda>_. x)",
          OF w2 value_codecD [OF interop_json_okD(1) [OF assms(2)]] bridge_exit_names(2)]
        bridge_exit_json.visit_option_field [where put = "\<lambda>x. bridge_exit_sl_bridge_exit_hash_update (\<lambda>_. x)",
          OF w3 value_codecD [OF interop_json_okD(1) [OF assms(2)]] bridge_exit_names(3)])
  then show ?thesis
    unfolding bridge_exit_deserialize_def
  proof (rule bridge_exit_json.struct_reads_back [rotated 4])
    show "bridge_exit_serialize K J m = serialize_struct ?fs" by (simp only: bridge_exit_serialize_def)
    show "serialize_fields ?fs = Ok (e1 @ e2 @ e3 @ [])"
      by (simp only: serialize_fields.simps map_ok.simps and_then.simps w1 w2 w3)
    show "list_all2 writes ?names ?fs" by simp
    show "distinct (map bridge_exit_field ?names)" by (simp add: bridge_exit_names)
    show "bridge_exit_build (bridge_exit_held m) = m" by (rule bridge_exit_build_held)
  qed
qed

lemma bridge_exit_codec:
  assumes "json_codec_ok K" and "interop_json_ok J"
  shows "value_codec (bridge_exit_serialize K J) (bridge_exit_deserialize K J)"
  by (rule reads_back_codec) (rule bridge_exit_reads_back [OF assms])

lemma proof_req_names:
  "proof_req_field ''lastProvenBlock'' = Ok LastProvenBlock"
  "proof_req_field ''requestedEndBlock'' = Ok RequestedEndBlock"
  "proof_req_field ''l1InfoTreeRootHash'' = Ok L1InfoTreeRootHash"
  "proof_req_field ''l1InfoTreeLeaf'' = Ok L1InfoTreeLeafKey"
  "proof_req_field ''l1InfoTreeMerkleProof'' = Ok L1InfoTreeMerkleProofKey"
  "proof_req_field ''gerLeaves'' = Ok GerLeaves"
  "proof_req_field ''importedBridgeExits'' = Ok ImportedBridgeExits"
  by (simp_all add: proof_req_field_def)

interpretation proof_req_json: json_slots proof_req_field proof_req_name proof_req_is_set "proof_req_store K J" for K J
proof
  fix f g v w u u' s
  show "proof_req_is_set f (u s)" if "proof_req_store K J f v = Ok u" and "v \<noteq> JNull"
    using that by (cases f) (auto simp: map_ok_eq_Ok option_deserialize_def)
  show "proof_req_is_set g (u s) \<longleftrightarrow> proof_req_is_set g s" if "proof_req_store K J f v = Ok u" and "g \<noteq> f"
    using that by (cases f; cases g) (auto simp: map_ok_eq_Ok)
  show "u' (u s) = u (u' s)"
    if "f \<noteq> g" and "proof_req_store K J f v = Ok u" and "proof_req_store K J g w = Ok u'"
    using that by (cases f; cases g) (auto simp: map_ok_eq_Ok)
qed

definition proof_req_held :: "('lm, 'mm) generate_aggchain_proof_request \<Rightarrow> ('lm, 'mm) proof_req_slots" where
  "proof_req_held m =
     \<lparr>proof_req_sl_last_proven_block = (if gp_last_proven_block m = 0 then None else Some (gp_last_proven_block m)),
      proof_req_sl_requested_end_block = (if gp_requested_end_block m = 0 then None else Some (gp_requested_end_block m)),
      proof_req_sl_l1_info_tree_root_hash = gp_l1_info_tree_root_hash m,
      proof_req_sl_l1_info_tree_leaf = gp_l1_info_tree_leaf m,
      proof_req_sl_l1_info_tree_merkle_proof = gp_l1_info_tree_merkle_proof m,
      proof_req_sl_ger_leaves = (if gp_ger_leaves m = [] then None else Some (gp_ger_leaves m)),
      proof_req_sl_imported_bridge_exits = (if gp_imported_bridge_exits m = [] then None else Some (gp_imported_bridge_exits m))\<rparr>"

lemma proof_req_build_held: "proof_req_build (proof_req_held m) = m"
  by (cases m) (simp add: proof_req_build_def proof_req_held_def)

lemma proof_req_reads_back:
  assumes "json_codec_ok K" and "interop_json_ok J" and "proof_req_serialize K J m = Ok j"
    and "distinct (map fst (gp_ger_leaves m))"
  shows "reads_back (proof_req_serialize K J) (proof_req_deserialize K J) m"
proof -
  let ?arm = "match_arm proof_req_name proof_req_is_set (proof_req_store K J)"
  let ?names = "[''lastProvenBlock'', ''requestedEndBlock'', ''l1InfoTreeRootHash'', ''l1InfoTreeLeaf'',
      ''l1InfoTreeMerkleProof'', ''gerLeaves'', ''importedBridgeExits'']"
  let ?fs = "[number_field ''lastProvenBlock'' (gp_last_proven_block m),
      number_field ''requestedEndBlock'' (gp_requested_end_block m),
      option_field (ij_fixed_bytes32_serialize J) ''l1InfoTreeRootHash'' (gp_l1_info_tree_root_hash m),
      option_field (ij_leaf_serialize J) ''l1InfoTreeLeaf'' (gp_l1_info_tree_leaf m),
      option_field (ij_merkle_proof_serialize J) ''l1InfoTreeMerkleProof'' (gp_l1_info_tree_merkle_proof m),
      map_field (ger_block_serialize K J) ''gerLeaves'' (gp_ger_leaves m),
      vec_field (bridge_exit_serialize K J) ''importedBridgeExits'' (gp_imported_bridge_exits m)]"
  from assms(3) obtain e1 e2 e3 e4 e5 e6 e7 where
    w1: "number_field ''lastProvenBlock'' (gp_last_proven_block m) = Ok e1"
    and w2: "number_field ''requestedEndBlock'' (gp_requested_end_block m) = Ok e2"
    and w3: "option_field (ij_fixed_bytes32_serialize J) ''l1InfoTreeRootHash'' (gp_l1_info_tree_root_hash m) = Ok e3"
    and w4: "option_field (ij_leaf_serialize J) ''l1InfoTreeLeaf'' (gp_l1_info_tree_leaf m) = Ok e4"
    and w5: "option_field (ij_merkle_proof_serialize J) ''l1InfoTreeMerkleProof'' (gp_l1_info_tree_merkle_proof m) = Ok e5"
    and w6: "map_field (ger_block_serialize K J) ''gerLeaves'' (gp_ger_leaves m) = Ok e6"
    and w7: "vec_field (bridge_exit_serialize K J) ''importedBridgeExits'' (gp_imported_bridge_exits m) = Ok e7"
    unfolding proof_req_serialize_def serialize_struct_def map_ok_eq_Ok serialize_fields_eq_Ok by blast
  have "visit_map proof_req_field ?arm proof_req_init (e1 @ e2 @ e3 @ e4 @ e5 @ e6 @ e7 @ []) = Ok (proof_req_held m)"
    by (simp add: proof_req_init_def proof_req_held_def visit_map_append
        proof_req_json.visit_number_field [where put = "\<lambda>x. proof_req_sl_last_proven_block_update (\<lambda>_. x)",
          OF w1 assms(1) proof_req_names(1)]
        proof_req_json.visit_number_field [where put = "\<lambda>x. proof_req_sl_requested_end_block_update (\<lambda>_. x)",
          OF w2 assms(1) proof_req_names(2)]
        proof_req_json.visit_option_field [where put = "\<lambda>x. proof_req_sl_l1_info_tree_root_hash_update (\<lambda>_. x)",
          OF w3 value_codecD [OF interop_json_okD(1) [OF assms(2)]] proof_req_names(3)]
        proof_req_json.visit_option_field [where put = "\<lambda>x. proof_req_sl_l1_info_tree_leaf_update (\<lambda>_. x)",
          OF w4 value_codecD [OF interop_json_okD(3) [OF assms(2)]] proof_req_names(4)]
        proof_req_json.visit_option_field [where put = "\<lambda>x. proof_req_sl_l1_info_tree_merkle_proof_update (\<lambda>_. x)",
          OF w5 value_codecD [OF interop_json_okD(4) [OF assms(2)]] proof_req_names(5)]
        proof_req_json.visit_map_field [where put = "\<lambda>x. proof_req_sl_ger_leaves_update (\<lambda>_. x)",
          OF w6 ger_block_codec [OF assms(1,2)] assms(4) proof_req_names(6)]
        proof_req_json.visit_vec_field [where put = "\<lambda>x. proof_req_sl_imported_bridge_exits_update (\<lambda>_. x)",
          OF w7 bridge_exit_codec [OF assms(1,2)] proof_req_names(7)])
  then show ?thesis
    unfolding proof_req_deserialize_def
  proof (rule proof_req_json.struct_reads_back [rotated 4])
    show "proof_req_serialize K J m = serialize_struct ?fs" by (simp only: proof_req_serialize_def)
    show "serialize_fields ?fs = Ok (e1 @ e2 @ e3 @ e4 @ e5 @ e6 @ e7 @ [])"
      by (simp only: serialize_fields.simps map_ok.simps and_then.simps w1 w2 w3 w4 w5 w6 w7)
    show "list_all2 writes ?names ?fs" by simp
    show "distinct (map proof_req_field ?names)" by (simp add: proof_req_names)
    show "proof_req_build (proof_req_held m) = m" by (rule proof_req_build_held)
  qed
qed

lemma proof_resp_names:
  "proof_resp_field ''aggchainProof'' = Ok AggchainProofKey"
  "proof_resp_field ''lastProvenBlock'' = Ok ResponseLastProvenBlock"
  "proof_resp_field ''endBlock'' = Ok EndBlock"
  "proof_resp_field ''localExitRootHash'' = Ok LocalExitRootHash"
  "proof_resp_field ''customChainData'' = Ok CustomChainData"
  by (simp_all add: proof_resp_field_def)

interpretation proof_resp_json: json_slots proof_resp_field proof_resp_name proof_resp_is_set "proof_resp_store K J" for K J
proof
  fix f g v w u u' s
  show "proof_resp_is_set f (u s)" if "proof_resp_store K J f v = Ok u" and "v \<noteq> JNull"
    using that by (cases f) (auto simp: map_ok_eq_Ok option_deserialize_def)
  show "proof_resp_is_set g (u s) \<longleftrightarrow> proof_resp_is_set g s" if "proof_resp_store K J f v = Ok u" and "g \<noteq> f"
    using that by (cases f; cases g) (auto simp: map_ok_eq_Ok)
  show "u' (u s) = u (u' s)"
    if "f \<noteq> g" and "proof_resp_store K J f v = Ok u" and "proof_resp_store K J g w = Ok u'"
    using that by (cases f; cases g) (auto simp: map_ok_eq_Ok)
qed

definition proof_resp_held :: "generate_aggchain_proof_response \<Rightarrow> proof_resp_slots" where
  "proof_resp_held m =
     \<lparr>proof_resp_sl_aggchain_proof = gar_aggchain_proof m,
      proof_resp_sl_last_proven_block = (if gar_last_proven_block m = 0 then None else Some (gar_last_proven_block m)),
      proof_resp_sl_end_block = (if gar_end_block m = 0 then None else Some (gar_end_block m)),
      proof_resp_sl_local_exit_root_hash = gar_local_exit_root_hash m,
      proof_resp_sl_custom_chain_data = (if gar_custom_chain_data m = [] then None else Some (gar_custom_chain_data m))\<rparr>"

lemma proof_resp_build_held: "proof_resp_build (proof_resp_held m) = m"
  by (cases m) (simp add: proof_resp_build_def proof_resp_held_def)

lemma proof_resp_reads_back:
  assumes "json_codec_ok K" and "interop_json_ok J" and "proof_resp_serialize K J m = Ok j"
  shows "reads_back (proof_resp_serialize K J) (proof_resp_deserialize K J) m"
proof -
  let ?arm = "match_arm proof_resp_name proof_resp_is_set (proof_resp_store K J)"
  let ?names = "[''aggchainProof'', ''lastProvenBlock'', ''endBlock'', ''localExitRootHash'',
      ''customChainData'']"
  let ?fs = "[option_field (ij_aggchain_proof_serialize J) ''aggchainProof'' (gar_aggchain_proof m),
      number_field ''lastProvenBlock'' (gar_last_proven_block m),
      number_field ''endBlock'' (gar_end_block m),
      option_field (ij_fixed_bytes32_serialize J) ''localExitRootHash'' (gar_local_exit_root_hash m),
      bytes_field K ''customChainData'' (gar_custom_chain_data m)]"
  from assms(3) obtain e1 e2 e3 e4 e5 where
    w1: "option_field (ij_aggchain_proof_serialize J) ''aggchainProof'' (gar_aggchain_proof m) = Ok e1"
    and w2: "number_field ''lastProvenBlock'' (gar_last_proven_block m) = Ok e2"
    and w3: "number_field ''endBlock'' (gar_end_block m) = Ok e3"
    and w4: "option_field (ij_fixed_bytes32_serialize J) ''localExitRootHash'' (gar_local_exit_root_hash m) = Ok e4"
    and w5: "bytes_field K ''customChainData'' (gar_custom_chain_data m) = Ok e5"
    unfolding proof_resp_serialize_def serialize_struct_def map_ok_eq_Ok serialize_fields_eq_Ok by blast
  have "visit_map proof_resp_field ?arm proof_resp_init (e1 @ e2 @ e3 @ e4 @ e5 @ []) = Ok (proof_resp_held m)"
    by (simp add: proof_resp_init_def proof_resp_held_def visit_map_append
        proof_resp_json.visit_option_field [where put = "\<lambda>x. proof_resp_sl_aggchain_proof_update (\<lambda>_. x)",
          OF w1 value_codecD [OF interop_json_okD(5) [OF assms(2)]] proof_resp_names(1)]
        proof_resp_json.visit_number_field [where put = "\<lambda>x. proof_resp_sl_last_proven_block_update (\<lambda>_. x)",
          OF w2 assms(1) proof_resp_names(2)]
        proof_resp_json.visit_number_field [where put = "\<lambda>x. proof_resp_sl_end_block_update (\<lambda>_. x)",
          OF w3 assms(1) proof_resp_names(3)]
        proof_resp_json.visit_option_field [where put = "\<lambda>x. proof_resp_sl_local_exit_root_hash_update (\<lambda>_. x)",
          OF w4 value_codecD [OF interop_json_okD(1) [OF assms(2)]] proof_resp_names(4)]
        proof_resp_json.visit_bytes_field [where put = "\<lambda>x. proof_resp_sl_custom_chain_data_update (\<lambda>_. x)",
          OF w5 assms(1) proof_resp_names(5)])
  then show ?thesis
    unfolding proof_resp_deserialize_def
  proof (rule proof_resp_json.struct_reads_back [rotated 4])
    show "proof_resp_serialize K J m = serialize_struct ?fs" by (simp only: proof_resp_serialize_def)
    show "serialize_fields ?fs = Ok (e1 @ e2 @ e3 @ e4 @ e5 @ [])"
      by (simp only: serialize_fields.simps map_ok.simps and_then.simps w1 w2 w3 w4 w5)
    show "list_all2 writes ?names ?fs" by simp
    show "distinct (map proof_resp_field ?names)" by (simp add: proof_resp_names)
    show "proof_resp_build (proof_resp_held m) = m" by (rule proof_resp_build_held)
  qed
qed

lemma proof_resp_codec:
  assumes "json_codec_ok K" and "interop_json_ok J"
  shows "value_codec (proof_resp_serialize K J) (proof_resp_deserialize K J)"
  by (rule reads_back_codec) (rule proof_resp_reads_back [OF assms])

lemma optimistic_req_names:
  "optimistic_req_field ''aggchainProofRequest'' = Ok AggchainProofRequestKey"
  "optimistic_req_field ''optimisticModeSignature'' = Ok OptimisticModeSignature"
  by (simp_all add: optimistic_req_field_def)

interpretation optimistic_req_json: json_slots optimistic_req_field optimistic_req_name optimistic_req_is_set "optimistic_req_store K J" for K J
proof
  fix f g v w u u' s
  show "optimistic_req_is_set f (u s)" if "optimistic_req_store K J f v = Ok u" and "v \<noteq> JNull"
    using that by (cases f) (auto simp: map_ok_eq_Ok option_deserialize_def)
  show "optimistic_req_is_set g (u s) \<longleftrightarrow> optimistic_req_is_set g s" if "optimistic_req_store K J f v = Ok u" and "g \<noteq> f"
    using that by (cases f; cases g) (auto simp: map_ok_eq_Ok)
  show "u' (u s) = u (u' s)"
    if "f \<noteq> g" and "optimistic_req_store K J f v = Ok u" and "optimistic_req_store K J g w = Ok u'"
    using that by (cases f; cases g) (auto simp: map_ok_eq_Ok)
qed

definition optimistic_req_held :: "('lm, 'mm) generate_optimistic_aggchain_proof_request \<Rightarrow> ('lm, 'mm) optimistic_req_slots" where
  "optimistic_req_held m =
     \<lparr>optimistic_req_sl_aggchain_proof_request = go_aggchain_proof_request m,
      optimistic_req_sl_optimistic_mode_signature = go_optimistic_mode_signature m\<rparr>"

lemma optimistic_req_build_held: "optimistic_req_build (optimistic_req_held m) = m"
  by (cases m) (simp add: optimistic_req_build_def optimistic_req_held_def)

lemma optimistic_req_reads_back:
  assumes "json_codec_ok K" and "interop_json_ok J" and "optimistic_req_serialize K J m = Ok j"
    and "\<And>r. go_aggchain_proof_request m = Some r \<Longrightarrow> distinct (map fst (gp_ger_leaves r))"
  shows "reads_back (optimistic_req_serialize K J) (optimistic_req_deserialize K J) m"
proof -
  let ?arm = "match_arm optimistic_req_name optimistic_req_is_set (optimistic_req_store K J)"
  let ?names = "[''aggchainProofRequest'', ''optimisticModeSignature'']"
  let ?fs = "[option_field (proof_req_serialize K J) ''aggchainProofRequest'' (go_aggchain_proof_request m),
      option_field (ij_fixed_bytes65_serialize J) ''optimisticModeSignature'' (go_optimistic_mode_signature m)]"
  from assms(3) obtain e1 e2 where
    w1: "option_field (proof_req_serialize K J) ''aggchainProofRequest'' (go_aggchain_proof_request m) = Ok e1"
    and w2: "option_field (ij_fixed_bytes65_serialize J) ''optimisticModeSignature'' (go_optimistic_mode_signature m) = Ok e2"
    unfolding optimistic_req_serialize_def serialize_struct_def map_ok_eq_Ok serialize_fields_eq_Ok by blast
  have "visit_map optimistic_req_field ?arm optimistic_req_init (e1 @ e2 @ []) = Ok (optimistic_req_held m)"
    by (simp add: optimistic_req_init_def optimistic_req_held_def visit_map_append
        optimistic_req_json.visit_option_field [where put = "\<lambda>x. optimistic_req_sl_aggchain_proof_request_update (\<lambda>_. x)",
          OF w1 reads_back_Ok [OF proof_req_reads_back [OF assms(1,2) _ assms(4)]] optimistic_req_names(1)]
        optimistic_req_json.visit_option_field [where put = "\<lambda>x. optimistic_req_sl_optimistic_mode_signature_update (\<lambda>_. x)",
          OF w2 value_codecD [OF interop_json_okD(2) [OF assms(2)]] optimistic_req_names(2)])
  then show ?thesis
    unfolding optimistic_req_deserialize_def
  proof (rule optimistic_req_json.struct_reads_back [rotated 4])
    show "optimistic_req_serialize K J m = serialize_struct ?fs" by (simp only: optimistic_req_serialize_def)
    show "serialize_fields ?fs = Ok (e1 @ e2 @ [])"
      by (simp only: serialize_fields.simps map_ok.simps and_then.simps w1 w2)
    show "list_all2 writes ?names ?fs" by simp
    show "distinct (map optimistic_req_field ?names)" by (simp add: optimistic_req_names)
    show "optimistic_req_build (optimistic_req_held m) = m" by (rule optimistic_req_build_held)
  qed
qed

lemma optimistic_resp_names:
  "optimistic_resp_field ''aggchainProof'' = Ok OptimisticAggchainProof"
  "optimistic_resp_field ''localExitRootHash'' = Ok OptimisticLocalExitRootHash"
  "optimistic_resp_field ''customChainData'' = Ok OptimisticCustomChainData"
  by (simp_all add: optimistic_resp_field_def)

interpretation optimistic_resp_json: json_slots optimistic_resp_field optimistic_resp_name optimistic_resp_is_set "optimistic_resp_store K J" for K J
proof
  fix f g v w u u' s
  show "optimistic_resp_is_set f (u s)" if "optimistic_resp_store K J f v = Ok u" and "v \<noteq> JNull"
    using that by (cases f) (auto simp: map_ok_eq_Ok option_deserialize_def)
  show "optimistic_resp_is_set g (u s) \<longleftrightarrow> optimistic_resp_is_set g s" if "optimistic_resp_store K J f v = Ok u" and "g \<noteq> f"
    using that by (cases f; cases g) (auto simp: map_ok_eq_Ok)
  show "u' (u s) = u (u' s)"
    if "f \<noteq> g" and "optimistic_resp_store K J f v = Ok u" and "optimistic_resp_store K J g w = Ok u'"
    using that by (cases f; cases g) (auto simp: map_ok_eq_Ok)
qed

definition optimistic_resp_held :: "generate_optimistic_aggchain_proof_response \<Rightarrow> optimistic_resp_slots" where
  "optimistic_resp_held m =
     \<lparr>optimistic_resp_sl_aggchain_proof = gor_aggchain_proof m,
      optimistic_resp_sl_local_exit_root_hash = gor_local_exit_root_hash m,
      optimistic_resp_sl_custom_chain_data = (if gor_custom_chain_data m = [] then None else Some (gor_custom_chain_data m))\<rparr>"

lemma optimistic_resp_build_held: "optimistic_resp_build (optimistic_resp_held m) = m"
  by (cases m) (simp add: optimistic_resp_build_def optimistic_resp_held_def)

lemma optimistic_resp_reads_back:
  assumes "json_codec_ok K" and "interop_json_ok J" and "optimistic_resp_serialize K J m = Ok j"
  shows "reads_back (optimistic_resp_serialize K J) (optimistic_resp_deserialize K J) m"
proof -
  let ?arm = "match_arm optimistic_resp_name optimistic_resp_is_set (optimistic_resp_store K J)"
  let ?names = "[''aggchainProof'', ''localExitRootHash'', ''customChainData'']"
  let ?fs = "[option_field (ij_aggchain_proof_serialize J) ''aggchainProof'' (gor_aggchain_proof m),
      option_field (ij_fixed_bytes32_serialize J) ''localExitRootHash'' (gor_local_exit_root_hash m),
      bytes_field K ''customChainData'' (gor_custom_chain_data m)]"
  from assms(3) obtain e1 e2 e3 where
    w1: "option_field (ij_aggchain_proof_serialize J) ''aggchainProof'' (gor_aggchain_proof m) = Ok e1"
    and w2: "option_field (ij_fixed_bytes32_serialize J) ''localExitRootHash'' (gor_local_exit_root_hash m) = Ok e2"
    and w3: "bytes_field K ''customChainData'' (gor_custom_chain_data m) = Ok e3"
    unfolding optimistic_resp_serialize_def serialize_struct_def map_ok_eq_Ok serialize_fields_eq_Ok by blast
  have "visit_map optimistic_resp_field ?arm optimistic_resp_init (e1 @ e2 @ e3 @ []) = Ok (optimistic_resp_held m)"
    by (simp add: optimistic_resp_init_def optimistic_resp_held_def visit_map_append
        optimistic_resp_json.visit_option_field [where put = "\<lambda>x. optimistic_resp_sl_aggchain_proof_update (\<lambda>_. x)",
          OF w1 value_codecD [OF interop_json_okD(5) [OF assms(2)]] optimistic_resp_names(1)]
        optimistic_resp_json.visit_option_field [where put = "\<lambda>x. optimistic_resp_sl_local_exit_root_hash_update (\<lambda>_. x)",
          OF w2 value_codecD [OF interop_json_okD(1) [OF assms(2)]] optimistic_resp_names(2)]
        optimistic_resp_json.visit_bytes_field [where put = "\<lambda>x. optimistic_resp_sl_custom_chain_data_update (\<lambda>_. x)",
          OF w3 assms(1) optimistic_resp_names(3)])
  then show ?thesis
    unfolding optimistic_resp_deserialize_def
  proof (rule optimistic_resp_json.struct_reads_back [rotated 4])
    show "optimistic_resp_serialize K J m = serialize_struct ?fs" by (simp only: optimistic_resp_serialize_def)
    show "serialize_fields ?fs = Ok (e1 @ e2 @ e3 @ [])"
      by (simp only: serialize_fields.simps map_ok.simps and_then.simps w1 w2 w3)
    show "list_all2 writes ?names ?fs" by simp
    show "distinct (map optimistic_resp_field ?names)" by (simp add: optimistic_resp_names)
    show "optimistic_resp_build (optimistic_resp_held m) = m" by (rule optimistic_resp_build_held)
  qed
qed

lemma optimistic_resp_codec:
  assumes "json_codec_ok K" and "interop_json_ok J"
  shows "value_codec (optimistic_resp_serialize K J) (optimistic_resp_deserialize K J)"
  by (rule reads_back_codec) (rule optimistic_resp_reads_back [OF assms])

section \<open>A concrete message\<close>

definition sample_proof_message :: aggchain_proof_message where
  "sample_proof_message = \<lparr>ag_aggchain_params = None, ag_signature = None, ag_context = Map.empty, ag_proof = None\<rparr>"

fun sample_int_deserialize :: "int json_deserialize" where
  "sample_int_deserialize (JNumber n) = Ok n"
| "sample_int_deserialize _ = Err (InvalidType ''integer'')"

definition sample_interop_json :: "(int, int) interop_json" where
  "sample_interop_json =
     \<lparr>ij_fixed_bytes32_serialize = (\<lambda>bs. Ok (JString (js_base64_encode sample_json_codec bs))),
      ij_fixed_bytes32_deserialize = sample_bytes_deserialize,
      ij_fixed_bytes65_serialize = (\<lambda>bs. Ok (JString (js_base64_encode sample_json_codec bs))),
      ij_fixed_bytes65_deserialize = sample_bytes_deserialize,
      ij_leaf_serialize = (\<lambda>n. Ok (JNumber n)), ij_leaf_deserialize = sample_int_deserialize,
      ij_merkle_proof_serialize = (\<lambda>n. Ok (JNumber n)), ij_merkle_proof_deserialize = sample_int_deserialize,
      ij_aggchain_proof_serialize = (\<lambda>m. if m = sample_proof_message then Ok (JBool True) else Err (CustomError ''unknown'')),
      ij_aggchain_proof_deserialize = (\<lambda>j. Ok sample_proof_message)\<rparr>"

lemma sample_interop_json_ok: "interop_json_ok sample_interop_json"
  using sample_json_codec_ok
  by (auto simp: interop_json_ok_def sample_interop_json_def value_codec_def json_codec_ok_def sample_json_codec_def
      split: if_splits)

definition sample_json_request :: "(int, int) generate_aggchain_proof_request" where
  "sample_json_request =
     \<lparr>gp_last_proven_block = 4, gp_requested_end_block = 10, gp_l1_info_tree_root_hash = Some [104, 105],
      gp_l1_info_tree_leaf = Some 7, gp_l1_info_tree_merkle_proof = None,
      gp_ger_leaves = [(''g'', \<lparr>pgb_block_number = 5, pgb_proven_inserted_ger = None, pgb_block_index = 0\<rparr>)],
      gp_imported_bridge_exits = []\<rparr>"

lemma sample_json_digits: "nat_to_string 4 = ''4''" "nat_to_string 5 = ''5''" "nat_to_string 10 = ''10''"
  by (simp_all add: nat_to_string.simps char_evaluation)

lemma sample_json_bytes: "js_base64_encode sample_json_codec [104, 105] = ''hi''"
  by (simp add: sample_json_codec_def char_evaluation)

lemma sample_json_written:
  "proof_req_serialize sample_json_codec sample_interop_json sample_json_request = Ok (JObject
     [(''lastProvenBlock'', JString ''4''), (''requestedEndBlock'', JString ''10''),
      (''l1InfoTreeRootHash'', JString ''hi''), (''l1InfoTreeLeaf'', JNumber 7),
      (''gerLeaves'', JObject [(''g'', JObject [(''blockNumber'', JString ''5'')])])])"
  by (simp add: proof_req_serialize_def serialize_struct_def number_field_def option_field_def map_field_def
      vec_field_def ger_block_serialize_def sample_json_request_def sample_interop_json_def
      sample_json_digits sample_json_bytes)

section \<open>Properties\<close>

text \<open>C20: The JSON form of the aggkit messages loses nothing. Whenever a request or a response, normal or
  optimistic, is written, it is read back from the entries of the object, in whatever order they come; the
  map of GER leaves has distinct keys, as every hash map. The helpers of \<open>pbjson\<close> and the messages of
  agglayer-interop are assumed to do so.\<close>

theorem aggkit_json_roundtrip:
  assumes "json_codec_ok K" and "interop_json_ok J"
  shows "(proof_req_serialize K J q = Ok j \<and> distinct (map fst (gp_ger_leaves q)) \<longrightarrow>
       reads_back (proof_req_serialize K J) (proof_req_deserialize K J) q) \<and>
     (proof_resp_serialize K J r = Ok j \<longrightarrow> reads_back (proof_resp_serialize K J) (proof_resp_deserialize K J) r) \<and>
     (optimistic_req_serialize K J oq = Ok j \<and>
         (\<forall>q. go_aggchain_proof_request oq = Some q \<longrightarrow> distinct (map fst (gp_ger_leaves q))) \<longrightarrow>
       reads_back (optimistic_req_serialize K J) (optimistic_req_deserialize K J) oq) \<and>
     (optimistic_resp_serialize K J os = Ok j \<longrightarrow>
       reads_back (optimistic_resp_serialize K J) (optimistic_resp_deserialize K J) os)"
  using proof_req_reads_back [OF assms] proof_resp_reads_back [OF assms] optimistic_req_reads_back [OF assms]
    optimistic_resp_reads_back [OF assms] by blast

theorem aggkit_json_roundtrip_witness:
  "proof_req_deserialize sample_json_codec sample_interop_json (JObject
     [(''gerLeaves'', JObject [(''g'', JObject [(''blockNumber'', JString ''5'')])]),
      (''l1InfoTreeLeaf'', JNumber 7), (''l1InfoTreeRootHash'', JString ''hi''),
      (''requestedEndBlock'', JString ''10''), (''lastProvenBlock'', JString ''4'')]) = Ok sample_json_request"
proof -
  let ?es = "[(''lastProvenBlock'', JString ''4''), (''requestedEndBlock'', JString ''10''),
      (''l1InfoTreeRootHash'', JString ''hi''), (''l1InfoTreeLeaf'', JNumber 7),
      (''gerLeaves'', JObject [(''g'', JObject [(''blockNumber'', JString ''5'')])])]"
  have "distinct (map fst (gp_ger_leaves sample_json_request))" by (simp add: sample_json_request_def)
  from aggkit_json_roundtrip [OF sample_json_codec_ok sample_interop_json_ok, THEN conjunct1, rule_format,
      OF conjI [OF sample_json_written this]]
  have "mset es' = mset ?es \<Longrightarrow>
      proof_req_deserialize sample_json_codec sample_interop_json (JObject es') = Ok sample_json_request" for es'
    unfolding reads_back_def sample_json_written result.inject json.inject by blast
  from this [of "rev ?es", OF mset_rev] show ?thesis by (simp only: rev.simps append.simps)
qed

text \<open>C21: A request in JSON is read strictly. Only an object is read; when it is read, every name in it is the JSON
  or the protobuf name of a field, and no field is given two values: of the entries for a field, in either
  spelling, at most one is not null.\<close>

theorem aggkit_json_strict:
  assumes "proof_req_deserialize K J v = Ok q"
  shows "\<exists>es. v = JObject es \<and> (\<forall>(k, w)\<in>set es. \<exists>f. proof_req_field k = Ok f) \<and>
     (\<forall>f. length (filter (\<lambda>(k, w). proof_req_field k = Ok f \<and> w \<noteq> JNull) es) \<le> 1)"
proof -
  obtain es t where v: "v = JObject es"
    and read: "visit_map proof_req_field (match_arm proof_req_name proof_req_is_set (proof_req_store K J)) proof_req_init es =
      Ok t"
    using assms unfolding proof_req_deserialize_def deserialize_struct_def
    by (cases v) (auto simp: map_ok_eq_Ok)
  show ?thesis using proof_req_json.visit_strict [OF read] v by blast
qed

theorem aggkit_json_strict_witness:
  "\<nexists>q. proof_req_deserialize sample_json_codec sample_interop_json
     (JObject [(''lastProvenBlock'', JString ''4''), (''last_proven_block'', JString ''5'')]) = Ok q"
proof
  let ?es = "[(''lastProvenBlock'', JString ''4''), (''last_proven_block'', JString ''5'')]"
  assume "\<exists>q. proof_req_deserialize sample_json_codec sample_interop_json (JObject ?es) = Ok q"
  then obtain q where "proof_req_deserialize sample_json_codec sample_interop_json (JObject ?es) = Ok q" by blast
  from aggkit_json_strict [OF this]
  have "length (filter (\<lambda>(k, w). proof_req_field k = Ok LastProvenBlock \<and> w \<noteq> JNull) ?es) \<le> 1" by blast
  then show False by (simp add: proof_req_field_def)
qed

end
