(* ===== verification/Config_Toml.thy ===== *)
theory Config_Toml
  imports Prover_Config Toml_Value
begin

text \<open>
  The TOML form of the configuration crates: for each struct what its \<open>Serialize\<close> writes and its \<open>Deserialize\<close>
  reads, from the attributes of its fields (names, aliases, defaults, fields that are skipped), and the
  hand-written \<open>Deserialize\<close> of \<open>LogOutput\<close>.

  The text forms of durations (\<open>humantime\<close>), socket addresses and Ethereum addresses are the record
  \<open>config_format\<close>. URLs are read by the parsers of the environment and written as they are. Defaults that
  depend on the environment may panic, as in \<open>Prover_Config\<close>.
\<close>

section \<open>Text forms\<close>

record config_format =
  cf_duration_format :: "duration \<Rightarrow> string"
  cf_duration_parse :: "string \<Rightarrow> duration option"
  cf_round_secs :: "duration \<Rightarrow> u64"
  cf_socket_format :: "socket_addr \<Rightarrow> string"
  cf_socket_parse :: "string \<Rightarrow> socket_addr option"
  cf_address_format :: "address \<Rightarrow> string"
  cf_address_parse :: "string \<Rightarrow> address option"

text \<open>What the code relies on: what was formatted is parsed again, durations up to the largest one, every address
  that was parsed or that has four bytes, and a duration of whole seconds is written as their number; and a
  URL is parsed to a string that is parsed to itself.\<close>

definition config_format_ok :: "config_format \<Rightarrow> environment \<Rightarrow> bool" where
  "config_format_ok T env \<longleftrightarrow>
     (\<forall>d\<le>DURATION_MAX. cf_duration_parse T (cf_duration_format T d) = Some d) \<and>
     (\<forall>s d. cf_duration_parse T s = Some d \<longrightarrow> d \<le> DURATION_MAX) \<and>
     (\<forall>s. cf_round_secs T (from_secs s) = s) \<and>
     (\<forall>a. length (sa_ip a) = 4 \<or> (\<exists>s. cf_socket_parse T s = Some a) \<longrightarrow>
        cf_socket_parse T (cf_socket_format T a) = Some a) \<and>
     (\<forall>a. cf_address_parse T (cf_address_format T a) = Some a) \<and>
     (\<forall>s u. url_parse env s = Some u \<longrightarrow> url_parse env u = Some u) \<and>
     (\<forall>s u. grpc_uri_parse env s = Some u \<longrightarrow> grpc_uri_parse env u = Some u)"

text \<open>\<open>HumanDuration\<close>: an untagged enum, tried in order; and \<open>DurationSeconds<u64>\<close>.\<close>

definition write_human_duration :: "config_format \<Rightarrow> duration toml_writer" where
  "write_human_duration T d =
     (case human_duration_new d of
        Secs s \<Rightarrow> write_u64 s
      | Human d \<Rightarrow> write_display (cf_duration_format T) d)"

definition read_human_duration :: "config_format \<Rightarrow> duration toml_reader" where
  "read_human_duration T v =
     (case read_u64 v of
        Ok s \<Rightarrow> Ok (human_duration_get (Secs s))
      | _ \<Rightarrow>
        (case read_parsed (cf_duration_parse T) v of
           Ok d \<Rightarrow> Ok (human_duration_get (Human d))
         | _ \<Rightarrow> Err (TomlInvalidValue ''data did not match any variant of untagged enum HumanDurationImpl'')))"

definition write_duration_seconds :: "config_format \<Rightarrow> duration toml_writer" where
  "write_duration_seconds T d = write_u64 (cf_round_secs T d)"

definition read_duration_seconds :: "duration toml_reader" where
  "read_duration_seconds v = map_ok from_secs (read_u64 v)"

section \<open>Provers\<close>

definition cpu_prover_config_serialize :: "config_format \<Rightarrow> cpu_prover_config toml_writer" where
  "cpu_prover_config_serialize T c = write_table
     [write_field ''max-concurrency-limit'' write_u64 (cpc_max_concurrency_limit c),
      write_option ''proving-request-timeout'' (write_human_duration T) (cpc_proving_request_timeout c),
      write_field ''proving-timeout'' (write_human_duration T) (cpc_proving_timeout c)]"

definition cpu_prover_config_deserialize :: "config_format \<Rightarrow> cpu_prover_config toml_reader" where
  "cpu_prover_config_deserialize T = read_table (\<lambda>es.
     and_then (default_field [''max-concurrency-limit''] default_max_concurrency_limit read_u64 es) (\<lambda>limit.
     and_then (optional_field ''proving-request-timeout'' (read_human_duration T) es) (\<lambda>request_timeout.
     and_then (default_field [''proving-timeout''] default_local_proving_timeout (read_human_duration T) es) (\<lambda>timeout.
     Ok \<lparr>cpc_max_concurrency_limit = limit, cpc_proving_request_timeout = request_timeout,
         cpc_proving_timeout = timeout\<rparr>))))"

definition network_prover_config_serialize :: "config_format \<Rightarrow> network_prover_config toml_writer" where
  "network_prover_config_serialize T c = write_table
     [write_option ''proving-request-timeout'' (write_human_duration T) (npc_proving_request_timeout c),
      write_field ''proving-timeout'' (write_human_duration T) (npc_proving_timeout c),
      write_field ''sp1-cluster-endpoint'' write_string (npc_sp1_cluster_endpoint c)]"

definition network_prover_config_deserialize ::
  "config_format \<Rightarrow> environment \<Rightarrow> network_prover_config toml_reader" where
  "network_prover_config_deserialize T env = read_table (\<lambda>es.
     and_then (optional_field ''proving-request-timeout'' (read_human_duration T) es) (\<lambda>request_timeout.
     and_then (default_field [''proving-timeout''] default_network_proving_timeout (read_human_duration T) es) (\<lambda>timeout.
     and_then (computed_field ''sp1-cluster-endpoint'' (default_sp1_cluster_endpoint env)
       (read_parsed (url_parse env)) es) (\<lambda>endpoint.
     Ok \<lparr>npc_proving_request_timeout = request_timeout, npc_proving_timeout = timeout,
         npc_sp1_cluster_endpoint = endpoint\<rparr>))))"

definition mock_prover_config_serialize :: "config_format \<Rightarrow> mock_prover_config toml_writer" where
  "mock_prover_config_serialize T c = write_table
     [write_field ''max-concurrency-limit'' write_u64 (mpc_max_concurrency_limit c),
      write_option ''proving-request-timeout'' (write_human_duration T) (mpc_proving_request_timeout c),
      write_field ''proving-timeout'' (write_human_duration T) (mpc_proving_timeout c)]"

definition mock_prover_config_deserialize :: "config_format \<Rightarrow> mock_prover_config toml_reader" where
  "mock_prover_config_deserialize T = read_table (\<lambda>es.
     and_then (default_field [''max-concurrency-limit''] default_max_concurrency_limit read_u64 es) (\<lambda>limit.
     and_then (optional_field ''proving-request-timeout'' (read_human_duration T) es) (\<lambda>request_timeout.
     and_then (default_field [''proving-timeout''] default_local_proving_timeout (read_human_duration T) es) (\<lambda>timeout.
     Ok \<lparr>mpc_max_concurrency_limit = limit, mpc_proving_request_timeout = request_timeout,
         mpc_proving_timeout = timeout\<rparr>))))"

fun prover_type_serialize :: "config_format \<Rightarrow> prover_type toml_writer" where
  "prover_type_serialize T (NetworkProver c) = write_newtype ''network-prover'' (network_prover_config_serialize T c)"
| "prover_type_serialize T (CpuProver c) = write_newtype ''cpu-prover'' (cpu_prover_config_serialize T c)"
| "prover_type_serialize T (MockProver c) = write_newtype ''mock-prover'' (mock_prover_config_serialize T c)"

definition prover_type_deserialize :: "config_format \<Rightarrow> environment \<Rightarrow> prover_type toml_reader" where
  "prover_type_deserialize T env = read_newtype
     [(''network-prover'', \<lambda>v. map_ok NetworkProver (network_prover_config_deserialize T env v)),
      (''cpu-prover'', \<lambda>v. map_ok CpuProver (cpu_prover_config_deserialize T v)),
      (''mock-prover'', \<lambda>v. map_ok MockProver (mock_prover_config_deserialize T v))]"

section \<open>Logging\<close>

definition log_level_serialize :: "log_level toml_writer" where
  "log_level_serialize l = write_string
     (case l of Trace \<Rightarrow> ''trace'' | Debug \<Rightarrow> ''debug'' | Info \<Rightarrow> ''info'' | Warn \<Rightarrow> ''warn'' | Error \<Rightarrow> ''error''
      | Fatal \<Rightarrow> ''fatal'')"

definition log_level_deserialize :: "log_level toml_reader" where
  "log_level_deserialize = read_variant
     [(''trace'', Trace), (''debug'', Debug), (''info'', Info), (''warn'', Warn), (''error'', Error), (''fatal'', Fatal)]"

definition log_format_serialize :: "log_format toml_writer" where
  "log_format_serialize f = write_string (case f of Pretty \<Rightarrow> ''pretty'' | Json \<Rightarrow> ''json'')"

definition log_format_deserialize :: "log_format toml_reader" where
  "log_format_deserialize = read_variant [(''pretty'', Pretty), (''json'', Json)]"

text \<open>\<open>LogOutput\<close> derives \<open>Serialize\<close>, with the names of its variants as they are, and has its own \<open>Deserialize\<close>.\<close>

fun log_output_serialize :: "log_output toml_writer" where
  "log_output_serialize Stdout = write_string ''Stdout''"
| "log_output_serialize Stderr = write_string ''Stderr''"
| "log_output_serialize (File path) = write_newtype ''File'' (write_string path)"

definition log_output_read :: "log_output toml_reader" where
  "log_output_read v = map_ok log_output_deserialize (read_string v)"

definition log_serialize :: "log_config toml_writer" where
  "log_serialize l = write_table
     [write_field ''level'' log_level_serialize (log_level_field l),
      write_field ''outputs'' (write_array log_output_serialize) (log_outputs l),
      write_field ''format'' log_format_serialize (log_format_field l)]"

definition log_deserialize :: "log_config toml_reader" where
  "log_deserialize = read_table (\<lambda>es.
     and_then (default_field [''level''] log_level_default log_level_deserialize es) (\<lambda>level.
     and_then (default_field [''outputs''] [] (read_array log_output_read) es) (\<lambda>outputs.
     and_then (default_field [''format''] log_format_default log_format_deserialize es) (\<lambda>format.
     Ok \<lparr>log_level_field = level, log_outputs = outputs, log_format_field = format\<rparr>))))"

section \<open>Contracts, builder, proposer and service\<close>

definition contracts_config_serialize :: "config_format \<Rightarrow> aggchain_proof_contracts_config toml_writer" where
  "contracts_config_serialize T c = write_table
     [write_field ''l1-rpc-endpoint'' write_string (cc_l1_rpc_endpoint c),
      write_field ''l2-execution-layer-rpc-endpoint'' write_string (cc_l2_execution_layer_rpc_endpoint c),
      write_field ''l2-consensus-layer-rpc-endpoint'' write_string (cc_l2_consensus_layer_rpc_endpoint c),
      write_field ''polygon-rollup-manager'' (write_display (cf_address_format T)) (cc_polygon_rollup_manager c),
      write_field ''global-exit-root-manager-v2-sovereign-chain'' (write_display (cf_address_format T))
        (cc_global_exit_root_manager_v2_sovereign_chain c),
      write_field ''static-call-caller-address'' (write_display (cf_address_format T)) (cc_static_call_caller_address c),
      write_field ''evm-sketch-genesis'' write_string (cc_evm_sketch_genesis c)]"

definition contracts_config_deserialize ::
  "config_format \<Rightarrow> environment \<Rightarrow> aggchain_proof_contracts_config toml_reader" where
  "contracts_config_deserialize T env = read_table (\<lambda>es.
     let url = read_parsed (url_parse env); addr = read_parsed (cf_address_parse T) in
     and_then (computed_field ''l1-rpc-endpoint'' (l1_rpc_endpoint_default env) url es) (\<lambda>l1.
     and_then (computed_field ''l2-execution-layer-rpc-endpoint'' (default_l2_execution_layer_url env) url es) (\<lambda>l2_el.
     and_then (computed_field ''l2-consensus-layer-rpc-endpoint'' (default_l2_consensus_layer_url env) url es) (\<lambda>l2_cl.
     and_then (default_field [''polygon-rollup-manager''] POLYGON_ROLLUP_MANAGER addr es) (\<lambda>manager.
     and_then (default_field [''global-exit-root-manager-v2-sovereign-chain'']
       GLOBAL_EXIT_ROOT_MANAGER_L2_SOVEREIGN_CHAIN_ADDRESS addr es) (\<lambda>ger_manager.
     and_then (default_field [''static-call-caller-address''] STATIC_CALL_CALLER_ADDRESS addr es) (\<lambda>caller.
     and_then (default_field [''evm-sketch-genesis''] default_evm_sketch_genesis read_string es) (\<lambda>genesis.
     Ok \<lparr>cc_l1_rpc_endpoint = l1, cc_l2_execution_layer_rpc_endpoint = l2_el,
         cc_l2_consensus_layer_rpc_endpoint = l2_cl, cc_polygon_rollup_manager = manager,
         cc_global_exit_root_manager_v2_sovereign_chain = ger_manager, cc_static_call_caller_address = caller,
         cc_evm_sketch_genesis = genesis\<rparr>))))))))"

definition builder_config_serialize :: "config_format \<Rightarrow> aggchain_proof_builder_config toml_writer" where
  "builder_config_serialize T c = write_table
     [write_field ''network-id'' write_u32 (bc_network_id c),
      write_field ''primary-prover'' (prover_type_serialize T) (bc_primary_prover c),
      write_option ''fallback-prover'' (prover_type_serialize T) (bc_fallback_prover c),
      write_field ''proving-timeout'' (write_human_duration T) (bc_proving_timeout c),
      write_field ''contracts'' (contracts_config_serialize T) (bc_contracts c)]"

definition builder_config_deserialize ::
  "config_format \<Rightarrow> environment \<Rightarrow> aggchain_proof_builder_config toml_reader" where
  "builder_config_deserialize T env = read_table (\<lambda>es.
     and_then (required_field ''network-id'' read_u32 es) (\<lambda>network_id.
     and_then (required_field ''primary-prover'' (prover_type_deserialize T env) es) (\<lambda>primary.
     and_then (optional_field ''fallback-prover'' (prover_type_deserialize T env) es) (\<lambda>fallback.
     and_then (default_field [''proving-timeout''] default_aggchain_prover_timeout (read_human_duration T) es) (\<lambda>timeout.
     and_then (computed_field ''contracts'' (contracts_config_default env) (contracts_config_deserialize T env) es)
       (\<lambda>contracts.
     Ok \<lparr>bc_network_id = network_id, bc_primary_prover = primary, bc_fallback_prover = fallback,
         bc_proving_timeout = timeout, bc_contracts = contracts\<rparr>))))))"

definition proposer_client_config_serialize :: "config_format \<Rightarrow> proposer_client_config toml_writer" where
  "proposer_client_config_serialize T c = write_table
     [write_field ''proposer-endpoint'' write_string (pcc_proposer_endpoint c),
      write_field ''sp1-cluster-endpoint'' write_string (pcc_sp1_cluster_endpoint c),
      write_field ''request-timeout'' (write_duration_seconds T) (pcc_request_timeout c),
      write_field ''proving-timeout'' (write_duration_seconds T) (pcc_proving_timeout c)]"

definition proposer_client_config_deserialize :: "environment \<Rightarrow> proposer_client_config toml_reader" where
  "proposer_client_config_deserialize env = read_table (\<lambda>es.
     and_then (computed_field ''proposer-endpoint'' (default_proposer_service_endpoint env)
       (read_parsed (grpc_uri_parse env)) es) (\<lambda>endpoint.
     and_then (computed_field ''sp1-cluster-endpoint'' (default_sp1_cluster_endpoint env)
       (read_parsed (url_parse env)) es) (\<lambda>cluster.
     and_then (default_field [''request-timeout''] default_request_timeout read_duration_seconds es) (\<lambda>request_timeout.
     and_then (default_field [''proving-timeout''] default_proving_timeout read_duration_seconds es) (\<lambda>timeout.
     Ok \<lparr>pcc_proposer_endpoint = endpoint, pcc_sp1_cluster_endpoint = cluster,
         pcc_request_timeout = request_timeout, pcc_proving_timeout = timeout\<rparr>)))))"

definition proposer_service_config_serialize :: "config_format \<Rightarrow> proposer_service_config toml_writer" where
  "proposer_service_config_serialize T c = write_table
     [write_field ''mock'' write_bool (psc_mock c),
      write_field ''client'' (proposer_client_config_serialize T) (psc_client c),
      write_field ''l1-rpc-endpoint'' write_string (psc_l1_rpc_endpoint c)]"

definition proposer_service_config_deserialize :: "environment \<Rightarrow> proposer_service_config toml_reader" where
  "proposer_service_config_deserialize env = read_table (\<lambda>es.
     and_then (default_field [''mock''] False read_bool es) (\<lambda>mock.
     and_then (required_field ''client'' (proposer_client_config_deserialize env) es) (\<lambda>client.
     and_then (required_field ''l1-rpc-endpoint'' (read_parsed (url_parse env)) es) (\<lambda>l1.
     Ok \<lparr>psc_mock = mock, psc_client = client, psc_l1_rpc_endpoint = l1\<rparr>))))"

definition service_config_serialize :: "config_format \<Rightarrow> aggchain_proof_service_config toml_writer" where
  "service_config_serialize T c = write_table
     [write_field ''aggchain-proof-builder'' (builder_config_serialize T) (sc_aggchain_proof_builder c),
      write_field ''proposer-service'' (proposer_service_config_serialize T) (sc_proposer_service c)]"

definition service_config_deserialize ::
  "config_format \<Rightarrow> environment \<Rightarrow> aggchain_proof_service_config toml_reader" where
  "service_config_deserialize T env = read_table (\<lambda>es.
     and_then (required_field ''aggchain-proof-builder'' (builder_config_deserialize T env) es) (\<lambda>builder.
     and_then (required_field ''proposer-service'' (proposer_service_config_deserialize env) es) (\<lambda>proposer.
     Ok \<lparr>sc_aggchain_proof_builder = builder, sc_proposer_service = proposer\<rparr>)))"

section \<open>The two binaries\<close>

text \<open>\<open>crate::default\<close>, for the type it is used at.\<close>

definition grpc_config_is_default :: "grpc_config \<Rightarrow> bool" where
  "grpc_config_is_default t \<longleftrightarrow> t = grpc_config_default"

definition grpc_config_serialize :: "grpc_config toml_writer" where
  "grpc_config_serialize g = write_table
     [write_field_unless same_as_default_max_decoding_message_size ''max-decoding-message-size'' write_u64
        (gc_max_decoding_message_size g),
      write_field_unless same_as_default_max_encoding_message_size ''max-encoding-message-size'' write_u64
        (gc_max_encoding_message_size g)]"

definition grpc_config_deserialize :: "grpc_config toml_reader" where
  "grpc_config_deserialize = read_table (\<lambda>es.
     and_then (default_field [''max-decoding-message-size''] default_max_decoding_message_size read_u64 es) (\<lambda>decoding.
     and_then (default_field [''max-encoding-message-size''] default_max_encoding_message_size read_u64 es) (\<lambda>encoding.
     Ok \<lparr>gc_max_decoding_message_size = decoding, gc_max_encoding_message_size = encoding\<rparr>)))"

text \<open>\<open>ClientProverConfig\<close>, whose section is written even when it is the default.\<close>

record client_prover_config =
  cpv_grpc :: grpc_config

definition client_prover_config_default :: client_prover_config where
  "client_prover_config_default = \<lparr>cpv_grpc = grpc_config_default\<rparr>"

definition client_prover_config_serialize :: "client_prover_config toml_writer" where
  "client_prover_config_serialize c = write_table [write_field ''grpc'' grpc_config_serialize (cpv_grpc c)]"

definition client_prover_config_deserialize :: "client_prover_config toml_reader" where
  "client_prover_config_deserialize = read_table (\<lambda>es.
     and_then (default_field [''grpc''] grpc_config_default grpc_config_deserialize es) (\<lambda>grpc.
     Ok \<lparr>cpv_grpc = grpc\<rparr>))"

text \<open>\<open>TelemetryConfig\<close> and \<open>ShutdownConfig\<close> have one field each, which stands for them.\<close>

definition telemetry_serialize :: "config_format \<Rightarrow> socket_addr toml_writer" where
  "telemetry_serialize T addr = write_table [write_field ''prometheus-addr'' (write_display (cf_socket_format T)) addr]"

definition aggkit_telemetry_deserialize :: "config_format \<Rightarrow> socket_addr toml_reader" where
  "aggkit_telemetry_deserialize T = read_table
     (default_field [''prometheus-addr''] aggkit_default_metrics_api_addr (read_parsed (cf_socket_parse T)))"

definition agglayer_telemetry_deserialize :: "config_format \<Rightarrow> socket_addr toml_reader" where
  "agglayer_telemetry_deserialize T = read_table
     (default_field [''prometheus-addr'', ''PrometheusAddr''] agglayer_default_metrics_api_addr
       (read_parsed (cf_socket_parse T)))"

definition shutdown_serialize :: "config_format \<Rightarrow> duration toml_writer" where
  "shutdown_serialize T timeout = write_table [write_field ''runtime-timeout'' (write_human_duration T) timeout]"

definition aggkit_shutdown_deserialize :: "config_format \<Rightarrow> duration toml_reader" where
  "aggkit_shutdown_deserialize T = read_table
     (default_field [''runtime-timeout''] aggkit_default_runtime_shutdown_timeout (read_human_duration T))"

definition agglayer_shutdown_deserialize :: "config_format \<Rightarrow> duration toml_reader" where
  "agglayer_shutdown_deserialize T = read_table
     (default_field [''runtime-timeout''] agglayer_default_runtime_shutdown_timeout (read_human_duration T))"

definition aggkit_config_serialize :: "config_format \<Rightarrow> aggkit_prover_config toml_writer" where
  "aggkit_config_serialize T c = write_table
     [write_field ''grpc-endpoint'' (write_display (cf_socket_format T)) (kc_grpc_endpoint c),
      write_field_unless grpc_config_is_default ''grpc'' grpc_config_serialize (kc_grpc c),
      write_field ''log'' log_serialize (kc_log c),
      write_field ''telemetry'' (telemetry_serialize T) (kc_telemetry_addr c),
      write_field ''shutdown'' (shutdown_serialize T) (kc_shutdown_runtime_timeout c),
      write_field ''aggchain-proof-service'' (service_config_serialize T) (kc_aggchain_proof_service c),
      write_field ''primary-prover'' (prover_type_serialize T) (kc_primary_prover c),
      write_option ''fallback-prover'' (prover_type_serialize T) (kc_fallback_prover c)]"

definition aggkit_config_deserialize :: "config_format \<Rightarrow> environment \<Rightarrow> aggkit_prover_config toml_reader" where
  "aggkit_config_deserialize T env = read_table (\<lambda>es.
     and_then (default_field [''grpc-endpoint''] aggkit_default_socket_addr (read_parsed (cf_socket_parse T)) es) (\<lambda>endpoint.
     and_then (default_field [''grpc''] grpc_config_default grpc_config_deserialize es) (\<lambda>grpc.
     and_then (default_field [''log''] log_default log_deserialize es) (\<lambda>log.
     and_then (default_field [''telemetry''] aggkit_default_metrics_api_addr (aggkit_telemetry_deserialize T) es) (\<lambda>telemetry.
     and_then (default_field [''shutdown''] aggkit_default_runtime_shutdown_timeout (aggkit_shutdown_deserialize T) es)
       (\<lambda>shutdown.
     and_then (computed_field ''aggchain-proof-service'' (service_config_default env) (service_config_deserialize T env) es)
       (\<lambda>service.
     and_then (computed_field ''primary-prover'' (prover_type_default env) (prover_type_deserialize T env) es) (\<lambda>primary.
     and_then (optional_field ''fallback-prover'' (prover_type_deserialize T env) es) (\<lambda>fallback.
     Ok \<lparr>kc_grpc_endpoint = endpoint, kc_grpc = grpc, kc_log = log, kc_telemetry_addr = telemetry,
         kc_shutdown_runtime_timeout = shutdown, kc_aggchain_proof_service = service, kc_primary_prover = primary,
         kc_fallback_prover = fallback\<rparr>)))))))))"

definition agglayer_config_serialize :: "config_format \<Rightarrow> agglayer_prover_config toml_writer" where
  "agglayer_config_serialize T c = write_table
     [write_field ''grpc-endpoint'' (write_display (cf_socket_format T)) (lc_grpc_endpoint c),
      write_field_unless grpc_config_is_default ''grpc'' grpc_config_serialize (lc_grpc c),
      write_field ''log'' log_serialize (lc_log c),
      write_field ''telemetry'' (telemetry_serialize T) (lc_telemetry_addr c),
      write_field ''shutdown'' (shutdown_serialize T) (lc_shutdown_runtime_timeout c),
      write_field ''max-concurrency-limit'' write_u64 (lc_max_concurrency_limit c),
      write_field ''max-request-duration'' (write_human_duration T) (lc_max_request_duration c),
      write_field ''max-buffered-queries'' write_u64 (lc_max_buffered_queries c),
      write_field ''primary-prover'' (prover_type_serialize T) (lc_primary_prover c),
      write_option ''fallback-prover'' (prover_type_serialize T) (lc_fallback_prover c)]"

definition agglayer_config_deserialize :: "config_format \<Rightarrow> environment \<Rightarrow> agglayer_prover_config toml_reader" where
  "agglayer_config_deserialize T env = read_table (\<lambda>es.
     and_then (default_field [''grpc-endpoint''] agglayer_default_socket_addr (read_parsed (cf_socket_parse T)) es) (\<lambda>endpoint.
     and_then (default_field [''grpc''] grpc_config_default grpc_config_deserialize es) (\<lambda>grpc.
     and_then (default_field [''log'', ''Log''] log_default log_deserialize es) (\<lambda>log.
     and_then (default_field [''telemetry'', ''Telemetry''] agglayer_default_metrics_api_addr
       (agglayer_telemetry_deserialize T) es) (\<lambda>telemetry.
     and_then (default_field [''shutdown''] agglayer_default_runtime_shutdown_timeout (agglayer_shutdown_deserialize T) es)
       (\<lambda>shutdown.
     and_then (default_field [''max-concurrency-limit''] default_max_concurrency_limit read_u64 es) (\<lambda>limit.
     and_then (default_field [''max-request-duration''] default_max_request_duration (read_human_duration T) es) (\<lambda>request_duration.
     and_then (default_field [''max-buffered-queries''] default_max_buffered_queries read_u64 es) (\<lambda>buffered.
     and_then (computed_field ''primary-prover'' (prover_type_default env) (prover_type_deserialize T env) es) (\<lambda>primary.
     and_then (optional_field ''fallback-prover'' (prover_type_deserialize T env) es) (\<lambda>fallback.
     Ok \<lparr>lc_grpc_endpoint = endpoint, lc_grpc = grpc, lc_log = log, lc_telemetry_addr = telemetry,
         lc_shutdown_runtime_timeout = shutdown, lc_max_concurrency_limit = limit,
         lc_max_request_duration = request_duration, lc_max_buffered_queries = buffered, lc_primary_prover = primary,
         lc_fallback_prover = fallback\<rparr>)))))))))))"

section \<open>Values that are read back\<close>

definition duration_wf :: "config_format \<Rightarrow> duration \<Rightarrow> bool" where
  "duration_wf T d \<longleftrightarrow> cf_duration_parse T (cf_duration_format T d) = Some d"

definition seconds_wf :: "config_format \<Rightarrow> duration \<Rightarrow> bool" where
  "seconds_wf T d \<longleftrightarrow> from_secs (cf_round_secs T d) = d"

definition socket_wf :: "config_format \<Rightarrow> socket_addr \<Rightarrow> bool" where
  "socket_wf T a \<longleftrightarrow> cf_socket_parse T (cf_socket_format T a) = Some a"

definition url_wf :: "(string \<Rightarrow> url option) \<Rightarrow> url \<Rightarrow> bool" where
  "url_wf parse u \<longleftrightarrow> parse u = Some u"

definition option_wf :: "('a \<Rightarrow> bool) \<Rightarrow> 'a option \<Rightarrow> bool" where
  "option_wf P x \<longleftrightarrow> (\<forall>y. x = Some y \<longrightarrow> P y)"

fun prover_type_wf :: "config_format \<Rightarrow> environment \<Rightarrow> prover_type \<Rightarrow> bool" where
  "prover_type_wf T env (NetworkProver c) \<longleftrightarrow>
     option_wf (duration_wf T) (npc_proving_request_timeout c) \<and> duration_wf T (npc_proving_timeout c) \<and>
     url_wf (url_parse env) (npc_sp1_cluster_endpoint c)"
| "prover_type_wf T env (CpuProver c) \<longleftrightarrow>
     option_wf (duration_wf T) (cpc_proving_request_timeout c) \<and> duration_wf T (cpc_proving_timeout c)"
| "prover_type_wf T env (MockProver c) \<longleftrightarrow>
     option_wf (duration_wf T) (mpc_proving_request_timeout c) \<and> duration_wf T (mpc_proving_timeout c)"

lemma human_duration_reads_back:
  "write_human_duration T d = Ok v \<Longrightarrow> duration_wf T d \<Longrightarrow> read_human_duration T v = Ok d"
  by (auto simp: write_human_duration_def human_duration_new_def write_display_def write_string_def
      read_human_duration_def read_u64_def read_parsed_def read_string_def duration_wf_def)

lemma order_free_human_duration [simp]: "order_free (read_human_duration T)"
proof (rule order_freeI)
  fix v w
  assume perm: "toml_perm v w"
  show "read_human_duration T v = read_human_duration T w"
    unfolding read_human_duration_def order_freeD [OF order_free_scalars(1) perm]
      order_freeD [OF order_free_scalars(5) perm] ..
qed

lemma order_free_duration_seconds [simp]: "order_free read_duration_seconds"
  by (rule order_freeI) (simp add: read_duration_seconds_def order_freeD [OF order_free_scalars(1)])

interpretation duration_toml: toml_codec "write_human_duration T" "read_human_duration T" "duration_wf T" for T
  by unfold_locales (simp_all add: human_duration_reads_back)

interpretation seconds_toml: toml_codec "write_duration_seconds T" read_duration_seconds "seconds_wf T" for T
  by unfold_locales
    (auto simp: write_duration_seconds_def read_duration_seconds_def seconds_wf_def map_ok_eq_Ok dest: u64_reads_back)

interpretation url_toml: toml_codec write_string "read_parsed parse" "url_wf parse" for parse
  by unfold_locales (auto simp: write_string_def read_parsed_def read_string_def url_wf_def)

lemmas read_struct_simps = read_table_def toml_field_def toml_lookup_def required_field_def default_field_def
  computed_field_def optional_field_def option_field_reader_def

lemma cpu_prover_config_reads_back:
  assumes "cpu_prover_config_serialize T c = Ok v" and "prover_type_wf T env (CpuProver c)"
  shows "cpu_prover_config_deserialize T v = Ok c"
  using assms
  by (cases "cpc_proving_request_timeout c")
    (auto simp: cpu_prover_config_serialize_def write_struct_simps cpu_prover_config_deserialize_def
      read_struct_simps option_wf_def dest!: u64_reads_back duration_toml.reads_back)

lemma network_prover_config_reads_back:
  assumes "network_prover_config_serialize T c = Ok v" and "prover_type_wf T env (NetworkProver c)"
  shows "network_prover_config_deserialize T env v = Ok c"
  using assms
  by (cases "npc_proving_request_timeout c")
    (auto simp: network_prover_config_serialize_def write_struct_simps network_prover_config_deserialize_def
      read_struct_simps option_wf_def dest!: url_toml.reads_back duration_toml.reads_back)

lemma mock_prover_config_reads_back:
  assumes "mock_prover_config_serialize T c = Ok v" and "prover_type_wf T env (MockProver c)"
  shows "mock_prover_config_deserialize T v = Ok c"
  using assms
  by (cases "mpc_proving_request_timeout c")
    (auto simp: mock_prover_config_serialize_def write_struct_simps mock_prover_config_deserialize_def
      read_struct_simps option_wf_def dest!: u64_reads_back duration_toml.reads_back)

lemma prover_type_reads_back:
  assumes "prover_type_serialize T p = Ok v" and "prover_type_wf T env p"
  shows "prover_type_deserialize T env v = Ok p"
  using assms
  by (cases p)
    (auto simp: write_newtype_def map_ok_eq_Ok prover_type_deserialize_def read_newtype_def
      network_prover_config_reads_back cpu_prover_config_reads_back mock_prover_config_reads_back
      simp del: prover_type_wf.simps)

lemma order_free_prover_configs [simp]:
  "order_free (cpu_prover_config_deserialize T)" "order_free (network_prover_config_deserialize T env)"
  "order_free (mock_prover_config_deserialize T)"
  unfolding cpu_prover_config_deserialize_def network_prover_config_deserialize_def mock_prover_config_deserialize_def
  by (rule order_free_table, simp add: fields_perm)+
lemma order_free_map_ok: "order_free de \<Longrightarrow> order_free (\<lambda>v. map_ok f (de v))"
  by (simp add: order_free_def)

lemma order_free_prover_type [simp]: "order_free (prover_type_deserialize T env)"
  unfolding prover_type_deserialize_def
  by (rule order_free_newtype) (auto intro: order_free_map_ok)

interpretation prover_type_toml: toml_codec "prover_type_serialize T" "prover_type_deserialize T env" "prover_type_wf T env"
  for T env
  by unfold_locales (simp_all add: prover_type_reads_back)

definition contracts_config_wf :: "config_format \<Rightarrow> environment \<Rightarrow> aggchain_proof_contracts_config \<Rightarrow> bool" where
  "contracts_config_wf T env c \<longleftrightarrow>
     url_wf (url_parse env) (cc_l1_rpc_endpoint c) \<and> url_wf (url_parse env) (cc_l2_execution_layer_rpc_endpoint c) \<and>
     url_wf (url_parse env) (cc_l2_consensus_layer_rpc_endpoint c) \<and>
     (\<forall>a. cf_address_parse T (cf_address_format T a) = Some a)"

definition builder_config_wf :: "config_format \<Rightarrow> environment \<Rightarrow> aggchain_proof_builder_config \<Rightarrow> bool" where
  "builder_config_wf T env c \<longleftrightarrow>
     prover_type_wf T env (bc_primary_prover c) \<and> option_wf (prover_type_wf T env) (bc_fallback_prover c) \<and>
     duration_wf T (bc_proving_timeout c) \<and> contracts_config_wf T env (bc_contracts c)"

definition proposer_client_config_wf :: "config_format \<Rightarrow> environment \<Rightarrow> proposer_client_config \<Rightarrow> bool" where
  "proposer_client_config_wf T env c \<longleftrightarrow>
     url_wf (grpc_uri_parse env) (pcc_proposer_endpoint c) \<and> url_wf (url_parse env) (pcc_sp1_cluster_endpoint c) \<and>
     seconds_wf T (pcc_request_timeout c) \<and> seconds_wf T (pcc_proving_timeout c)"

definition service_config_wf :: "config_format \<Rightarrow> environment \<Rightarrow> aggchain_proof_service_config \<Rightarrow> bool" where
  "service_config_wf T env c \<longleftrightarrow>
     builder_config_wf T env (sc_aggchain_proof_builder c) \<and>
     proposer_client_config_wf T env (psc_client (sc_proposer_service c)) \<and>
     url_wf (url_parse env) (psc_l1_rpc_endpoint (sc_proposer_service c))"

interpretation contracts_config_toml:
  toml_codec "contracts_config_serialize T" "contracts_config_deserialize T env" "contracts_config_wf T env" for T env
proof unfold_locales
  show "contracts_config_deserialize T env v = Ok c" if "contracts_config_serialize T c = Ok v" "contracts_config_wf T env c"
    for c v
    using that
    by (auto simp: contracts_config_serialize_def write_struct_simps contracts_config_deserialize_def
        read_struct_simps contracts_config_wf_def Let_def write_string_def write_display_def read_parsed_def
        read_string_def url_wf_def)
  show "order_free (contracts_config_deserialize T env)"
    unfolding contracts_config_deserialize_def by (rule order_free_table) (simp add: fields_perm Let_def)
qed

interpretation builder_config_toml:
  toml_codec "builder_config_serialize T" "builder_config_deserialize T env" "builder_config_wf T env" for T env
proof unfold_locales
  show "builder_config_deserialize T env v = Ok c" if "builder_config_serialize T c = Ok v" "builder_config_wf T env c"
    for c v
    using that
    by (cases "bc_fallback_prover c")
      (auto simp: builder_config_serialize_def write_struct_simps builder_config_deserialize_def
        read_struct_simps builder_config_wf_def option_wf_def
        dest!: u32_reads_back duration_toml.reads_back prover_type_toml.reads_back contracts_config_toml.reads_back)
  show "order_free (builder_config_deserialize T env)"
    unfolding builder_config_deserialize_def
    by (rule order_free_table) (simp add: fields_perm contracts_config_toml.order_free_de)
qed

interpretation proposer_client_config_toml:
  toml_codec "proposer_client_config_serialize T" "proposer_client_config_deserialize env"
    "proposer_client_config_wf T env" for T env
proof unfold_locales
  show "proposer_client_config_deserialize env v = Ok c"
    if "proposer_client_config_serialize T c = Ok v" "proposer_client_config_wf T env c" for c v
    using that
    by (auto simp: proposer_client_config_serialize_def write_struct_simps proposer_client_config_deserialize_def
        read_struct_simps proposer_client_config_wf_def dest!: url_toml.reads_back seconds_toml.reads_back)
  show "order_free (proposer_client_config_deserialize env)"
    unfolding proposer_client_config_deserialize_def by (rule order_free_table) (simp add: fields_perm)
qed

interpretation service_config_toml:
  toml_codec "service_config_serialize T" "service_config_deserialize T env" "service_config_wf T env" for T env
proof unfold_locales
  have proposer: "proposer_service_config_deserialize env v = Ok p"
    if "proposer_service_config_serialize T p = Ok v" "proposer_client_config_wf T env (psc_client p)"
      "url_wf (url_parse env) (psc_l1_rpc_endpoint p)" for p v
    using that
    by (auto simp: proposer_service_config_serialize_def write_struct_simps proposer_service_config_deserialize_def
        read_struct_simps dest!: url_toml.reads_back bool_toml.reads_back proposer_client_config_toml.reads_back)
  show "service_config_deserialize T env v = Ok c" if "service_config_serialize T c = Ok v" "service_config_wf T env c"
    for c v
    using that
    by (auto simp: service_config_serialize_def write_struct_simps service_config_deserialize_def
        read_struct_simps service_config_wf_def dest!: proposer builder_config_toml.reads_back)
  have "order_free (proposer_service_config_deserialize env)"
    unfolding proposer_service_config_deserialize_def
    by (rule order_free_table) (simp add: fields_perm proposer_client_config_toml.order_free_de)
  then show "order_free (service_config_deserialize T env)"
    unfolding service_config_deserialize_def
    by (intro order_free_table) (simp add: fields_perm builder_config_toml.order_free_de)
qed

interpretation grpc_config_toml: toml_codec grpc_config_serialize grpc_config_deserialize "\<lambda>_. True"
proof unfold_locales
  show "grpc_config_deserialize v = Ok g" if "grpc_config_serialize g = Ok v" for g v
    using that
    by (auto simp: grpc_config_serialize_def write_struct_simps grpc_config_deserialize_def read_struct_simps
        same_as_default_max_decoding_message_size_def same_as_default_max_encoding_message_size_def
        split: if_splits dest!: u64_reads_back)
  show "order_free grpc_config_deserialize"
    unfolding grpc_config_deserialize_def by (rule order_free_table) (simp add: fields_perm)
qed

interpretation client_prover_config_toml:
  toml_codec client_prover_config_serialize client_prover_config_deserialize "\<lambda>_. True"
proof unfold_locales
  show "client_prover_config_deserialize v = Ok c" if "client_prover_config_serialize c = Ok v" for c v
    using that
    by (auto simp: client_prover_config_serialize_def write_struct_simps client_prover_config_deserialize_def
        read_struct_simps dest!: grpc_config_toml.reads_back)
  show "order_free client_prover_config_deserialize"
    unfolding client_prover_config_deserialize_def
    by (rule order_free_table) (simp add: fields_perm grpc_config_toml.order_free_de)
qed

lemma telemetry_reads_back:
  assumes "telemetry_serialize T a = Ok v" and "socket_wf T a"
  shows "aggkit_telemetry_deserialize T v = Ok a" and "agglayer_telemetry_deserialize T v = Ok a"
  using assms
  by (auto simp: telemetry_serialize_def write_struct_simps aggkit_telemetry_deserialize_def
      agglayer_telemetry_deserialize_def read_struct_simps write_display_def write_string_def read_parsed_def
      read_string_def socket_wf_def)

lemma shutdown_reads_back:
  assumes "shutdown_serialize T d = Ok v" and "duration_wf T d"
  shows "aggkit_shutdown_deserialize T v = Ok d" and "agglayer_shutdown_deserialize T v = Ok d"
  using assms
  by (auto simp: shutdown_serialize_def write_struct_simps aggkit_shutdown_deserialize_def
      agglayer_shutdown_deserialize_def read_struct_simps dest!: duration_toml.reads_back)

lemma order_free_single_fields [simp]:
  "order_free (aggkit_telemetry_deserialize T)" "order_free (agglayer_telemetry_deserialize T)"
  "order_free (aggkit_shutdown_deserialize T)" "order_free (agglayer_shutdown_deserialize T)"
  unfolding aggkit_telemetry_deserialize_def agglayer_telemetry_deserialize_def aggkit_shutdown_deserialize_def
    agglayer_shutdown_deserialize_def
  by (rule order_free_table, simp add: fields_perm)+

section \<open>Log outputs are not read back\<close>

text \<open>What an output becomes when it is written and read: the name of the variant is taken for a file, and a file
  is written as a table, which is refused.\<close>

fun log_output_reread :: "log_output \<Rightarrow> (log_output, toml_error) result" where
  "log_output_reread Stdout = Ok (File ''Stdout'')"
| "log_output_reread Stderr = Ok (File ''Stderr'')"
| "log_output_reread (File path) = Err (TomlInvalidType ''string'')"

lemma log_output_written: "log_output_serialize x = Ok v \<Longrightarrow> log_output_read v = log_output_reread x"
  by (cases x) (auto simp: write_string_def write_newtype_def log_output_read_def read_string_def
      log_output_deserialize_def)

lemma log_outputs_written:
  "collect_results log_output_serialize xs = Ok vs \<Longrightarrow>
   collect_results log_output_read vs = collect_results log_output_reread xs"
  by (induction xs arbitrary: vs) (auto simp: and_then_eq_Ok map_ok_eq_Ok log_output_written)

lemma order_free_log [simp]: "order_free log_deserialize"
proof -
  have "order_free log_output_read"
    unfolding log_output_read_def by (rule order_free_map_ok) simp
  then show ?thesis
    unfolding log_deserialize_def log_level_deserialize_def log_format_deserialize_def
    by (intro order_free_table) (simp add: fields_perm order_free_array)
qed

definition log_reread :: "log_config \<Rightarrow> (log_config, toml_error) result" where
  "log_reread l = map_ok (\<lambda>outputs. l\<lparr>log_outputs := outputs\<rparr>) (collect_results log_output_reread (log_outputs l))"

lemma log_written:
  assumes "log_serialize l = Ok v"
  shows "log_deserialize v = log_reread l"
proof -
  have level: "log_level_deserialize v = Ok x" if "log_level_serialize x = Ok v" for x v
    using that by (cases x) (auto simp: log_level_serialize_def log_level_deserialize_def write_string_def
        read_variant_def read_string_def)
  have format: "log_format_deserialize v = Ok x" if "log_format_serialize x = Ok v" for x v
    using that by (cases x) (auto simp: log_format_serialize_def log_format_deserialize_def write_string_def
        read_variant_def read_string_def)
  have outputs: "read_array log_output_read v = collect_results log_output_reread xs"
    if "write_array log_output_serialize xs = Ok v" for xs v
    using that log_outputs_written by (auto simp: write_array_def read_array_def map_ok_eq_Ok)
  show ?thesis
    using assms
    by (cases "collect_results log_output_reread (log_outputs l)")
      (auto simp: log_serialize_def write_struct_simps log_deserialize_def read_struct_simps log_reread_def
        dest!: level format outputs)
qed

section \<open>Whole configurations\<close>

definition aggkit_config_wf :: "config_format \<Rightarrow> environment \<Rightarrow> aggkit_prover_config \<Rightarrow> bool" where
  "aggkit_config_wf T env c \<longleftrightarrow>
     socket_wf T (kc_grpc_endpoint c) \<and> socket_wf T (kc_telemetry_addr c) \<and>
     duration_wf T (kc_shutdown_runtime_timeout c) \<and> service_config_wf T env (kc_aggchain_proof_service c) \<and>
     prover_type_wf T env (kc_primary_prover c) \<and> option_wf (prover_type_wf T env) (kc_fallback_prover c)"

definition agglayer_config_wf :: "config_format \<Rightarrow> environment \<Rightarrow> agglayer_prover_config \<Rightarrow> bool" where
  "agglayer_config_wf T env c \<longleftrightarrow>
     socket_wf T (lc_grpc_endpoint c) \<and> socket_wf T (lc_telemetry_addr c) \<and>
     duration_wf T (lc_shutdown_runtime_timeout c) \<and> duration_wf T (lc_max_request_duration c) \<and>
     prover_type_wf T env (lc_primary_prover c) \<and> option_wf (prover_type_wf T env) (lc_fallback_prover c)"

lemma socket_reads_back:
  "write_display (cf_socket_format T) a = Ok v \<Longrightarrow> socket_wf T a \<Longrightarrow> read_parsed (cf_socket_parse T) v = Ok a"
  by (rule parsed_toml.reads_back) (simp_all add: socket_wf_def)

lemma aggkit_config_written:
  assumes "aggkit_config_serialize T c = Ok v" and "aggkit_config_wf T env c"
  shows "aggkit_config_deserialize T env v = map_ok (\<lambda>l. c\<lparr>kc_log := l\<rparr>) (log_reread (kc_log c))"
  using assms
  by (cases "log_reread (kc_log c)"; cases "kc_fallback_prover c"; cases "grpc_config_is_default (kc_grpc c)")
    (auto simp: aggkit_config_serialize_def write_struct_simps aggkit_config_deserialize_def read_struct_simps
      aggkit_config_wf_def option_wf_def grpc_config_is_default_def
      dest!: socket_reads_back log_written telemetry_reads_back(1) shutdown_reads_back(1) service_config_toml.reads_back
        prover_type_toml.reads_back grpc_config_toml.reads_back)

lemma agglayer_config_written:
  assumes "agglayer_config_serialize T c = Ok v" and "agglayer_config_wf T env c"
  shows "agglayer_config_deserialize T env v = map_ok (\<lambda>l. c\<lparr>lc_log := l\<rparr>) (log_reread (lc_log c))"
  using assms
  by (cases "log_reread (lc_log c)"; cases "lc_fallback_prover c"; cases "grpc_config_is_default (lc_grpc c)")
    (auto simp: agglayer_config_serialize_def write_struct_simps agglayer_config_deserialize_def read_struct_simps
      agglayer_config_wf_def option_wf_def grpc_config_is_default_def
      dest!: socket_reads_back log_written telemetry_reads_back(2) shutdown_reads_back(2) u64_reads_back
        duration_toml.reads_back prover_type_toml.reads_back grpc_config_toml.reads_back)

lemma order_free_configs [simp]:
  "order_free (aggkit_config_deserialize T env)" "order_free (agglayer_config_deserialize T env)"
  unfolding aggkit_config_deserialize_def agglayer_config_deserialize_def
  by (rule order_free_table,
      simp add: fields_perm service_config_toml.order_free_de grpc_config_toml.order_free_de)+

text \<open>A log without outputs is read back; any other is not.\<close>

lemma log_reread_same: "log_reread l = Ok l \<longleftrightarrow> log_outputs l = []"
proof
  assume "log_reread l = Ok l"
  then have same: "collect_results log_output_reread (log_outputs l) = Ok (log_outputs l)"
    by (cases l) (auto simp: log_reread_def map_ok_eq_Ok)
  have "log_output_reread x \<noteq> Ok x" for x by (cases x) auto
  with same show "log_outputs l = []"
    by (cases "log_outputs l") (auto simp: and_then_eq_Ok map_ok_eq_Ok)
qed (cases l, simp add: log_reread_def)

section \<open>Configurations that were loaded\<close>

lemma from_secs_bound: "from_secs s \<le> DURATION_MAX"
  using unat_bound [of s] by (simp add: from_secs_def DURATION_MAX_def)

lemma format_facts:
  assumes "config_format_ok T env"
  shows from_secs_wf: "duration_wf T (from_secs s)" "seconds_wf T (from_secs s)"
    and human_duration_wf: "read_human_duration T v = Ok d \<Longrightarrow> duration_wf T d"
    and duration_seconds_wf: "read_duration_seconds v = Ok d \<Longrightarrow> seconds_wf T d"
    and url_read_wf: "read_parsed (url_parse env) v = Ok u \<Longrightarrow> url_wf (url_parse env) u"
    and grpc_uri_read_wf: "read_parsed (grpc_uri_parse env) v = Ok u \<Longrightarrow> url_wf (grpc_uri_parse env) u"
    and socket_read_wf: "read_parsed (cf_socket_parse T) v = Ok a \<Longrightarrow> socket_wf T a"
    and v4_wf: "length (sa_ip a) = 4 \<Longrightarrow> socket_wf T a"
    and address_wf: "cf_address_parse T (cf_address_format T x) = Some x"
proof -
  note ok = assms [unfolded config_format_ok_def]
  show secs: "duration_wf T (from_secs s)" "seconds_wf T (from_secs s)" for s
    using ok from_secs_bound [of s] by (simp_all add: duration_wf_def seconds_wf_def)
  show "duration_wf T d" if "read_human_duration T v = Ok d"
    using that ok secs
    by (auto simp: read_human_duration_def read_parsed_def and_then_eq_Ok ok_or_eq_Ok duration_wf_def split: result.splits)
  show "seconds_wf T d" if "read_duration_seconds v = Ok d"
    using that secs by (auto simp: read_duration_seconds_def map_ok_eq_Ok)
  show "url_wf (url_parse env) u" if "read_parsed (url_parse env) v = Ok u"
    using that ok by (auto simp: read_parsed_def and_then_eq_Ok ok_or_eq_Ok url_wf_def)
  show "url_wf (grpc_uri_parse env) u" if "read_parsed (grpc_uri_parse env) v = Ok u"
    using that ok by (auto simp: read_parsed_def and_then_eq_Ok ok_or_eq_Ok url_wf_def)
  show "socket_wf T a" if "read_parsed (cf_socket_parse T) v = Ok a"
    using that ok by (auto simp: read_parsed_def and_then_eq_Ok ok_or_eq_Ok socket_wf_def)
  show "socket_wf T a" if "length (sa_ip a) = 4"
    using that ok by (simp add: socket_wf_def)
  show "cf_address_parse T (cf_address_format T x) = Some x"
    using ok by simp
qed

lemma parse_literal_wf:
  "config_format_ok T env \<Longrightarrow> parse_literal (url_parse env) s = Ok u \<Longrightarrow> url_wf (url_parse env) u"
  by (auto simp: parse_literal_def unwrap_eq_Ok ok_or_eq_Ok config_format_ok_def url_wf_def)

lemma default_endpoints_wf:
  assumes "config_format_ok T env"
  shows "default_sp1_cluster_endpoint env = Ok u \<Longrightarrow> url_wf (url_parse env) u"
    and "default_proposer_service_endpoint env = Ok u \<Longrightarrow> url_wf (grpc_uri_parse env) u"
    and "l1_rpc_endpoint_default env = Ok u \<Longrightarrow> url_wf (url_parse env) u"
    and "default_l2_execution_layer_url env = Ok u \<Longrightarrow> url_wf (url_parse env) u"
    and "default_l2_consensus_layer_url env = Ok u \<Longrightarrow> url_wf (url_parse env) u"
  using assms
  by (auto simp: default_sp1_cluster_endpoint_def default_proposer_service_endpoint_def l1_rpc_endpoint_default_def
      default_l2_execution_layer_url_def default_l2_consensus_layer_url_def parse_literal_def unwrap_eq_Ok ok_or_eq_Ok
      and_then_eq_Ok from_env_or_default_def config_format_ok_def url_wf_def bind_eq_Some_conv split: option.splits)

lemma network_default_wf:
  assumes "config_format_ok T env" and "network_prover_config_default env = Ok c"
  shows "prover_type_wf T env (NetworkProver c)"
  using assms default_endpoints_wf(1) [OF assms(1)] from_secs_wf(1) [OF assms(1)]
  by (auto simp: network_prover_config_default_def and_then_eq_Ok default_network_proving_timeout_def option_wf_def)

lemma contracts_default_wf:
  assumes "config_format_ok T env" and "contracts_config_default env = Ok c"
  shows "contracts_config_wf T env c"
  using assms(2) default_endpoints_wf [OF assms(1)] address_wf [OF assms(1)]
  by (auto simp: contracts_config_default_def and_then_eq_Ok contracts_config_wf_def)

lemma service_default_wf:
  assumes "config_format_ok T env" and "service_config_default env = Ok c"
  shows "service_config_wf T env c"
  using assms(2) network_default_wf [OF assms(1)] contracts_default_wf [OF assms(1)] default_endpoints_wf [OF assms(1)]
    from_secs_wf [OF assms(1)]
  by (auto simp: service_config_default_def builder_config_default_def proposer_service_config_default_def
      proposer_client_config_default_def and_then_eq_Ok service_config_wf_def builder_config_wf_def
      proposer_client_config_wf_def default_aggchain_prover_timeout_def default_request_timeout_def
      default_proving_timeout_def option_wf_def simp del: prover_type_wf.simps)

lemma v4_defaults [simp]:
  "length (sa_ip aggkit_default_socket_addr) = 4" "length (sa_ip aggkit_default_metrics_api_addr) = 4"
  "length (sa_ip agglayer_default_socket_addr) = 4" "length (sa_ip agglayer_default_metrics_api_addr) = 4"
  by (simp_all add: aggkit_default_socket_addr_def aggkit_default_metrics_api_addr_def
      agglayer_default_socket_addr_def agglayer_default_metrics_api_addr_def DEFAULT_IP_def)

lemma aggkit_default_wf:
  assumes "config_format_ok T env" and "aggkit_prover_config_default env = Ok c"
  shows "aggkit_config_wf T env c"
  using assms(2) network_default_wf [OF assms(1)] service_default_wf [OF assms(1)] from_secs_wf(1) [OF assms(1)]
    v4_wf [OF assms(1)]
  by (auto simp: aggkit_prover_config_default_def and_then_eq_Ok aggkit_config_wf_def option_wf_def
      aggkit_default_runtime_shutdown_timeout_def simp del: prover_type_wf.simps)

lemma prover_configs_read_wf:
  assumes "config_format_ok T env"
  shows "cpu_prover_config_deserialize T v = Ok c \<Longrightarrow> prover_type_wf T env (CpuProver c)"
    and "network_prover_config_deserialize T env v = Ok n \<Longrightarrow> prover_type_wf T env (NetworkProver n)"
    and "mock_prover_config_deserialize T v = Ok m \<Longrightarrow> prover_type_wf T env (MockProver m)"
proof -
  note hd = human_duration_wf [OF assms] and fs = from_secs_wf(1) [OF assms]
  show "cpu_prover_config_deserialize T v = Ok c \<Longrightarrow> prover_type_wf T env (CpuProver c)"
    by (auto simp: cpu_prover_config_deserialize_def read_table_eq_Ok and_then_eq_Ok option_wf_def
        default_local_proving_timeout_def fs
        dest: optional_field_inv [OF _ hd] default_field_inv [where Q = "duration_wf T", OF _ hd])
  show "mock_prover_config_deserialize T v = Ok m \<Longrightarrow> prover_type_wf T env (MockProver m)"
    by (auto simp: mock_prover_config_deserialize_def read_table_eq_Ok and_then_eq_Ok option_wf_def
        default_local_proving_timeout_def fs
        dest: optional_field_inv [OF _ hd] default_field_inv [where Q = "duration_wf T", OF _ hd])
  show "network_prover_config_deserialize T env v = Ok n \<Longrightarrow> prover_type_wf T env (NetworkProver n)"
    by (auto simp: network_prover_config_deserialize_def read_table_eq_Ok and_then_eq_Ok option_wf_def
        default_network_proving_timeout_def fs
        dest: optional_field_inv [OF _ hd] default_field_inv [where Q = "duration_wf T", OF _ hd]
          computed_field_inv [OF _ url_read_wf [OF assms] default_endpoints_wf(1) [OF assms]])
qed

lemma prover_type_read_wf:
  assumes "config_format_ok T env" and "prover_type_deserialize T env v = Ok p"
  shows "prover_type_wf T env p"
  using assms(2) prover_configs_read_wf [OF assms(1)]
  by (auto simp: prover_type_deserialize_def read_newtype_def map_ok_eq_Ok simp del: prover_type_wf.simps
      split: toml_value.splits list.splits option.splits if_splits)

lemma contracts_read_wf:
  assumes "config_format_ok T env" and "contracts_config_deserialize T env v = Ok c"
  shows "contracts_config_wf T env c"
  using assms(2)
  by (auto simp: contracts_config_deserialize_def read_table_eq_Ok and_then_eq_Ok Let_def contracts_config_wf_def
      address_wf [OF assms(1)]
      dest: computed_field_inv [OF _ url_read_wf [OF assms(1)] default_endpoints_wf(3) [OF assms(1)]]
        computed_field_inv [OF _ url_read_wf [OF assms(1)] default_endpoints_wf(4) [OF assms(1)]]
        computed_field_inv [OF _ url_read_wf [OF assms(1)] default_endpoints_wf(5) [OF assms(1)]])

lemma builder_read_wf:
  assumes "config_format_ok T env" and "builder_config_deserialize T env v = Ok c"
  shows "builder_config_wf T env c"
  using assms(2)
  by (auto simp: builder_config_deserialize_def read_table_eq_Ok and_then_eq_Ok builder_config_wf_def option_wf_def
      default_aggchain_prover_timeout_def from_secs_wf(1) [OF assms(1)] simp del: prover_type_wf.simps
      dest: required_field_inv [OF _ prover_type_read_wf [OF assms(1)]]
        optional_field_inv [OF _ prover_type_read_wf [OF assms(1)]]
        default_field_inv [where Q = "duration_wf T", OF _ human_duration_wf [OF assms(1)]]
        computed_field_inv [OF _ contracts_read_wf [OF assms(1)] contracts_default_wf [OF assms(1)]])

lemma proposer_client_read_wf:
  assumes "config_format_ok T env" and "proposer_client_config_deserialize env v = Ok c"
  shows "proposer_client_config_wf T env c"
  using assms(2)
  by (auto simp: proposer_client_config_deserialize_def read_table_eq_Ok and_then_eq_Ok proposer_client_config_wf_def
      default_request_timeout_def default_proving_timeout_def from_secs_wf(2) [OF assms(1)]
      dest: computed_field_inv [OF _ grpc_uri_read_wf [OF assms(1)] default_endpoints_wf(2) [OF assms(1)]]
        computed_field_inv [OF _ url_read_wf [OF assms(1)] default_endpoints_wf(1) [OF assms(1)]]
        default_field_inv [where Q = "seconds_wf T", OF _ duration_seconds_wf [OF assms(1)]])

lemma service_read_wf:
  assumes "config_format_ok T env" and "service_config_deserialize T env v = Ok c"
  shows "service_config_wf T env c"
proof -
  have "proposer_client_config_wf T env (psc_client p) \<and> url_wf (url_parse env) (psc_l1_rpc_endpoint p)"
    if "proposer_service_config_deserialize env v = Ok p" for p v
    using that
    by (auto simp: proposer_service_config_deserialize_def read_table_eq_Ok and_then_eq_Ok
        dest: required_field_inv [OF _ proposer_client_read_wf [OF assms(1)]]
          required_field_inv [OF _ url_read_wf [OF assms(1)]])
  note proposer = required_field_inv [OF _ this]
  show ?thesis
    using assms(2)
    by (auto simp: service_config_deserialize_def read_table_eq_Ok and_then_eq_Ok service_config_wf_def
        dest: required_field_inv [OF _ builder_read_wf [OF assms(1)]] proposer)
qed

lemma single_field_read_wf:
  assumes "config_format_ok T env"
  shows "aggkit_telemetry_deserialize T v = Ok a \<Longrightarrow> socket_wf T a"
    and "aggkit_shutdown_deserialize T v = Ok d \<Longrightarrow> duration_wf T d"
proof -
  show "aggkit_telemetry_deserialize T v = Ok a \<Longrightarrow> socket_wf T a"
    using v4_wf [OF assms, of aggkit_default_metrics_api_addr]
    by (auto simp: aggkit_telemetry_deserialize_def read_table_eq_Ok
        dest: default_field_inv [where Q = "socket_wf T", OF _ socket_read_wf [OF assms]])
  show "aggkit_shutdown_deserialize T v = Ok d \<Longrightarrow> duration_wf T d"
    using from_secs_wf(1) [OF assms, of 30]
    by (auto simp: aggkit_shutdown_deserialize_def read_table_eq_Ok aggkit_default_runtime_shutdown_timeout_def
        dest: default_field_inv [where Q = "duration_wf T", OF _ human_duration_wf [OF assms]])
qed

lemma prover_type_default_wf:
  "config_format_ok T env \<Longrightarrow> prover_type_default env = Ok p \<Longrightarrow> prover_type_wf T env p"
  using network_default_wf by (auto simp: prover_type_default_def map_ok_eq_Ok simp del: prover_type_wf.simps)

text \<open>Every configuration that was loaded can be written so that it is read back.\<close>

lemma aggkit_read_wf:
  assumes "config_format_ok T env" and "aggkit_config_deserialize T env v = Ok c"
  shows "aggkit_config_wf T env c"
  using assms(2) v4_wf [OF assms(1)] from_secs_wf(1) [OF assms(1)]
  by (auto simp: aggkit_config_deserialize_def read_table_eq_Ok and_then_eq_Ok aggkit_config_wf_def option_wf_def
      aggkit_default_runtime_shutdown_timeout_def simp del: prover_type_wf.simps
      dest: default_field_inv [where Q = "socket_wf T", OF _ socket_read_wf [OF assms(1)]]
        default_field_inv [where Q = "socket_wf T", OF _ single_field_read_wf(1) [OF assms(1)]]
        default_field_inv [where Q = "duration_wf T", OF _ single_field_read_wf(2) [OF assms(1)]]
        computed_field_inv [OF _ service_read_wf [OF assms(1)] service_default_wf [OF assms(1)]]
        computed_field_inv [OF _ prover_type_read_wf [OF assms(1)] prover_type_default_wf [OF assms(1)]]
        optional_field_inv [OF _ prover_type_read_wf [OF assms(1)]])

text \<open>The default configuration can be written: its numbers are TOML integers.\<close>

lemma aggkit_default_written:
  assumes "config_format_ok T env" and "aggkit_prover_config_default env = Ok c"
  shows "\<exists>v. aggkit_config_serialize T c = Ok v"
proof -
  have secs: "write_duration_seconds T (from_secs s) = Ok (TomlInteger (uint s))" if "unat s < 2 ^ 63" for s
    using assms(1) that by (simp add: write_duration_seconds_def write_u64_def config_format_ok_def)
  note written = write_table_def write_field_def write_option_def write_field_unless_def write_human_duration_def
    human_duration_new_def write_display_def write_string_def write_u32_def write_bool_def write_newtype_def write_array_def
  show ?thesis
    using assms(2) secs [of 600] secs [of 3600]
    by (auto simp: written aggkit_prover_config_default_def service_config_default_def builder_config_default_def
        network_prover_config_default_def proposer_service_config_default_def proposer_client_config_default_def
        log_default_def and_then_eq_Ok aggkit_config_serialize_def service_config_serialize_def builder_config_serialize_def
        network_prover_config_serialize_def contracts_config_serialize_def proposer_service_config_serialize_def
        proposer_client_config_serialize_def log_serialize_def telemetry_serialize_def shutdown_serialize_def
        log_level_serialize_def log_format_serialize_def grpc_config_is_default_def default_request_timeout_def
        default_proving_timeout_def)
qed

end
