(* ===== verification/Config_Files.thy ===== *)
theory Config_Files
  imports Entry_Points Config_Toml Json_Message
begin

text \<open>
  Configuration files: the commands of the aggkit prover with the TOML form of \<open>Config_Toml\<close>, and what a file
  is read as that a command printed.

  The text of a TOML document is the record \<open>toml_text\<close>, a printer and a parser of values.
\<close>

section \<open>Printing and loading\<close>

record toml_text =
  tt_print :: "toml_value \<Rightarrow> (string, report) result"
  tt_parse :: "string \<Rightarrow> (toml_value, report) result"

text \<open>What was printed is parsed to the same value, up to the order of the entries of tables.\<close>

definition toml_text_ok :: "toml_text \<Rightarrow> bool" where
  "toml_text_ok X \<longleftrightarrow> (\<forall>v t. tt_print X v = Ok t \<longrightarrow> (\<exists>w. tt_parse X t = Ok w \<and> toml_perm v w))"

text \<open>\<open>toml::to_string_pretty\<close> and \<open>ProverConfig::try_load\<close> on the text of a file.\<close>

definition to_string_pretty ::
  "(toml_error \<Rightarrow> report) \<Rightarrow> toml_text \<Rightarrow> config_format \<Rightarrow> aggkit_prover_config \<Rightarrow> (string, report) result" where
  "to_string_pretty display X T config = and_then (map_err display (aggkit_config_serialize T config)) (tt_print X)"

definition toml_deserialize ::
  "(toml_error \<Rightarrow> report) \<Rightarrow> toml_text \<Rightarrow> config_format \<Rightarrow> environment \<Rightarrow> string \<Rightarrow>
   (aggkit_prover_config, report) result" where
  "toml_deserialize display X T env reader =
     and_then (tt_parse X reader) (\<lambda>v. map_err display (aggkit_config_deserialize T env v))"

definition load_file ::
  "(toml_error \<Rightarrow> report) \<Rightarrow> toml_text \<Rightarrow> config_format \<Rightarrow> environment \<Rightarrow> (string \<Rightarrow> (string, report) result) \<Rightarrow>
   string \<Rightarrow> (aggkit_prover_config, configuration_error) result" where
  "load_file display X T env read_to_string = aggkit_try_load read_to_string (toml_deserialize display X T env)"

section \<open>Lemmas\<close>

lemma toml_printed:
  assumes "toml_text_ok X" and "to_string_pretty display X T c = Ok t" and "aggkit_config_wf T env c"
  shows "toml_deserialize display X T env t = map_err display (map_ok (\<lambda>l. c\<lparr>kc_log := l\<rparr>) (log_reread (kc_log c)))"
proof -
  obtain v where v: "aggkit_config_serialize T c = Ok v" and "tt_print X v = Ok t"
    using assms(2) by (auto simp: to_string_pretty_def and_then_eq_Ok map_err_eq_Ok)
  then obtain w where "tt_parse X t = Ok w" and "toml_perm v w"
    using assms(1) unfolding toml_text_ok_def by blast
  with aggkit_config_written [OF v assms(3)] order_freeD [OF order_free_configs(1)] show ?thesis
    by (simp add: toml_deserialize_def)
qed

lemma load_file_Ok:
  "load_file display X T env rd path = Ok c \<longleftrightarrow>
     (\<exists>s v. rd path = Ok s \<and> tt_parse X s = Ok v \<and> aggkit_config_deserialize T env v = Ok c)"
  by (auto simp: load_file_def aggkit_try_load_def toml_deserialize_def and_then_eq_Ok map_err_eq_Ok)

lemma load_file_text:
  "rd path = Ok t \<Longrightarrow>
   load_file display X T env rd path = map_err DeserializationError (toml_deserialize display X T env t)"
  by (simp add: load_file_def aggkit_try_load_def)

lemma println_ok_line: "out_stdout (println_ok r) = [t] \<longleftrightarrow> r = Ok t"
  by (cases r) (auto simp: println_ok_def)

lemma config_text_eq_Ok: "config_text print c = Ok t \<longleftrightarrow> print c = Ok t"
  by (simp add: config_text_def map_err_eq_Ok)

lemma log_only_differs: "map_ok (\<lambda>l. c\<lparr>kc_log := l\<rparr>) r = Ok c \<longleftrightarrow> r = Ok (kc_log c)" for c :: aggkit_prover_config
  by (cases c) (auto simp: map_ok_eq_Ok)

section \<open>Absent fields\<close>

text \<open>The names that a field of some struct is read under.\<close>

definition config_names :: "string list" where
  "config_names =
     [''max-concurrency-limit'', ''proving-request-timeout'', ''proving-timeout'', ''sp1-cluster-endpoint'',
      ''level'', ''outputs'', ''format'', ''l1-rpc-endpoint'', ''l2-execution-layer-rpc-endpoint'',
      ''l2-consensus-layer-rpc-endpoint'', ''polygon-rollup-manager'', ''global-exit-root-manager-v2-sovereign-chain'',
      ''static-call-caller-address'', ''evm-sketch-genesis'', ''network-id'', ''primary-prover'', ''fallback-prover'',
      ''contracts'', ''proposer-endpoint'', ''request-timeout'', ''mock'', ''client'', ''aggchain-proof-builder'',
      ''proposer-service'', ''max-decoding-message-size'', ''max-encoding-message-size'', ''prometheus-addr'',
      ''PrometheusAddr'', ''runtime-timeout'', ''grpc-endpoint'', ''grpc'', ''log'', ''Log'', ''telemetry'', ''Telemetry'',
      ''shutdown'', ''aggchain-proof-service'', ''max-request-duration'', ''max-buffered-queries'']"

definition no_known_names :: "toml_entry list \<Rightarrow> bool" where
  "no_known_names es \<longleftrightarrow> (\<forall>e\<in>set es. fst e \<notin> set config_names)"

lemma toml_field_absent:
  assumes "no_known_names es" and "set names \<subseteq> set config_names"
  shows "toml_field names absent de es = absent"
proof -
  have "filter (\<lambda>e. fst e \<in> set names) es = []"
    using assms unfolding no_known_names_def by (auto simp: filter_empty_conv)
  then show ?thesis by (simp add: toml_field_def toml_lookup_def)
qed

lemma default_field_absent:
  "no_known_names es \<Longrightarrow> set names \<subseteq> set config_names \<Longrightarrow> default_field names d de es = Ok d"
  by (simp add: default_field_def toml_field_absent)

lemma named_field_absent:
  assumes "no_known_names es" and "name \<in> set config_names"
  shows "required_field name de es = Err (TomlMissingField name)"
    and "computed_field name c de es = map_err TomlDefault c" and "optional_field name de es = Ok None"
  using toml_field_absent [OF assms(1), of "[name]"] default_field_absent [OF assms(1), of "[name]"] assms(2)
  by (simp_all add: required_field_def computed_field_def optional_field_def)

lemmas fields_absent = default_field_absent named_field_absent

section \<open>Concrete text forms\<close>

definition sample_config_format :: config_format where
  "sample_config_format =
     \<lparr>cf_duration_format = nat_to_string,
      cf_duration_parse = (\<lambda>s. if parse_digits s \<le> DURATION_MAX then Some (parse_digits s) else None),
      cf_round_secs = (\<lambda>d. word_of_nat (d div 1000000000)),
      cf_socket_format = (\<lambda>a. map (\<lambda>b. char_of (unat b))
        (sa_ip a @ [word_of_nat (unat (sa_port a) div 256), word_of_nat (unat (sa_port a) mod 256)])),
      cf_socket_parse = (\<lambda>s. if length s = 6 then Some
        \<lparr>sa_ip = map (\<lambda>c. word_of_nat (of_char c)) (take 4 s),
         sa_port = word_of_nat (256 * of_char (s ! 4) + of_char (s ! 5))\<rparr> else None),
      cf_address_format = (\<lambda>a. nat_to_string (unat a)),
      cf_address_parse = (\<lambda>s. Some (word_of_nat (parse_digits s)))\<rparr>"

definition sample_config_env :: environment where
  "sample_config_env = \<lparr>env_var = (\<lambda>_. None), url_parse = Some, grpc_uri_parse = Some\<rparr>"

lemma sample_config_format_ok: "config_format_ok sample_config_format sample_config_env"
proof -
  have byte: "word_of_nat (unat b mod 256) = b" for b :: byte
    using unat_bound [of b] by simp
  have port: "word_of_nat (256 * (unat p div 256) + unat p mod 256) = p" for p :: u16
    by simp
  have small: "unat p div 256 < 256" for p :: u16
    using unat_bound [of p] by simp
  have "cf_socket_parse sample_config_format (cf_socket_format sample_config_format a) = Some a"
    if "length (sa_ip a) = 4" for a
    using that small [of "sa_port a"] port [of "sa_port a"]
    by (cases a) (simp add: sample_config_format_def nth_append comp_def byte unat_of_nat)
  moreover have "length (sa_ip a) = 4" if "cf_socket_parse sample_config_format s = Some a" for s a
    using that by (auto simp: sample_config_format_def split: if_splits)
  ultimately show ?thesis
    unfolding config_format_ok_def
    by (auto simp: sample_config_format_def sample_config_env_def parse_digits_nat_to_string from_secs_def
        split: if_splits)
qed

text \<open>A document that sends the log to \<open>stdout\<close>, and the text that is printed for the configuration it gives.\<close>

definition sample_document :: toml_value where
  "sample_document = TomlTable [(''log'', TomlTable [(''outputs'', TomlArray [TomlString ''stdout''])])]"

definition sample_config :: aggkit_prover_config where
  "sample_config = (case aggkit_prover_config_default sample_config_env of Ok c \<Rightarrow> c)"

definition sample_stdout_config :: aggkit_prover_config where
  "sample_stdout_config = sample_config\<lparr>kc_log := log_default\<lparr>log_outputs := [Stdout]\<rparr>\<rparr>"

definition sample_value :: "aggkit_prover_config \<Rightarrow> toml_value" where
  "sample_value c = (case aggkit_config_serialize sample_config_format c of Ok v \<Rightarrow> v | _ \<Rightarrow> TomlOther)"

definition sample_toml_text :: toml_text where
  "sample_toml_text =
     \<lparr>tt_print = (\<lambda>v. if v = sample_value sample_config then Ok ''default''
        else if v = sample_value sample_stdout_config then Ok ''printed'' else Err ''unsupported''),
      tt_parse = (\<lambda>s. if s = ''default'' then Ok (sample_value sample_config)
        else if s = ''printed'' then Ok (sample_value sample_stdout_config)
        else if s = ''document'' then Ok sample_document else Err ''not TOML'')\<rparr>"

lemma sample_config_default: "aggkit_prover_config_default sample_config_env = Ok sample_config"
  by (simp add: sample_config_def sample_config_env_def aggkit_prover_config_default_def service_config_default_def
      builder_config_default_def network_prover_config_default_def contracts_config_default_def
      proposer_service_config_default_def proposer_client_config_default_def default_sp1_cluster_endpoint_def
      default_proposer_service_endpoint_def l1_rpc_endpoint_default_def default_l2_execution_layer_url_def
      default_l2_consensus_layer_url_def parse_literal_def from_env_or_default_def)

lemma sample_toml_text_ok: "toml_text_ok sample_toml_text"
  by (auto simp: toml_text_ok_def sample_toml_text_def intro: perm_refl)

lemma sample_config_fields:
  obtains service network where "service_config_default sample_config_env = Ok service"
    and "network_prover_config_default sample_config_env = Ok network"
    and "sample_config = \<lparr>kc_grpc_endpoint = aggkit_default_socket_addr, kc_grpc = grpc_config_default,
       kc_log = log_default, kc_telemetry_addr = aggkit_default_metrics_api_addr,
       kc_shutdown_runtime_timeout = aggkit_default_runtime_shutdown_timeout, kc_aggchain_proof_service = service,
       kc_primary_prover = NetworkProver network, kc_fallback_prover = None\<rparr>"
  using sample_config_default unfolding aggkit_prover_config_default_def and_then_eq_Ok result.inject by metis

lemma sample_document_loads:
  "aggkit_config_deserialize sample_config_format sample_config_env sample_document = Ok sample_stdout_config"
proof (rule sample_config_fields)
  fix service network
  assume facts: "service_config_default sample_config_env = Ok service"
    "network_prover_config_default sample_config_env = Ok network"
    "sample_config = \<lparr>kc_grpc_endpoint = aggkit_default_socket_addr, kc_grpc = grpc_config_default,
       kc_log = log_default, kc_telemetry_addr = aggkit_default_metrics_api_addr,
       kc_shutdown_runtime_timeout = aggkit_default_runtime_shutdown_timeout, kc_aggchain_proof_service = service,
       kc_primary_prover = NetworkProver network, kc_fallback_prover = None\<rparr>"
  show ?thesis
    by (simp add: facts sample_stdout_config_def sample_document_def aggkit_config_deserialize_def read_struct_simps
      prover_type_default_def log_deserialize_def read_array_def log_output_read_def read_string_def
      log_output_deserialize_def log_default_def default_log_level_def default_log_format_def)
qed

lemma sample_config_log: "kc_log sample_config = log_default"
  by (rule sample_config_fields) (erule ssubst, simp)

lemma sample_values:
  "aggkit_config_serialize sample_config_format sample_config = Ok (sample_value sample_config)"
  "aggkit_config_serialize sample_config_format sample_stdout_config = Ok (sample_value sample_stdout_config)"
proof -
  obtain v where v: "aggkit_config_serialize sample_config_format sample_config = Ok v"
    using aggkit_default_written [OF sample_config_format_ok sample_config_default] by blast
  then show "aggkit_config_serialize sample_config_format sample_config = Ok (sample_value sample_config)"
    by (simp add: sample_value_def)
  have "\<exists>w. log_serialize (log_default\<lparr>log_outputs := [Stdout]\<rparr>) = Ok w"
    by (simp add: log_serialize_def log_default_def write_table_def write_field_def write_array_def write_string_def
        log_level_serialize_def log_format_serialize_def)
  with v have "\<exists>w. aggkit_config_serialize sample_config_format sample_stdout_config = Ok w"
    by (auto simp: sample_stdout_config_def aggkit_config_serialize_def write_table_def write_field_def and_then_eq_Ok
        map_ok_eq_Ok)
  then show "aggkit_config_serialize sample_config_format sample_stdout_config = Ok (sample_value sample_stdout_config)"
    by (auto simp: sample_value_def)
qed

lemma sample_values_differ: "sample_value sample_stdout_config \<noteq> sample_value sample_config"
proof
  assume same: "sample_value sample_stdout_config = sample_value sample_config"
  from same aggkit_config_written [OF sample_values(2) aggkit_read_wf [OF sample_config_format_ok sample_document_loads]]
    aggkit_config_written [OF sample_values(1) aggkit_default_wf [OF sample_config_format_ok sample_config_default]]
  show False
    by (auto simp: sample_stdout_config_def log_reread_def sample_config_log log_default_def
        dest: arg_cong [where f = kc_log])
qed

lemma sample_printed: "tt_print sample_toml_text (sample_value sample_stdout_config) = Ok ''printed''"
  using sample_values_differ by (simp add: sample_toml_text_def)

section \<open>Properties\<close>

text \<open>C36: What an absent field means. A table in which no field of a struct is set reads as the default of the
  struct, for each of the structs whose fields all have defaults: the defaults of the attributes agree with
  the implementations of \<open>Default\<close>, under the same environment, and names that are not known are ignored. In
  particular an empty file is the default configuration of either prover. The sections of the proof service,
  of its builder and of the proposer service have fields without a default and are refused, with the first
  of them, when it is absent.\<close>

theorem absent_fields_default:
  assumes "no_known_names es"
  shows "aggkit_config_deserialize T env (TomlTable es) = map_err TomlDefault (aggkit_prover_config_default env) \<and>
     agglayer_config_deserialize T env (TomlTable es) = map_err TomlDefault (agglayer_prover_config_default env) \<and>
     network_prover_config_deserialize T env (TomlTable es) = map_err TomlDefault (network_prover_config_default env) \<and>
     cpu_prover_config_deserialize T (TomlTable es) = Ok cpu_prover_config_default \<and>
     mock_prover_config_deserialize T (TomlTable es) = Ok mock_prover_config_default \<and>
     contracts_config_deserialize T env (TomlTable es) = map_err TomlDefault (contracts_config_default env) \<and>
     proposer_client_config_deserialize env (TomlTable es) = map_err TomlDefault (proposer_client_config_default env) \<and>
     log_deserialize (TomlTable es) = Ok log_default \<and>
     grpc_config_deserialize (TomlTable es) = Ok grpc_config_default \<and>
     client_prover_config_deserialize (TomlTable es) = Ok client_prover_config_default \<and>
     service_config_deserialize T env (TomlTable es) = Err (TomlMissingField ''aggchain-proof-builder'') \<and>
     builder_config_deserialize T env (TomlTable es) = Err (TomlMissingField ''network-id'') \<and>
     proposer_service_config_deserialize env (TomlTable es) = Err (TomlMissingField ''client'')"
proof (intro conjI)
  note absent = fields_absent [OF assms] read_table_def toml_value.case config_names_def
  show "cpu_prover_config_deserialize T (TomlTable es) = Ok cpu_prover_config_default"
    by (simp add: cpu_prover_config_deserialize_def absent cpu_prover_config_default_def)
  show "mock_prover_config_deserialize T (TomlTable es) = Ok mock_prover_config_default"
    by (simp add: mock_prover_config_deserialize_def absent mock_prover_config_default_def)
  show "network_prover_config_deserialize T env (TomlTable es) = map_err TomlDefault (network_prover_config_default env)"
    by (cases "default_sp1_cluster_endpoint env")
      (simp_all add: network_prover_config_deserialize_def absent network_prover_config_default_def)
  show "contracts_config_deserialize T env (TomlTable es) = map_err TomlDefault (contracts_config_default env)"
    by (cases "l1_rpc_endpoint_default env"; cases "default_l2_execution_layer_url env";
        cases "default_l2_consensus_layer_url env")
      (simp_all add: contracts_config_deserialize_def absent contracts_config_default_def Let_def)
  show "proposer_client_config_deserialize env (TomlTable es) = map_err TomlDefault (proposer_client_config_default env)"
    by (cases "default_proposer_service_endpoint env"; cases "default_sp1_cluster_endpoint env")
      (simp_all add: proposer_client_config_deserialize_def absent proposer_client_config_default_def)
  show "log_deserialize (TomlTable es) = Ok log_default"
    by (simp add: log_deserialize_def absent log_default_def default_log_level_def default_log_format_def)
  show "grpc_config_deserialize (TomlTable es) = Ok grpc_config_default"
    by (simp add: grpc_config_deserialize_def absent grpc_config_default_def)
  show "client_prover_config_deserialize (TomlTable es) = Ok client_prover_config_default"
    by (simp add: client_prover_config_deserialize_def absent client_prover_config_default_def)
  show "aggkit_config_deserialize T env (TomlTable es) = map_err TomlDefault (aggkit_prover_config_default env)"
    by (cases "service_config_default env"; cases "network_prover_config_default env")
      (simp_all add: aggkit_config_deserialize_def absent aggkit_prover_config_default_def prover_type_default_def)
  show "agglayer_config_deserialize T env (TomlTable es) = map_err TomlDefault (agglayer_prover_config_default env)"
    by (cases "network_prover_config_default env")
      (simp_all add: agglayer_config_deserialize_def absent agglayer_prover_config_default_def prover_type_default_def)
  show "service_config_deserialize T env (TomlTable es) = Err (TomlMissingField ''aggchain-proof-builder'')"
    by (simp add: service_config_deserialize_def absent)
  show "builder_config_deserialize T env (TomlTable es) = Err (TomlMissingField ''network-id'')"
    by (simp add: builder_config_deserialize_def absent)
  show "proposer_service_config_deserialize env (TomlTable es) = Err (TomlMissingField ''client'')"
    by (simp add: proposer_service_config_deserialize_def absent)
qed

theorem absent_fields_default_witness:
  "cpu_prover_config_deserialize sample_config_format (TomlTable [(''full-node-rpcs'', TomlTable [])]) =
     Ok cpu_prover_config_default"
proof -
  have "no_known_names [(''full-node-rpcs'', TomlTable [])]"
    by (simp add: no_known_names_def config_names_def)
  from absent_fields_default [OF this] show ?thesis by blast
qed

text \<open>C35: The \<open>config\<close> command prints a file that is the default configuration. The default configuration has a TOML
  form; when the printer accepts it, the command prints its text, a file with this text loads to the default
  configuration, and \<open>validate-config\<close> on it prints the same text again. The printer may reorder the entries of
  tables.\<close>

theorem default_config_loads:
  assumes "config_format_ok T env" and "toml_text_ok X" and "aggkit_prover_config_default env = Ok c"
  shows "\<exists>v. aggkit_config_serialize T c = Ok v \<and>
     (\<forall>t. tt_print X v = Ok t \<longrightarrow>
        config_command (to_string_pretty display X T) env = \<lparr>out_stdout = [t], out_stderr = [], out_result = Ok ()\<rparr> \<and>
        (\<forall>rd path. rd path = Ok t \<longrightarrow>
           load_file display X T env rd path = Ok c \<and>
           validate_config_command (to_string_pretty display X T) shown (load_file display X T env rd) path =
             \<lparr>out_stdout = [t], out_stderr = [], out_result = Ok ()\<rparr>))"
proof -
  obtain v where v: "aggkit_config_serialize T c = Ok v"
    using aggkit_default_written [OF assms(1,3)] by blast
  have log: "log_reread (kc_log c) = Ok (kc_log c)"
    using assms(3) by (auto simp: log_reread_same aggkit_prover_config_default_def and_then_eq_Ok log_default_def)
  have "config_command (to_string_pretty display X T) env = \<lparr>out_stdout = [t], out_stderr = [], out_result = Ok ()\<rparr> \<and>
      (rd path = Ok t \<longrightarrow> load_file display X T env rd path = Ok c \<and>
         validate_config_command (to_string_pretty display X T) shown (load_file display X T env rd) path =
           \<lparr>out_stdout = [t], out_stderr = [], out_result = Ok ()\<rparr>)" if "tt_print X v = Ok t" for t rd path
  proof -
    have t: "to_string_pretty display X T c = Ok t" using that v by (simp add: to_string_pretty_def)
    then have "toml_deserialize display X T env t = Ok c"
      using toml_printed [OF assms(2) t aggkit_default_wf [OF assms(1,3)]] log by simp
    then have "rd path = Ok t \<Longrightarrow> load_file display X T env rd path = Ok c"
      by (simp add: load_file_text [where rd = rd])
    with t assms(3) show ?thesis
      by (simp add: config_command_def config_text_def println_ok_def validate_config_command_def)
  qed
  with v show ?thesis by blast
qed

theorem default_config_loads_witness:
  "load_file (\<lambda>_. ''error'') sample_toml_text sample_config_format sample_config_env Ok ''default'' = Ok sample_config \<and>
   out_stdout (config_command (to_string_pretty (\<lambda>_. ''error'') sample_toml_text sample_config_format)
     sample_config_env) = [''default'']"
proof -
  have "tt_print sample_toml_text (sample_value sample_config) = Ok ''default''"
    by (simp add: sample_toml_text_def)
  with default_config_loads [OF sample_config_format_ok sample_toml_text_ok sample_config_default,
      of "\<lambda>_. ''error''"] sample_values(1)
  show ?thesis by fastforce
qed

text \<open>C34: What \<open>validate-config\<close> prints is not always the configuration that it loaded. When it prints a text for
  a file, a file with this text loads to the same configuration if and only if the log of the configuration
  has no outputs. An output \<open>stdout\<close> or \<open>stderr\<close> comes back as a log file with the name \<open>Stdout\<close> or \<open>Stderr\<close>, and a
  configuration with a log file is printed as a text that does not load; all other fields come back.\<close>

theorem printed_config_loads:
  assumes "config_format_ok T env" and "toml_text_ok X"
    and "out_stdout (validate_config_command (to_string_pretty display X T) shown (load_file display X T env rd) path) = [t]"
    and "rd path' = Ok t"
  shows "\<exists>c. load_file display X T env rd path = Ok c \<and>
     load_file display X T env rd path' =
       map_err (DeserializationError \<circ> display) (map_ok (\<lambda>l. c\<lparr>kc_log := l\<rparr>) (log_reread (kc_log c))) \<and>
     (load_file display X T env rd path' = Ok c \<longleftrightarrow> log_outputs (kc_log c) = [])"
proof -
  obtain c where c: "load_file display X T env rd path = Ok c" and t: "to_string_pretty display X T c = Ok t"
    using assms(3) unfolding validate_config_command_def
    by (auto simp: println_ok_line config_text_eq_Ok split: result.splits)
  have "aggkit_config_wf T env c" using c aggkit_read_wf [OF assms(1)] by (auto simp: load_file_Ok)
  from toml_printed [OF assms(2) t this]
  have again: "load_file display X T env rd path' =
      map_err (DeserializationError \<circ> display) (map_ok (\<lambda>l. c\<lparr>kc_log := l\<rparr>) (log_reread (kc_log c)))"
    by (cases "log_reread (kc_log c)") (simp_all add: load_file_text [where rd = rd, OF assms(4)])
  then show ?thesis
    using c by (simp add: map_err_eq_Ok log_only_differs log_reread_same)
qed

theorem printed_config_loads_witness:
  "\<exists>c c'. load_file (\<lambda>_. ''error'') sample_toml_text sample_config_format sample_config_env Ok ''document'' = Ok c \<and>
     load_file (\<lambda>_. ''error'') sample_toml_text sample_config_format sample_config_env Ok ''printed'' = Ok c' \<and>
     log_outputs (kc_log c) = [Stdout] \<and> log_outputs (kc_log c') = [File ''Stdout'']"
proof -
  let ?load = "load_file (\<lambda>_. ''error'') sample_toml_text sample_config_format sample_config_env Ok"
  have load: "?load ''document'' = Ok sample_stdout_config"
    unfolding load_file_Ok using sample_document_loads by (simp add: sample_toml_text_def)
  have "out_stdout (validate_config_command (to_string_pretty (\<lambda>_. ''error'') sample_toml_text
      sample_config_format) (\<lambda>_. []) ?load ''document'') = [''printed'']"
    by (simp add: validate_config_command_def load println_ok_line config_text_def to_string_pretty_def sample_values(2)
        sample_printed)
  from printed_config_loads [OF sample_config_format_ok sample_toml_text_ok this, of "''printed''"] load
  show ?thesis
    by (auto simp: sample_stdout_config_def log_reread_def)
qed

end
