(* ===== verification/Spec2Isabelle.thy ===== *)
theory Spec2Isabelle
  imports Grpc_Transport Verifying_Keys Certificate_Chain Agglayer_Json Aggkit_Json Config_Files
begin

text \<open>
  A verification library of the aggchain provers (\<^verbatim>\<open>gateway-fm/provers\<close>): the aggkit prover, which proves
  aggchain certificates, and the agglayer prover, which makes pessimistic proofs.

  \<^bold>\<open>The program.\<close> A client sends the gRPC server of the aggkit prover (\<^verbatim>\<open>aggkit-prover/src/rpc.rs\<close>) the last proven
  and the wanted L2 block with the L1 info tree data, the inserted GERs and the imported bridge exits. The
  request is converted (\<^verbatim>\<open>aggkit-prover-types\<close>) and handed to the aggchain proof service
  (\<^verbatim>\<open>aggchain-proof-service\<close>). In normal mode the service gets an aggregation proof of the execution from the
  proposer (\<^verbatim>\<open>proposer-service\<close>, \<^verbatim>\<open>proposer-client\<close>); in optimistic mode a signature of the trusted sequencer
  stands for it. The builder (\<^verbatim>\<open>aggchain-proof-builder\<close>) reads the chain through the contracts clients
  (\<^verbatim>\<open>aggchain-proof-contracts\<close>), assembles the witness of the guest program (\<^verbatim>\<open>aggchain-proof-program\<close>,
  \<^verbatim>\<open>aggchain-proof-core\<close>) and has it proved by the executor (\<^verbatim>\<open>prover-executor\<close>) with a primary and a fallback
  prover. The guest program verifies the execution part and the bridge constraints and commits to public
  values. The agglayer prover (\<^verbatim>\<open>agglayer-prover\<close>) runs the same executor on inputs that its clients send. Both
  servers are set up and shut down by the engine (\<^verbatim>\<open>prover-engine\<close>).

  \<^bold>\<open>The theories\<close>, each a component in the order in which they build on each other; paths are below
  \<^verbatim>\<open>src/crates\<close>:
  \<^item> \<open>Prover_Prelude\<close>: results with panics, machine integers, big-endian bytes, shared lemmas.
  \<^item> \<open>Bridge_Primitives\<close>: leaves, Merkle proofs, the hash functions and the Solidity ABI as a record of
    parameters, with the conditions under which encodings are injective.
  \<^item> \<open>Static_Call\<close>, \<open>Hash_Chain\<close>, \<open>Value_Filter\<close>, \<open>Bridge_Constraints\<close>:
    \<^verbatim>\<open>aggchain-proof-core/src/bridge\<close>. Each method of \<open>BridgeConstraintsInput\<close> is a definition; the abstract
    specification is \<open>bridge_constraints_hold\<close>.
  \<^item> \<open>Full_Execution_Proof\<close>, \<open>Aggchain_Proof\<close>: \<^verbatim>\<open>full_execution_proof.rs\<close>, \<^verbatim>\<open>proof.rs\<close> and the guest program
    \<open>aggchain_main\<close>; the abstract specification is \<open>aggchain_statement\<close>.
  \<^item> \<open>Certificate_Chain\<close>: sequences of certificates, each over the blocks after the one before. The locale
    \<open>extending_chain\<close> composes steps that extend a chain of hashes; it is interpreted for the accepted inputs.
  \<^item> \<open>Prover_Config\<close>: the configuration crates, \<^verbatim>\<open>prover-utils\<close>, \<^verbatim>\<open>prover-logger\<close> and \<^verbatim>\<open>prover-alloy\<close>.
  \<^item> \<open>Toml_Value\<close>, \<open>Config_Toml\<close>, \<open>Config_Files\<close>: the derived \<open>Serialize\<close> and \<open>Deserialize\<close> of the configuration
    structs, as readers and writers of TOML values, and the configuration files that the commands read and
    print. The locale \<open>toml_codec\<close> (what is written is read back, and the order of the entries of tables does
    not matter) is interpreted for every struct except those that contain \<open>Log\<close>, for which it does not hold.
  \<^item> \<open>Aggchain_Types\<close>: \<^verbatim>\<open>aggchain-proof-types\<close>.
  \<^item> \<open>Executor\<close>: \<^verbatim>\<open>prover-executor\<close>. The locale \<open>checked_prover\<close> is the contract of a prover (an answer is
    verified, no panic escapes), interpreted for the local and the network prover.
  \<^item> \<open>Contracts\<close>: \<^verbatim>\<open>aggchain-proof-contracts\<close>. \<open>Proposer\<close>: \<^verbatim>\<open>proposer-client\<close> and \<^verbatim>\<open>proposer-service\<close>, with the
    locale \<open>aggregation_verifier\<close> for the two verifiers of aggregation proofs.
  \<^item> \<open>Proof_Builder\<close>, \<open>Proof_Service\<close>: \<^verbatim>\<open>aggchain-proof-builder\<close> and \<^verbatim>\<open>aggchain-proof-service\<close>.
  \<^item> \<open>Request_Conversion\<close>: \<^verbatim>\<open>aggkit-prover-types\<close> (messages, conversions, errors, context).
  \<^item> \<open>Grpc_Status\<close>, \<open>Aggkit_Rpc\<close>, \<open>Pessimistic_Rpc\<close>: the two gRPC services (\<^verbatim>\<open>aggkit-prover/src/rpc.rs\<close>;
    \<^verbatim>\<open>agglayer-prover/src/rpc.rs\<close>, \<^verbatim>\<open>prover.rs\<close>, \<^verbatim>\<open>fake.rs\<close> and \<^verbatim>\<open>agglayer-prover-types\<close>).
  \<^item> \<open>Verifying_Keys\<close>: \<^verbatim>\<open>prover-elf-utils\<close>, the build script of \<^verbatim>\<open>proposer-elfs\<close> and
    \<^verbatim>\<open>aggkit-prover-types/src/vkey.rs\<close>: the keys of the proposer programs, written at build time and parsed on
    first use.
  \<^item> \<open>Prover_Engine\<close>: \<^verbatim>\<open>prover-engine\<close>, with \<open>runtime\<close> and \<open>main\<close> of the provers; the running engine is the step
    relation \<open>engine_step\<close>.
  \<^item> \<open>Entry_Points\<close>: the commands of \<^verbatim>\<open>aggkit-prover/src/main.rs\<close> and \<^verbatim>\<open>cli/mod.rs\<close>, known by what they print and
    by their result; \<open>Prover::start\<close>, \<open>start_prover\<close>, \<open>FakeProver::spawn_at\<close> and \<open>compute_program_vkey\<close> of
    \<^verbatim>\<open>agglayer-prover\<close>; the build script of \<^verbatim>\<open>aggchain-proof-core\<close>.
  \<^item> \<open>Json_Message\<close>, \<open>Agglayer_Json\<close>, \<open>Aggkit_Json\<close>: the generated \<^verbatim>\<open>serde.rs\<close> files. The loop over the entries of
    an object is shared; the locale \<open>json_slots\<close> states what the match arms of a message promise and is
    interpreted for every message.
  \<^item> \<open>Grpc_Transport\<close>: the generated \<^verbatim>\<open>tonic.rs\<close> files, that is options, dispatch and calls of the servers and
    clients of both services.

  \<^bold>\<open>How code becomes definitions.\<close> A struct is a record, an enum a datatype, a fallible function a function into
  \<open>result\<close>, where \<open>Panic\<close> is an unwinding panic, so that \<open>unwrap\<close>, slice errors, overflow and \<open>catch_unwind\<close>
  are branches of the model. The operator \<open>?\<close> is \<open>and_then\<close>. Digests and addresses are words of their width,
  block numbers \<open>u64\<close>, and truncating casts are \<open>ucast\<close>. An asynchronous call that may still wait returns an
  option. Awaiting readiness takes a fuel, the number of polls; \<open>executor_answers\<close> shows that an executor whose
  services become ready within the fuel answers. Hash maps are lists of their entries in iteration order
  where that order could be observed, and \<open>sorted_inserted_gers_determined\<close> shows that it is not.

  \<^bold>\<open>Parameters.\<close> Code that is not in the repository is an argument: hash functions, signature recovery and the
  ABI (\<open>prims\<close>), the EVM executor (\<open>evm\<close>), the zkVM (\<open>guest\<close>), the SP1 SDK (\<open>sp1_sdk\<close>), tower layers and
  buffers, contract calls and JSON-RPC (\<open>chain_rpc\<close>), the sketch host, the interop conversions (\<open>interop\<close>),
  bincode, tokio, axum and tonic (\<open>engine_env\<close>, \<open>unary\<close>), the helpers of pbjson (\<open>json_codec\<close>) and the JSON form of
  the interop messages (\<open>interop_json\<close>), the text of TOML documents (\<open>toml_text\<close>) and of durations, socket addresses
  and Ethereum addresses (\<open>config_format\<close>). What a property needs of them is a named hypothesis:
  \<open>abi_conforms\<close>, \<open>bn254_large\<close>, \<open>layers_transparent\<close>, \<open>call_forwards\<close>, \<open>env_forwards\<close>, \<open>error_codec\<close>,
  \<open>evm_anchored\<close>, \<open>sdk_key_of\<close>, \<open>json_codec_ok\<close>, \<open>interop_json_ok\<close>, \<open>tonic_unary\<close>,
  \<open>config_format_ok\<close>, \<open>toml_text_ok\<close>, and in this theory \<open>executor_buffer_forwards\<close> and \<open>prover_sound\<close>. Every such property has a witness in which the
  parameters are concrete functions and the hypotheses hold.

  \<^bold>\<open>What is shown.\<close> The guest program commits to public values exactly when its statement holds
  (\<open>aggchain_main_statement\<close>), the bridge verification implements its specification and determines the lists of
  events up to hash collisions (\<open>bridge_verify_refines\<close>, \<open>bridge_verify_binding\<close>), the committed parameters bind the
  execution part. Certificates over consecutive ranges compose, and how a range is cut into certificates does
  not matter (\<open>certificates_compose\<close>, \<open>certificates_cut_independent\<close>). On the host side, proofs of the executor, the proposer and the pessimistic service are
  verified before they are returned; the builder's witness agrees with the chain and with the aggregation
  proof; an optimistic answer rests on the sequencer's signature; the clients prefetch every call the program
  makes. Requests are converted without loss and refused with the field at fault; errors of the executor
  reach the client; the counters agree with the answers. The keys parsed at run time are those of the ELF
  binaries of the build, and the commands print the key and the selector that the service uses. A client gets
  what the handler of its method answers, within the message limits (\<open>aggkit_client_served\<close>,
  \<open>pessimistic_client_served\<close>); what is written as JSON is read back, and read strictly. A configuration file without known fields is the
  default configuration (\<open>absent_fields_default\<close>), what \<open>config\<close> prints loads to it (\<open>default_config_loads\<close>), and what
  \<open>validate-config\<close> prints loads to the same configuration exactly when it has no log outputs
  (\<open>printed_config_loads\<close>). The engine shuts down in
  order and stops; part of its configuration has no effect (\<open>aggkit_unused_configuration\<close>). The theorem of this
  theory composes the path of a request: an answer of the gRPC server, normal or optimistic, is backed by the
  statement of the guest program.

  \<^bold>\<open>Not modelled.\<close> The protobuf wire codec, which \<^verbatim>\<open>prost\<close> derives, and the encoded file descriptor sets, which are
  data; the inside of tonic, axum, tower and tokio; the build scripts that only call the SP1 program builder or
  vergen, and the dummy program; tests; log and trace output; wall-clock time, so that a timeout is only a
  possible failure of a layer. The fields of a TOML table are read in the order of the struct, so that of
  several errors in a file the reported one may be another; arrays in place of structs and tables in place of
  unit variants, which \<^verbatim>\<open>serde\<close> also accepts, are refused. Requests are handled one by one: the state they share is the counters, whose
  increments commute.
\<close>

section \<open>From a served answer to the statement of the proof\<close>

text \<open>What the composition relies on of the SP1 SDK: when a prover of the configuration, set up for the aggchain
  proof program, accepts a proof under its key, then some execution of the program committed to public
  values, and the public values of the proof decode to them.\<close>

definition prover_sound ::
  "('sig, 'sk, 'c, 'pk, 'vk, 'hs) service_env \<Rightarrow> aggchain_proof_builder_config \<Rightarrow>
   (proof_error \<Rightarrow> string) \<Rightarrow> guest \<Rightarrow> 'sk evm \<Rightarrow> bool" where
  "prover_sound V config debug G E \<longleftrightarrow>
     (\<forall>pt vk svc proof.
        (pt = bc_primary_prover config \<or> bc_fallback_prover config = Some pt) \<and>
        create_prover (ve_pool_up V) (ve_layers V) (ve_sdk V) pt (be_aggchain_proof_elf (ve_builder_env V)) =
          Ok (vk, svc) \<and>
        sdk_accepts (ve_sdk V) pt vk proof \<longrightarrow>
        (\<exists>w pv. aggchain_main debug G (ve_prims V) E w = Ok pv \<and>
           be_decode_public_values (ve_builder_env V) (sp_public_values proof) = Ok pv))"

text \<open>And of the buffer around the executor: a successful answer is an answer of the executor.\<close>

definition executor_buffer_forwards :: "('sig, 'sk, 'c, 'pk, 'vk, 'hs) service_env \<Rightarrow> bool" where
  "executor_buffer_forwards V \<longleftrightarrow>
     (\<forall>ex n req res. sv_call (ve_buffer V ex n) req = Ok res \<longrightarrow> (\<exists>k. executor_call k ex req = Some (Ok res)))"

lemma aggchain_main_sound:
  assumes "aggchain_main debug G P E w = Ok pv"
  shows "aggchain_statement G P E w pv"
  using assms bridge_verify_sound
  unfolding aggchain_main_eq_Ok verify_aggchain_inputs_eq_Ok public_values_eq_Ok aggchain_statement_def
    bridge_constraints_input_of_def by auto

text \<open>Every answer of the service, normal or optimistic, comes from a call of its builder.\<close>

lemma service_call_builder:
  assumes "service_new fuel V config = Ok svc" and "service_call P ver svc req = Some (Ok sresp)"
  obtains ab cc breq bresp lpb eb where
    "aggchain_proof_builder_new (ve_pool_up V) (ve_layers V) (ve_sdk V) (ve_buffer V) (ve_builder_env V)
       (sc_aggchain_proof_builder config) cc = Ok ab"
    and "builder_call fuel (ve_builder_env V) (ve_prims V) ab breq = Some (Ok bresp)"
    and "sresp = service_response_of P ver lpb eb bresp"
proof -
  from service_new_Ok [OF assms(1)] obtain ab er where
    box: "sv_aggchain_proof_builder svc = builder_boxed fuel (ve_builder_env V) (ve_prims V) ab"
    and ab: "aggchain_proof_builder_new (ve_pool_up V) (ve_layers V) (ve_sdk V) (ve_buffer V) (ve_builder_env V)
       (sc_aggchain_proof_builder config) (service_contracts V er) = Ok ab" by metis
  show thesis
  proof (cases req)
    case (NormalRequest inputs)
    then have "handle_normal_request P ver svc inputs = Some (Ok sresp)" using assms(2) by simp
    from normal_request_Ok [OF this] show thesis
      unfolding box builder_boxed_def boxed_service.simps by (metis that [OF ab])
  next
    case (OptimisticRequest r)
    then have "handle_optimistic_request P ver svc r = Some (Ok sresp)" using assms(2) by simp
    from optimistic_request_Ok [OF this] show thesis
      unfolding box builder_boxed_def boxed_service.simps by (metis that [OF ab])
  qed
qed

lemma builder_answer_sound:
  assumes "aggchain_proof_builder_new (ve_pool_up V) (ve_layers V) (ve_sdk V) (ve_buffer V) (ve_builder_env V)
       config cc = Ok ab"
    and "builder_call fuel (ve_builder_env V) (ve_prims V) ab breq = Some (Ok bresp)"
    and "layers_transparent (ve_layers V)" and "executor_buffer_forwards V"
    and "prover_sound V config debug G E"
  shows "\<exists>w. aggchain_statement G (ve_prims V) E w (bs_public_values bresp)"
proof -
  obtain ex where ex: "executor_new (ve_pool_up V) (ve_layers V) (ve_sdk V) (bc_primary_prover config)
       (bc_fallback_prover config) (be_aggchain_proof_elf (ve_builder_env V)) = Ok ex"
    and prover: "ab_prover ab = ve_buffer V ex MAX_CONCURRENT_REQUESTS"
    using builder_new_Ok [OF assms(1)] by blast
  from builder_call_Ok [OF assms(2)] obtain stdin response vk lpb eb root where
    call: "sv_call (ab_prover ab) \<lparr>rq_stdin = stdin, rq_proof_type = StarkProof\<rparr> = Ok response"
    and fin: "builder_finish (ve_builder_env V) vk lpb eb root (rs_proof response) = Ok bresp" by blast
  obtain k where "executor_call k ex \<lparr>rq_stdin = stdin, rq_proof_type = StarkProof\<rparr> = Some (Ok response)"
    using assms(4) call unfolding prover executor_buffer_forwards_def by blast
  from executor_call_accepted [OF ex assms(3) this] obtain pt vk' svc where
    "pt = bc_primary_prover config \<or> bc_fallback_prover config = Some pt"
    "create_prover (ve_pool_up V) (ve_layers V) (ve_sdk V) pt (be_aggchain_proof_elf (ve_builder_env V)) = Ok (vk', svc)"
    "sdk_accepts (ve_sdk V) pt vk' (rs_proof response)"
    using ex unfolding executor_new_eq_Ok by blast
  then obtain w pv where w: "aggchain_main debug G (ve_prims V) E w = Ok pv"
    and "be_decode_public_values (ve_builder_env V) (sp_public_values (rs_proof response)) = Ok pv"
    using assms(5) unfolding prover_sound_def by blast
  then have "bs_public_values bresp = pv" using builder_finish_Ok [OF fin] by simp
  with aggchain_main_sound [OF w] show ?thesis by blast
qed

lemma builder_call_fields:
  assumes "builder_call fuel B P ab breq = Some (Ok bresp)"
  shows "bs_aggchain_params bresp = pv_aggchain_params (bs_public_values bresp)"
    and "bs_new_local_exit_root bresp = pv_new_local_exit_root (bs_public_values bresp)"
  using builder_call_Ok [OF assms] by (metis builder_finish_Ok)+

text \<open>What an answer says: its proof message and exit root come from public values for which the statement of
  the program holds, and its context holds their serialisation.\<close>

definition answer_backed ::
  "guest \<Rightarrow> 'sig prims \<Rightarrow> 'sk evm \<Rightarrow> rpc_codec \<Rightarrow> aggchain_proof_message option \<Rightarrow> byte list option \<Rightarrow> bool" where
  "answer_backed G P E C message ler \<longleftrightarrow>
     (\<exists>(w :: ('sig, 'sk) aggchain_proof_witness) pv msg. aggchain_statement G P E w pv \<and> message = Some msg \<and>
        ag_aggchain_params msg = Some (rc_digest_into C (pv_aggchain_params pv)) \<and>
        ler = Some (rc_digest_into C (pv_new_local_exit_root pv)) \<and>
        ag_context msg ''local_exit_root_hash'' = Some (to_be_bytes_u256 (pv_new_local_exit_root pv)) \<and>
        (\<forall>b. rc_serialize_public_values C pv = Ok b \<longrightarrow> ag_context msg ''public_values'' = Some b))"

lemma service_answer_backed:
  assumes "grpc_service_new fuel V ver buffer config = Ok gs" and "\<forall>n. call_forwards (buffer n)"
    and "layers_transparent (ve_layers V)" and "executor_buffer_forwards V"
    and "prover_sound V (sc_aggchain_proof_builder config) debug G E"
    and "bx_call (gs_service gs) req = Some (Ok sresp)"
    and "\<And>c. rc_serialize_public_values C (ss_public_values sresp) = Ok c \<Longrightarrow> b = c"
  shows "answer_backed G (ve_prims V) E C (Some (aggchain_proof_of C (response_context b sresp ctx) sresp))
     (Some (rc_digest_into C (ss_local_exit_root_hash sresp)))"
proof -
  from grpc_service_call [OF assms(1,2,6)] obtain svc where svc: "service_new fuel V config = Ok svc"
    and answer: "service_call (ve_prims V) ver svc req = Some (Ok sresp)" by blast
  from service_call_builder [OF svc answer] obtain ab cc breq bresp lpb eb where
    ab: "aggchain_proof_builder_new (ve_pool_up V) (ve_layers V) (ve_sdk V) (ve_buffer V) (ve_builder_env V)
       (sc_aggchain_proof_builder config) cc = Ok ab"
    and built: "builder_call fuel (ve_builder_env V) (ve_prims V) ab breq = Some (Ok bresp)"
    and sresp: "sresp = service_response_of (ve_prims V) ver lpb eb bresp" by metis
  let ?pv = "bs_public_values bresp"
  obtain w where "aggchain_statement G (ve_prims V) E w ?pv"
    using builder_answer_sound [OF ab built assms(3-5)] by blast
  moreover have "ss_aggchain_params sresp = pv_aggchain_params ?pv"
    "ss_local_exit_root_hash sresp = pv_new_local_exit_root ?pv" "ss_public_values sresp = ?pv"
    using builder_call_fields [OF built] by (simp_all add: sresp service_response_of_def)
  moreover have "\<forall>c. rc_serialize_public_values C ?pv = Ok c \<longrightarrow>
      response_context b sresp ctx ''public_values'' = Some c"
    using assms(7) calculation(4) by (auto simp: response_context_def)
  moreover have "response_context b sresp ctx ''local_exit_root_hash'' =
      Some (to_be_bytes_u256 (ss_local_exit_root_hash sresp))" by (simp add: response_context_def)
  ultimately show ?thesis
    unfolding answer_backed_def
    by (intro exI [of _ w] exI [of _ ?pv]) (simp add: aggchain_proof_of_def)
qed

text \<open>C1: A served answer is backed by the statement of the aggchain proof. For a server built by \<open>new\<close> over
  layers and buffers that only delay, fail or forward, and provers whose accepted proofs attest executions
  of the program, every \<open>Ok\<close> answer to a gRPC request, normal or optimistic, carries the chain parameters
  and the new local exit root of public values for which the statement of the program holds: the execution
  proof or the signature was accepted, and the bridge constraints hold between the two L2 blocks of some
  witness. The context of the answer holds the serialisation of exactly these public values.\<close>

theorem served_answer_statement:
  assumes "grpc_service_new fuel V ver buffer config = Ok gs" and "\<forall>n. call_forwards (buffer n)"
    and "layers_transparent (ve_layers V)" and "executor_buffer_forwards V"
    and "prover_sound V (sc_aggchain_proof_builder config) debug G E"
  shows "(generate_aggchain_proof fuel' I C gs r = Some (Ok resp) \<longrightarrow>
       answer_backed G (ve_prims V) E C (gar_aggchain_proof resp) (gar_local_exit_root_hash resp)) \<and>
     (generate_optimistic_aggchain_proof fuel' I C gs r' = Some (Ok resp') \<longrightarrow>
       answer_backed G (ve_prims V) E C (gor_aggchain_proof resp') (gor_local_exit_root_hash resp'))"
proof (intro conjI impI)
  assume answer: "generate_aggchain_proof fuel' I C gs r = Some (Ok resp)"
  obtain inputs sresp b where
    call: "bx_call (gs_service gs) (NormalRequest inputs) = Some (Ok sresp)"
    and resp: "resp =
      \<lparr>gar_aggchain_proof = Some (aggchain_proof_of C (response_context b sresp (context_of_inputs inputs)) sresp),
       gar_last_proven_block = ss_last_proven_block sresp, gar_end_block = ss_end_block sresp,
       gar_local_exit_root_hash = Some (rc_digest_into C (ss_local_exit_root_hash sresp)),
       gar_custom_chain_data = ss_custom_chain_data sresp\<rparr>"
    and b: "unwrap_or (string_bytes ''bincode serialization failed'')
       (rc_serialize_public_values C (ss_public_values sresp)) = (Ok b :: (byte list, status) result)"
    by (rule normal_answer [OF answer]) (rule that; assumption)
  have "b = c" if "rc_serialize_public_values C (ss_public_values sresp) = Ok c" for c
    using b that by simp
  from service_answer_backed [OF assms call this]
  show "answer_backed G (ve_prims V) E C (gar_aggchain_proof resp) (gar_local_exit_root_hash resp)"
    by (simp add: resp)
next
  assume "generate_optimistic_aggchain_proof fuel' I C gs r' = Some (Ok resp')"
  from optimistic_answer [OF this]
  show "answer_backed G (ve_prims V) E C (gor_aggchain_proof resp') (gor_local_exit_root_hash resp')"
    using service_answer_backed [OF assms] by (metis generate_optimistic_aggchain_proof_response.select_convs(1,2))
qed

text \<open>The concrete server of \<open>Aggkit_Rpc\<close> meets these conditions.\<close>

lemma sample_prover_sound:
  "prover_sound sample_service_env sample_builder_config (\<lambda>_. []) sample_guest (sample_evm sample_chain_table)"
proof -
  obtain pv where pv: "aggchain_main (\<lambda>_. []) sample_guest sample_prims (sample_evm sample_chain_table)
      sample_aggchain_witness = Ok pv"
    using sample_aggchain_committed by blast
  then have dec: "be_decode_public_values sample_builder_env [] = Ok pv"
    by (simp add: sample_builder_env_def)
  have only: "x = sample_proof" if "sdk_accepts sample_service_sdk (NetworkProver c) vk x" for c vk x
    using that by (auto simp: sample_service_sdk_def split: if_splits)
  have env: "ve_prims sample_service_env = sample_prims" "ve_builder_env sample_service_env = sample_builder_env"
    "ve_sdk sample_service_env = sample_service_sdk"
    by (simp_all add: sample_service_env_def)
  have conf: "bc_primary_prover sample_builder_config = NetworkProver sample_network_config"
    "bc_fallback_prover sample_builder_config = None"
    by (simp_all add: sample_builder_config_def)
  have bytes: "sp_public_values sample_proof = []" by (simp add: sample_proof_def)
  show ?thesis
    unfolding prover_sound_def env conf using pv dec only bytes by (metis option.distinct(1))
qed

lemma sample_executor_buffer: "executor_buffer_forwards sample_service_env"
  unfolding executor_buffer_forwards_def
proof (intro allI impI)
  fix ex n req res
  assume "sv_call (ve_buffer sample_service_env ex n) req = Ok res"
  then have "executor_call 1 ex req = Some (Ok res)"
    by (auto simp: sample_service_env_def sample_buffer_def map_err_eq_Ok split: option.splits)
  then show "\<exists>k. executor_call k ex req = Some (Ok res)" by blast
qed

theorem served_answer_statement_witness:
  "\<exists>resp resp'.
     generate_aggchain_proof 1 sample_rpc_interop sample_rpc_codec sample_grpc_service sample_request = Some (Ok resp) \<and>
     generate_optimistic_aggchain_proof 1 sample_rpc_interop sample_rpc_codec sample_grpc_service
       sample_optimistic_message = Some (Ok resp') \<and>
     answer_backed sample_guest sample_prims (sample_evm sample_chain_table) sample_rpc_codec
       (gar_aggchain_proof resp) (gar_local_exit_root_hash resp) \<and>
     answer_backed sample_guest sample_prims (sample_evm sample_chain_table) sample_rpc_codec
       (gor_aggchain_proof resp') (gor_local_exit_root_hash resp')"
proof -
  have layers: "layers_transparent (ve_layers sample_service_env)"
    by (simp add: sample_service_env_def sample_layers_transparent)
  have sound: "prover_sound sample_service_env (sc_aggchain_proof_builder sample_service_config) (\<lambda>_. [])
      sample_guest (sample_evm sample_chain_table)"
    using sample_prover_sound by (simp add: sample_service_config_def)
  have prims: "ve_prims sample_service_env = sample_prims" by (simp add: sample_service_env_def)
  show ?thesis
    using served_answer_statement [OF sample_grpc_service_new sample_rpc_buffer_forwards layers
        sample_executor_buffer sound, where C = sample_rpc_codec and I = sample_rpc_interop, unfolded prims]
      sample_request_answer sample_optimistic_answer by blast
qed

end
